(* ===== verification/Prelude.thy ===== *)
theory Prelude
  imports Main "HOL-Library.AList" "HOL-Library.List_Lexorder" "HOL-Library.Char_ord"
begin

text \<open>
  Shared ground of the development: the lemma collections the component theories
  fill, the error values of \<^verbatim>\<open>src/models/models.go\<close>, and generic facts on
  association lists (the model of Go's \<^verbatim>\<open>map[string]any\<close>) and on lists.

  Collections:
  \<^item> \<open>repo_def\<close>: the definitions of the repository operations;
  \<^item> \<open>keeps_inv\<close>: for each mutating operation, that it keeps the
    repository invariant;
  \<^item> \<open>keeps_runs\<close>: for each handler, that it acts on the database by repository
    operations.
\<close>

named_theorems repo_def "definitions of the repository operations"
named_theorems keeps_inv "operations that keep the repository invariant"
named_theorems keeps_runs "handlers that act by repository operations"

section \<open>Errors\<close>

text \<open>
  The sentinels of \<^verbatim>\<open>models.go\<close>; \<open>Errorf\<close> is every other error value
  (\<^verbatim>\<open>fmt.Errorf\<close> of the repository, and errors of the SQL driver), with its text.
\<close>

datatype go_error =
    ErrNotFound
  | ErrAlreadyExists
  | ErrConflict
  | ErrInUse
  | ErrTerminalState
  | Errorf string

section \<open>Association lists\<close>

lemma map_of_update [simp]: "map_of (AList.update k v al) = (map_of al)(k \<mapsto> v)"
  by (rule update_conv')

lemma map_of_delete [simp]: "map_of (AList.delete k al) = (map_of al)(k := None)"
  by (rule delete_conv')

lemma update_same: "map_of al k = Some v \<Longrightarrow> AList.update k v al = al"
  by (induction al) (auto split: if_splits)

lemma update_distinct: "distinct (map fst al) \<Longrightarrow> distinct (map fst (AList.update k v al))"
  by (rule distinct_update)

section \<open>Lists\<close>

lemma filter_single_match:
  assumes "x \<in> set xs" and "P x" and "distinct xs"
    and "\<And>y. y \<in> set xs \<Longrightarrow> P y \<Longrightarrow> y = x"
  shows "filter P xs = [x]"
  using assms
proof (induction xs)
  case Nil
  then show ?case by simp
next
  case (Cons a xs)
  show ?case
  proof (cases "a = x")
    case True
    with Cons.prems(3,4) have "\<forall>y\<in>set xs. \<not> P y"
      by (metis distinct.simps(2) list.set_intros(2))
    with True Cons.prems(2) show ?thesis by (simp add: filter_empty_conv)
  next
    case False
    with Cons.prems(4) have "\<not> P a" by (metis list.set_intros(1))
    moreover have "filter P xs = [x]"
      using False Cons.prems by (intro Cons.IH) (simp, simp, simp, metis list.set_intros(2))
    ultimately show ?thesis by simp
  qed
qed

lemma those_eq_Some_length: "those xs = Some ys \<Longrightarrow> length ys = length xs"
  by (induction xs arbitrary: ys) (auto split: option.splits)

lemma those_map_Some: "(\<And>x. x \<in> set xs \<Longrightarrow> f x = Some (g x)) \<Longrightarrow> those (map f xs) = Some (map g xs)"
  by (induction xs) auto

lemma those_map_eq:
  "those (map f xs) = Some ys \<Longrightarrow> those (map g xs) = Some ys \<Longrightarrow> x \<in> set xs \<Longrightarrow> f x = g x"
proof (induction xs arbitrary: ys)
  case Nil
  then show ?case by simp
next
  case (Cons a xs)
  then obtain y zs where "f a = Some y" "those (map f xs) = Some zs" "ys = y # zs"
    by (auto split: option.splits)
  moreover from this Cons.prems(2) have "g a = Some y" "those (map g xs) = Some zs"
    by (auto split: option.splits)
  ultimately show ?case using Cons.prems(3) Cons.IH by auto
qed

lemma those_map_defined:
  "those (map f xs) \<noteq> None \<longleftrightarrow> (\<forall>x\<in>set xs. f x \<noteq> None)"
  by (induction xs) (auto split: option.splits)

end
