(* ===== verification/Go_Strings.thy ===== *)
theory Go_Strings
  imports Prelude
begin

text \<open>
  The operations of Go's \<^verbatim>\<open>strings\<close> package that the sources use, on Isabelle
  strings read as byte sequences, and the decimal printing of \<^verbatim>\<open>%d\<close>. White space and
  letter case are those of ASCII: the paths, identifiers and SQL error texts that the
  sources pass are ASCII.
\<close>

section \<open>Searching\<close>

definition hasPrefix :: "string \<Rightarrow> string \<Rightarrow> bool" where
  "hasPrefix s p \<longleftrightarrow> take (length p) s = p"

fun indexOf :: "string \<Rightarrow> string \<Rightarrow> nat option" where
  "indexOf [] sub = (if sub = [] then Some 0 else None)"
| "indexOf (c # cs) sub =
     (if hasPrefix (c # cs) sub then Some 0 else map_option Suc (indexOf cs sub))"

definition containsStr :: "string \<Rightarrow> string \<Rightarrow> bool" where
  "containsStr s sub \<longleftrightarrow> indexOf s sub \<noteq> None"

fun lastIndexChar :: "string \<Rightarrow> char \<Rightarrow> nat option" where
  "lastIndexChar [] c = None"
| "lastIndexChar (x # xs) c =
     (case lastIndexChar xs c of
        Some i \<Rightarrow> Some (Suc i)
      | None \<Rightarrow> if x = c then Some 0 else None)"

section \<open>Cutting and joining\<close>

definition trimPrefix :: "string \<Rightarrow> string \<Rightarrow> string" where
  "trimPrefix s p = (if hasPrefix s p then drop (length p) s else s)"

definition trimSuffix :: "string \<Rightarrow> string \<Rightarrow> string" where
  "trimSuffix s p = (if hasPrefix (rev s) (rev p) then take (length s - length p) s else s)"

definition trimWhile :: "(char \<Rightarrow> bool) \<Rightarrow> string \<Rightarrow> string" where
  "trimWhile P s = rev (dropWhile P (rev (dropWhile P s)))"

definition isSpace :: "char \<Rightarrow> bool" where
  "isSpace c \<longleftrightarrow> c \<in> {CHR '' '', CHR 0x09, CHR 0x0A, CHR 0x0B, CHR 0x0C, CHR 0x0D}"

definition trimSpace :: "string \<Rightarrow> string" where
  "trimSpace s = trimWhile isSpace s"

lemma trimSpace_Nil [simp]: "trimSpace [] = []"
  by (simp add: trimSpace_def trimWhile_def)

fun splitOn :: "char \<Rightarrow> string \<Rightarrow> string list" where
  "splitOn c [] = [[]]"
| "splitOn c (x # xs) =
     (if x = c then [] # splitOn c xs
      else case splitOn c xs of [] \<Rightarrow> [[x]] | p # ps \<Rightarrow> (x # p) # ps)"

fun joinWith :: "string \<Rightarrow> string list \<Rightarrow> string" where
  "joinWith sep [] = []"
| "joinWith sep [p] = p"
| "joinWith sep (p # q # ps) = p @ sep @ joinWith sep (q # ps)"

definition toUpper :: "string \<Rightarrow> string" where
  "toUpper s = map (\<lambda>c. if CHR ''a'' \<le> c \<and> c \<le> CHR ''z'' then char_of (of_char c - 32 :: nat) else c) s"

definition toLower :: "string \<Rightarrow> string" where
  "toLower s = map (\<lambda>c. if CHR ''A'' \<le> c \<and> c \<le> CHR ''Z'' then char_of (of_char c + 32 :: nat) else c) s"

section \<open>Decimal numbers\<close>

definition digit :: "nat \<Rightarrow> char" where
  "digit n = char_of (48 + n)"

fun natStr :: "nat \<Rightarrow> string" where
  "natStr n = (if n < 10 then [digit n] else natStr (n div 10) @ [digit (n mod 10)])"

declare natStr.simps [simp del]

definition intStr :: "int \<Rightarrow> string" where
  "intStr i = (if i < 0 then CHR ''-'' # natStr (nat (- i)) else natStr (nat i))"

fun strNat :: "string \<Rightarrow> nat \<Rightarrow> nat" where
  "strNat [] a = a"
| "strNat (c # cs) a = strNat cs (10 * a + (of_char c - 48))"

section \<open>Facts\<close>

lemma hasPrefix_append [simp]: "hasPrefix (p @ s) p"
  by (simp add: hasPrefix_def)

lemma hasPrefix_Nil [simp]: "hasPrefix s []"
  by (simp add: hasPrefix_def)

lemma hasPrefix_Cons [simp]: "hasPrefix (x # xs) (y # ys) \<longleftrightarrow> x = y \<and> hasPrefix xs ys"
  by (auto simp: hasPrefix_def)

lemma hasPrefix_Nil_Cons [simp]: "\<not> hasPrefix [] (y # ys)"
  by (simp add: hasPrefix_def)

lemma trimPrefix_append [simp]: "trimPrefix (p @ s) p = s"
  by (simp add: trimPrefix_def)

lemma containsStr_char: "containsStr s [c] \<longleftrightarrow> c \<in> set s"
  by (induction s) (auto simp: containsStr_def)

lemma splitOn_not_Nil [simp]: "splitOn c s \<noteq> []"
  by (induction s) (auto split: list.splits)

lemma splitOn_none: "c \<notin> set s \<Longrightarrow> splitOn c s = [s]"
  by (induction s) auto

lemma splitOn_append: "c \<notin> set a \<Longrightarrow> splitOn c (a @ c # b) = a # splitOn c b"
  by (induction a) auto

lemma splitOn_parts: "p \<in> set (splitOn c s) \<Longrightarrow> c \<notin> set p"
proof (induction s arbitrary: p)
  case Nil
  then show ?case by simp
next
  case (Cons x xs)
  then obtain q qs where q: "splitOn c xs = q # qs" by (cases "splitOn c xs") auto
  with Cons show ?case by (auto split: if_splits)
qed

lemma joinWith_splitOn: "joinWith [c] (splitOn c s) = s"
proof (induction s)
  case Nil
  then show ?case by simp
next
  case (Cons x xs)
  obtain q qs where q: "splitOn c xs = q # qs" by (cases "splitOn c xs") auto
  with Cons show ?case by (cases qs) auto
qed

lemma splitOn_joinWith:
  "ps \<noteq> [] \<Longrightarrow> (\<And>p. p \<in> set ps \<Longrightarrow> c \<notin> set p) \<Longrightarrow> splitOn c (joinWith [c] ps) = ps"
proof (induction "[c]" ps rule: joinWith.induct)
  case (3 p q ps)
  then show ?case by (simp add: splitOn_append)
qed (auto simp: splitOn_none)

lemma trimWhile_id: "s \<noteq> [] \<Longrightarrow> \<not> P (hd s) \<Longrightarrow> \<not> P (last s) \<Longrightarrow> trimWhile P s = s"
proof -
  assume s: "s \<noteq> []" "\<not> P (hd s)" "\<not> P (last s)"
  then have "dropWhile P s = s" by (cases s) auto
  moreover from s have "dropWhile P (rev s) = rev s"
    by (cases "rev s") (auto simp: hd_rev [symmetric])
  ultimately show "trimWhile P s = s" by (simp add: trimWhile_def)
qed

lemma trimWhile_Nil [simp]: "trimWhile P [] = []"
  by (simp add: trimWhile_def)

lemma trimWhile_no_match:
  assumes "\<forall>c\<in>set s. \<not> P c"
  shows "trimWhile P s = s"
proof (cases s)
  case Nil
  then show ?thesis by simp
next
  case (Cons a list)
  with assms show ?thesis by (intro trimWhile_id) (auto dest: last_in_set)
qed

lemma lastIndexChar_Some:
  "lastIndexChar s c = Some i \<Longrightarrow> i < length s \<and> s ! i = c \<and> c \<notin> set (drop (Suc i) s)"
proof (induction s arbitrary: i)
  case (Cons x xs)
  have none: "lastIndexChar xs c = None \<Longrightarrow> c \<notin> set xs" for xs
    by (induction xs) (auto split: option.splits if_splits)
  from Cons show ?case by (auto split: option.splits if_splits dest: none)
qed simp

lemma lastIndexChar_append:
  "c \<notin> set b \<Longrightarrow> lastIndexChar (a @ c # b) c = Some (length a)"
proof (induction a)
  case Nil
  have "c \<notin> set b \<Longrightarrow> lastIndexChar b c = None" by (induction b) auto
  with Nil show ?case by simp
qed simp

lemma digit_value: "n < 10 \<Longrightarrow> of_char (digit n) = 48 + n"
  by (simp add: digit_def)

lemma strNat_snoc: "strNat (s @ [c]) a = 10 * strNat s a + (of_char c - 48)"
  by (induction s arbitrary: a) auto

lemma strNat_natStr: "strNat (natStr n) 0 = n"
proof (induction n rule: natStr.induct)
  case (1 n)
  show ?case
  proof (cases "n < 10")
    case True
    then show ?thesis by (simp add: natStr.simps digit_value)
  next
    case False
    with 1 have "strNat (natStr (n div 10)) 0 = n div 10" by simp
    with False show ?thesis
      by (simp add: natStr.simps [of n] strNat_snoc digit_value)
  qed
qed

lemma natStr_inject [simp]: "natStr m = natStr n \<longleftrightarrow> m = n"
  by (metis strNat_natStr)

lemma natStr_digits: "c \<in> set (natStr n) \<Longrightarrow> 48 \<le> (of_char c :: nat) \<and> (of_char c :: nat) < 58"
proof (induction n rule: natStr.induct)
  case (1 n)
  have d: "of_char (digit (n mod 10)) = 48 + n mod 10" by (rule digit_value) simp
  from 1 d show ?case
    by (subst (asm) (2) natStr.simps) (auto simp: digit_value split: if_splits)
qed

lemma natStr_no_slash: "CHR ''/'' \<notin> set (natStr n)"
  using natStr_digits [of "CHR ''/''" n] by auto

lemma toUpper_append: "toUpper (a @ b) = toUpper a @ toUpper b"
  by (simp add: toUpper_def)

lemma hasPrefix_set: "hasPrefix s p \<Longrightarrow> set p \<subseteq> set s"
  unfolding hasPrefix_def by (metis set_take_subset)

lemma containsStr_set: "containsStr s sub \<Longrightarrow> set sub \<subseteq> set s"
proof -
  have "indexOf s sub = Some i \<Longrightarrow> set sub \<subseteq> set s" for i
    by (induction s sub arbitrary: i rule: indexOf.induct)
      (auto split: if_splits dest!: hasPrefix_set)
  then show "containsStr s sub \<Longrightarrow> set sub \<subseteq> set s" by (auto simp: containsStr_def)
qed

lemma hasPrefix_appendI: "hasPrefix s p \<Longrightarrow> hasPrefix (s @ t) p"
  by (metis append_assoc append_take_drop_id hasPrefix_append hasPrefix_def)

lemma containsStr_appendI: "containsStr s sub \<Longrightarrow> containsStr (s @ t) sub"
proof -
  have *: "indexOf s sub = Some i \<Longrightarrow> \<exists>j. indexOf (s @ t) sub = Some j" for i
  proof (induction s sub arbitrary: i rule: indexOf.induct)
    case (1 sub)
    then show ?case by (cases t) (auto split: if_splits)
  next
    case (2 c cs sub)
    then show ?case using hasPrefix_appendI [of "c # cs" sub t] by (auto split: if_splits)
  qed
  then show "containsStr s sub \<Longrightarrow> containsStr (s @ t) sub" by (auto simp: containsStr_def)
qed

lemma Y_in_toUpper: "CHR ''Y'' \<in> set (toUpper s) \<Longrightarrow> CHR ''y'' \<in> set s \<or> CHR ''Y'' \<in> set s"
proof (induction s)
  case (Cons c s)
  have "(if CHR ''a'' \<le> c \<and> c \<le> CHR ''z'' then char_of (of_char c - 32 :: nat) else c) = CHR ''Y'' \<Longrightarrow> c = CHR ''y'' \<or> c = CHR ''Y''"
  proof (cases "CHR ''a'' \<le> c \<and> c \<le> CHR ''z''")
    case True
    then have r: "97 \<le> (of_char c :: nat)" "(of_char c :: nat) \<le> 122"
      by (auto simp: less_eq_char_def)
    assume "(if CHR ''a'' \<le> c \<and> c \<le> CHR ''z'' then char_of (of_char c - 32 :: nat) else c) = CHR ''Y''"
    with True have "of_char (char_of (of_char c - 32 :: nat)) = (89::nat)" by simp
    with r have "of_char c = (121::nat)" by simp
    then have "of_char c = (of_char (CHR ''y'') :: nat)" by simp
    then have "c = CHR ''y''" by (simp only: of_char_eq_iff)
    then show ?thesis by blast
  qed auto
  with Cons show ?case by (auto simp: toUpper_def)
qed (simp add: toUpper_def)

end
