(* ===== verification/Json.thy ===== *)
theory Json
  imports Go_Strings Complex_Main
begin

text \<open>
  JSON values as the sources hold them (\<^verbatim>\<open>any\<close>, \<^verbatim>\<open>map[string]any\<close>), the field
  helpers and \<^verbatim>\<open>patchMerge\<close> of \<^verbatim>\<open>src/repository/repository.go\<close>, and the effect of
  storing a value as JSON text and reading it back.

  A Go map is an association list; its operations are \<open>map_of\<close> (index), \<open>AList.update\<close>
  (assignment) and \<open>AList.delete\<close>. Go iterates over maps in an unspecified order; where
  the sources do so the result does not depend on it (\<open>map_of_patchMerge\<close> below).
  Numbers decoded from JSON are Go's \<^verbatim>\<open>float64\<close>, here their exact rational value
  (\<open>JNum\<close>); \<open>JInt\<close> is a Go \<^verbatim>\<open>int\<close> or \<^verbatim>\<open>int64\<close> that a handler put into a map.
\<close>

datatype json =
    JNull
  | JBool bool
  | JNum rat
  | JInt int
  | JStr string
  | JArr "json list"
  | JObj "(string \<times> json) list"

type_synonym obj = "(string \<times> json) list"

section \<open>Field access\<close>

definition jset :: "string \<Rightarrow> json \<Rightarrow> obj \<Rightarrow> obj" where
  "jset k v data = AList.update k v data"

definition hasField :: "obj \<Rightarrow> string \<Rightarrow> bool" where
  "hasField data k \<longleftrightarrow> map_of data k \<noteq> None"

definition getString :: "obj \<Rightarrow> string \<Rightarrow> string" where
  "getString data key = (case map_of data key of Some (JStr s) \<Rightarrow> s | _ \<Rightarrow> [])"

text \<open>\<^verbatim>\<open>m, ok := v.(map[string]any)\<close> on a map entry, which may be absent.\<close>

definition toMap :: "json option \<Rightarrow> obj option" where
  "toMap v = (case v of Some (JObj m) \<Rightarrow> Some m | _ \<Rightarrow> None)"

definition toArr :: "json option \<Rightarrow> json list option" where
  "toArr v = (case v of Some (JArr xs) \<Rightarrow> Some xs | _ \<Rightarrow> None)"

text \<open>\<^verbatim>\<open>if getString(data, k) == "" { data[k] = v }\<close>\<close>

definition setDefault :: "string \<Rightarrow> string \<Rightarrow> obj \<Rightarrow> obj" where
  "setDefault k v data = (if getString data k = [] then jset k (JStr v) data else data)"

text \<open>\<^verbatim>\<open>if _, ok := data[k]; !ok { data[k] = v }\<close>\<close>

definition setMissing :: "string \<Rightarrow> json \<Rightarrow> obj \<Rightarrow> obj" where
  "setMissing k v data = (if hasField data k then data else jset k v data)"

section \<open>Storing as text and reading back\<close>

text \<open>
  \<^verbatim>\<open>float64(n)\<close> of an integer: the nearest multiple of the unit in the last of 53
  significant bits, ties to even.
\<close>

fun excessBits :: "nat \<Rightarrow> nat" where
  "excessBits m = (if m < 2 ^ 53 then 0 else Suc (excessBits (m div 2)))"

declare excessBits.simps [simp del]

definition roundHalfEven :: "nat \<Rightarrow> nat \<Rightarrow> nat" where
  "roundHalfEven m u =
     (let q = m div u; r = m mod u
      in if 2 * r > u \<or> 2 * r = u \<and> odd q then (q + 1) * u else q * u)"

definition float64 :: "int \<Rightarrow> rat" where
  "float64 n = of_int (sgn n * int (roundHalfEven (nat \<bar>n\<bar>) (2 ^ excessBits (nat \<bar>n\<bar>))))"

text \<open>
  What \<^verbatim>\<open>json.Unmarshal(json.Marshal(v))\<close> yields: the same value with every number a
  \<^verbatim>\<open>float64\<close>. (Both succeed on the values the sources build; a float prints so that it
  reads back as itself.)
\<close>

primrec reread :: "json \<Rightarrow> json" where
  "reread JNull = JNull"
| "reread (JBool b) = JBool b"
| "reread (JNum q) = JNum q"
| "reread (JInt n) = JNum (float64 n)"
| "reread (JStr s) = JStr s"
| "reread (JArr xs) = JArr (map reread xs)"
| "reread (JObj kvs) = JObj (map (map_prod (\<lambda>k. k) reread) kvs)"

definition marshalData :: "obj \<Rightarrow> obj" where
  "marshalData data = map (map_prod (\<lambda>k. k) reread) data"

section \<open>patchMerge\<close>

definition mergeNested :: "obj \<Rightarrow> obj \<Rightarrow> obj" where
  "mergeNested cv pv =
     foldl (\<lambda>merged (pk, pvv). if pvv = JNull then merged else jset pk pvv merged) cv pv"

definition mergeStep :: "string list \<Rightarrow> obj \<Rightarrow> string \<times> json \<Rightarrow> obj" where
  "mergeStep skip out kv =
     (case kv of (k, v) \<Rightarrow>
        if k \<in> set skip then out
        else if v = JNull then out
        else case (toMap (Some v), toMap (map_of out k)) of
               (Some pv, Some cv) \<Rightarrow> jset k (JObj (mergeNested cv pv)) out
             | _ \<Rightarrow> jset k v out)"

definition patchMerge :: "obj \<Rightarrow> obj \<Rightarrow> string list \<Rightarrow> obj" where
  "patchMerge current patch skip = foldl (mergeStep skip) current patch"

section \<open>Facts about fields\<close>

lemma map_of_jset [simp]: "map_of (jset k v d) = (map_of d)(k \<mapsto> v)"
  by (simp add: jset_def)

lemma getString_jset [simp]:
  "getString (jset k v d) k' = (if k' = k then (case v of JStr s \<Rightarrow> s | _ \<Rightarrow> []) else getString d k')"
  by (auto simp: getString_def split: json.splits)

lemma jset_same: "map_of d k = Some v \<Longrightarrow> jset k v d = d"
  by (simp add: jset_def update_same)

lemma getString_nonempty: "getString d k \<noteq> [] \<Longrightarrow> map_of d k = Some (JStr (getString d k))"
  by (auto simp: getString_def split: option.splits json.splits)

lemma map_of_setDefault [simp]:
  "map_of (setDefault k v d) k' =
     (if k' = k \<and> getString d k = [] then Some (JStr v) else map_of d k')"
  by (simp add: setDefault_def)

lemma map_of_setMissing [simp]:
  "map_of (setMissing k v d) k' =
     (if k' = k \<and> map_of d k = None then Some v else map_of d k')"
  by (simp add: setMissing_def hasField_def)

lemma map_of_marshalData: "map_of (marshalData d) k = map_option reread (map_of d k)"
  unfolding marshalData_def by (induction d) auto

lemma getString_marshalData [simp]: "getString (marshalData d) k = getString d k"
proof -
  have "(case map_option reread v of Some (JStr s) \<Rightarrow> s | _ \<Rightarrow> []) = (case v of Some (JStr s) \<Rightarrow> s | _ \<Rightarrow> [])"
    for v :: "json option"
    by (auto split: option.splits json.splits)
  then show ?thesis by (simp add: getString_def map_of_marshalData)
qed

lemma reread_idem: "reread (reread v) = reread v"
proof (induction v)
  case (JObj kvs)
  then have "map_prod (\<lambda>k. k) reread (map_prod (\<lambda>k. k) reread kv) = map_prod (\<lambda>k. k) reread kv"
    if "kv \<in> set kvs" for kv
    using that by (cases kv) (auto simp: snds.simps)
  then show ?case by simp
qed auto

lemma marshalData_idem [simp]: "marshalData (marshalData d) = marshalData d"
  unfolding marshalData_def using reread_idem [of "JObj d"] by simp

section \<open>Facts about patchMerge\<close>

definition mergedValue :: "json option \<Rightarrow> json \<Rightarrow> json" where
  "mergedValue cur v =
     (case (toMap (Some v), toMap cur) of
        (Some pv, Some cv) \<Rightarrow> JObj (mergeNested cv pv)
      | _ \<Rightarrow> v)"

lemma map_of_mergeStep:
  "map_of (mergeStep skip out (k, v)) k' =
     (if k' = k \<and> k \<notin> set skip \<and> v \<noteq> JNull then Some (mergedValue (map_of out k) v)
      else map_of out k')"
  by (auto simp: mergeStep_def mergedValue_def toMap_def split: option.splits json.splits)

lemma map_of_foldl_mergeStep:
  assumes "distinct (map fst patch)"
  shows "map_of (foldl (mergeStep skip) out patch) k =
     (case map_of patch k of
        None \<Rightarrow> map_of out k
      | Some v \<Rightarrow> if k \<in> set skip \<or> v = JNull then map_of out k
                  else Some (mergedValue (map_of out k) v))"
  using assms
proof (induction patch arbitrary: out)
  case Nil
  then show ?case by simp
next
  case (Cons kv patch)
  obtain k0 v0 where kv: "kv = (k0, v0)" by (cases kv)
  show ?case
  proof (cases "k = k0")
    case True
    with Cons.prems kv have "map_of patch k = None"
      by (auto simp: map_of_eq_None_iff)
    with True Cons kv show ?thesis by (auto simp: map_of_mergeStep)
  next
    case False
    with Cons kv show ?thesis
      by (auto simp: map_of_mergeStep split: option.splits)
  qed
qed

lemma map_of_patchMerge:
  "distinct (map fst patch) \<Longrightarrow>
   map_of (patchMerge current patch skip) k =
     (case map_of patch k of
        None \<Rightarrow> map_of current k
      | Some v \<Rightarrow> if k \<in> set skip \<or> v = JNull then map_of current k
                  else Some (mergedValue (map_of current k) v))"
  by (simp add: patchMerge_def map_of_foldl_mergeStep)

text \<open>A skipped field keeps its value whatever the patch (no distinctness needed).\<close>

lemma map_of_foldl_mergeStep_skip:
  "k \<in> set skip \<Longrightarrow> map_of (foldl (mergeStep skip) out patch) k = map_of out k"
proof (induction patch arbitrary: out)
  case (Cons kv patch)
  then show ?case by (cases kv) (auto simp: map_of_mergeStep)
qed simp

lemma map_of_patchMerge_skip [simp]:
  "k \<in> set skip \<Longrightarrow> map_of (patchMerge current patch skip) k = map_of current k"
  by (simp add: patchMerge_def map_of_foldl_mergeStep_skip)

lemma getString_patchMerge_skip [simp]:
  "k \<in> set skip \<Longrightarrow> getString (patchMerge current patch skip) k = getString current k"
  by (simp add: getString_def)

lemma map_of_mergeNested:
  "distinct (map fst pv) \<Longrightarrow>
   map_of (mergeNested cv pv) k =
     (case map_of pv k of None \<Rightarrow> map_of cv k
      | Some v \<Rightarrow> if v = JNull then map_of cv k else Some v)"
  unfolding mergeNested_def
proof (induction pv arbitrary: cv)
  case (Cons kv pv)
  obtain k0 v0 where kv: "kv = (k0, v0)" by (cases kv)
  show ?case
  proof (cases "k = k0")
    case True
    with Cons.prems kv have "map_of pv k = None" by (auto simp: map_of_eq_None_iff)
    with True Cons kv show ?thesis by simp
  next
    case False
    with Cons kv show ?thesis by (simp split: option.splits)
  qed
qed simp

lemma patchMerge_empty [simp]: "patchMerge current [] skip = current"
  by (simp add: patchMerge_def)

end
