(* ===== verification/Sql.thy ===== *)
theory Sql
  imports Json "HOL-Library.Multiset"
begin

text \<open>
  The database under \<^verbatim>\<open>src/repository/repository.go\<close>: its schema (\<^verbatim>\<open>migrate\<close>) and
  the effect of the SQL statements the repository issues, with
  \<^verbatim>\<open>PRAGMA foreign_keys = ON\<close> on a single connection, so statements run one after
  the other. A statement that violates a constraint changes nothing.

  A row is its key columns, its \<^verbatim>\<open>data\<close> column (the JSON object the text denotes) and
  its rowid. A column absent from \<open>rcols\<close> is NULL. A table is the list of its rows in
  insertion order; SQLite gives a new row the rowid after the largest one.

  The invariant \<open>db_ok\<close> says that primary keys and UNIQUE columns identify
  rows, that every foreign key refers to an existing row, and that rowids increase along
  the list. Every statement keeps it (\<open>insert_ok\<close>, \<open>update_ok\<close>, \<open>delete_ok\<close>, ...), so it
  holds under every interleaving of statements. The locale \<open>keyed_table\<close> gives the
  behaviour of lookups by primary key after each statement; it is interpreted for every
  table.
\<close>

section \<open>Schema\<close>

datatype tbl =
    Compute_networks
  | Compute_subnetworks
  | Compute_firewalls
  | Compute_disks
  | Compute_instances
  | Compute_addresses
  | Operations
  | Container_clusters
  | Container_node_pools
  | Sql_instances
  | Sql_databases
  | Sql_users
  | Iam_service_accounts
  | Iam_sa_keys
  | Storage_buckets
  | Iam_bindings
  | Compute_routers
  | Compute_router_nats
  | Dns_managed_zones
  | Dns_record_sets
  | Compute_global_addresses
  | Compute_health_checks
  | Compute_backend_services
  | Compute_ssl_certificates
  | Compute_target_https_proxies
  | Compute_url_maps
  | Compute_global_forwarding_rules
  | Secretmanager_secrets
  | Secretmanager_versions
  | Pubsub_topics
  | Pubsub_subscriptions
  | Cloudrun_services
  | Redis_instances

datatype col =
    C_name | C_project | C_region | C_zone | C_location | C_network_name
  | C_router_name | C_cluster_name | C_instance_name | C_unique_id | C_email | C_service_account_email
  | C_role | C_member | C_managed_zone | C_type | C_secret_name | C_topic_name

record fkey =
  fkCols :: "col list"
  fkParent :: tbl
  fkParentCols :: "col list"
  fkCascade :: bool

record table_def =
  notNull :: "col list"
  primaryKey :: "col list"
  uniqueCols :: "col list list"
  foreignKeys :: "fkey list"

fun migrate :: "tbl \<Rightarrow> table_def" where
  "migrate Compute_networks =
     \<lparr>notNull = [C_name, C_project],
      primaryKey = [C_project, C_name], uniqueCols = [],
      foreignKeys = []\<rparr>"
| "migrate Compute_subnetworks =
     \<lparr>notNull = [C_name, C_project, C_region, C_network_name],
      primaryKey = [C_project, C_region, C_name], uniqueCols = [],
      foreignKeys = [\<lparr>fkCols = [C_project, C_network_name], fkParent = Compute_networks, fkParentCols = [C_project, C_name], fkCascade = False\<rparr>]\<rparr>"
| "migrate Compute_firewalls =
     \<lparr>notNull = [C_name, C_project, C_network_name],
      primaryKey = [C_project, C_name], uniqueCols = [],
      foreignKeys = [\<lparr>fkCols = [C_project, C_network_name], fkParent = Compute_networks, fkParentCols = [C_project, C_name], fkCascade = False\<rparr>]\<rparr>"
| "migrate Compute_disks =
     \<lparr>notNull = [C_name, C_project, C_zone],
      primaryKey = [C_project, C_zone, C_name], uniqueCols = [],
      foreignKeys = []\<rparr>"
| "migrate Compute_instances =
     \<lparr>notNull = [C_name, C_project, C_zone],
      primaryKey = [C_project, C_zone, C_name], uniqueCols = [],
      foreignKeys = []\<rparr>"
| "migrate Compute_addresses =
     \<lparr>notNull = [C_name, C_project, C_region],
      primaryKey = [C_project, C_region, C_name], uniqueCols = [],
      foreignKeys = []\<rparr>"
| "migrate Operations =
     \<lparr>notNull = [C_name, C_project],
      primaryKey = [C_project, C_name], uniqueCols = [],
      foreignKeys = []\<rparr>"
| "migrate Container_clusters =
     \<lparr>notNull = [C_name, C_project, C_location],
      primaryKey = [C_project, C_location, C_name], uniqueCols = [],
      foreignKeys = []\<rparr>"
| "migrate Container_node_pools =
     \<lparr>notNull = [C_name, C_project, C_location, C_cluster_name],
      primaryKey = [C_project, C_location, C_cluster_name, C_name], uniqueCols = [],
      foreignKeys = [\<lparr>fkCols = [C_project, C_location, C_cluster_name], fkParent = Container_clusters, fkParentCols = [C_project, C_location, C_name], fkCascade = True\<rparr>]\<rparr>"
| "migrate Sql_instances =
     \<lparr>notNull = [C_name, C_project],
      primaryKey = [C_project, C_name], uniqueCols = [],
      foreignKeys = []\<rparr>"
| "migrate Sql_databases =
     \<lparr>notNull = [C_name, C_project, C_instance_name],
      primaryKey = [C_project, C_instance_name, C_name], uniqueCols = [],
      foreignKeys = [\<lparr>fkCols = [C_project, C_instance_name], fkParent = Sql_instances, fkParentCols = [C_project, C_name], fkCascade = True\<rparr>]\<rparr>"
| "migrate Sql_users =
     \<lparr>notNull = [C_name, C_project, C_instance_name],
      primaryKey = [C_project, C_instance_name, C_name], uniqueCols = [],
      foreignKeys = [\<lparr>fkCols = [C_project, C_instance_name], fkParent = Sql_instances, fkParentCols = [C_project, C_name], fkCascade = True\<rparr>]\<rparr>"
| "migrate Iam_service_accounts =
     \<lparr>notNull = [C_unique_id, C_project, C_email],
      primaryKey = [C_project, C_unique_id], uniqueCols = [[C_email]],
      foreignKeys = []\<rparr>"
| "migrate Iam_sa_keys =
     \<lparr>notNull = [C_name, C_project, C_service_account_email],
      primaryKey = [C_name], uniqueCols = [],
      foreignKeys = [\<lparr>fkCols = [C_service_account_email], fkParent = Iam_service_accounts, fkParentCols = [C_email], fkCascade = True\<rparr>]\<rparr>"
| "migrate Storage_buckets =
     \<lparr>notNull = [C_name, C_project, C_location],
      primaryKey = [C_name], uniqueCols = [],
      foreignKeys = []\<rparr>"
| "migrate Iam_bindings =
     \<lparr>notNull = [C_project, C_role, C_member],
      primaryKey = [C_project, C_role, C_member], uniqueCols = [],
      foreignKeys = []\<rparr>"
| "migrate Compute_routers =
     \<lparr>notNull = [C_name, C_project, C_region, C_network_name],
      primaryKey = [C_project, C_region, C_name], uniqueCols = [],
      foreignKeys = [\<lparr>fkCols = [C_project, C_network_name], fkParent = Compute_networks, fkParentCols = [C_project, C_name], fkCascade = False\<rparr>]\<rparr>"
| "migrate Compute_router_nats =
     \<lparr>notNull = [C_name, C_project, C_region, C_router_name],
      primaryKey = [C_project, C_region, C_router_name, C_name], uniqueCols = [],
      foreignKeys = [\<lparr>fkCols = [C_project, C_region, C_router_name], fkParent = Compute_routers, fkParentCols = [C_project, C_region, C_name], fkCascade = True\<rparr>]\<rparr>"
| "migrate Dns_managed_zones =
     \<lparr>notNull = [C_name, C_project],
      primaryKey = [C_project, C_name], uniqueCols = [],
      foreignKeys = []\<rparr>"
| "migrate Dns_record_sets =
     \<lparr>notNull = [C_name, C_project, C_managed_zone, C_type],
      primaryKey = [C_project, C_managed_zone, C_name, C_type], uniqueCols = [],
      foreignKeys = [\<lparr>fkCols = [C_project, C_managed_zone], fkParent = Dns_managed_zones, fkParentCols = [C_project, C_name], fkCascade = True\<rparr>]\<rparr>"
| "migrate Compute_global_addresses =
     \<lparr>notNull = [C_name, C_project],
      primaryKey = [C_project, C_name], uniqueCols = [],
      foreignKeys = []\<rparr>"
| "migrate Compute_health_checks =
     \<lparr>notNull = [C_name, C_project],
      primaryKey = [C_project, C_name], uniqueCols = [],
      foreignKeys = []\<rparr>"
| "migrate Compute_backend_services =
     \<lparr>notNull = [C_name, C_project],
      primaryKey = [C_project, C_name], uniqueCols = [],
      foreignKeys = []\<rparr>"
| "migrate Compute_ssl_certificates =
     \<lparr>notNull = [C_name, C_project],
      primaryKey = [C_project, C_name], uniqueCols = [],
      foreignKeys = []\<rparr>"
| "migrate Compute_target_https_proxies =
     \<lparr>notNull = [C_name, C_project],
      primaryKey = [C_project, C_name], uniqueCols = [],
      foreignKeys = []\<rparr>"
| "migrate Compute_url_maps =
     \<lparr>notNull = [C_name, C_project],
      primaryKey = [C_project, C_name], uniqueCols = [],
      foreignKeys = []\<rparr>"
| "migrate Compute_global_forwarding_rules =
     \<lparr>notNull = [C_name, C_project],
      primaryKey = [C_project, C_name], uniqueCols = [],
      foreignKeys = []\<rparr>"
| "migrate Secretmanager_secrets =
     \<lparr>notNull = [C_name, C_project],
      primaryKey = [C_project, C_name], uniqueCols = [],
      foreignKeys = []\<rparr>"
| "migrate Secretmanager_versions =
     \<lparr>notNull = [C_name, C_project, C_secret_name],
      primaryKey = [C_name], uniqueCols = [],
      foreignKeys = [\<lparr>fkCols = [C_project, C_secret_name], fkParent = Secretmanager_secrets, fkParentCols = [C_project, C_name], fkCascade = True\<rparr>]\<rparr>"
| "migrate Pubsub_topics =
     \<lparr>notNull = [C_name, C_project],
      primaryKey = [C_project, C_name], uniqueCols = [],
      foreignKeys = []\<rparr>"
| "migrate Pubsub_subscriptions =
     \<lparr>notNull = [C_name, C_project],
      primaryKey = [C_project, C_name], uniqueCols = [],
      foreignKeys = []\<rparr>"
| "migrate Cloudrun_services =
     \<lparr>notNull = [C_name, C_project, C_location],
      primaryKey = [C_project, C_location, C_name], uniqueCols = [],
      foreignKeys = []\<rparr>"
| "migrate Redis_instances =
     \<lparr>notNull = [C_name, C_project, C_location],
      primaryKey = [C_project, C_location, C_name], uniqueCols = [],
      foreignKeys = []\<rparr>"

definition all_tbls :: "tbl list" where
  "all_tbls =
     [Compute_networks, Compute_subnetworks, Compute_firewalls,
      Compute_disks, Compute_instances, Compute_addresses,
      Operations, Container_clusters, Container_node_pools,
      Sql_instances, Sql_databases, Sql_users,
      Iam_service_accounts, Iam_sa_keys, Storage_buckets,
      Iam_bindings, Compute_routers, Compute_router_nats,
      Dns_managed_zones, Dns_record_sets, Compute_global_addresses,
      Compute_health_checks, Compute_backend_services, Compute_ssl_certificates,
      Compute_target_https_proxies, Compute_url_maps, Compute_global_forwarding_rules,
      Secretmanager_secrets, Secretmanager_versions, Pubsub_topics,
      Pubsub_subscriptions, Cloudrun_services, Redis_instances]"

fun tblName :: "tbl \<Rightarrow> string" where
  "tblName Compute_networks = ''compute_networks''"
| "tblName Compute_subnetworks = ''compute_subnetworks''"
| "tblName Compute_firewalls = ''compute_firewalls''"
| "tblName Compute_disks = ''compute_disks''"
| "tblName Compute_instances = ''compute_instances''"
| "tblName Compute_addresses = ''compute_addresses''"
| "tblName Operations = ''operations''"
| "tblName Container_clusters = ''container_clusters''"
| "tblName Container_node_pools = ''container_node_pools''"
| "tblName Sql_instances = ''sql_instances''"
| "tblName Sql_databases = ''sql_databases''"
| "tblName Sql_users = ''sql_users''"
| "tblName Iam_service_accounts = ''iam_service_accounts''"
| "tblName Iam_sa_keys = ''iam_sa_keys''"
| "tblName Storage_buckets = ''storage_buckets''"
| "tblName Iam_bindings = ''iam_bindings''"
| "tblName Compute_routers = ''compute_routers''"
| "tblName Compute_router_nats = ''compute_router_nats''"
| "tblName Dns_managed_zones = ''dns_managed_zones''"
| "tblName Dns_record_sets = ''dns_record_sets''"
| "tblName Compute_global_addresses = ''compute_global_addresses''"
| "tblName Compute_health_checks = ''compute_health_checks''"
| "tblName Compute_backend_services = ''compute_backend_services''"
| "tblName Compute_ssl_certificates = ''compute_ssl_certificates''"
| "tblName Compute_target_https_proxies = ''compute_target_https_proxies''"
| "tblName Compute_url_maps = ''compute_url_maps''"
| "tblName Compute_global_forwarding_rules = ''compute_global_forwarding_rules''"
| "tblName Secretmanager_secrets = ''secretmanager_secrets''"
| "tblName Secretmanager_versions = ''secretmanager_versions''"
| "tblName Pubsub_topics = ''pubsub_topics''"
| "tblName Pubsub_subscriptions = ''pubsub_subscriptions''"
| "tblName Cloudrun_services = ''cloudrun_services''"
| "tblName Redis_instances = ''redis_instances''"

lemma set_all_tbls [simp]: "set all_tbls = UNIV"
proof -
  have "t \<in> set all_tbls" for t by (cases t) (simp_all add: all_tbls_def)
  then show ?thesis by blast
qed

lemma distinct_all_tbls: "distinct all_tbls"
  by (simp add: all_tbls_def)

instantiation tbl :: enum
begin

definition enum_tbl :: "tbl list" where "enum_tbl = all_tbls"
definition enum_all_tbl :: "(tbl \<Rightarrow> bool) \<Rightarrow> bool" where "enum_all_tbl P = list_all P all_tbls"
definition enum_ex_tbl :: "(tbl \<Rightarrow> bool) \<Rightarrow> bool" where "enum_ex_tbl P = list_ex P all_tbls"

instance
  by standard
    (simp_all add: enum_tbl_def enum_all_tbl_def enum_ex_tbl_def distinct_all_tbls
       list_all_iff list_ex_iff)

end

text \<open>The keys of a table: its primary key and its UNIQUE columns.\<close>

definition keysOf :: "tbl \<Rightarrow> col list list" where
  "keysOf t = primaryKey (migrate t) # uniqueCols (migrate t)"

section \<open>Rows and conditions\<close>

record row =
  rowid :: nat
  rcols :: "(col \<times> string) list"
  rdata :: obj

type_synonym db = "tbl \<Rightarrow> row list"

definition emptyDb :: db where
  "emptyDb = (\<lambda>_. [])"

definition colOf :: "row \<Rightarrow> col \<Rightarrow> string option" where
  "colOf r c = map_of (rcols r) c"

definition keyVals :: "col list \<Rightarrow> row \<Rightarrow> string list option" where
  "keyVals ks r = those (map (colOf r) ks)"

text \<open>\<^verbatim>\<open>WHERE c1 = ? AND c2 = ? ...\<close>\<close>

definition matches :: "(col \<times> string) list \<Rightarrow> row \<Rightarrow> bool" where
  "matches conds r \<longleftrightarrow> list_all (\<lambda>(c, v). colOf r c = Some v) conds"

definition sameKey :: "col list \<Rightarrow> row \<Rightarrow> row \<Rightarrow> bool" where
  "sameKey k r r' \<longleftrightarrow> keyVals k r \<noteq> None \<and> keyVals k r = keyVals k r'"

definition refersTo :: "fkey \<Rightarrow> row \<Rightarrow> row \<Rightarrow> bool" where
  "refersTo f r parent \<longleftrightarrow>
     keyVals (fkCols f) r \<noteq> None \<and> keyVals (fkCols f) r = keyVals (fkParentCols f) parent"

text \<open>A foreign key holds when one of its columns is NULL or it refers to an existing row.\<close>

definition fkHolds :: "db \<Rightarrow> fkey \<Rightarrow> row \<Rightarrow> bool" where
  "fkHolds s f r \<longleftrightarrow>
     keyVals (fkCols f) r = None \<or> list_ex (refersTo f r) (s (fkParent f))"

definition nextRowid :: "row list \<Rightarrow> nat" where
  "nextRowid rs = Suc (foldr (\<lambda>r m. max (rowid r) m) rs 0)"

section \<open>Statements\<close>

text \<open>The error values of the driver carry SQLite's message.\<close>

definition uniqueError :: "tbl \<Rightarrow> go_error" where
  "uniqueError t = Errorf (''constraint failed: UNIQUE constraint failed: '' @ tblName t)"

definition fkError :: go_error where
  "fkError = Errorf ''constraint failed: FOREIGN KEY constraint failed (787)''"

definition notNullError :: "tbl \<Rightarrow> go_error" where
  "notNullError t = Errorf (''constraint failed: NOT NULL constraint failed: '' @ tblName t)"

definition mkRow :: "(col \<times> string) list \<Rightarrow> obj \<Rightarrow> row list \<Rightarrow> row" where
  "mkRow cs d rs = \<lparr>rowid = nextRowid rs, rcols = cs, rdata = d\<rparr>"

definition keyClash :: "tbl \<Rightarrow> row \<Rightarrow> row list \<Rightarrow> bool" where
  "keyClash t r rs \<longleftrightarrow> list_ex (\<lambda>k. list_ex (sameKey k r) rs) (keysOf t)"

definition fksHold :: "db \<Rightarrow> tbl \<Rightarrow> row \<Rightarrow> bool" where
  "fksHold s t r \<longleftrightarrow> list_all (\<lambda>f. fkHolds s f r) (foreignKeys (migrate t))"

text \<open>\<^verbatim>\<open>INSERT INTO t (...) VALUES (...)\<close>\<close>

definition sqlInsert :: "tbl \<Rightarrow> (col \<times> string) list \<Rightarrow> obj \<Rightarrow> db \<Rightarrow> go_error + db" where
  "sqlInsert t cs d s =
     (let r = mkRow cs d (s t) in
      if \<not> list_all (\<lambda>c. colOf r c \<noteq> None) (notNull (migrate t)) then Inl (notNullError t)
      else if keyClash t r (s t) then Inl (uniqueError t)
      else if \<not> fksHold s t r then Inl fkError
      else Inr (s(t := s t @ [r])))"

text \<open>\<^verbatim>\<open>INSERT OR IGNORE INTO t ...\<close>: a row whose key exists is left out silently.\<close>

definition sqlInsertOrIgnore :: "tbl \<Rightarrow> (col \<times> string) list \<Rightarrow> obj \<Rightarrow> db \<Rightarrow> go_error + db" where
  "sqlInsertOrIgnore t cs d s =
     (if keyClash t (mkRow cs d (s t)) (s t) then Inr s else sqlInsert t cs d s)"

text \<open>
  \<^verbatim>\<open>UPDATE t SET c = ?, ..., data = ? WHERE ...\<close>. The sources never set a key column.
\<close>

definition setRow :: "(col \<times> string) list \<Rightarrow> obj \<Rightarrow> row \<Rightarrow> row" where
  "setRow sets d r =
     r\<lparr>rcols := foldl (\<lambda>cs (c, v). AList.update c v cs) (rcols r) sets, rdata := d\<rparr>"

definition sqlUpdate ::
  "tbl \<Rightarrow> (col \<times> string) list \<Rightarrow> (col \<times> string) list \<Rightarrow> obj \<Rightarrow> db \<Rightarrow> go_error + db" where
  "sqlUpdate t conds sets d s =
     (if list_ex (\<lambda>r. matches conds r \<and> \<not> fksHold s t (setRow sets d r)) (s t) then Inl fkError
      else Inr (s(t := map (\<lambda>r. if matches conds r then setRow sets d r else r) (s t))))"

text \<open>
  \<^verbatim>\<open>DELETE FROM t WHERE ...\<close>, with the number of rows it affected. The rows of other
  tables that refer to a deleted row are deleted too where the foreign key has
  \<^verbatim>\<open>ON DELETE CASCADE\<close>; where it has not, the statement fails. A table reached by a
  cascade is never itself a parent (\<open>cascade_depth\<close> below), so one level is enough.
\<close>

definition cascadesFrom :: "tbl \<Rightarrow> row list \<Rightarrow> tbl \<Rightarrow> row \<Rightarrow> bool" where
  "cascadesFrom t gone c r \<longleftrightarrow>
     list_ex (\<lambda>f. fkCascade f \<and> fkParent f = t \<and> list_ex (refersTo f r) gone)
       (foreignKeys (migrate c))"

definition restrictsFrom :: "tbl \<Rightarrow> row list \<Rightarrow> tbl \<Rightarrow> row \<Rightarrow> bool" where
  "restrictsFrom t gone c r \<longleftrightarrow>
     list_ex (\<lambda>f. \<not> fkCascade f \<and> fkParent f = t \<and> list_ex (refersTo f r) gone)
       (foreignKeys (migrate c))"

definition sqlDelete :: "tbl \<Rightarrow> (col \<times> string) list \<Rightarrow> db \<Rightarrow> go_error + (db \<times> nat)" where
  "sqlDelete t conds s =
     (let gone = filter (matches conds) (s t) in
      if list_ex (\<lambda>c. list_ex (restrictsFrom t gone c) (s c)) all_tbls then Inl fkError
      else Inr ((\<lambda>c. filter (\<lambda>r. \<not> (c = t \<and> matches conds r) \<and> \<not> cascadesFrom t gone c r) (s c)),
                length gone))"

text \<open>\<^verbatim>\<open>SELECT data FROM t WHERE ... ORDER BY ...\<close>\<close>

definition orderKey :: "col list \<Rightarrow> row \<Rightarrow> string list" where
  "orderKey cs r = map (\<lambda>c. case colOf r c of None \<Rightarrow> [] | Some v \<Rightarrow> v) cs"

definition sqlSelect :: "tbl \<Rightarrow> (col \<times> string) list \<Rightarrow> col list \<Rightarrow> db \<Rightarrow> row list" where
  "sqlSelect t conds order s = sort_key (orderKey order) (filter (matches conds) (s t))"

section \<open>Facts about the schema\<close>

lemma no_self_reference: "f \<in> set (foreignKeys (migrate t)) \<Longrightarrow> fkParent f \<noteq> t"
  by (cases t) auto

lemma fk_target_is_key: "f \<in> set (foreignKeys (migrate t)) \<Longrightarrow> fkParentCols f \<in> set (keysOf (fkParent f))"
  by (cases t) (auto simp: keysOf_def)

lemma cascade_depth:
  "f \<in> set (foreignKeys (migrate c)) \<Longrightarrow> fkCascade f \<Longrightarrow>
   g \<in> set (foreignKeys (migrate d)) \<Longrightarrow> fkParent g \<noteq> c"
  by (cases c; cases d) auto

lemma primaryKey_in_keysOf [simp]: "primaryKey (migrate t) \<in> set (keysOf t)"
  by (simp add: keysOf_def)

section \<open>The invariant\<close>

definition keys_ok :: "tbl \<Rightarrow> row list \<Rightarrow> bool" where
  "keys_ok t rs \<longleftrightarrow>
     (\<forall>k\<in>set (keysOf t). \<forall>r\<in>set rs. \<forall>r'\<in>set rs. sameKey k r r' \<longrightarrow> r = r')"

definition rowids_ok :: "row list \<Rightarrow> bool" where
  "rowids_ok rs \<longleftrightarrow> sorted_wrt (<) (map rowid rs)"

definition fks_ok :: "db \<Rightarrow> bool" where
  "fks_ok s \<longleftrightarrow> (\<forall>t. \<forall>r\<in>set (s t). fksHold s t r)"

definition nulls_ok :: "tbl \<Rightarrow> row list \<Rightarrow> bool" where
  "nulls_ok t rs \<longleftrightarrow> (\<forall>r\<in>set rs. \<forall>c\<in>set (notNull (migrate t)). colOf r c \<noteq> None)"

definition db_ok :: "db \<Rightarrow> bool" where
  "db_ok s \<longleftrightarrow> (\<forall>t. keys_ok t (s t) \<and> rowids_ok (s t) \<and> nulls_ok t (s t)) \<and> fks_ok s"

lemma db_ok_empty: "db_ok emptyDb"
  by (simp add: db_ok_def emptyDb_def keys_ok_def rowids_ok_def nulls_ok_def fks_ok_def)

lemma db_okD:
  assumes "db_ok s"
  shows "keys_ok t (s t)" "rowids_ok (s t)" "nulls_ok t (s t)" "fks_ok s"
  using assms by (auto simp: db_ok_def)

lemma rowid_less_next: "r \<in> set rs \<Longrightarrow> rowid r < nextRowid rs"
proof -
  have "r \<in> set rs \<Longrightarrow> rowid r \<le> foldr (\<lambda>r m. max (rowid r) m) rs 0"
    by (induction rs) (auto simp: le_max_iff_disj)
  then show "r \<in> set rs \<Longrightarrow> rowid r < nextRowid rs" by (simp add: nextRowid_def)
qed

lemma rowid_mkRow [simp]: "rowid (mkRow cs d rs) = nextRowid rs"
  and rcols_mkRow [simp]: "rcols (mkRow cs d rs) = cs"
  and rdata_mkRow [simp]: "rdata (mkRow cs d rs) = d"
  and colOf_mkRow [simp]: "colOf (mkRow cs d rs) c = map_of cs c"
  by (simp_all add: mkRow_def colOf_def)

lemma rowids_distinct: "rowids_ok rs \<Longrightarrow> distinct rs"
  unfolding rowids_ok_def by (metis distinct_map strict_sorted_iff)

section \<open>Statements keep the invariant\<close>

lemma sameKey_sym: "sameKey k r r' \<Longrightarrow> sameKey k r' r"
  unfolding sameKey_def by metis

lemma fkHolds_mono:
  "set (s (fkParent f)) \<subseteq> set (s' (fkParent f)) \<Longrightarrow> fkHolds s f r \<Longrightarrow> fkHolds s' f r"
  by (auto simp: fkHolds_def list_ex_iff)

lemma fksHold_mono:
  "(\<And>t'. set (s t') \<subseteq> set (s' t')) \<Longrightarrow> fksHold s t r \<Longrightarrow> fksHold s' t r"
  by (auto simp: fksHold_def list_all_iff intro: fkHolds_mono)

lemma sqlInsert_Inr:
  assumes "sqlInsert t cs d s = Inr s'"
  shows "s' = s(t := s t @ [mkRow cs d (s t)])"
    and "\<forall>c\<in>set (notNull (migrate t)). map_of cs c \<noteq> None"
    and "\<not> keyClash t (mkRow cs d (s t)) (s t)"
    and "fksHold s t (mkRow cs d (s t))"
  using assms by (auto simp: sqlInsert_def Let_def list_all_iff split: if_splits)

lemma insert_ok:
  assumes ok: "db_ok s" and ins: "sqlInsert t cs d s = Inr s'"
  shows "db_ok s'"
proof -
  let ?r = "mkRow cs d (s t)"
  note i = sqlInsert_Inr [OF ins]
  have keys: "keys_ok t (s t @ [?r])"
    using db_okD(1) [OF ok, of t] i(3)
    by (auto simp: keys_ok_def keyClash_def list_ex_iff dest: sameKey_sym)
  have rowids: "rowids_ok (s t @ [?r])"
    using db_okD(2) [OF ok, of t]
    by (auto simp: rowids_ok_def sorted_wrt_append rowid_less_next)
  have nulls: "nulls_ok t (s t @ [?r])"
    using db_okD(3) [OF ok, of t] i(2) by (auto simp: nulls_ok_def)
  have mono: "set (s t') \<subseteq> set (s' t')" for t' by (auto simp: i(1))
  have "fksHold s' c r" if "r \<in> set (s' c)" for c r
  proof -
    have "fksHold s c r"
      using that db_okD(4) [OF ok] i(4) by (cases "c = t") (auto simp: i(1) fks_ok_def)
    then show ?thesis using mono by (blast intro: fksHold_mono)
  qed
  then have "fks_ok s'" by (simp add: fks_ok_def)
  with keys rowids nulls ok show ?thesis by (simp add: db_ok_def i(1))
qed

lemma insertOrIgnore_ok:
  "db_ok s \<Longrightarrow> sqlInsertOrIgnore t cs d s = Inr s' \<Longrightarrow> db_ok s'"
  by (auto simp: sqlInsertOrIgnore_def insert_ok split: if_splits)

text \<open>An update that sets no key column keeps every key value of every row.\<close>

definition keyFree :: "tbl \<Rightarrow> (col \<times> string) list \<Rightarrow> bool" where
  "keyFree t sets \<longleftrightarrow> (\<forall>k\<in>set (keysOf t). \<forall>c\<in>set k. c \<notin> fst ` set sets)"

lemma map_of_foldl_update:
  "map_of (foldl (\<lambda>cs (c, v). AList.update c v cs) cs sets) c =
     (case map_of (rev sets) c of None \<Rightarrow> map_of cs c | Some v \<Rightarrow> Some v)"
  by (induction sets arbitrary: cs)
    (auto simp: map_add_def fun_upd_def split: option.splits prod.splits)

lemma colOf_setRow:
  "colOf (setRow sets d r) c =
     (case map_of (rev sets) c of None \<Rightarrow> colOf r c | Some v \<Rightarrow> Some v)"
  unfolding colOf_def setRow_def by (simp add: map_of_foldl_update)

lemma colOf_setRow_other: "c \<notin> fst ` set sets \<Longrightarrow> colOf (setRow sets d r) c = colOf r c"
proof -
  assume "c \<notin> fst ` set sets"
  then have "map_of (rev sets) c = None" by (simp add: map_of_eq_None_iff)
  then show ?thesis by (simp add: colOf_setRow)
qed

lemma rowid_setRow [simp]: "rowid (setRow sets d r) = rowid r"
  and rdata_setRow [simp]: "rdata (setRow sets d r) = d"
  by (simp_all add: setRow_def)

lemma keyVals_setRow:
  "keyFree t sets \<Longrightarrow> k \<in> set (keysOf t) \<Longrightarrow> keyVals k (setRow sets d r) = keyVals k r"
  unfolding keyVals_def keyFree_def
  by (rule arg_cong [where f = those], rule map_cong) (auto simp: colOf_setRow_other)

definition updRow :: "(col \<times> string) list \<Rightarrow> (col \<times> string) list \<Rightarrow> obj \<Rightarrow> row \<Rightarrow> row" where
  "updRow conds sets d r = (if matches conds r then setRow sets d r else r)"

lemma rowid_updRow [simp]: "rowid (updRow conds sets d r) = rowid r"
  by (simp add: updRow_def)

lemma keyVals_updRow:
  "keyFree t sets \<Longrightarrow> k \<in> set (keysOf t) \<Longrightarrow> keyVals k (updRow conds sets d r) = keyVals k r"
  by (simp add: updRow_def keyVals_setRow)

lemma sqlUpdate_Inr:
  assumes "sqlUpdate t conds sets d s = Inr s'"
  shows "s' = s(t := map (updRow conds sets d) (s t))"
    and "\<forall>r\<in>set (s t). matches conds r \<longrightarrow> fksHold s t (setRow sets d r)"
  using assms by (auto simp: sqlUpdate_def updRow_def [abs_def] list_ex_iff split: if_splits)

lemma update_ok:
  assumes ok: "db_ok s" and upd: "sqlUpdate t conds sets d s = Inr s'" and free: "keyFree t sets"
  shows "db_ok s'"
proof -
  note u = sqlUpdate_Inr [OF upd]
  let ?f = "updRow conds sets d"
  have same: "sameKey k (?f r) (?f r') = sameKey k r r'" if "k \<in> set (keysOf t)" for k r r'
    using keyVals_updRow [OF free that] by (simp add: sameKey_def)
  have keys: "keys_ok t (map ?f (s t))"
    using db_okD(1) [OF ok, of t] same by (fastforce simp: keys_ok_def)
  have rowids: "rowids_ok (map ?f (s t))"
    using db_okD(2) [OF ok, of t] by (simp add: rowids_ok_def comp_def)
  have nulls: "nulls_ok t (map ?f (s t))"
    using db_okD(3) [OF ok, of t]
    by (auto simp: nulls_ok_def updRow_def colOf_setRow split: option.splits)
  have parent: "fkHolds s' f r \<longleftrightarrow> fkHolds s f r" if "f \<in> set (foreignKeys (migrate c))" for f c r
  proof (cases "fkParent f = t")
    case True
    then have "fkParentCols f \<in> set (keysOf t)" using fk_target_is_key [OF that] by simp
    then have "refersTo f r (?f p) = refersTo f r p" for p
      using keyVals_updRow [OF free] by (simp add: refersTo_def)
    with True show ?thesis by (auto simp: fkHolds_def list_ex_iff u(1))
  qed (simp add: fkHolds_def u(1))
  have fks: "fksHold s' c r \<longleftrightarrow> fksHold s c r" for c r
    using parent [of _ c] by (simp add: fksHold_def list_all_iff)
  have "fks_ok s'"
    using db_okD(4) [OF ok] u(2) unfolding fks_ok_def fks
    by (auto simp: u(1) updRow_def)
  with keys rowids nulls ok show ?thesis by (simp add: db_ok_def u(1))
qed

lemma sqlDelete_Inr:
  assumes "sqlDelete t conds s = Inr (s', n)"
  shows "s' = (\<lambda>c. filter (\<lambda>r. \<not> (c = t \<and> matches conds r) \<and>
                 \<not> cascadesFrom t (filter (matches conds) (s t)) c r) (s c))"
    and "n = length (filter (matches conds) (s t))"
    and "\<forall>c. \<forall>r\<in>set (s c). \<not> restrictsFrom t (filter (matches conds) (s t)) c r"
  using assms by (auto simp: sqlDelete_def Let_def list_ex_iff split: if_splits)

lemma filter_ok:
  assumes "keys_ok t rs" "rowids_ok rs" "nulls_ok t rs"
  shows "keys_ok t (filter P rs)" "rowids_ok (filter P rs)" "nulls_ok t (filter P rs)"
proof -
  show "keys_ok t (filter P rs)" "nulls_ok t (filter P rs)"
    using assms by (auto simp: keys_ok_def nulls_ok_def)
  show "rowids_ok (filter P rs)"
    using assms(2) unfolding rowids_ok_def sorted_wrt_map by (rule sorted_wrt_filter)
qed

lemma delete_ok:
  assumes ok: "db_ok s" and del: "sqlDelete t conds s = Inr (s', n)"
  shows "db_ok s'"
proof -
  note d = sqlDelete_Inr [OF del]
  let ?gone = "filter (matches conds) (s t)"
  have tables: "keys_ok c (s' c) \<and> rowids_ok (s' c) \<and> nulls_ok c (s' c)" for c
    unfolding d(1) using filter_ok [OF db_okD(1-3) [OF ok]] by blast
  have "fkHolds s' f r"
    if r: "r \<in> set (s' c)" and f: "f \<in> set (foreignKeys (migrate c))" for c r f
  proof (cases "keyVals (fkCols f) r = None")
    case False
    from r have rs: "r \<in> set (s c)" and nc: "\<not> cascadesFrom t ?gone c r"
      by (auto simp: d(1))
    from db_okD(4) [OF ok] rs f have "fkHolds s f r"
      by (auto simp: fks_ok_def fksHold_def list_all_iff)
    with False obtain p where p: "p \<in> set (s (fkParent f))" "refersTo f r p"
      by (auto simp: fkHolds_def list_ex_iff)
    have "\<not> (fkParent f = t \<and> matches conds p)"
    proof
      assume a: "fkParent f = t \<and> matches conds p"
      with p have "list_ex (refersTo f r) ?gone" by (auto simp: list_ex_iff)
      moreover from d(3) rs have "\<not> restrictsFrom t ?gone c r" by blast
      ultimately show False using nc f a by (auto simp: cascadesFrom_def restrictsFrom_def list_ex_iff)
    qed
    moreover have "\<not> cascadesFrom t ?gone (fkParent f) p"
      using cascade_depth [of _ "fkParent f" f c] f by (auto simp: cascadesFrom_def list_ex_iff)
    ultimately have "p \<in> set (s' (fkParent f))" using p by (auto simp: d(1))
    with p show ?thesis by (auto simp: fkHolds_def list_ex_iff)
  qed (simp add: fkHolds_def)
  then have "fks_ok s'" by (auto simp: fks_ok_def fksHold_def list_all_iff)
  with tables show ?thesis by (simp add: db_ok_def)
qed

section \<open>Reading rows by key\<close>

text \<open>\<^verbatim>\<open>loadOne\<close> and \<^verbatim>\<open>loadMany\<close>: the \<^verbatim>\<open>data\<close> of the first row, of all rows.\<close>

definition loadOne :: "tbl \<Rightarrow> (col \<times> string) list \<Rightarrow> db \<Rightarrow> go_error + obj" where
  "loadOne t conds s =
     (case filter (matches conds) (s t) of [] \<Rightarrow> Inl ErrNotFound | r # _ \<Rightarrow> Inr (rdata r))"

definition loadMany :: "tbl \<Rightarrow> (col \<times> string) list \<Rightarrow> col list \<Rightarrow> db \<Rightarrow> obj list" where
  "loadMany t conds order s = map rdata (sqlSelect t conds order s)"

lemma loadOne_NotFound: "loadOne t conds s = Inl e \<longleftrightarrow> e = ErrNotFound \<and> (\<forall>r\<in>set (s t). \<not> matches conds r)"
proof (cases "filter (matches conds) (s t)")
  case Nil
  then have "\<forall>r\<in>set (s t). \<not> matches conds r" by (simp add: filter_empty_conv)
  with Nil show ?thesis by (auto simp: loadOne_def)
next
  case (Cons r rs)
  then have "r \<in> set (filter (matches conds) (s t))" by simp
  then have "\<exists>r\<in>set (s t). matches conds r" by auto
  with Cons show ?thesis by (auto simp: loadOne_def)
qed

lemma loadOne_Inr_row:
  assumes "loadOne t conds s = Inr d"
  obtains r where "r \<in> set (s t)" "matches conds r" "rdata r = d"
proof -
  from assms obtain r rs where "filter (matches conds) (s t) = r # rs" "rdata r = d"
    by (auto simp: loadOne_def split: list.splits)
  then have "r \<in> set (filter (matches conds) (s t))" by simp
  then have "r \<in> set (s t)" "matches conds r" by auto
  then show thesis using \<open>rdata r = d\<close> by (rule that)
qed

lemma loadOne_cong: "s' t = s t \<Longrightarrow> loadOne t conds s' = loadOne t conds s"
  by (simp add: loadOne_def)

lemma loadMany_cong: "s' t = s t \<Longrightarrow> loadMany t conds order s' = loadMany t conds order s"
  by (simp add: loadMany_def sqlSelect_def)

lemma set_loadMany: "set (loadMany t conds order s) = rdata ` {r \<in> set (s t). matches conds r}"
  by (auto simp: loadMany_def sqlSelect_def)

lemma sqlSelect_sorted: "sorted (map (orderKey order) (sqlSelect t conds order s))"
  by (simp add: sqlSelect_def)

lemma sqlSelect_mset: "mset (sqlSelect t conds order s) = mset (filter (matches conds) (s t))"
  by (simp add: sqlSelect_def)

text \<open>Conditions that the key columns of an inserted row satisfy.\<close>

definition agrees :: "(col \<times> string) list \<Rightarrow> (col \<times> string) list \<Rightarrow> bool" where
  "agrees conds cs \<longleftrightarrow> (\<forall>(c, v)\<in>set conds. map_of cs c = Some v)"

lemma matches_mkRow [simp]: "matches conds (mkRow cs d rs) \<longleftrightarrow> agrees conds cs"
  by (simp add: matches_def agrees_def list_all_iff)

lemma matchesD: "matches conds r \<Longrightarrow> (c, v) \<in> set conds \<Longrightarrow> colOf r c = Some v"
  by (auto simp: matches_def list_all_iff)

text \<open>
  A table and columns that include one of its keys: conditions on these columns select at
  most one row, and a lookup sees exactly what the last statement on that row left.
\<close>

locale keyed_table =
  fixes t :: tbl and ks :: "col list"
  assumes has_key: "\<exists>k\<in>set (keysOf t). set k \<subseteq> set ks"
begin

lemma matches_same_key:
  assumes "map fst conds = ks" "matches conds r" "matches conds r'"
  obtains k where "k \<in> set (keysOf t)" "sameKey k r r'"
proof -
  obtain k where k: "k \<in> set (keysOf t)" "set k \<subseteq> set ks" using has_key by blast
  have "colOf r c = colOf r' c \<and> colOf r c \<noteq> None" if "c \<in> set k" for c
  proof -
    from that k assms(1) obtain v where "(c, v) \<in> set conds" by force
    with assms(2,3) show ?thesis by (simp add: matchesD)
  qed
  then have "map (colOf r) k = map (colOf r') k \<and> (\<forall>c\<in>set k. colOf r c \<noteq> None)"
    by (metis map_eq_conv)
  then have "sameKey k r r'" unfolding sameKey_def keyVals_def those_map_defined by presburger
  with k show thesis by (blast intro: that)
qed

lemma matches_unique:
  assumes "db_ok s" "map fst conds = ks"
    and "r \<in> set (s t)" "matches conds r" "r' \<in> set (s t)" "matches conds r'"
  shows "r = r'"
  using matches_same_key [OF assms(2,4,6)] db_okD(1) [OF assms(1), of t] assms(3,5)
  unfolding keys_ok_def by blast

lemma filter_row:
  assumes "db_ok s" "map fst conds = ks" "r \<in> set (s t)" "matches conds r"
  shows "filter (matches conds) (s t) = [r]"
  using assms(3,4) rowids_distinct [OF db_okD(2) [OF assms(1)]]
  by (rule filter_single_match) (rule matches_unique [OF assms(1,2) _ _ assms(3,4)])

lemma load_row:
  "db_ok s \<Longrightarrow> map fst conds = ks \<Longrightarrow> r \<in> set (s t) \<Longrightarrow> matches conds r \<Longrightarrow>
   loadOne t conds s = Inr (rdata r)"
  by (simp add: loadOne_def filter_row)

lemma load_insert:
  assumes "db_ok s" "map fst conds = ks" "sqlInsert t cs d s = Inr s'" "agrees conds cs"
  shows "loadOne t conds s' = Inr d"
proof -
  have "mkRow cs d (s t) \<in> set (s' t)" using sqlInsert_Inr(1) [OF assms(3)] by simp
  from load_row [OF insert_ok [OF assms(1,3)] assms(2) this] assms(4) show ?thesis by simp
qed

lemma load_insert_other:
  assumes "sqlInsert t cs d s = Inr s'" "\<not> agrees conds cs"
  shows "loadOne t conds s' = loadOne t conds s"
  using assms sqlInsert_Inr(1) [OF assms(1)] by (simp add: loadOne_def)

lemma load_insert_if:
  "db_ok s \<Longrightarrow> map fst conds = ks \<Longrightarrow> sqlInsert t cs d s = Inr s' \<Longrightarrow>
   loadOne t conds s' = (if agrees conds cs then Inr d else loadOne t conds s)"
  by (simp add: load_insert load_insert_other)

lemma insert_absent:
  assumes "map fst conds = ks" "sqlInsert t cs d s = Inr s'" "agrees conds cs"
  shows "loadOne t conds s = Inl ErrNotFound"
proof -
  have "\<not> matches conds r" if r: "r \<in> set (s t)" for r
  proof
    assume "matches conds r"
    with assms(1,3) obtain k where "k \<in> set (keysOf t)" "sameKey k (mkRow cs d (s t)) r"
      by (metis matches_mkRow matches_same_key)
    with r sqlInsert_Inr(3) [OF assms(2)] show False
      by (auto simp: keyClash_def list_ex_iff)
  qed
  then show ?thesis by (simp add: loadOne_NotFound)
qed

lemma insert_present:
  assumes "map fst conds = ks" "agrees conds cs" "loadOne t conds s = Inr d0"
    and "list_all (\<lambda>c. map_of cs c \<noteq> None) (notNull (migrate t))"
  shows "sqlInsert t cs d s = Inl (uniqueError t)"
proof -
  obtain r where r: "r \<in> set (s t)" "matches conds r" by (rule loadOne_Inr_row [OF assms(3)])
  with assms(1,2) obtain k where "k \<in> set (keysOf t)" "sameKey k (mkRow cs d (s t)) r"
    by (metis matches_mkRow matches_same_key)
  with r have "keyClash t (mkRow cs d (s t)) (s t)" by (auto simp: keyClash_def list_ex_iff)
  with assms(4) show ?thesis by (simp add: sqlInsert_def)
qed

lemma load_update:
  assumes "db_ok s" "map fst conds = ks" "sqlUpdate t conds sets d s = Inr s'"
    and "set ks \<inter> fst ` set sets = {}" "keyFree t sets" "loadOne t conds s = Inr d0"
  shows "loadOne t conds s' = Inr d"
proof -
  obtain r where r: "r \<in> set (s t)" "matches conds r" by (rule loadOne_Inr_row [OF assms(6)])
  then have "setRow sets d r \<in> set (s' t)"
    using sqlUpdate_Inr(1) [OF assms(3)] by (auto simp: updRow_def)
  moreover have "matches conds (setRow sets d r)"
  proof -
    have "colOf (setRow sets d r) c = Some v" if "(c, v) \<in> set conds" for c v
    proof -
      from that have "c \<in> fst ` set conds" by force
      with assms(2,4) have "c \<notin> fst ` set sets" by (metis disjoint_iff set_map)
      with r(2) that show ?thesis by (simp add: colOf_setRow_other matchesD)
    qed
    then show ?thesis by (auto simp: matches_def list_all_iff)
  qed
  ultimately show ?thesis
    using load_row [OF update_ok [OF assms(1,3,5)] assms(2)] by simp
qed

lemma load_delete:
  assumes "sqlDelete t conds s = Inr (s', n)"
  shows "loadOne t conds s' = Inl ErrNotFound"
  using sqlDelete_Inr(1) [OF assms] by (simp add: loadOne_NotFound)

lemma delete_count:
  assumes "db_ok s" "map fst conds = ks" "sqlDelete t conds s = Inr (s', n)"
  shows "n = (case loadOne t conds s of Inl _ \<Rightarrow> 0 | Inr _ \<Rightarrow> 1)"
proof (cases "loadOne t conds s")
  case (Inl e)
  then have "filter (matches conds) (s t) = []" by (simp add: loadOne_NotFound filter_empty_conv)
  with Inl sqlDelete_Inr(2) [OF assms(3)] show ?thesis by simp
next
  case (Inr d)
  then obtain r where "r \<in> set (s t)" "matches conds r" by (rule loadOne_Inr_row)
  with assms Inr sqlDelete_Inr(2) [OF assms(3)] show ?thesis by (simp add: filter_row)
qed

end

text \<open>Rows of the table itself are never reached by its own cascades.\<close>

lemma cascades_same: "\<not> cascadesFrom t gone t r"
  using no_self_reference by (auto simp: cascadesFrom_def list_ex_iff)

lemma delete_same_table:
  "sqlDelete t conds s = Inr (s', n) \<Longrightarrow> s' t = filter (\<lambda>r. \<not> matches conds r) (s t)"
  by (drule sqlDelete_Inr(1)) (simp add: cascades_same)

lemma delete_other_table:
  "sqlDelete t conds s = Inr (s', n) \<Longrightarrow> c \<noteq> t \<Longrightarrow>
   \<forall>f\<in>set (foreignKeys (migrate c)). fkCascade f \<longrightarrow> fkParent f \<noteq> t \<Longrightarrow> s' c = s c"
  by (drule sqlDelete_Inr(1)) (auto simp: cascadesFrom_def list_ex_iff intro!: filter_True)

lemma delete_leaf_Inr:
  "\<forall>c. \<forall>f\<in>set (foreignKeys (migrate c)). fkParent f \<noteq> t \<Longrightarrow>
   sqlDelete t conds s =
     Inr (s(t := filter (\<lambda>r. \<not> matches conds r) (s t)), length (filter (matches conds) (s t)))"
  by (auto simp: sqlDelete_def Let_def cascadesFrom_def restrictsFrom_def list_ex_iff fun_eq_iff)

text \<open>An update leaves the rows that its conditions exclude.\<close>

lemma load_update_other:
  assumes "sqlUpdate t conds sets d s = Inr s'"
    and "\<And>r. \<not> (matches conds r \<and> matches conds' r)"
    and "\<And>r. matches conds' (setRow sets d r) \<Longrightarrow> \<not> matches conds r"
  shows "loadOne t conds' s' = loadOne t conds' s"
proof -
  have "map rdata (filter (matches conds') (map (updRow conds sets d) rs))
      = map rdata (filter (matches conds') rs)" for rs
    using assms(2,3) by (induction rs) (auto simp: updRow_def)
  then have "map rdata (filter (matches conds') (s' t)) = map rdata (filter (matches conds') (s t))"
    by (simp add: sqlUpdate_Inr(1) [OF assms(1)])
  then show ?thesis
    by (auto simp: loadOne_def split: list.splits)
qed

text \<open>Lookups in a table of which some rows are left.\<close>

lemma load_filter_same:
  assumes "s' t = filter P (s t)" "\<And>r. r \<in> set (s t) \<Longrightarrow> matches conds r \<Longrightarrow> P r"
  shows "loadOne t conds s' = loadOne t conds s"
proof -
  have "filter (matches conds) (s' t) = filter (matches conds) (s t)"
    using assms by (auto intro!: filter_cong)
  then show ?thesis by (simp add: loadOne_def)
qed

lemma load_filter_gone:
  assumes "s' t = filter P (s t)" "\<And>r. r \<in> set (s t) \<Longrightarrow> matches conds r \<Longrightarrow> \<not> P r"
  shows "loadOne t conds s' = Inl ErrNotFound"
  using assms by (auto simp: loadOne_NotFound)

lemma load_filter_conds:
  assumes "s' t = filter (\<lambda>r. \<not> matches gone r) (s t)"
    and "b \<Longrightarrow> set gone \<subseteq> set conds"
    and "\<not> b \<Longrightarrow> \<exists>c v v'. (c, v) \<in> set gone \<and> (c, v') \<in> set conds \<and> v \<noteq> v'"
  shows "loadOne t conds s' = (if b then Inl ErrNotFound else loadOne t conds s)"
proof (cases b)
  case True
  with assms(2) have "matches conds r \<Longrightarrow> matches gone r" for r
    by (auto simp: matches_def list_all_iff)
  with True show ?thesis
    by (simp add: loadOne_NotFound assms(1)) blast
next
  case False
  then obtain c v v' where "(c, v) \<in> set gone" "(c, v') \<in> set conds" "v \<noteq> v'" using assms(3) by blast
  then have "matches conds r \<Longrightarrow> \<not> matches gone r" for r
    by (auto dest!: matchesD)
  with False load_filter_same [where s' = s' and s = s and t = t, OF assms(1)] show ?thesis by simp
qed

text \<open>An update that changes no column succeeds.\<close>

lemma fksHold_body [simp]: "fksHold s t (setRow [] d r) = fksHold s t r"
proof -
  have "keyVals ks (setRow [] d r) = keyVals ks r" for ks
    by (simp add: keyVals_def setRow_def colOf_def [abs_def])
  then show ?thesis by (simp add: fksHold_def fkHolds_def refersTo_def [abs_def])
qed

lemma update_body_Inr:
  assumes "db_ok s"
  obtains s' where "sqlUpdate t conds [] d s = Inr s'"
  using db_okD(4) [OF assms] by (auto simp: sqlUpdate_def list_ex_iff fks_ok_def)

end
