(* ===== verification/Refs.thy ===== *)
theory Refs
  imports Go_Strings
begin

text \<open>
  Names, paths and self-links: \<^verbatim>\<open>extractNameFromSelfLink\<close>, \<^verbatim>\<open>resolveSameProjectName\<close>,
  \<^verbatim>\<open>extractRegionFromSubnetSelfLink\<close> and \<^verbatim>\<open>regionFromZone\<close> of
  \<^verbatim>\<open>repository/repository.go\<close>; \<^verbatim>\<open>selfLink\<close> of \<^verbatim>\<open>handlers/handlers.go\<close>,
  \<^verbatim>\<open>computeRefName\<close> and \<^verbatim>\<open>lastPathSegment\<close> of \<^verbatim>\<open>handlers/loadbalancer.go\<close>,
  \<^verbatim>\<open>regionFromZone\<close> of \<^verbatim>\<open>handlers/compute.go\<close> and \<^verbatim>\<open>deriveZoneFromLocation\<close> of
  \<^verbatim>\<open>handlers/container.go\<close>. The locale \<open>ref_resolver\<close> is the contract the two reference
  resolvers share; both are interpreted.
\<close>

section \<open>Self-links\<close>

definition trimSlashes :: "string \<Rightarrow> string" where
  "trimSlashes s = trimWhile (\<lambda>c. c = CHR ''/'') s"

definition selfLink :: "string \<Rightarrow> string list \<Rightarrow> string" where
  "selfLink host pathParts =
     (let parts = filter (\<lambda>p. p \<noteq> []) (map trimSlashes pathParts)
      in if parts = [] then ''http://'' @ host @ ''/''
         else ''http://'' @ host @ ''/'' @ joinWith ''/'' parts)"

definition zoneSelfLink :: "string \<Rightarrow> string \<Rightarrow> string \<Rightarrow> string" where
  "zoneSelfLink host project zone =
     selfLink host [''compute'', ''v1'', ''projects'', project, ''zones'', zone]"

definition regionSelfLink :: "string \<Rightarrow> string \<Rightarrow> string \<Rightarrow> string" where
  "regionSelfLink host project region =
     selfLink host [''compute'', ''v1'', ''projects'', project, ''regions'', region]"

section \<open>Names out of paths\<close>

definition extractNameFromSelfLink :: "string \<Rightarrow> string" where
  "extractNameFromSelfLink link =
     (let trimmed = trimSuffix (trimSpace link) ''/''
      in if trimmed = [] then [] else last (splitOn (CHR ''/'') trimmed))"

definition lastPathSegment :: "string \<Rightarrow> string" where
  "lastPathSegment s =
     (case lastIndexChar s (CHR ''/'') of Some i \<Rightarrow> drop (Suc i) s | None \<Rightarrow> s)"

text \<open>The name that \<^verbatim>\<open>CreateSecretVersion\<close> composes.\<close>

definition secretVersionName :: "string \<Rightarrow> string \<Rightarrow> nat \<Rightarrow> string" where
  "secretVersionName project secretName' n =
     ''projects/'' @ project @ ''/secrets/'' @ secretName' @ ''/versions/'' @ natStr n"

text \<open>What \<^verbatim>\<open>DeleteTopic\<close> leaves in the place of the topic of a subscription.\<close>

definition deletedTopic :: string where
  "deletedTopic = ''_deleted-topic_''"

text \<open>The loop \<^verbatim>\<open>for i := 0; i+1 < len(parts); i++ { if parts[i] == x ... }\<close>\<close>

fun segmentAfter :: "string \<Rightarrow> string list \<Rightarrow> string option" where
  "segmentAfter x (a # b # ps) = (if a = x then Some b else segmentAfter x (b # ps))"
| "segmentAfter x _ = None"

definition stripHost :: "string \<Rightarrow> string" where
  "stripHost ref =
     (case indexOf ref ''://'' of
        None \<Rightarrow> ref
      | Some i \<Rightarrow> (case indexOf (drop (i + 3) ref) ''/'' of
                    None \<Rightarrow> ref
                  | Some j \<Rightarrow> drop (i + 3 + j) ref))"

definition resolveSameProjectName :: "string \<Rightarrow> string \<Rightarrow> string \<Rightarrow> go_error + string" where
  "resolveSameProjectName project ref collection =
     (if ref = [] then Inr []
      else if \<not> containsStr ref ''/'' then Inr ref
      else
        let ref = stripHost ref;
            ref = trimPrefix ref ''/'';
            ref = trimPrefix ref ''compute/v1/'';
            ref = trimPrefix ref ''v1/'';
            parts = splitOn (CHR ''/'') ref
        in if 2 \<le> length parts \<and> parts ! 0 = ''projects'' then
             if parts ! 1 \<noteq> project then Inl ErrNotFound
             else (case segmentAfter collection (drop 2 parts) of
                     Some n \<Rightarrow> Inr n
                   | None \<Rightarrow> Inl ErrNotFound)
           else (case segmentAfter collection parts of
                   Some n \<Rightarrow> Inr n
                 | None \<Rightarrow> Inl ErrNotFound))"

definition extractRegionFromSubnetSelfLink :: "string \<Rightarrow> string" where
  "extractRegionFromSubnetSelfLink s =
     (case segmentAfter ''regions'' (splitOn (CHR ''/'') s) of Some r \<Rightarrow> r | None \<Rightarrow> [])"

definition computeRefName :: "string \<Rightarrow> string \<Rightarrow> string \<Rightarrow> string option" where
  "computeRefName ref project collection =
     (if ref = [] then None
      else if \<not> containsStr ref ''/'' then Some ref
      else
        let ref = stripHost ref;
            ref = trimPrefix ref ''/'';
            ref = trimPrefix ref ''compute/v1/'';
            parts = splitOn (CHR ''/'') ref
        in if length parts = 5 \<and> parts ! 0 = ''projects'' \<and> parts ! 1 = project
              \<and> parts ! 2 = ''global'' \<and> parts ! 3 = collection
           then Some (parts ! 4) else None)"

section \<open>Zones and regions\<close>

definition isLower :: "char \<Rightarrow> bool" where
  "isLower c \<longleftrightarrow> CHR ''a'' \<le> c \<and> c \<le> CHR ''z''"

definition regionFromZone :: "string \<Rightarrow> string" where
  "regionFromZone s =
     (if s = [] then []
      else case lastIndexChar s (CHR ''-'') of
             None \<Rightarrow> s
           | Some i \<Rightarrow>
               let suffix = drop (Suc i) s
               in if suffix = [] then s
                  else if list_all isLower suffix then take i s else s)"

text \<open>The handlers' own version.\<close>

definition regionFromZone_h :: "string \<Rightarrow> string" where
  "regionFromZone_h zone =
     (case lastIndexChar zone (CHR ''-'') of
        None \<Rightarrow> zone
      | Some idx \<Rightarrow> if idx = 0 \<or> Suc idx = length zone then zone else take idx zone)"

definition deriveZoneFromLocation :: "string \<Rightarrow> string" where
  "deriveZoneFromLocation location =
     (let parts = splitOn (CHR ''-'') location
      in if 3 \<le> length parts \<and> length (last parts) \<le> 2 then location
         else location @ ''-a'')"

section \<open>Facts\<close>

lemma containsStr_slash [simp]: "containsStr s ''/'' \<longleftrightarrow> CHR ''/'' \<in> set s"
  by (rule containsStr_char)

lemma indexOf_host:
  "CHR ''/'' \<notin> set host \<Longrightarrow> indexOf (host @ CHR ''/'' # rest) ''/'' = Some (length host)"
  by (induction host) auto

lemma stripHost_http:
  "CHR ''/'' \<notin> set host \<Longrightarrow> stripHost (''http://'' @ host @ CHR ''/'' # rest) = CHR ''/'' # rest"
proof -
  assume host: "CHR ''/'' \<notin> set host"
  let ?ref = "''http://'' @ host @ CHR ''/'' # rest"
  have "indexOf ?ref ''://'' = Some 4" by simp
  moreover have "drop (4 + 3) ?ref = host @ CHR ''/'' # rest" by simp
  moreover have "drop (4 + 3 + length host) ?ref = drop (length host) (drop (4 + 3) ?ref)"
    unfolding drop_drop by (simp add: add.commute)
  ultimately show "stripHost ?ref = CHR ''/'' # rest"
    using indexOf_host [OF host, of rest] by (simp only: stripHost_def option.case) simp
qed

definition plainSegment :: "string \<Rightarrow> bool" where
  "plainSegment s \<longleftrightarrow> s \<noteq> [] \<and> CHR ''/'' \<notin> set s"

lemma trimSlashes_plain: "plainSegment s \<Longrightarrow> trimSlashes s = s"
  unfolding trimSlashes_def plainSegment_def by (rule trimWhile_no_match) auto

lemma selfLink_plain:
  assumes "parts \<noteq> []" "\<forall>p\<in>set parts. plainSegment p"
  shows "selfLink host parts = ''http://'' @ host @ ''/'' @ joinWith ''/'' parts"
proof -
  from assms(2) have "map trimSlashes parts = parts"
    by (intro map_idI) (auto simp: trimSlashes_plain)
  moreover from assms(2) have "filter (\<lambda>p. p \<noteq> []) parts = parts"
    by (intro filter_True) (auto simp: plainSegment_def)
  ultimately show ?thesis using assms(1) by (simp add: selfLink_def)
qed

lemma splitOn_join_plain:
  "parts \<noteq> [] \<Longrightarrow> \<forall>p\<in>set parts. plainSegment p \<Longrightarrow> splitOn (CHR ''/'') (joinWith ''/'' parts) = parts"
  by (rule splitOn_joinWith) (auto simp: plainSegment_def)

lemma plain_literals [simp]:
  "plainSegment ''compute''" "plainSegment ''v1''" "plainSegment ''projects''"
  "plainSegment ''global''" "plainSegment ''regions''" "plainSegment ''zones''"
  "plainSegment ''subnetworks''" "plainSegment ''networks''"
  by (simp_all add: plainSegment_def)

text \<open>A compute self-link is stripped down to its path after \<^verbatim>\<open>compute/v1/\<close>.\<close>

lemma strip_compute_link:
  assumes "CHR ''/'' \<notin> set host" "rest \<noteq> []"
  shows "trimPrefix (trimPrefix (stripHost
           (''http://'' @ host @ ''/'' @ joinWith ''/'' (''compute'' # ''v1'' # rest))) ''/'') ''compute/v1/''
         = joinWith ''/'' rest"
proof -
  obtain r rs where r: "rest = r # rs" using assms(2) by (cases rest) auto
  have "joinWith ''/'' (''compute'' # ''v1'' # rest) = ''compute/v1/'' @ joinWith ''/'' rest"
    by (simp add: r)
  moreover have "trimPrefix (CHR ''/'' # x) ''/'' = x" for x
    using trimPrefix_append [of "''/''" x] by simp
  ultimately show ?thesis
    using stripHost_http [OF assms(1)] trimPrefix_append [of "''compute/v1/''"] by simp
qed

lemma projects_no_v1: "trimPrefix (joinWith ''/'' (''projects'' # p # ps)) ''v1/'' = joinWith ''/'' (''projects'' # p # ps)"
  by (simp add: trimPrefix_def)

lemma slash_in_join: "CHR ''/'' \<in> set (joinWith ''/'' (a # b # ps))"
  by simp

text \<open>What both resolvers do with a link to a global compute resource.\<close>

lemma resolve_projects_path:
  assumes "CHR ''/'' \<notin> set host" "\<forall>q\<in>set (p # path). plainSegment q" "path \<noteq> []"
  shows "resolveSameProjectName project
           (selfLink host (''compute'' # ''v1'' # ''projects'' # p # path)) collection =
         (if p \<noteq> project then Inl ErrNotFound
          else case segmentAfter collection path of Some n \<Rightarrow> Inr n | None \<Rightarrow> Inl ErrNotFound)"
proof -
  let ?rest = "''projects'' # p # path"
  let ?link = "selfLink host (''compute'' # ''v1'' # ?rest)"
  have plain: "\<forall>q\<in>set (''compute'' # ''v1'' # ?rest). plainSegment q" using assms(2) by simp
  have link: "?link = ''http://'' @ host @ ''/'' @ joinWith ''/'' (''compute'' # ''v1'' # ?rest)"
    by (rule selfLink_plain [OF _ plain]) simp
  have slash: "CHR ''/'' \<in> set ?link" by (simp add: link)
  then have nonempty: "?link \<noteq> []" by auto
  have strip: "trimPrefix (trimPrefix (trimPrefix (stripHost ?link) ''/'') ''compute/v1/'') ''v1/''
      = joinWith ''/'' ?rest"
    unfolding link using strip_compute_link [OF assms(1), of ?rest] projects_no_v1 [of p path] by simp
  have split: "splitOn (CHR ''/'') (joinWith ''/'' ?rest) = ?rest"
    using plain by (intro splitOn_join_plain) auto
  show ?thesis
    unfolding resolveSameProjectName_def Let_def strip split using nonempty slash by simp
qed

lemma computeRefName_projects_path:
  assumes "CHR ''/'' \<notin> set host" "\<forall>q\<in>set (p # path). plainSegment q" "path \<noteq> []"
  shows "computeRefName
           (selfLink host (''compute'' # ''v1'' # ''projects'' # p # path)) project collection =
         (case path of
            [g, c, n] \<Rightarrow> if p = project \<and> g = ''global'' \<and> c = collection then Some n else None
          | _ \<Rightarrow> None)"
proof -
  let ?rest = "''projects'' # p # path"
  let ?link = "selfLink host (''compute'' # ''v1'' # ?rest)"
  have plain: "\<forall>q\<in>set (''compute'' # ''v1'' # ?rest). plainSegment q" using assms(2) by simp
  have link: "?link = ''http://'' @ host @ ''/'' @ joinWith ''/'' (''compute'' # ''v1'' # ?rest)"
    by (rule selfLink_plain [OF _ plain]) simp
  have slash: "CHR ''/'' \<in> set ?link" by (simp add: link)
  then have nonempty: "?link \<noteq> []" by auto
  have strip: "trimPrefix (trimPrefix (stripHost ?link) ''/'') ''compute/v1/'' = joinWith ''/'' ?rest"
    unfolding link using strip_compute_link [OF assms(1), of ?rest] by simp
  have split: "splitOn (CHR ''/'') (joinWith ''/'' ?rest) = ?rest"
    using plain by (intro splitOn_join_plain) auto
  show ?thesis
    unfolding computeRefName_def Let_def strip split using nonempty slash
    by (auto split: list.splits simp: numeral_eq_Suc)
qed

text \<open>
  Whatever \<^verbatim>\<open>computeRefName\<close> accepts, \<^verbatim>\<open>resolveSameProjectName\<close> resolves to the same
  name: the load balancer's resolver is the stricter one.
\<close>

lemma computeRefName_resolves:
  assumes "computeRefName ref project collection = Some n" "collection \<noteq> ''global''"
  shows "resolveSameProjectName project ref collection = Inr n"
proof (cases "CHR ''/'' \<in> set ref")
  case False
  with assms(1) show ?thesis
    by (auto simp: computeRefName_def resolveSameProjectName_def split: if_splits)
next
  case True
  let ?ref = "trimPrefix (trimPrefix (stripHost ref) ''/'') ''compute/v1/''"
  let ?parts = "splitOn (CHR ''/'') ?ref"
  from True assms(1) have parts: "length ?parts = 5" "?parts ! 0 = ''projects''" "?parts ! 1 = project"
      "?parts ! 2 = ''global''" "?parts ! 3 = collection" "?parts ! 4 = n"
    by (auto simp: computeRefName_def Let_def split: if_splits)
  then have eq: "?parts = [''projects'', project, ''global'', collection, n]"
    by (intro nth_equalityI) (auto simp: less_Suc_eq numeral_eq_Suc)
  then have "?ref = joinWith ''/'' [''projects'', project, ''global'', collection, n]"
    using joinWith_splitOn [of "CHR ''/''" ?ref] by simp
  then have "trimPrefix ?ref ''v1/'' = ?ref"
    using projects_no_v1 [of project "[''global'', collection, n]"] by simp
  with True eq assms(2) show ?thesis
    by (auto simp: resolveSameProjectName_def Let_def)
qed

section \<open>The contract of a reference resolver\<close>

locale ref_resolver =
  fixes resolve :: "string \<Rightarrow> string \<Rightarrow> string \<Rightarrow> string option"
  assumes bare_name:
      "ref \<noteq> [] \<Longrightarrow> CHR ''/'' \<notin> set ref \<Longrightarrow> resolve project ref collection = Some ref"
    and own_link:
      "CHR ''/'' \<notin> set host \<Longrightarrow> plainSegment project \<Longrightarrow> plainSegment collection \<Longrightarrow>
       plainSegment name \<Longrightarrow> collection \<noteq> ''global'' \<Longrightarrow>
       resolve project
         (selfLink host [''compute'', ''v1'', ''projects'', project, ''global'', collection, name])
         collection = Some name"
    and foreign_link:
      "CHR ''/'' \<notin> set host \<Longrightarrow> plainSegment other \<Longrightarrow> plainSegment collection \<Longrightarrow>
       plainSegment name \<Longrightarrow> other \<noteq> project \<Longrightarrow>
       resolve project
         (selfLink host [''compute'', ''v1'', ''projects'', other, ''global'', collection, name])
         collection = None"
begin

text \<open>A bare name and the self-link of a resource are the same reference.\<close>

lemma link_is_bare_name:
  "CHR ''/'' \<notin> set host \<Longrightarrow> plainSegment project \<Longrightarrow> plainSegment collection \<Longrightarrow>
   plainSegment name \<Longrightarrow> collection \<noteq> ''global'' \<Longrightarrow>
   resolve project
     (selfLink host [''compute'', ''v1'', ''projects'', project, ''global'', collection, name])
     collection = resolve project name collection"
  using own_link bare_name by (simp add: plainSegment_def)

text \<open>A self-link resolves in the project it was made for and in no other.\<close>

lemma link_resolves_iff:
  "CHR ''/'' \<notin> set host \<Longrightarrow> plainSegment p \<Longrightarrow> plainSegment collection \<Longrightarrow>
   plainSegment name \<Longrightarrow> collection \<noteq> ''global'' \<Longrightarrow>
   resolve project
     (selfLink host [''compute'', ''v1'', ''projects'', p, ''global'', collection, name])
     collection = (if p = project then Some name else None)"
  using own_link foreign_link by auto

end

definition resolvedName :: "go_error + string \<Rightarrow> string option" where
  "resolvedName r = (case r of Inr n \<Rightarrow> Some n | Inl _ \<Rightarrow> None)"

interpretation repo_refs: ref_resolver "\<lambda>project ref collection. resolvedName (resolveSameProjectName project ref collection)"
proof unfold_locales
  fix ref project collection :: string
  assume "ref \<noteq> []" "CHR ''/'' \<notin> set ref"
  then show "resolvedName (resolveSameProjectName project ref collection) = Some ref"
    by (simp add: resolveSameProjectName_def resolvedName_def)
qed (simp_all add: resolve_projects_path resolvedName_def)

interpretation lb_refs: ref_resolver "\<lambda>project ref collection. computeRefName ref project collection"
proof unfold_locales
  fix ref project collection :: string
  assume "ref \<noteq> []" "CHR ''/'' \<notin> set ref"
  then show "computeRefName ref project collection = Some ref"
    by (simp add: computeRefName_def)
qed (simp_all add: computeRefName_projects_path)

section \<open>Zones and regions agree\<close>

lemma region_of_zone:
  assumes "suffix \<noteq> []" "list_all isLower suffix"
  shows "regionFromZone (region @ ''-'' @ suffix) = region"
proof -
  have "CHR ''-'' \<notin> set suffix"
    using assms(2) by (auto simp: list_all_iff isLower_def less_eq_char_def)
  then have "lastIndexChar (region @ CHR ''-'' # suffix) (CHR ''-'') = Some (length region)"
    by (rule lastIndexChar_append)
  with assms show ?thesis by (simp add: regionFromZone_def)
qed

lemma regionFromZone_h_zone:
  assumes "region \<noteq> []" "suffix \<noteq> []" "CHR ''-'' \<notin> set suffix"
  shows "regionFromZone_h (region @ ''-'' @ suffix) = region"
  using lastIndexChar_append [OF assms(3), of region] assms(1,2)
  by (simp add: regionFromZone_h_def)

section \<open>Short names\<close>

text \<open>A short name: what \<^verbatim>\<open>extractNameFromSelfLink\<close> takes out of a path that ends in it.\<close>

definition shortName_ok :: "string \<Rightarrow> bool" where
  "shortName_ok n \<longleftrightarrow> n \<noteq> [] \<and> CHR ''/'' \<notin> set n \<and> \<not> isSpace (last n)"

lemma trimSuffix_other: "s \<noteq> [] \<Longrightarrow> last s \<noteq> c \<Longrightarrow> trimSuffix s [c] = s"
  by (cases s rule: rev_cases) (simp_all add: trimSuffix_def hasPrefix_def)

lemma last_split_append:
  "CHR ''/'' \<notin> set n \<Longrightarrow> last (splitOn (CHR ''/'') (p @ CHR ''/'' # n)) = n"
proof (induction "length p" arbitrary: p rule: less_induct)
  case less
  show ?case
  proof (cases "CHR ''/'' \<in> set p")
    case True
    then obtain a b where p: "p = a @ CHR ''/'' # b" "CHR ''/'' \<notin> set a" by (metis split_list_first)
    have "last (splitOn (CHR ''/'') (b @ CHR ''/'' # n)) = n"
      by (rule less(1)) (use p less(2) in simp_all)
    then show ?thesis using p by (simp add: splitOn_append)
  next
    case False
    then show ?thesis using less(2) by (simp add: splitOn_append splitOn_none)
  qed
qed

lemma extract_path:
  assumes "shortName_ok n" "p \<noteq> []" "\<not> isSpace (hd p)"
  shows "extractNameFromSelfLink (p @ CHR ''/'' # n) = n"
proof -
  have n: "n \<noteq> []" "CHR ''/'' \<notin> set n" "\<not> isSpace (last n)" using assms(1) by (auto simp: shortName_ok_def)
  then have "last (p @ CHR ''/'' # n) = last n" by simp
  then have "trimSpace (p @ CHR ''/'' # n) = p @ CHR ''/'' # n"
    unfolding trimSpace_def using assms(2,3) n by (intro trimWhile_id) simp_all
  moreover have "trimSuffix (p @ CHR ''/'' # n) ''/'' = p @ CHR ''/'' # n"
    using n by (intro trimSuffix_other) (auto dest: last_in_set)
  ultimately show ?thesis by (simp add: extractNameFromSelfLink_def last_split_append n)
qed

text \<open>The last segment of a path loses the white space at its end, and counts for nothing if blank.\<close>

lemma trimSpace_path:
  assumes "p \<noteq> []" "\<not> isSpace (hd p)"
  shows "trimSpace (p @ CHR ''/'' # n) = p @ CHR ''/'' # rev (dropWhile isSpace (rev n))"
proof -
  have "dropWhile isSpace (p @ CHR ''/'' # n) = p @ CHR ''/'' # n"
    using assms by (cases p) simp_all
  moreover have "\<not> isSpace (CHR ''/'')" by (simp add: isSpace_def)
  ultimately show ?thesis
    by (simp add: trimSpace_def trimWhile_def dropWhile_append3)
qed

lemma extract_segment:
  assumes "CHR ''/'' \<notin> set n" "shortName_ok c" "q \<noteq> []" "\<not> isSpace (hd q)"
  shows "shortName_ok (extractNameFromSelfLink ((q @ CHR ''/'' # c) @ CHR ''/'' # n))"
proof -
  let ?p = "q @ CHR ''/'' # c" and ?m = "rev (dropWhile isSpace (rev n))"
  have p: "?p \<noteq> []" "\<not> isSpace (hd ?p)" using assms(3,4) by simp_all
  show ?thesis
  proof (cases "?m = []")
    case True
    then have "trimSpace (?p @ CHR ''/'' # n) = ?p @ ''/''" using trimSpace_path [OF p, of n] by simp
    moreover have "trimSuffix (?p @ ''/'') ''/'' = ?p" by (simp add: trimSuffix_def)
    moreover have "last (splitOn (CHR ''/'') ?p) = c"
      using assms(2) by (intro last_split_append) (simp add: shortName_ok_def)
    ultimately show ?thesis using assms(2) by (simp add: extractNameFromSelfLink_def)
  next
    case False
    then have "shortName_ok ?m"
      using assms(1) hd_dropWhile [of isSpace "rev n"] set_dropWhileD [of "CHR ''/''" isSpace "rev n"]
      by (auto simp: shortName_ok_def last_rev)
    moreover have "extractNameFromSelfLink (?p @ CHR ''/'' # n) = extractNameFromSelfLink (?p @ CHR ''/'' # ?m)"
    proof -
      have "trimSpace (?p @ CHR ''/'' # ?m) = ?p @ CHR ''/'' # ?m"
        using trimSpace_path [OF p, of ?m] by simp
      then show ?thesis unfolding extractNameFromSelfLink_def trimSpace_path [OF p] by simp
    qed
    ultimately show ?thesis using extract_path [OF _ p] by simp
  qed
qed

end
