(* ===== verification/Repo_Base.thy ===== *)
theory Repo_Base
  imports Sql Refs
begin

text \<open>
  What the repository operations of \<^verbatim>\<open>src/repository/repository.go\<close> share: the values
  they take from the clock and the random sources, the mapping of driver errors
  (\<^verbatim>\<open>mapInsertError\<close>, \<^verbatim>\<open>mapDeleteError\<close>), \<^verbatim>\<open>deleteWithResult\<close>, and the invariant
  that every operation keeps: \<open>repo_inv\<close> is \<open>db_ok\<close> together with \<open>mirror_ok\<close>,
  which says that the fields of the JSON body that repeat a key column agree with it (no
  row reports one identity and is filed under another), that the body is what reading
  the stored text gives, that versions of secrets are numbered as the code numbers them, and that subscriptions are
  found under the names they report.
\<close>

section \<open>Environment\<close>

text \<open>
  What one call of a repository operation obtains from \<^verbatim>\<open>numericID()\<close>,
  \<^verbatim>\<open>numericIntID()\<close>, \<^verbatim>\<open>newID()\<close> and \<^verbatim>\<open>nowRFC3339()\<close>; each operation uses each of
  them at most once. The theorems hold for all values.
\<close>

record env =
  numericID :: string
  numericIntID :: int
  newID :: string
  nowRFC3339 :: string

text \<open>Some values, for the examples.\<close>

definition env0 :: env where
  "env0 = \<lparr>numericID = ''123'', numericIntID = 123, newID = ''0-1'', nowRFC3339 = ''2024''\<rparr>"

type_synonym 'a result = "(go_error + 'a) \<times> db"

section \<open>Errors of the driver\<close>

fun errText :: "go_error \<Rightarrow> string" where
  "errText ErrNotFound = ''not found''"
| "errText ErrAlreadyExists = ''already exists''"
| "errText ErrConflict = ''conflict''"
| "errText ErrInUse = ''resource in use by another resource''"
| "errText ErrTerminalState = ''resource is in a terminal state''"
| "errText (Errorf m) = m"

definition mapInsertError :: "go_error \<Rightarrow> go_error" where
  "mapInsertError err =
     (let s = toUpper (errText err) in
      if containsStr s ''FOREIGN KEY'' then ErrNotFound
      else if containsStr s ''UNIQUE'' \<or> containsStr s ''PRIMARY KEY'' then ErrAlreadyExists
      else err)"

definition mapDeleteError :: "go_error \<Rightarrow> go_error" where
  "mapDeleteError err =
     (let s = toUpper (errText err) in
      if containsStr s ''FOREIGN KEY'' then ErrInUse else err)"

lemma toUpper_fkError:
  "toUpper (errText fkError) = ''CONSTRAINT FAILED: FOREIGN KEY CONSTRAINT FAILED (787)''"
  by (simp add: fkError_def toUpper_def less_eq_char_def char_of_def bit_Suc_0_iff)

lemma fkError_text: "containsStr (toUpper (errText fkError)) ''FOREIGN KEY''"
  unfolding toUpper_fkError by (simp add: containsStr_def)

lemma mapInsertError_fk [simp]: "mapInsertError fkError = ErrNotFound"
  using fkError_text by (simp add: mapInsertError_def Let_def)

lemma mapDeleteError_fk [simp]: "mapDeleteError fkError = ErrInUse"
  using fkError_text by (simp add: mapDeleteError_def Let_def)

lemma tblName_no_y:
  "t \<noteq> Iam_sa_keys \<Longrightarrow> CHR ''y'' \<notin> set (tblName t) \<and> CHR ''Y'' \<notin> set (tblName t)"
  by (cases t) simp_all

lemma toUpper_uniqueError_keys:
  "toUpper (errText (uniqueError Iam_sa_keys))
     = ''CONSTRAINT FAILED: UNIQUE CONSTRAINT FAILED: IAM_SA_KEYS''"
  by (simp add: uniqueError_def toUpper_def less_eq_char_def char_of_def bit_Suc_0_iff)

lemma uniqueError_text:
  "containsStr (toUpper (errText (uniqueError t))) ''UNIQUE''"
  "\<not> containsStr (toUpper (errText (uniqueError t))) ''FOREIGN KEY''"
proof -
  have "toUpper ''constraint failed: UNIQUE constraint failed: ''
      = ''CONSTRAINT FAILED: UNIQUE CONSTRAINT FAILED: ''"
    by (simp add: toUpper_def less_eq_char_def char_of_def bit_Suc_0_iff)
  moreover have "containsStr ''CONSTRAINT FAILED: UNIQUE CONSTRAINT FAILED: '' ''UNIQUE''"
    by (simp add: containsStr_def)
  ultimately show "containsStr (toUpper (errText (uniqueError t))) ''UNIQUE''"
    by (simp add: uniqueError_def toUpper_append containsStr_appendI del: append_Cons)
  show "\<not> containsStr (toUpper (errText (uniqueError t))) ''FOREIGN KEY''"
  proof (cases "t = Iam_sa_keys")
    case True
    show ?thesis unfolding True toUpper_uniqueError_keys by (simp add: containsStr_def)
  next
    case False
    have "CHR ''Y'' \<notin> set (toUpper (errText (uniqueError t)))"
      using Y_in_toUpper [of "errText (uniqueError t)"] tblName_no_y [OF False]
      by (auto simp: uniqueError_def)
    moreover have "CHR ''Y'' \<in> set ''FOREIGN KEY''" by simp
    ultimately show ?thesis using containsStr_set by blast
  qed
qed

lemma mapInsertError_unique [simp]: "mapInsertError (uniqueError t) = ErrAlreadyExists"
  using uniqueError_text [of t] by (simp add: mapInsertError_def Let_def)

section \<open>deleteWithResult\<close>

definition deleteWithResult :: "tbl \<Rightarrow> (col \<times> string) list \<Rightarrow> db \<Rightarrow> unit result" where
  "deleteWithResult t conds s =
     (case sqlDelete t conds s of
        Inl err \<Rightarrow> (Inl (mapDeleteError err), s)
      | Inr (s', affected) \<Rightarrow>
          if affected = 0 then (Inl ErrNotFound, s') else (Inr (), s'))"

section \<open>The invariant\<close>

text \<open>The fields of a row's JSON body that the operations keep equal to a column.\<close>

fun mirrors :: "tbl \<Rightarrow> (string \<times> col) list" where
  "mirrors Compute_networks = [(''name'', C_name), (''project'', C_project)]"
| "mirrors Compute_subnetworks = [(''name'', C_name), (''project'', C_project), (''region'', C_region), (''network_name'', C_network_name)]"
| "mirrors Compute_firewalls = [(''name'', C_name), (''project'', C_project), (''network_name'', C_network_name)]"
| "mirrors Compute_disks = [(''name'', C_name), (''project'', C_project), (''zone'', C_zone)]"
| "mirrors Compute_instances = [(''name'', C_name), (''project'', C_project), (''zone'', C_zone)]"
| "mirrors Compute_addresses = [(''name'', C_name), (''project'', C_project), (''region'', C_region)]"
| "mirrors Operations = [(''name'', C_name), (''project'', C_project)]"
| "mirrors Container_clusters = [(''name'', C_name), (''project'', C_project), (''location'', C_location)]"
| "mirrors Container_node_pools = [(''name'', C_name), (''project'', C_project), (''location'', C_location), (''cluster_name'', C_cluster_name)]"
| "mirrors Sql_instances = [(''name'', C_name), (''project'', C_project)]"
| "mirrors Sql_databases = [(''name'', C_name), (''project'', C_project), (''instance_name'', C_instance_name)]"
| "mirrors Sql_users = [(''name'', C_name), (''project'', C_project), (''instance_name'', C_instance_name)]"
| "mirrors Iam_service_accounts = [(''uniqueId'', C_unique_id), (''project'', C_project), (''email'', C_email)]"
| "mirrors Iam_sa_keys = [(''name'', C_name), (''project'', C_project), (''serviceAccountEmail'', C_service_account_email)]"
| "mirrors Storage_buckets = [(''name'', C_name), (''project'', C_project), (''location'', C_location)]"
| "mirrors Iam_bindings = [(''role'', C_role), (''member'', C_member)]"
| "mirrors Compute_routers = [(''name'', C_name), (''project'', C_project), (''region'', C_region), (''network_name'', C_network_name)]"
| "mirrors Compute_router_nats = [(''name'', C_name), (''project'', C_project), (''region'', C_region), (''router_name'', C_router_name)]"
| "mirrors Dns_managed_zones = [(''name'', C_name), (''project'', C_project)]"
| "mirrors Dns_record_sets = [(''name'', C_name), (''project'', C_project), (''managed_zone'', C_managed_zone), (''type'', C_type)]"
| "mirrors Compute_global_addresses = [(''name'', C_name), (''project'', C_project)]"
| "mirrors Compute_health_checks = [(''name'', C_name), (''project'', C_project)]"
| "mirrors Compute_backend_services = [(''name'', C_name), (''project'', C_project)]"
| "mirrors Compute_ssl_certificates = [(''name'', C_name), (''project'', C_project)]"
| "mirrors Compute_target_https_proxies = [(''name'', C_name), (''project'', C_project)]"
| "mirrors Compute_url_maps = [(''name'', C_name), (''project'', C_project)]"
| "mirrors Compute_global_forwarding_rules = [(''name'', C_name), (''project'', C_project)]"
| "mirrors Secretmanager_secrets = [(''project'', C_project)]"
| "mirrors Secretmanager_versions = [(''name'', C_name), (''project'', C_project), (''secret_name'', C_secret_name)]"
| "mirrors Pubsub_topics = [(''project'', C_project)]"
| "mirrors Pubsub_subscriptions = [(''project'', C_project)]"
| "mirrors Cloudrun_services = [(''project'', C_project), (''location'', C_location)]"
| "mirrors Redis_instances = [(''project'', C_project), (''location'', C_location)]"

text \<open>
  A version of a secret is filed under a name that \<^verbatim>\<open>CreateSecretVersion\<close> composes; the
  number in it is at most the rowid, so it is below the number of the next version. A
  subscription is filed under the short name that its body reports, and unless it is detached
  its body names the topic that it is bound to. No binding has an empty role or member.
\<close>

fun filed_ok :: "tbl \<Rightarrow> row \<Rightarrow> bool" where
  "filed_ok Secretmanager_versions r \<longleftrightarrow>
     (case (colOf r C_project, colOf r C_secret_name) of
        (Some p, Some n) \<Rightarrow> list_ex (\<lambda>k. colOf r C_name = Some (secretVersionName p n k)) [1..<Suc (rowid r)]
      | _ \<Rightarrow> False)"
| "filed_ok Pubsub_subscriptions r \<longleftrightarrow>
     (case colOf r C_name of
        Some n \<Rightarrow> shortName_ok n \<and> extractNameFromSelfLink (getString (rdata r) ''name'') = n
      | None \<Rightarrow> False) \<and>
     (colOf r C_topic_name = Some deletedTopic \<or>
      map_of (rdata r) ''topic_name'' = map_option JStr (colOf r C_topic_name))"
| "filed_ok Iam_bindings r \<longleftrightarrow> colOf r C_role \<noteq> Some [] \<and> colOf r C_member \<noteq> Some []"
| "filed_ok _ r \<longleftrightarrow> True"

definition row_ok :: "tbl \<Rightarrow> row \<Rightarrow> bool" where
  "row_ok t r \<longleftrightarrow>
     (\<forall>(f, c)\<in>set (mirrors t). map_of (rdata r) f = map_option JStr (colOf r c)) \<and>
     marshalData (rdata r) = rdata r \<and> filed_ok t r"

definition mirror_ok :: "db \<Rightarrow> bool" where
  "mirror_ok s \<longleftrightarrow> (\<forall>t. \<forall>r\<in>set (s t). row_ok t r)"

definition repo_inv :: "db \<Rightarrow> bool" where
  "repo_inv s \<longleftrightarrow> db_ok s \<and> mirror_ok s"

lemma repo_inv_empty: "repo_inv emptyDb"
  by (simp add: repo_inv_def mirror_ok_def db_ok_empty) (simp add: emptyDb_def)

lemma repo_invD: "repo_inv s \<Longrightarrow> db_ok s" "repo_inv s \<Longrightarrow> r \<in> set (s t) \<Longrightarrow> row_ok t r"
  by (auto simp: repo_inv_def mirror_ok_def)

lemma repo_inv_mirror:
  "repo_inv s \<Longrightarrow> r \<in> set (s t) \<Longrightarrow> (f, c) \<in> set (mirrors t) \<Longrightarrow>
   map_of (rdata r) f = map_option JStr (colOf r c)"
  by (drule (1) repo_invD(2)) (auto simp: row_ok_def)

lemma repo_inv_canonical: "repo_inv s \<Longrightarrow> r \<in> set (s t) \<Longrightarrow> marshalData (rdata r) = rdata r"
  by (drule (1) repo_invD(2)) (simp add: row_ok_def)

lemma repo_inv_filed: "repo_inv s \<Longrightarrow> r \<in> set (s t) \<Longrightarrow> filed_ok t r"
  by (drule (1) repo_invD(2)) (simp add: row_ok_def)

lemma loadOne_canonical:
  assumes "repo_inv s" "loadOne t conds s = Inr d"
  shows "marshalData d = d"
proof -
  obtain r where "r \<in> set (s t)" "rdata r = d" by (rule loadOne_Inr_row [OF assms(2)])
  with repo_inv_canonical [OF assms(1)] show ?thesis by blast
qed

section \<open>Statements keep the invariant\<close>

definition insertMirrors :: "tbl \<Rightarrow> (col \<times> string) list \<Rightarrow> obj \<Rightarrow> bool" where
  "insertMirrors t cs d \<longleftrightarrow>
     list_all (\<lambda>(f, c). map_of d f = map_option JStr (map_of cs c)) (mirrors t)"

definition updateMirrors ::
  "tbl \<Rightarrow> (col \<times> string) list \<Rightarrow> (col \<times> string) list \<Rightarrow> obj \<Rightarrow> db \<Rightarrow> bool" where
  "updateMirrors t conds sets d s \<longleftrightarrow>
     (\<forall>r\<in>set (s t). matches conds r \<longrightarrow>
        list_all (\<lambda>(f, c). map_of d f =
          map_option JStr (case map_of (rev sets) c of Some v \<Rightarrow> Some v | None \<Rightarrow> colOf r c)) (mirrors t))"

lemma reread_map_option_JStr [simp]: "map_option reread (map_option JStr x) = map_option JStr x"
  by (cases x) auto

lemma inv_insert:
  assumes "repo_inv s" "sqlInsert t cs (marshalData d) s = Inr s'" "insertMirrors t cs d"
    and "filed_ok t (mkRow cs (marshalData d) (s t))"
  shows "repo_inv s'"
proof -
  have "row_ok t (mkRow cs (marshalData d) (s t))"
    using assms(3,4) unfolding row_ok_def insertMirrors_def list_all_iff
    by (auto simp: map_of_marshalData)
  with assms(1) have "mirror_ok s'"
    by (auto simp: mirror_ok_def sqlInsert_Inr(1) [OF assms(2)] repo_inv_def)
  with insert_ok [OF repo_invD(1) [OF assms(1)] assms(2)] show ?thesis
    by (simp add: repo_inv_def)
qed

lemma inv_update:
  assumes "repo_inv s" "sqlUpdate t conds sets (marshalData d) s = Inr s'"
    and "keyFree t sets" "updateMirrors t conds sets d s"
    and filed: "\<forall>r\<in>set (s t). matches conds r \<longrightarrow> filed_ok t (setRow sets (marshalData d) r)"
  shows "repo_inv s'"
proof -
  have new: "row_ok t (setRow sets (marshalData d) r)" if "r \<in> set (s t)" "matches conds r" for r
  proof -
    from assms(4) that have
      "\<forall>(f, c)\<in>set (mirrors t). map_of d f =
         map_option JStr (case map_of (rev sets) c of Some v \<Rightarrow> Some v | None \<Rightarrow> colOf r c)"
      unfolding updateMirrors_def list_all_iff by blast
    moreover have "(case x of Some v \<Rightarrow> Some v | None \<Rightarrow> y) = (case x of None \<Rightarrow> y | Some v \<Rightarrow> Some v)"
      for x y :: "string option" by (cases x) auto
    ultimately show ?thesis using filed that unfolding row_ok_def
      by (auto simp: map_of_marshalData colOf_setRow)
  qed
  have "row_ok t (updRow conds sets (marshalData d) r)" if "r \<in> set (s t)" for r
    using new [OF that] repo_invD(2) [OF assms(1) that] by (simp add: updRow_def)
  with assms(1) have "mirror_ok s'"
    by (auto simp: mirror_ok_def sqlUpdate_Inr(1) [OF assms(2)] repo_inv_def)
  with update_ok [OF repo_invD(1) [OF assms(1)] assms(2,3)] show ?thesis
    by (simp add: repo_inv_def)
qed

lemma inv_delete:
  assumes "repo_inv s" "sqlDelete t conds s = Inr (s', n)"
  shows "repo_inv s'"
proof -
  have "mirror_ok s'"
    using assms(1) by (auto simp: mirror_ok_def sqlDelete_Inr(1) [OF assms(2)] repo_inv_def)
  with delete_ok [OF repo_invD(1) [OF assms(1)] assms(2)] show ?thesis
    by (simp add: repo_inv_def)
qed

lemma deleteWithResult_inv [keeps_inv]: "repo_inv s \<Longrightarrow> repo_inv (snd (deleteWithResult t conds s))"
  by (auto simp: deleteWithResult_def inv_delete split: sum.splits prod.splits)

lemma keyFree_Nil [simp]: "keyFree t []"
  by (simp add: keyFree_def)

text \<open>Fields set to the values that the conditions fix.\<close>

definition condMirrors ::
  "tbl \<Rightarrow> (col \<times> string) list \<Rightarrow> (col \<times> string) list \<Rightarrow> obj \<Rightarrow> bool" where
  "condMirrors t conds sets d \<longleftrightarrow>
     list_all (\<lambda>(f, c).
        case map_of (rev sets) c of
          Some v \<Rightarrow> map_of d f = Some (JStr v)
        | None \<Rightarrow> list_ex (\<lambda>(c', v). c' = c \<and> map_of d f = Some (JStr v)) conds) (mirrors t)"

lemma condMirrors_update:
  assumes "condMirrors t conds sets d"
  shows "updateMirrors t conds sets d s"
proof -
  have "map_of d f = map_option JStr (case map_of (rev sets) c of Some v \<Rightarrow> Some v | None \<Rightarrow> colOf r c)"
    if "matches conds r" "(f, c) \<in> set (mirrors t)" for r f c
  proof -
    from assms that(2) have
      "case map_of (rev sets) c of
         Some v \<Rightarrow> map_of d f = Some (JStr v)
       | None \<Rightarrow> list_ex (\<lambda>(c', v). c' = c \<and> map_of d f = Some (JStr v)) conds"
      unfolding condMirrors_def list_all_iff by blast
    then show ?thesis
      using that(1) by (auto simp: list_ex_iff matchesD split: option.splits)
  qed
  then show ?thesis by (auto simp: updateMirrors_def list_all_iff)
qed

text \<open>The forms in which the proofs of the operations use the two lemmas.\<close>

lemma inv_insertD:
  "sqlInsert t cs (marshalData d) s = Inr s' \<Longrightarrow> repo_inv s \<Longrightarrow>
   insertMirrors t cs d \<and> filed_ok t (mkRow cs (marshalData d) (s t)) \<longrightarrow> repo_inv s'"
  by (blast intro: inv_insert)

lemma inv_updateD:
  "sqlUpdate t conds sets (marshalData d) s = Inr s' \<Longrightarrow> repo_inv s \<Longrightarrow>
   keyFree t sets \<and> condMirrors t conds sets d \<and>
   (\<forall>r\<in>set (s t). matches conds r \<longrightarrow> filed_ok t (setRow sets (marshalData d) r)) \<longrightarrow> repo_inv s'"
  by (blast intro: inv_update condMirrors_update)

section \<open>Effect of deleteWithResult\<close>

lemma deleteWithResult_error:
  "fst (deleteWithResult t conds s) = Inl err \<Longrightarrow> err = ErrInUse \<or> err = ErrNotFound"
  by (auto simp: deleteWithResult_def sqlDelete_def Let_def split: if_splits)

lemma filter_none_id: "filter P xs = [] \<Longrightarrow> filter (\<lambda>x. \<not> P x) xs = xs"
  by (simp add: filter_empty_conv)

lemma deleteWithResult_unchanged:
  assumes "fst (deleteWithResult t conds s) = Inl err"
  shows "snd (deleteWithResult t conds s) = s"
proof (cases "sqlDelete t conds s")
  case (Inl e)
  then show ?thesis by (simp add: deleteWithResult_def)
next
  case (Inr p)
  obtain s' n where p: "p = (s', n)" by (cases p)
  from assms Inr p have n: "n = 0" by (auto simp: deleteWithResult_def split: if_splits)
  note d = sqlDelete_Inr [OF Inr [unfolded p]]
  from d(2) n have "filter (matches conds) (s t) = []" by simp
  then have "s' c = s c" for c
    using d(1) by (auto simp: filter_empty_conv cascadesFrom_def list_ex_iff filter_id_conv)
  then have "s' = s" by blast
  with Inr p n show ?thesis by (simp add: deleteWithResult_def)
qed

section \<open>Listings\<close>

text \<open>A listing has exactly what the lookups in its scope find, in strictly increasing order of name.\<close>

lemma listing:
  assumes inv: "repo_inv s" and key: "keyed_table t (map fst conds @ [C_name])"
    and mir: "(''name'', C_name) \<in> set (mirrors t)" and nn: "C_name \<in> set (notNull (migrate t))"
  shows "set (loadMany t conds [C_name] s) = {d. \<exists>n. loadOne t (conds @ [(C_name, n)]) s = Inr d}"
    and "sorted_wrt (\<lambda>d d'. getString d ''name'' < getString d' ''name'') (loadMany t conds [C_name] s)"
proof -
  note ok = repo_invD(1) [OF inv]
  have name: "\<exists>n. colOf r C_name = Some n" if "r \<in> set (s t)" for r
    using db_okD(3) [OF ok, of t] that nn by (auto simp: nulls_ok_def)
  have m: "matches (conds @ [(C_name, n)]) r \<longleftrightarrow> matches conds r \<and> colOf r C_name = Some n" for r n
    by (simp add: matches_def)
  have one: "loadOne t (conds @ [(C_name, n)]) s = Inr (rdata r)"
    if "r \<in> set (s t)" "matches conds r" "colOf r C_name = Some n" for r n
    by (rule keyed_table.load_row [OF key ok _ that(1)]) (use that in \<open>simp_all add: m\<close>)
  show "set (loadMany t conds [C_name] s) = {d. \<exists>n. loadOne t (conds @ [(C_name, n)]) s = Inr d}"
  proof (intro set_eqI iffI)
    fix d
    assume "d \<in> set (loadMany t conds [C_name] s)"
    then obtain r where "r \<in> set (s t)" "matches conds r" "d = rdata r" by (auto simp: set_loadMany)
    then show "d \<in> {d. \<exists>n. loadOne t (conds @ [(C_name, n)]) s = Inr d}"
      using name one by blast
  next
    fix d
    assume "d \<in> {d. \<exists>n. loadOne t (conds @ [(C_name, n)]) s = Inr d}"
    then obtain n where "loadOne t (conds @ [(C_name, n)]) s = Inr d" by blast
    then obtain r where "r \<in> set (s t)" "matches (conds @ [(C_name, n)]) r" "rdata r = d"
      by (rule loadOne_Inr_row)
    then show "d \<in> set (loadMany t conds [C_name] s)" by (auto simp: set_loadMany m)
  qed
  let ?rows = "sqlSelect t conds [C_name] s"
  have rows: "r \<in> set (s t) \<and> matches conds r" if "r \<in> set ?rows" for r
    using that by (simp add: sqlSelect_def)
  have val: "colOf r C_name = Some (getString (rdata r) ''name'')" if "r \<in> set ?rows" for r
    using name [of r] rows [OF that] repo_inv_mirror [OF inv _ mir, of r] by (auto simp: getString_def)
  have ord: "orderKey [C_name] r = [getString (rdata r) ''name'']" if "r \<in> set ?rows" for r
    using val [OF that] by (simp add: orderKey_def)
  have "distinct ?rows"
    using rowids_distinct [OF db_okD(2) [OF ok, of t]]
    by (simp add: sqlSelect_def distinct_filter)
  moreover have "r = r'"
    if "r \<in> set ?rows" "r' \<in> set ?rows" "getString (rdata r) ''name'' = getString (rdata r') ''name''" for r r'
    by (rule keyed_table.matches_unique [OF key ok, of "conds @ [(C_name, getString (rdata r) ''name'')]"])
      (use rows [OF that(1)] rows [OF that(2)] val [OF that(1)] val [OF that(2)] that(3) in \<open>simp_all add: m\<close>)
  ultimately have "distinct (map (\<lambda>r. getString (rdata r) ''name'') ?rows)"
    by (auto simp: distinct_map inj_on_def)
  moreover have "sorted (map (\<lambda>r. getString (rdata r) ''name'') ?rows)"
  proof -
    have "map (orderKey [C_name]) ?rows = map (\<lambda>r. [getString (rdata r) ''name'']) ?rows"
      using ord by (rule map_cong [OF refl])
    with sqlSelect_sorted [of "[C_name]" t conds s]
    have "sorted (map (\<lambda>r. [getString (rdata r) ''name'']) ?rows)" by simp
    then show ?thesis by (simp add: sorted_wrt_map le_less)
  qed
  ultimately have "sorted_wrt (<) (map (\<lambda>r. getString (rdata r) ''name'') ?rows)"
    by (simp add: strict_sorted_iff)
  then show "sorted_wrt (\<lambda>d d'. getString d ''name'' < getString d' ''name'') (loadMany t conds [C_name] s)"
    by (simp add: loadMany_def sorted_wrt_map)
qed

section \<open>The row a foreign key refers to\<close>

lemma mirrored_col:
  assumes inv: "repo_inv s" and row: "r \<in> set (s t)" and mir: "(f, c) \<in> set (mirrors t)"
    and nn: "c \<in> set (notNull (migrate t))"
  shows "colOf r c = Some (getString (rdata r) f)"
proof -
  obtain v where "colOf r c = Some v"
    using db_okD(3) [OF repo_invD(1) [OF inv], of t] row nn by (auto simp: nulls_ok_def)
  with repo_inv_mirror [OF inv row mir] show ?thesis by (simp add: getString_def)
qed

lemma zip_matches:
  "keyVals cs r = Some vs \<Longrightarrow> matches (zip cs vs) r"
proof (induction cs arbitrary: vs)
  case (Cons c cs)
  then show ?case by (auto simp: keyVals_def matches_def split: option.splits)
qed (simp add: matches_def)

lemma parent_found:
  assumes inv: "repo_inv s" and row: "r \<in> set (s t)" and fk: "f \<in> set (foreignKeys (migrate t))"
    and vals: "keyVals (fkCols f) r = Some vs"
  shows "\<exists>d. loadOne (fkParent f) (zip (fkParentCols f) vs) s = Inr d"
proof -
  have "fkHolds s f r"
    using db_okD(4) [OF repo_invD(1) [OF inv]] row fk by (auto simp: fks_ok_def fksHold_def list_all_iff)
  with vals obtain q where "q \<in> set (s (fkParent f))" "keyVals (fkParentCols f) q = Some vs"
    by (auto simp: fkHolds_def list_ex_iff refersTo_def)
  then have "\<exists>q\<in>set (s (fkParent f)). matches (zip (fkParentCols f) vs) q" by (blast intro: zip_matches)
  then show ?thesis
    by (cases "loadOne (fkParent f) (zip (fkParentCols f) vs) s") (auto simp: loadOne_NotFound)
qed

lemma keyVals_zip:
  "length cs = length vs \<Longrightarrow> \<forall>(c, v)\<in>set (zip cs vs). colOf r c = Some v \<Longrightarrow> keyVals cs r = Some vs"
  by (induction cs vs rule: list_induct2) (auto simp: keyVals_def)

text \<open>A row read by its key has the parent that its columns, or its body, name.\<close>

lemma child_parent:
  assumes inv: "repo_inv s" and found: "loadOne t conds s = Inr d"
    and fk: "f \<in> set (foreignKeys (migrate t))" and len: "length (fkCols f) = length vs"
    and cols: "\<forall>(c, v)\<in>set (zip (fkCols f) vs). (c, v) \<in> set conds \<or>
         (\<exists>k. (k, c) \<in> set (mirrors t) \<and> c \<in> set (notNull (migrate t)) \<and> v = getString d k)"
  shows "\<exists>pd. loadOne (fkParent f) (zip (fkParentCols f) vs) s = Inr pd"
proof -
  obtain r where r: "r \<in> set (s t)" "matches conds r" "rdata r = d" by (rule loadOne_Inr_row [OF found])
  have "colOf r c = Some v" if "(c, v) \<in> set (zip (fkCols f) vs)" for c v
    using cols that r(3) matchesD [OF r(2), of c v] mirrored_col [OF inv r(1), of _ c] by fastforce
  then have "keyVals (fkCols f) r = Some vs" by (auto intro!: keyVals_zip [OF len])
  then show ?thesis by (rule parent_found [OF inv r(1) fk])
qed

section \<open>Evaluation of examples\<close>

lemmas sql_eval =
  Let_def sqlInsert_def mkRow_def nextRowid_def keyClash_def keysOf_def sameKey_def keyVals_def
  colOf_def fksHold_def fkHolds_def refersTo_def emptyDb_def marshalData_def jset_def
  setDefault_def setMissing_def hasField_def getString_def loadOne_def matches_def env0_def

section \<open>The tables as keyed tables\<close>

interpretation compute_networks_tbl: keyed_table Compute_networks "[C_project, C_name]"
  by unfold_locales (simp add: keysOf_def)

interpretation compute_subnetworks_tbl: keyed_table Compute_subnetworks "[C_project, C_region, C_name]"
  by unfold_locales (simp add: keysOf_def)

interpretation compute_firewalls_tbl: keyed_table Compute_firewalls "[C_project, C_name]"
  by unfold_locales (simp add: keysOf_def)

interpretation compute_disks_tbl: keyed_table Compute_disks "[C_project, C_zone, C_name]"
  by unfold_locales (simp add: keysOf_def)

interpretation compute_instances_tbl: keyed_table Compute_instances "[C_project, C_zone, C_name]"
  by unfold_locales (simp add: keysOf_def)

interpretation compute_addresses_tbl: keyed_table Compute_addresses "[C_project, C_region, C_name]"
  by unfold_locales (simp add: keysOf_def)

interpretation operations_tbl: keyed_table Operations "[C_project, C_name]"
  by unfold_locales (simp add: keysOf_def)

interpretation container_clusters_tbl: keyed_table Container_clusters "[C_project, C_location, C_name]"
  by unfold_locales (simp add: keysOf_def)

interpretation container_node_pools_tbl: keyed_table Container_node_pools "[C_project, C_location, C_cluster_name, C_name]"
  by unfold_locales (simp add: keysOf_def)

interpretation sql_instances_tbl: keyed_table Sql_instances "[C_project, C_name]"
  by unfold_locales (simp add: keysOf_def)

interpretation sql_databases_tbl: keyed_table Sql_databases "[C_project, C_instance_name, C_name]"
  by unfold_locales (simp add: keysOf_def)

interpretation sql_users_tbl: keyed_table Sql_users "[C_project, C_instance_name, C_name]"
  by unfold_locales (simp add: keysOf_def)

interpretation iam_service_accounts_tbl: keyed_table Iam_service_accounts "[C_project, C_email]"
  by unfold_locales (simp add: keysOf_def)

interpretation iam_sa_keys_tbl: keyed_table Iam_sa_keys "[C_name]"
  by unfold_locales (simp add: keysOf_def)

interpretation storage_buckets_tbl: keyed_table Storage_buckets "[C_name]"
  by unfold_locales (simp add: keysOf_def)

interpretation iam_bindings_tbl: keyed_table Iam_bindings "[C_project, C_role, C_member]"
  by unfold_locales (simp add: keysOf_def)

interpretation compute_routers_tbl: keyed_table Compute_routers "[C_project, C_region, C_name]"
  by unfold_locales (simp add: keysOf_def)

interpretation compute_router_nats_tbl: keyed_table Compute_router_nats "[C_project, C_region, C_router_name, C_name]"
  by unfold_locales (simp add: keysOf_def)

interpretation dns_managed_zones_tbl: keyed_table Dns_managed_zones "[C_project, C_name]"
  by unfold_locales (simp add: keysOf_def)

interpretation dns_record_sets_tbl: keyed_table Dns_record_sets "[C_project, C_managed_zone, C_name, C_type]"
  by unfold_locales (simp add: keysOf_def)

interpretation compute_global_addresses_tbl: keyed_table Compute_global_addresses "[C_project, C_name]"
  by unfold_locales (simp add: keysOf_def)

interpretation compute_health_checks_tbl: keyed_table Compute_health_checks "[C_project, C_name]"
  by unfold_locales (simp add: keysOf_def)

interpretation compute_backend_services_tbl: keyed_table Compute_backend_services "[C_project, C_name]"
  by unfold_locales (simp add: keysOf_def)

interpretation compute_ssl_certificates_tbl: keyed_table Compute_ssl_certificates "[C_project, C_name]"
  by unfold_locales (simp add: keysOf_def)

interpretation compute_target_https_proxies_tbl: keyed_table Compute_target_https_proxies "[C_project, C_name]"
  by unfold_locales (simp add: keysOf_def)

interpretation compute_url_maps_tbl: keyed_table Compute_url_maps "[C_project, C_name]"
  by unfold_locales (simp add: keysOf_def)

interpretation compute_global_forwarding_rules_tbl: keyed_table Compute_global_forwarding_rules "[C_project, C_name]"
  by unfold_locales (simp add: keysOf_def)

interpretation secretmanager_secrets_tbl: keyed_table Secretmanager_secrets "[C_project, C_name]"
  by unfold_locales (simp add: keysOf_def)

interpretation secretmanager_versions_tbl: keyed_table Secretmanager_versions "[C_name]"
  by unfold_locales (simp add: keysOf_def)

interpretation pubsub_topics_tbl: keyed_table Pubsub_topics "[C_project, C_name]"
  by unfold_locales (simp add: keysOf_def)

interpretation pubsub_subscriptions_tbl: keyed_table Pubsub_subscriptions "[C_project, C_name]"
  by unfold_locales (simp add: keysOf_def)

interpretation cloudrun_services_tbl: keyed_table Cloudrun_services "[C_project, C_location, C_name]"
  by unfold_locales (simp add: keysOf_def)

interpretation redis_instances_tbl: keyed_table Redis_instances "[C_project, C_location, C_name]"
  by unfold_locales (simp add: keysOf_def)

end
