(* ===== verification/Repo_Network.thy ===== *)
theory Repo_Network
  imports Repo_Base Refs
begin

text \<open>
  Networks, subnetworks, firewalls, routers and router NATs of
  \<^verbatim>\<open>repository/repository.go\<close>. A subnetwork, firewall or router is bound to its
  network by the column \<^verbatim>\<open>network_name\<close>, a foreign key without cascade; a NAT to its
  router by a foreign key with cascade. Each operation keeps \<open>repo_inv\<close>.
\<close>

section \<open>Networks\<close>

definition GetNetwork :: "db \<Rightarrow> string \<Rightarrow> string \<Rightarrow> go_error + obj" where
  "GetNetwork s project name =
     loadOne Compute_networks [(C_project, project), (C_name, name)] s"

definition ListNetworks :: "db \<Rightarrow> string \<Rightarrow> obj list" where
  "ListNetworks s project = loadMany Compute_networks [(C_project, project)] [C_name] s"

definition CreateNetwork :: "env \<Rightarrow> string \<Rightarrow> obj \<Rightarrow> db \<Rightarrow> obj result" where
  "CreateNetwork e project data s =
     (let name = getString data ''name'' in
      if name = [] then (Inl (Errorf ''name is required''), s)
      else
        let data = jset ''name'' (JStr name) data;
          data = jset ''project'' (JStr project) data;
          data = setDefault ''id'' (numericID e) data;
          data = setDefault ''creationTimestamp'' (nowRFC3339 e) data
          in case sqlInsert Compute_networks [(C_name, name), (C_project, project)]
                    (marshalData data) s of
               Inl err \<Rightarrow> (Inl (mapInsertError err), s)
             | Inr s' \<Rightarrow> (GetNetwork s' project name, s'))"

lemma CreateNetwork_inv [keeps_inv]: "repo_inv s \<Longrightarrow> repo_inv (snd (CreateNetwork e project data s))"
  unfolding CreateNetwork_def Let_def by (auto dest!: inv_insertD simp: insertMirrors_def split: sum.split option.split)

definition UpdateNetwork :: "string \<Rightarrow> string \<Rightarrow> obj \<Rightarrow> db \<Rightarrow> obj result" where
  "UpdateNetwork project name patch s =
     (case GetNetwork s project name of
        Inl err \<Rightarrow> (Inl err, s)
      | Inr current \<Rightarrow>
          let merged = patchMerge current patch [''name'', ''project''];
          merged = jset ''name'' (JStr name) merged;
          merged = jset ''project'' (JStr project) merged
          in case sqlUpdate Compute_networks [(C_project, project), (C_name, name)] []
                    (marshalData merged) s of
               Inl err \<Rightarrow> (Inl err, s)
             | Inr s' \<Rightarrow> (Inr merged, s'))"

lemma UpdateNetwork_inv [keeps_inv]: "repo_inv s \<Longrightarrow> repo_inv (snd (UpdateNetwork project name patch s))"
  unfolding UpdateNetwork_def Let_def
  by (auto dest!: inv_updateD simp: condMirrors_def split: sum.split option.split)

definition DeleteNetwork :: "string \<Rightarrow> string \<Rightarrow> db \<Rightarrow> unit result" where
  "DeleteNetwork project name s =
     deleteWithResult Compute_networks [(C_project, project), (C_name, name)] s"

lemma DeleteNetwork_inv [keeps_inv]: "repo_inv s \<Longrightarrow> repo_inv (snd (DeleteNetwork project name s))"
  by (simp add: DeleteNetwork_def deleteWithResult_inv)

section \<open>Network references\<close>

definition resolveExistingNetwork :: "db \<Rightarrow> string \<Rightarrow> string \<Rightarrow> go_error + string" where
  "resolveExistingNetwork s project ref =
     (case resolveSameProjectName project ref ''networks'' of
        Inl err \<Rightarrow> Inl err
      | Inr netName \<Rightarrow>
          if netName = [] then Inr []
          else case GetNetwork s project netName of
                 Inl err \<Rightarrow> Inl err
               | Inr _ \<Rightarrow> Inr netName)"

text \<open>
  The lines that the creates and updates of subnetworks, firewalls and routers share:
  \<^verbatim>\<open>network_name\<close> if the body has one, else the resolved \<^verbatim>\<open>network\<close> reference.
\<close>

definition networkNameOf :: "db \<Rightarrow> string \<Rightarrow> obj \<Rightarrow> go_error + string" where
  "networkNameOf s project data =
     (let networkName = getString data ''network_name'' in
      if networkName = [] then resolveExistingNetwork s project (getString data ''network'')
      else Inr networkName)"

text \<open>The lines of the updates that follow a patched \<^verbatim>\<open>network\<close> field.\<close>

definition repatchNetwork :: "db \<Rightarrow> string \<Rightarrow> obj \<Rightarrow> obj \<Rightarrow> go_error + obj" where
  "repatchNetwork s project patch merged =
     (if hasField patch ''network'' then
        case resolveExistingNetwork s project (getString merged ''network'') of
          Inl err \<Rightarrow> Inl err
        | Inr networkName \<Rightarrow>
            if networkName = [] then Inl (Errorf ''network reference is required'')
            else Inr (jset ''network_name'' (JStr networkName) merged)
      else Inr merged)"

lemma repatchNetwork_fields:
  "repatchNetwork s project patch merged = Inr merged' \<Longrightarrow>
   \<forall>f. f \<noteq> ''network_name'' \<longrightarrow> map_of merged' f = map_of merged f"
  by (auto simp: repatchNetwork_def split: if_splits sum.splits)

lemma resolveExistingNetwork_exists:
  "resolveExistingNetwork s project ref = Inr n \<Longrightarrow> n \<noteq> [] \<Longrightarrow> \<exists>d. GetNetwork s project n = Inr d"
  by (auto simp: resolveExistingNetwork_def split: sum.splits if_splits)

section \<open>Subnetworks\<close>

definition GetSubnetwork :: "db \<Rightarrow> string \<Rightarrow> string \<Rightarrow> string \<Rightarrow> go_error + obj" where
  "GetSubnetwork s project region name =
     loadOne Compute_subnetworks [(C_project, project), (C_region, region), (C_name, name)] s"

definition ListSubnetworks :: "db \<Rightarrow> string \<Rightarrow> string \<Rightarrow> obj list" where
  "ListSubnetworks s project region = loadMany Compute_subnetworks [(C_project, project), (C_region, region)] [C_name] s"

definition CreateSubnetwork :: "env \<Rightarrow> string \<Rightarrow> string \<Rightarrow> obj \<Rightarrow> db \<Rightarrow> obj result" where
  "CreateSubnetwork e project region data s =
     (let name = getString data ''name'' in
      if name = [] then (Inl (Errorf ''name is required''), s)
      else
        case networkNameOf s project data of
          Inl err \<Rightarrow> (Inl err, s)
        | Inr networkName \<Rightarrow>
          if networkName = [] then (Inl (Errorf ''network reference is required''), s)
          else
          let data = jset ''name'' (JStr name) data;
          data = jset ''project'' (JStr project) data;
          data = jset ''region'' (JStr region) data;
          data = jset ''network_name'' (JStr networkName) data;
          data = setDefault ''id'' (numericID e) data;
          data = setDefault ''creationTimestamp'' (nowRFC3339 e) data
          in case sqlInsert Compute_subnetworks
                    [(C_name, name), (C_project, project), (C_region, region), (C_network_name, networkName)]
                    (marshalData data) s of
               Inl err \<Rightarrow> (Inl (mapInsertError err), s)
             | Inr s' \<Rightarrow> (GetSubnetwork s' project region name, s'))"

lemma CreateSubnetwork_inv [keeps_inv]: "repo_inv s \<Longrightarrow> repo_inv (snd (CreateSubnetwork e project region data s))"
  unfolding CreateSubnetwork_def Let_def by (auto dest!: inv_insertD simp: insertMirrors_def split: sum.split)

definition UpdateSubnetwork :: "string \<Rightarrow> string \<Rightarrow> string \<Rightarrow> obj \<Rightarrow> db \<Rightarrow> obj result" where
  "UpdateSubnetwork project region name patch s =
     (case GetSubnetwork s project region name of
        Inl err \<Rightarrow> (Inl err, s)
      | Inr current \<Rightarrow>
          let merged = patchMerge current patch [''name'', ''project'', ''region'', ''network_name''];
          merged = jset ''name'' (JStr name) merged;
          merged = jset ''project'' (JStr project) merged;
          merged = jset ''region'' (JStr region) merged
          in case repatchNetwork s project patch merged of
               Inl err \<Rightarrow> (Inl err, s)
             | Inr merged \<Rightarrow>
               case networkNameOf s project merged of
                 Inl err \<Rightarrow> (Inl err, s)
               | Inr networkName \<Rightarrow>
                 if networkName = [] then (Inl (Errorf ''network reference is required''), s)
                 else
                 let merged = jset ''network_name'' (JStr networkName) merged
                 in case sqlUpdate Compute_subnetworks [(C_project, project), (C_region, region), (C_name, name)]
                           [(C_network_name, networkName)] (marshalData merged) s of
                      Inl err \<Rightarrow> (Inl (mapInsertError err), s)
                    | Inr s' \<Rightarrow> (Inr merged, s'))"

lemma UpdateSubnetwork_inv [keeps_inv]: "repo_inv s \<Longrightarrow> repo_inv (snd (UpdateSubnetwork project region name patch s))"
  unfolding UpdateSubnetwork_def Let_def
  by (auto dest!: inv_updateD repatchNetwork_fields
        simp: condMirrors_def keyFree_def keysOf_def split: sum.split)

definition DeleteSubnetwork :: "string \<Rightarrow> string \<Rightarrow> string \<Rightarrow> db \<Rightarrow> unit result" where
  "DeleteSubnetwork project region name s =
     deleteWithResult Compute_subnetworks [(C_project, project), (C_region, region), (C_name, name)] s"

lemma DeleteSubnetwork_inv [keeps_inv]: "repo_inv s \<Longrightarrow> repo_inv (snd (DeleteSubnetwork project region name s))"
  by (simp add: DeleteSubnetwork_def deleteWithResult_inv)

section \<open>Firewalls\<close>

definition GetFirewall :: "db \<Rightarrow> string \<Rightarrow> string \<Rightarrow> go_error + obj" where
  "GetFirewall s project name =
     loadOne Compute_firewalls [(C_project, project), (C_name, name)] s"

definition ListFirewalls :: "db \<Rightarrow> string \<Rightarrow> obj list" where
  "ListFirewalls s project = loadMany Compute_firewalls [(C_project, project)] [C_name] s"

definition CreateFirewall :: "env \<Rightarrow> string \<Rightarrow> obj \<Rightarrow> db \<Rightarrow> obj result" where
  "CreateFirewall e project data s =
     (let name = getString data ''name'' in
      if name = [] then (Inl (Errorf ''name is required''), s)
      else
        case networkNameOf s project data of
          Inl err \<Rightarrow> (Inl err, s)
        | Inr networkName \<Rightarrow>
          if networkName = [] then (Inl (Errorf ''network reference is required''), s)
          else
          let data = jset ''name'' (JStr name) data;
          data = jset ''project'' (JStr project) data;
          data = jset ''network_name'' (JStr networkName) data;
          data = setDefault ''id'' (numericID e) data;
          data = setDefault ''creationTimestamp'' (nowRFC3339 e) data
          in case sqlInsert Compute_firewalls
                    [(C_name, name), (C_project, project), (C_network_name, networkName)]
                    (marshalData data) s of
               Inl err \<Rightarrow> (Inl (mapInsertError err), s)
             | Inr s' \<Rightarrow> (GetFirewall s' project name, s'))"

lemma CreateFirewall_inv [keeps_inv]: "repo_inv s \<Longrightarrow> repo_inv (snd (CreateFirewall e project data s))"
  unfolding CreateFirewall_def Let_def by (auto dest!: inv_insertD simp: insertMirrors_def split: sum.split)

definition UpdateFirewall :: "string \<Rightarrow> string \<Rightarrow> obj \<Rightarrow> db \<Rightarrow> obj result" where
  "UpdateFirewall project name patch s =
     (case GetFirewall s project name of
        Inl err \<Rightarrow> (Inl err, s)
      | Inr current \<Rightarrow>
          let merged = patchMerge current patch [''name'', ''project'', ''network_name''];
          merged = jset ''name'' (JStr name) merged;
          merged = jset ''project'' (JStr project) merged
          in case repatchNetwork s project patch merged of
               Inl err \<Rightarrow> (Inl err, s)
             | Inr merged \<Rightarrow>
               case networkNameOf s project merged of
                 Inl err \<Rightarrow> (Inl err, s)
               | Inr networkName \<Rightarrow>
                 if networkName = [] then (Inl (Errorf ''network reference is required''), s)
                 else
                 let merged = jset ''network_name'' (JStr networkName) merged
                 in case sqlUpdate Compute_firewalls [(C_project, project), (C_name, name)]
                           [(C_network_name, networkName)] (marshalData merged) s of
                      Inl err \<Rightarrow> (Inl (mapInsertError err), s)
                    | Inr s' \<Rightarrow> (Inr merged, s'))"

lemma UpdateFirewall_inv [keeps_inv]: "repo_inv s \<Longrightarrow> repo_inv (snd (UpdateFirewall project name patch s))"
  unfolding UpdateFirewall_def Let_def
  by (auto dest!: inv_updateD repatchNetwork_fields
        simp: condMirrors_def keyFree_def keysOf_def split: sum.split)

definition DeleteFirewall :: "string \<Rightarrow> string \<Rightarrow> db \<Rightarrow> unit result" where
  "DeleteFirewall project name s =
     deleteWithResult Compute_firewalls [(C_project, project), (C_name, name)] s"

lemma DeleteFirewall_inv [keeps_inv]: "repo_inv s \<Longrightarrow> repo_inv (snd (DeleteFirewall project name s))"
  by (simp add: DeleteFirewall_def deleteWithResult_inv)

section \<open>Routers\<close>

definition GetRouter :: "db \<Rightarrow> string \<Rightarrow> string \<Rightarrow> string \<Rightarrow> go_error + obj" where
  "GetRouter s project region name =
     loadOne Compute_routers [(C_project, project), (C_region, region), (C_name, name)] s"

definition ListRouters :: "db \<Rightarrow> string \<Rightarrow> string \<Rightarrow> obj list" where
  "ListRouters s project region = loadMany Compute_routers [(C_project, project), (C_region, region)] [C_name] s"

definition CreateRouter :: "env \<Rightarrow> string \<Rightarrow> string \<Rightarrow> obj \<Rightarrow> db \<Rightarrow> obj result" where
  "CreateRouter e project region data s =
     (let name = getString data ''name'' in
      if name = [] then (Inl (Errorf ''name is required''), s)
      else
        case networkNameOf s project data of
          Inl err \<Rightarrow> (Inl err, s)
        | Inr networkName \<Rightarrow>
          if networkName = [] then (Inl (Errorf ''network reference is required''), s)
          else
          let data = jset ''name'' (JStr name) data;
          data = jset ''project'' (JStr project) data;
          data = jset ''region'' (JStr region) data;
          data = jset ''network_name'' (JStr networkName) data;
          data = setDefault ''id'' (numericID e) data;
          data = setDefault ''creationTimestamp'' (nowRFC3339 e) data
          in case sqlInsert Compute_routers
                    [(C_name, name), (C_project, project), (C_region, region), (C_network_name, networkName)]
                    (marshalData data) s of
               Inl err \<Rightarrow> (Inl (mapInsertError err), s)
             | Inr s' \<Rightarrow> (GetRouter s' project region name, s'))"

lemma CreateRouter_inv [keeps_inv]: "repo_inv s \<Longrightarrow> repo_inv (snd (CreateRouter e project region data s))"
  unfolding CreateRouter_def Let_def by (auto dest!: inv_insertD simp: insertMirrors_def split: sum.split)

definition UpdateRouter :: "string \<Rightarrow> string \<Rightarrow> string \<Rightarrow> obj \<Rightarrow> db \<Rightarrow> obj result" where
  "UpdateRouter project region name patch s =
     (case GetRouter s project region name of
        Inl err \<Rightarrow> (Inl err, s)
      | Inr current \<Rightarrow>
          let merged = patchMerge current patch [''name'', ''project'', ''region'', ''network_name''];
          merged = jset ''name'' (JStr name) merged;
          merged = jset ''project'' (JStr project) merged;
          merged = jset ''region'' (JStr region) merged
          in case repatchNetwork s project patch merged of
               Inl err \<Rightarrow> (Inl err, s)
             | Inr merged \<Rightarrow>
               case networkNameOf s project merged of
                 Inl err \<Rightarrow> (Inl err, s)
               | Inr networkName \<Rightarrow>
                 if networkName = [] then (Inl (Errorf ''network reference is required''), s)
                 else
                 let merged = jset ''network_name'' (JStr networkName) merged
                 in case sqlUpdate Compute_routers [(C_project, project), (C_region, region), (C_name, name)]
                           [(C_network_name, networkName)] (marshalData merged) s of
                      Inl err \<Rightarrow> (Inl (mapInsertError err), s)
                    | Inr s' \<Rightarrow> (Inr merged, s'))"

lemma UpdateRouter_inv [keeps_inv]: "repo_inv s \<Longrightarrow> repo_inv (snd (UpdateRouter project region name patch s))"
  unfolding UpdateRouter_def Let_def
  by (auto dest!: inv_updateD repatchNetwork_fields
        simp: condMirrors_def keyFree_def keysOf_def split: sum.split)

definition DeleteRouter :: "string \<Rightarrow> string \<Rightarrow> string \<Rightarrow> db \<Rightarrow> unit result" where
  "DeleteRouter project region name s =
     deleteWithResult Compute_routers [(C_project, project), (C_region, region), (C_name, name)] s"

lemma DeleteRouter_inv [keeps_inv]: "repo_inv s \<Longrightarrow> repo_inv (snd (DeleteRouter project region name s))"
  by (simp add: DeleteRouter_def deleteWithResult_inv)

section \<open>Router NATs\<close>

definition GetRouterNAT :: "db \<Rightarrow> string \<Rightarrow> string \<Rightarrow> string \<Rightarrow> string \<Rightarrow> go_error + obj" where
  "GetRouterNAT s project region routerName name =
     loadOne Compute_router_nats [(C_project, project), (C_region, region), (C_router_name, routerName), (C_name, name)] s"

definition ListRouterNATs :: "db \<Rightarrow> string \<Rightarrow> string \<Rightarrow> string \<Rightarrow> obj list" where
  "ListRouterNATs s project region routerName = loadMany Compute_router_nats [(C_project, project), (C_region, region), (C_router_name, routerName)] [C_name] s"

definition CreateRouterNAT :: "env \<Rightarrow> string \<Rightarrow> string \<Rightarrow> string \<Rightarrow> obj \<Rightarrow> db \<Rightarrow> obj result" where
  "CreateRouterNAT e project region routerName data s =
     (let name = getString data ''name'' in
      if name = [] then (Inl (Errorf ''name is required''), s)
      else
        let data = jset ''name'' (JStr name) data;
          data = jset ''project'' (JStr project) data;
          data = jset ''region'' (JStr region) data;
          data = jset ''router_name'' (JStr routerName) data;
          data = setDefault ''id'' (numericID e) data;
          data = setDefault ''creationTimestamp'' (nowRFC3339 e) data
          in case sqlInsert Compute_router_nats [(C_name, name), (C_project, project), (C_region, region), (C_router_name, routerName)]
                    (marshalData data) s of
               Inl err \<Rightarrow> (Inl (mapInsertError err), s)
             | Inr s' \<Rightarrow> (GetRouterNAT s' project region routerName name, s'))"

lemma CreateRouterNAT_inv [keeps_inv]: "repo_inv s \<Longrightarrow> repo_inv (snd (CreateRouterNAT e project region routerName data s))"
  unfolding CreateRouterNAT_def Let_def by (auto dest!: inv_insertD simp: insertMirrors_def split: sum.split option.split)

definition UpdateRouterNAT :: "string \<Rightarrow> string \<Rightarrow> string \<Rightarrow> string \<Rightarrow> obj \<Rightarrow> db \<Rightarrow> obj result" where
  "UpdateRouterNAT project region routerName name patch s =
     (case GetRouterNAT s project region routerName name of
        Inl err \<Rightarrow> (Inl err, s)
      | Inr current \<Rightarrow>
          let merged = patchMerge current patch [''name'', ''project'', ''region'', ''router_name''];
          merged = jset ''name'' (JStr name) merged;
          merged = jset ''project'' (JStr project) merged;
          merged = jset ''region'' (JStr region) merged;
          merged = jset ''router_name'' (JStr routerName) merged
          in case sqlUpdate Compute_router_nats [(C_project, project), (C_region, region), (C_router_name, routerName), (C_name, name)] []
                    (marshalData merged) s of
               Inl err \<Rightarrow> (Inl err, s)
             | Inr s' \<Rightarrow> (Inr merged, s'))"

lemma UpdateRouterNAT_inv [keeps_inv]: "repo_inv s \<Longrightarrow> repo_inv (snd (UpdateRouterNAT project region routerName name patch s))"
  unfolding UpdateRouterNAT_def Let_def
  by (auto dest!: inv_updateD simp: condMirrors_def split: sum.split option.split)

definition DeleteRouterNAT :: "string \<Rightarrow> string \<Rightarrow> string \<Rightarrow> string \<Rightarrow> db \<Rightarrow> unit result" where
  "DeleteRouterNAT project region routerName name s =
     deleteWithResult Compute_router_nats [(C_project, project), (C_region, region), (C_router_name, routerName), (C_name, name)] s"

lemma DeleteRouterNAT_inv [keeps_inv]: "repo_inv s \<Longrightarrow> repo_inv (snd (DeleteRouterNAT project region routerName name s))"
  by (simp add: DeleteRouterNAT_def deleteWithResult_inv)

end
