(* ===== verification/Repo_Compute.thy ===== *)
theory Repo_Compute
  imports Repo_Network
begin

text \<open>
  Disks, instances, regional addresses and operation records of
  \<^verbatim>\<open>repository/repository.go\<close>, with the check of an instance's network interfaces.
\<close>

section \<open>Disks\<close>

definition GetDisk :: "db \<Rightarrow> string \<Rightarrow> string \<Rightarrow> string \<Rightarrow> go_error + obj" where
  "GetDisk s project zone name =
     loadOne Compute_disks [(C_project, project), (C_zone, zone), (C_name, name)] s"

definition ListDisks :: "db \<Rightarrow> string \<Rightarrow> string \<Rightarrow> obj list" where
  "ListDisks s project zone = loadMany Compute_disks [(C_project, project), (C_zone, zone)] [C_name] s"

definition CreateDisk :: "env \<Rightarrow> string \<Rightarrow> string \<Rightarrow> obj \<Rightarrow> db \<Rightarrow> obj result" where
  "CreateDisk e project zone data s =
     (let name = getString data ''name'' in
      if name = [] then (Inl (Errorf ''name is required''), s)
      else
        let data = jset ''name'' (JStr name) data;
          data = jset ''project'' (JStr project) data;
          data = jset ''zone'' (JStr zone) data;
          data = setDefault ''id'' (numericID e) data;
          data = setDefault ''creationTimestamp'' (nowRFC3339 e) data
          in case sqlInsert Compute_disks [(C_name, name), (C_project, project), (C_zone, zone)]
                    (marshalData data) s of
               Inl err \<Rightarrow> (Inl (mapInsertError err), s)
             | Inr s' \<Rightarrow> (GetDisk s' project zone name, s'))"

lemma CreateDisk_inv [keeps_inv]: "repo_inv s \<Longrightarrow> repo_inv (snd (CreateDisk e project zone data s))"
  unfolding CreateDisk_def Let_def by (auto dest!: inv_insertD simp: insertMirrors_def split: sum.split option.split)

definition DeleteDisk :: "string \<Rightarrow> string \<Rightarrow> string \<Rightarrow> db \<Rightarrow> unit result" where
  "DeleteDisk project zone name s =
     deleteWithResult Compute_disks [(C_project, project), (C_zone, zone), (C_name, name)] s"

lemma DeleteDisk_inv [keeps_inv]: "repo_inv s \<Longrightarrow> repo_inv (snd (DeleteDisk project zone name s))"
  by (simp add: DeleteDisk_def deleteWithResult_inv)

section \<open>Network interfaces of an instance\<close>

text \<open>One turn of the loop of \<^verbatim>\<open>validateInstanceNetworkInterfaces\<close>; \<open>None\<close> is \<^verbatim>\<open>nil\<close>.\<close>

definition validateNic :: "db \<Rightarrow> string \<Rightarrow> string \<Rightarrow> obj \<Rightarrow> go_error option" where
  "validateNic s project instanceZone nic =
     (let netRef = getString nic ''network'';
          subRef = getString nic ''subnetwork''
      in case resolveSameProjectName project netRef ''networks'' of
           Inl err \<Rightarrow> Some err
         | Inr netName \<Rightarrow>
           (case (if netName \<noteq> [] then GetNetwork s project netName else Inr []) of
              Inl err \<Rightarrow> Some err
            | Inr _ \<Rightarrow>
              if subRef = [] then None
              else
                case resolveSameProjectName project subRef ''subnetworks'' of
                  Inl err \<Rightarrow> Some err
                | Inr subName \<Rightarrow>
                  let region = extractRegionFromSubnetSelfLink subRef;
                      region = (if region = [] then regionFromZone instanceZone else region)
                  in if region = [] then Some ErrNotFound
                     else
                       case GetSubnetwork s project region subName of
                         Inl err \<Rightarrow> Some err
                       | Inr sub \<Rightarrow>
                         if netName \<noteq> [] \<and> getString sub ''network_name'' \<noteq> []
                            \<and> getString sub ''network_name'' \<noteq> netName
                         then Some ErrNotFound else None))"

fun validateNics :: "db \<Rightarrow> string \<Rightarrow> string \<Rightarrow> json list \<Rightarrow> go_error option" where
  "validateNics s project zone [] = None"
| "validateNics s project zone (raw # nics) =
     (case toMap (Some raw) of
        None \<Rightarrow> validateNics s project zone nics
      | Some nic \<Rightarrow>
          (case validateNic s project zone nic of
             Some err \<Rightarrow> Some err
           | None \<Rightarrow> validateNics s project zone nics))"

definition validateInstanceNetworkInterfaces :: "db \<Rightarrow> string \<Rightarrow> string \<Rightarrow> obj \<Rightarrow> go_error option" where
  "validateInstanceNetworkInterfaces s project instanceZone data =
     (case toArr (map_of data ''networkInterfaces'') of
        None \<Rightarrow> None
      | Some nics \<Rightarrow> validateNics s project instanceZone nics)"

section \<open>Instances\<close>

definition GetInstance :: "db \<Rightarrow> string \<Rightarrow> string \<Rightarrow> string \<Rightarrow> go_error + obj" where
  "GetInstance s project zone name =
     loadOne Compute_instances [(C_project, project), (C_zone, zone), (C_name, name)] s"

definition ListInstances :: "db \<Rightarrow> string \<Rightarrow> string \<Rightarrow> obj list" where
  "ListInstances s project zone = loadMany Compute_instances [(C_project, project), (C_zone, zone)] [C_name] s"

definition CreateInstance :: "env \<Rightarrow> string \<Rightarrow> string \<Rightarrow> obj \<Rightarrow> db \<Rightarrow> obj result" where
  "CreateInstance e project zone data s =
     (let name = getString data ''name'' in
      if name = [] then (Inl (Errorf ''name is required''), s)
      else
        (case validateInstanceNetworkInterfaces s project zone data of
              Some err \<Rightarrow> (Inl err, s)
            | None \<Rightarrow>
         let data = jset ''name'' (JStr name) data;
          data = jset ''project'' (JStr project) data;
          data = jset ''zone'' (JStr zone) data;
          data = setDefault ''id'' (numericID e) data;
          data = setDefault ''creationTimestamp'' (nowRFC3339 e) data
          in case sqlInsert Compute_instances [(C_name, name), (C_project, project), (C_zone, zone)]
                    (marshalData data) s of
               Inl err \<Rightarrow> (Inl (mapInsertError err), s)
             | Inr s' \<Rightarrow> (GetInstance s' project zone name, s')))"

lemma CreateInstance_inv [keeps_inv]: "repo_inv s \<Longrightarrow> repo_inv (snd (CreateInstance e project zone data s))"
  unfolding CreateInstance_def Let_def by (auto dest!: inv_insertD simp: insertMirrors_def split: sum.split option.split)

definition DeleteInstance :: "string \<Rightarrow> string \<Rightarrow> string \<Rightarrow> db \<Rightarrow> unit result" where
  "DeleteInstance project zone name s =
     deleteWithResult Compute_instances [(C_project, project), (C_zone, zone), (C_name, name)] s"

lemma DeleteInstance_inv [keeps_inv]: "repo_inv s \<Longrightarrow> repo_inv (snd (DeleteInstance project zone name s))"
  by (simp add: DeleteInstance_def deleteWithResult_inv)

section \<open>Addresses\<close>

definition GetAddress :: "db \<Rightarrow> string \<Rightarrow> string \<Rightarrow> string \<Rightarrow> go_error + obj" where
  "GetAddress s project region name =
     loadOne Compute_addresses [(C_project, project), (C_region, region), (C_name, name)] s"

definition ListAddresses :: "db \<Rightarrow> string \<Rightarrow> string \<Rightarrow> obj list" where
  "ListAddresses s project region = loadMany Compute_addresses [(C_project, project), (C_region, region)] [C_name] s"

definition CreateAddress :: "env \<Rightarrow> string \<Rightarrow> string \<Rightarrow> obj \<Rightarrow> db \<Rightarrow> obj result" where
  "CreateAddress e project region data s =
     (let name = getString data ''name'' in
      if name = [] then (Inl (Errorf ''name is required''), s)
      else
        let data = jset ''name'' (JStr name) data;
          data = jset ''project'' (JStr project) data;
          data = jset ''region'' (JStr region) data;
          data = setDefault ''id'' (numericID e) data;
          data = setDefault ''creationTimestamp'' (nowRFC3339 e) data
          in case sqlInsert Compute_addresses [(C_name, name), (C_project, project), (C_region, region)]
                    (marshalData data) s of
               Inl err \<Rightarrow> (Inl (mapInsertError err), s)
             | Inr s' \<Rightarrow> (GetAddress s' project region name, s'))"

lemma CreateAddress_inv [keeps_inv]: "repo_inv s \<Longrightarrow> repo_inv (snd (CreateAddress e project region data s))"
  unfolding CreateAddress_def Let_def by (auto dest!: inv_insertD simp: insertMirrors_def split: sum.split option.split)

definition DeleteAddress :: "string \<Rightarrow> string \<Rightarrow> string \<Rightarrow> db \<Rightarrow> unit result" where
  "DeleteAddress project region name s =
     deleteWithResult Compute_addresses [(C_project, project), (C_region, region), (C_name, name)] s"

lemma DeleteAddress_inv [keeps_inv]: "repo_inv s \<Longrightarrow> repo_inv (snd (DeleteAddress project region name s))"
  by (simp add: DeleteAddress_def deleteWithResult_inv)

section \<open>Operations\<close>

definition nullIfEmpty :: "string \<Rightarrow> string option" where
  "nullIfEmpty s = (if trimSpace s = [] then None else Some s)"

definition GetOperation :: "db \<Rightarrow> string \<Rightarrow> string \<Rightarrow> go_error + obj" where
  "GetOperation s project name = loadOne Operations [(C_project, project), (C_name, name)] s"

text \<open>
  \<^verbatim>\<open>INSERT ... ON CONFLICT(project, name) DO UPDATE SET zone, region, data\<close>. A NULL column
  is an absent one, so an update to NULL removes it. The operation fills the caller's map
  in place; the model returns it.
\<close>

definition setNullable :: "col \<Rightarrow> string option \<Rightarrow> (col \<times> string) list \<Rightarrow> (col \<times> string) list" where
  "setNullable c v cs = (case v of None \<Rightarrow> AList.delete c cs | Some x \<Rightarrow> AList.update c x cs)"

definition upsertRow :: "string \<Rightarrow> string \<Rightarrow> string \<Rightarrow> string \<Rightarrow> obj \<Rightarrow> row \<Rightarrow> row" where
  "upsertRow project zone region name d r =
     (if matches [(C_project, project), (C_name, name)] r
      then r\<lparr>rcols := setNullable C_zone (nullIfEmpty zone)
                       (setNullable C_region (nullIfEmpty region) (rcols r)), rdata := d\<rparr>
      else r)"

definition StoreOperation ::
  "env \<Rightarrow> string \<Rightarrow> string \<Rightarrow> string \<Rightarrow> string \<Rightarrow> obj \<Rightarrow> db \<Rightarrow> obj result" where
  "StoreOperation e project zone region name data s =
     (let name = (if name = [] then newID e else name);
          data = jset ''name'' (JStr name) data;
          data = jset ''project'' (JStr project) data;
          data = setDefault ''id'' (numericID e) data;
          data = setDefault ''insertTime'' (nowRFC3339 e) data;
          d = marshalData data
      in if list_ex (matches [(C_project, project), (C_name, name)]) (s Operations) then
           (Inr data, s(Operations := map (upsertRow project zone region name d) (s Operations)))
         else
           case sqlInsert Operations
                  (setNullable C_zone (nullIfEmpty zone)
                    (setNullable C_region (nullIfEmpty region)
                      [(C_name, name), (C_project, project)])) d s of
             Inl err \<Rightarrow> (Inl err, s)
           | Inr s' \<Rightarrow> (Inr data, s'))"

lemma map_of_setNullable:
  "map_of (setNullable c v cs) c' = (if c' = c then v else map_of cs c')"
  by (auto simp: setNullable_def split: option.splits)

lemma colOf_upsertRow:
  "c \<noteq> C_zone \<Longrightarrow> c \<noteq> C_region \<Longrightarrow> colOf (upsertRow project zone region name d r) c = colOf r c"
  by (simp add: upsertRow_def colOf_def map_of_setNullable)

lemma StoreOperation_upsert_inv:
  assumes inv: "repo_inv s"
    and mir: "map_of d ''name'' = Some (JStr name)" "map_of d ''project'' = Some (JStr project)"
    and canon: "marshalData d = d"
  shows "repo_inv (s(Operations := map (upsertRow project zone region name d) (s Operations)))"
    (is "repo_inv ?s'")
proof -
  let ?f = "upsertRow project zone region name d"
  note ok = repo_invD(1) [OF inv]
  have keys: "keysOf Operations = [[C_project, C_name]]" by (simp add: keysOf_def)
  have kv: "keyVals [C_project, C_name] (?f r) = keyVals [C_project, C_name] r" for r
    by (simp add: keyVals_def colOf_upsertRow)
  have id: "rowid (?f r) = rowid r" for r by (simp add: upsertRow_def)
  have "keys_ok Operations (map ?f (s Operations))"
    using db_okD(1) [OF ok, of Operations]
    by (fastforce simp: keys_ok_def keys sameKey_def kv)
  moreover have "rowids_ok (map ?f (s Operations))"
    using db_okD(2) [OF ok, of Operations] by (simp add: rowids_ok_def comp_def id)
  moreover have "nulls_ok Operations (map ?f (s Operations))"
    using db_okD(3) [OF ok, of Operations] by (auto simp: nulls_ok_def colOf_upsertRow)
  moreover have "fks_ok ?s'"
  proof -
    have par: "f \<in> set (foreignKeys (migrate c)) \<Longrightarrow> fkParent f \<noteq> Operations" for f c
      by (cases c) auto
    have hold: "fksHold ?s' c r = fksHold s c r" for c r
      using par by (auto simp: fksHold_def fkHolds_def list_all_iff)
    have none: "fksHold s Operations r" for r by (simp add: fksHold_def)
    show ?thesis using db_okD(4) [OF ok] none by (auto simp: fks_ok_def hold)
  qed
  ultimately have db: "db_ok ?s'" using ok by (simp add: db_ok_def)
  have "row_ok Operations (?f r)" if "r \<in> set (s Operations)" for r
  proof (cases "matches [(C_project, project), (C_name, name)] r")
    case True
    then have "colOf r C_project = Some project" "colOf r C_name = Some name"
      by (simp_all add: matches_def)
    moreover have "rdata (?f r) = d" using True by (simp add: upsertRow_def)
    ultimately show ?thesis using mir canon
      by (auto simp: row_ok_def colOf_upsertRow)
  next
    case False
    then have "?f r = r" by (simp add: upsertRow_def)
    then show ?thesis using repo_invD(2) [OF inv that] by simp
  qed
  with inv db show ?thesis by (auto simp: repo_inv_def mirror_ok_def)
qed

lemma StoreOperation_inv [keeps_inv]:
  "repo_inv s \<Longrightarrow> repo_inv (snd (StoreOperation e project zone region name data s))"
  unfolding StoreOperation_def Let_def
  by (auto dest!: inv_insertD simp: insertMirrors_def map_of_setNullable map_of_marshalData
        intro!: StoreOperation_upsert_inv split: sum.split)

text \<open>
  Storing an operation never fails; it replaces or adds the record of that project and name.
\<close>

lemma StoreOperation_upsert:
  assumes inv: "repo_inv s" and name: "name \<noteq> []"
  shows "\<exists>d s'. StoreOperation e project zone region name data s = (Inr d, s') \<and>
    (\<forall>p n. GetOperation s' p n =
       (if p = project \<and> n = name then Inr (marshalData d) else GetOperation s p n)) \<and>
    (\<forall>t. t \<noteq> Operations \<longrightarrow> s' t = s t)"
proof -
  let ?conds = "[(C_project, project), (C_name, name)]"
  let ?data = "setDefault ''insertTime'' (nowRFC3339 e) (setDefault ''id'' (numericID e)
      (jset ''project'' (JStr project) (jset ''name'' (JStr name) data)))"
  let ?d = "marshalData ?data"
  show ?thesis
  proof (cases "list_ex (matches ?conds) (s Operations)")
    case True
    let ?f = "upsertRow project zone region name ?d"
    let ?s' = "s(Operations := map ?f (s Operations))"
    have run: "StoreOperation e project zone region name data s = (Inr ?data, ?s')"
      using True name by (simp add: StoreOperation_def Let_def)
    have cols: "matches [(C_project, p), (C_name, n)] (?f r) = matches [(C_project, p), (C_name, n)] r" for p n r
      by (simp add: matches_def colOf_upsertRow)
    have dat: "rdata (?f r) = (if matches ?conds r then ?d else rdata r)" for r
      by (simp add: upsertRow_def)
    have hd: "loadOne Operations [(C_project, p), (C_name, n)] ?s' =
        (case filter (matches [(C_project, p), (C_name, n)]) (s Operations) of
           [] \<Rightarrow> Inl ErrNotFound | r # _ \<Rightarrow> Inr (rdata (?f r)))" for p n
      by (simp add: loadOne_def filter_map comp_def cols split: list.split)
    have "GetOperation ?s' p n =
       (if p = project \<and> n = name then Inr ?d else GetOperation s p n)" for p n
    proof (cases "filter (matches [(C_project, p), (C_name, n)]) (s Operations)")
      case Nil
      with True have "\<not> (p = project \<and> n = name)" by (auto simp: list_ex_iff filter_empty_conv)
      with Nil show ?thesis by (simp add: GetOperation_def hd) (simp add: loadOne_def)
    next
      case (Cons r rs)
      then have "matches [(C_project, p), (C_name, n)] r" by (metis filter_eq_Cons_iff)
      then have "matches ?conds r \<longleftrightarrow> p = project \<and> n = name" by (auto simp: matches_def)
      with Cons show ?thesis by (simp add: GetOperation_def hd dat) (simp add: loadOne_def)
    qed
    with run show ?thesis by (intro exI [of _ ?data] exI [of _ ?s']) auto
  next
    case False
    let ?cs = "setNullable C_zone (nullIfEmpty zone)
        (setNullable C_region (nullIfEmpty region) [(C_name, name), (C_project, project)])"
    have ag: "agrees [(C_project, p), (C_name, n)] ?cs \<longleftrightarrow> p = project \<and> n = name" for p n
      by (auto simp: agrees_def map_of_setNullable)
    have "\<not> keyClash Operations (mkRow ?cs ?d (s Operations)) (s Operations)"
      using False by (auto simp: keyClash_def list_ex_iff keysOf_def sameKey_def keyVals_def matches_def
          map_of_setNullable split: option.splits)
    then obtain s' where ins: "sqlInsert Operations ?cs ?d s = Inr s'"
      by (simp add: sqlInsert_def Let_def fksHold_def map_of_setNullable)
    have run: "StoreOperation e project zone region name data s = (Inr ?data, s')"
      using False name ins by (simp add: StoreOperation_def Let_def)
    have "GetOperation s' p n =
       (if p = project \<and> n = name then Inr ?d else GetOperation s p n)" for p n
      unfolding GetOperation_def
      using operations_tbl.load_insert [OF repo_invD(1) [OF inv] _ ins, of "[(C_project, p), (C_name, n)]"]
        operations_tbl.load_insert_other [OF ins, of "[(C_project, p), (C_name, n)]"]
      by (auto simp: ag)
    with run sqlInsert_Inr(1) [OF ins] show ?thesis by (intro exI [of _ ?data] exI [of _ s']) auto
  qed
qed

end
