(* ===== verification/Repo_Container.thy ===== *)
theory Repo_Container
  imports Repo_Compute
begin

text \<open>
  GKE clusters and node pools of \<^verbatim>\<open>repository/repository.go\<close>; deleting a cluster deletes
  its node pools (foreign key with cascade).
\<close>

section \<open>Network of a cluster\<close>

definition validateClusterNetwork :: "db \<Rightarrow> string \<Rightarrow> string \<Rightarrow> obj \<Rightarrow> go_error option" where
  "validateClusterNetwork s project clusterLocation data =
     (let netRef = getString data ''network'';
          subRef = getString data ''subnetwork''
      in case resolveSameProjectName project netRef ''networks'' of
           Inl err \<Rightarrow> Some err
         | Inr netName \<Rightarrow>
           (case (if netName \<noteq> [] then GetNetwork s project netName else Inr []) of
              Inl err \<Rightarrow> Some err
            | Inr _ \<Rightarrow>
              if subRef = [] then None
              else
                case resolveSameProjectName project subRef ''subnetworks'' of
                  Inl err \<Rightarrow> Some err
                | Inr subName \<Rightarrow>
                  let region = extractRegionFromSubnetSelfLink subRef;
                      region = (if region = [] then regionFromZone clusterLocation else region)
                  in if region = [] then Some ErrNotFound
                     else
                       case GetSubnetwork s project region subName of
                         Inl err \<Rightarrow> Some err
                       | Inr sub \<Rightarrow>
                         if netName \<noteq> [] \<and> getString sub ''network_name'' \<noteq> []
                            \<and> getString sub ''network_name'' \<noteq> netName
                         then Some ErrNotFound else None))"

text \<open>A cluster is checked exactly as one network interface is.\<close>

lemma validateCluster_is_validateNic:
  "validateClusterNetwork s project loc data = validateNic s project loc data"
  by (simp add: validateClusterNetwork_def validateNic_def)

section \<open>Clusters\<close>

definition GetCluster :: "db \<Rightarrow> string \<Rightarrow> string \<Rightarrow> string \<Rightarrow> go_error + obj" where
  "GetCluster s project location name =
     loadOne Container_clusters [(C_project, project), (C_location, location), (C_name, name)] s"

definition ListClusters :: "db \<Rightarrow> string \<Rightarrow> string \<Rightarrow> obj list" where
  "ListClusters s project location = loadMany Container_clusters [(C_project, project), (C_location, location)] [C_name] s"

definition CreateCluster :: "env \<Rightarrow> string \<Rightarrow> string \<Rightarrow> obj \<Rightarrow> db \<Rightarrow> obj result" where
  "CreateCluster e project location data s =
     (let name = getString data ''name'' in
      if name = [] then (Inl (Errorf ''name is required''), s)
      else
        (case validateClusterNetwork s project location data of
              Some err \<Rightarrow> (Inl err, s)
            | None \<Rightarrow>
         let data = jset ''name'' (JStr name) data;
          data = jset ''project'' (JStr project) data;
          data = jset ''location'' (JStr location) data;
          data = setDefault ''id'' (numericID e) data;
          data = setDefault ''createTime'' (nowRFC3339 e) data
          in case sqlInsert Container_clusters [(C_name, name), (C_project, project), (C_location, location)]
                    (marshalData data) s of
               Inl err \<Rightarrow> (Inl (mapInsertError err), s)
             | Inr s' \<Rightarrow> (GetCluster s' project location name, s')))"

lemma CreateCluster_inv [keeps_inv]: "repo_inv s \<Longrightarrow> repo_inv (snd (CreateCluster e project location data s))"
  unfolding CreateCluster_def Let_def by (auto dest!: inv_insertD simp: insertMirrors_def split: sum.split option.split)

definition UpdateCluster :: "string \<Rightarrow> string \<Rightarrow> string \<Rightarrow> obj \<Rightarrow> db \<Rightarrow> obj result" where
  "UpdateCluster project location name patch s =
     (case GetCluster s project location name of
        Inl err \<Rightarrow> (Inl err, s)
      | Inr current \<Rightarrow>
          let merged = patchMerge current patch [''name'', ''project'', ''location''];
          merged = jset ''name'' (JStr name) merged;
          merged = jset ''project'' (JStr project) merged;
          merged = jset ''location'' (JStr location) merged
          in case validateClusterNetwork s project location merged of
               Some err \<Rightarrow> (Inl err, s)
             | None \<Rightarrow>
             (case sqlUpdate Container_clusters [(C_project, project), (C_location, location), (C_name, name)] []
                    (marshalData merged) s of
               Inl err \<Rightarrow> (Inl err, s)
             | Inr s' \<Rightarrow> (Inr merged, s')))"

lemma UpdateCluster_inv [keeps_inv]: "repo_inv s \<Longrightarrow> repo_inv (snd (UpdateCluster project location name patch s))"
  unfolding UpdateCluster_def Let_def
  by (auto dest!: inv_updateD simp: condMirrors_def split: sum.split option.split)

definition DeleteCluster :: "string \<Rightarrow> string \<Rightarrow> string \<Rightarrow> db \<Rightarrow> unit result" where
  "DeleteCluster project location name s =
     deleteWithResult Container_clusters [(C_project, project), (C_location, location), (C_name, name)] s"

lemma DeleteCluster_inv [keeps_inv]: "repo_inv s \<Longrightarrow> repo_inv (snd (DeleteCluster project location name s))"
  by (simp add: DeleteCluster_def deleteWithResult_inv)

section \<open>Node pools\<close>

definition GetNodePool :: "db \<Rightarrow> string \<Rightarrow> string \<Rightarrow> string \<Rightarrow> string \<Rightarrow> go_error + obj" where
  "GetNodePool s project location clusterName name =
     loadOne Container_node_pools [(C_project, project), (C_location, location), (C_cluster_name, clusterName), (C_name, name)] s"

definition ListNodePools :: "db \<Rightarrow> string \<Rightarrow> string \<Rightarrow> string \<Rightarrow> obj list" where
  "ListNodePools s project location clusterName = loadMany Container_node_pools [(C_project, project), (C_location, location), (C_cluster_name, clusterName)] [C_name] s"

definition CreateNodePool :: "env \<Rightarrow> string \<Rightarrow> string \<Rightarrow> string \<Rightarrow> obj \<Rightarrow> db \<Rightarrow> obj result" where
  "CreateNodePool e project location clusterName data s =
     (let name = getString data ''name'' in
      if name = [] then (Inl (Errorf ''name is required''), s)
      else
        let data = jset ''name'' (JStr name) data;
          data = jset ''project'' (JStr project) data;
          data = jset ''location'' (JStr location) data;
          data = jset ''cluster_name'' (JStr clusterName) data;
          data = setDefault ''id'' (numericID e) data;
          data = setDefault ''createTime'' (nowRFC3339 e) data
          in case sqlInsert Container_node_pools [(C_name, name), (C_project, project), (C_location, location), (C_cluster_name, clusterName)]
                    (marshalData data) s of
               Inl err \<Rightarrow> (Inl (mapInsertError err), s)
             | Inr s' \<Rightarrow> (GetNodePool s' project location clusterName name, s'))"

lemma CreateNodePool_inv [keeps_inv]: "repo_inv s \<Longrightarrow> repo_inv (snd (CreateNodePool e project location clusterName data s))"
  unfolding CreateNodePool_def Let_def by (auto dest!: inv_insertD simp: insertMirrors_def split: sum.split option.split)

definition DeleteNodePool :: "string \<Rightarrow> string \<Rightarrow> string \<Rightarrow> string \<Rightarrow> db \<Rightarrow> unit result" where
  "DeleteNodePool project location clusterName name s =
     deleteWithResult Container_node_pools [(C_project, project), (C_location, location), (C_cluster_name, clusterName), (C_name, name)] s"

lemma DeleteNodePool_inv [keeps_inv]: "repo_inv s \<Longrightarrow> repo_inv (snd (DeleteNodePool project location clusterName name s))"
  by (simp add: DeleteNodePool_def deleteWithResult_inv)

text \<open>
  \<^verbatim>\<open>LIMIT 1\<close> without \<^verbatim>\<open>ORDER BY\<close>: which of several matching rows is returned is not
  specified, so the choice is a parameter.
\<close>

definition FindNodePoolByName ::
  "(row list \<Rightarrow> row) \<Rightarrow> db \<Rightarrow> string \<Rightarrow> string \<Rightarrow> go_error + obj" where
  "FindNodePoolByName pick s project name =
     (case filter (matches [(C_project, project), (C_name, name)]) (s Container_node_pools) of
        [] \<Rightarrow> Inl ErrNotFound
      | r # rs \<Rightarrow> Inr (rdata (pick (r # rs))))"

definition ListAllNodePools :: "db \<Rightarrow> string \<Rightarrow> obj list" where
  "ListAllNodePools s project = loadMany Container_node_pools [(C_project, project)] [C_name] s"

end
