(* ===== verification/Repo_CloudSql.thy ===== *)
theory Repo_CloudSql
  imports Repo_Network
begin

text \<open>
  Cloud SQL instances, databases and users of \<^verbatim>\<open>repository/repository.go\<close>; deleting an
  instance deletes its databases and users (foreign keys with cascade).
\<close>

section \<open>Private network of an instance\<close>

definition validateSQLPrivateNetwork :: "db \<Rightarrow> string \<Rightarrow> obj \<Rightarrow> go_error option" where
  "validateSQLPrivateNetwork s project data =
     (case toMap (map_of data ''settings'') of
        None \<Rightarrow> None
      | Some settings \<Rightarrow>
        (case toMap (map_of settings ''ipConfiguration'') of
           None \<Rightarrow> None
         | Some ipCfg \<Rightarrow>
           let ref = getString ipCfg ''privateNetwork'' in
           if ref = [] then None
           else
             (case resolveSameProjectName project ref ''networks'' of
                Inl err \<Rightarrow> Some err
              | Inr netName \<Rightarrow>
                  (case GetNetwork s project netName of
                     Inl err \<Rightarrow> Some err
                   | Inr _ \<Rightarrow> None))))"

section \<open>Instances\<close>

definition GetSQLInstance :: "db \<Rightarrow> string \<Rightarrow> string \<Rightarrow> go_error + obj" where
  "GetSQLInstance s project name =
     loadOne Sql_instances [(C_project, project), (C_name, name)] s"

definition ListSQLInstances :: "db \<Rightarrow> string \<Rightarrow> obj list" where
  "ListSQLInstances s project = loadMany Sql_instances [(C_project, project)] [C_name] s"

definition CreateSQLInstance :: "env \<Rightarrow> string \<Rightarrow> obj \<Rightarrow> db \<Rightarrow> obj result" where
  "CreateSQLInstance e project data s =
     (let name = getString data ''name'' in
      if name = [] then (Inl (Errorf ''name is required''), s)
      else
        (case validateSQLPrivateNetwork s project data of
              Some err \<Rightarrow> (Inl err, s)
            | None \<Rightarrow>
         let data = jset ''name'' (JStr name) data;
          data = jset ''project'' (JStr project) data;
          data = setDefault ''id'' (numericID e) data;
          data = setDefault ''createTime'' (nowRFC3339 e) data
          in case sqlInsert Sql_instances [(C_name, name), (C_project, project)]
                    (marshalData data) s of
               Inl err \<Rightarrow> (Inl (mapInsertError err), s)
             | Inr s' \<Rightarrow> (GetSQLInstance s' project name, s')))"

lemma CreateSQLInstance_inv [keeps_inv]: "repo_inv s \<Longrightarrow> repo_inv (snd (CreateSQLInstance e project data s))"
  unfolding CreateSQLInstance_def Let_def by (auto dest!: inv_insertD simp: insertMirrors_def split: sum.split option.split)

definition UpdateSQLInstance :: "string \<Rightarrow> string \<Rightarrow> obj \<Rightarrow> db \<Rightarrow> obj result" where
  "UpdateSQLInstance project name patch s =
     (case GetSQLInstance s project name of
        Inl err \<Rightarrow> (Inl err, s)
      | Inr current \<Rightarrow>
          let merged = patchMerge current patch [''name'', ''project''];
          merged = jset ''name'' (JStr name) merged;
          merged = jset ''project'' (JStr project) merged
          in case validateSQLPrivateNetwork s project merged of
               Some err \<Rightarrow> (Inl err, s)
             | None \<Rightarrow>
             (case sqlUpdate Sql_instances [(C_project, project), (C_name, name)] []
                    (marshalData merged) s of
               Inl err \<Rightarrow> (Inl err, s)
             | Inr s' \<Rightarrow> (Inr merged, s')))"

lemma UpdateSQLInstance_inv [keeps_inv]: "repo_inv s \<Longrightarrow> repo_inv (snd (UpdateSQLInstance project name patch s))"
  unfolding UpdateSQLInstance_def Let_def
  by (auto dest!: inv_updateD simp: condMirrors_def split: sum.split option.split)

definition DeleteSQLInstance :: "string \<Rightarrow> string \<Rightarrow> db \<Rightarrow> unit result" where
  "DeleteSQLInstance project name s =
     deleteWithResult Sql_instances [(C_project, project), (C_name, name)] s"

lemma DeleteSQLInstance_inv [keeps_inv]: "repo_inv s \<Longrightarrow> repo_inv (snd (DeleteSQLInstance project name s))"
  by (simp add: DeleteSQLInstance_def deleteWithResult_inv)

section \<open>Databases\<close>

definition GetSQLDatabase :: "db \<Rightarrow> string \<Rightarrow> string \<Rightarrow> string \<Rightarrow> go_error + obj" where
  "GetSQLDatabase s project instanceName name =
     loadOne Sql_databases [(C_project, project), (C_instance_name, instanceName), (C_name, name)] s"

definition ListSQLDatabases :: "db \<Rightarrow> string \<Rightarrow> string \<Rightarrow> obj list" where
  "ListSQLDatabases s project instanceName = loadMany Sql_databases [(C_project, project), (C_instance_name, instanceName)] [C_name] s"

definition CreateSQLDatabase :: "env \<Rightarrow> string \<Rightarrow> string \<Rightarrow> obj \<Rightarrow> db \<Rightarrow> obj result" where
  "CreateSQLDatabase e project instanceName data s =
     (let name = getString data ''name'' in
      if name = [] then (Inl (Errorf ''name is required''), s)
      else
        let data = jset ''name'' (JStr name) data;
          data = jset ''project'' (JStr project) data;
          data = jset ''instance_name'' (JStr instanceName) data;
          data = setDefault ''id'' (numericID e) data
          in case sqlInsert Sql_databases [(C_name, name), (C_project, project), (C_instance_name, instanceName)]
                    (marshalData data) s of
               Inl err \<Rightarrow> (Inl (mapInsertError err), s)
             | Inr s' \<Rightarrow> (GetSQLDatabase s' project instanceName name, s'))"

lemma CreateSQLDatabase_inv [keeps_inv]: "repo_inv s \<Longrightarrow> repo_inv (snd (CreateSQLDatabase e project instanceName data s))"
  unfolding CreateSQLDatabase_def Let_def by (auto dest!: inv_insertD simp: insertMirrors_def split: sum.split option.split)

definition DeleteSQLDatabase :: "string \<Rightarrow> string \<Rightarrow> string \<Rightarrow> db \<Rightarrow> unit result" where
  "DeleteSQLDatabase project instanceName name s =
     deleteWithResult Sql_databases [(C_project, project), (C_instance_name, instanceName), (C_name, name)] s"

lemma DeleteSQLDatabase_inv [keeps_inv]: "repo_inv s \<Longrightarrow> repo_inv (snd (DeleteSQLDatabase project instanceName name s))"
  by (simp add: DeleteSQLDatabase_def deleteWithResult_inv)

section \<open>Users\<close>

text \<open>The sources read a user with an inline query, written here as \<open>loadSQLUser\<close>.\<close>

definition loadSQLUser :: "db \<Rightarrow> string \<Rightarrow> string \<Rightarrow> string \<Rightarrow> go_error + obj" where
  "loadSQLUser s project instanceName name =
     loadOne Sql_users [(C_project, project), (C_instance_name, instanceName), (C_name, name)] s"

definition ListSQLUsers :: "db \<Rightarrow> string \<Rightarrow> string \<Rightarrow> obj list" where
  "ListSQLUsers s project instanceName = loadMany Sql_users [(C_project, project), (C_instance_name, instanceName)] [C_name] s"

definition CreateSQLUser :: "env \<Rightarrow> string \<Rightarrow> string \<Rightarrow> obj \<Rightarrow> db \<Rightarrow> obj result" where
  "CreateSQLUser e project instanceName data s =
     (let name = (if getString data ''name'' = [] then getString data ''user'' else getString data ''name'') in
      if name = [] then (Inl (Errorf ''name is required''), s)
      else
        let data = jset ''name'' (JStr name) data;
          data = jset ''project'' (JStr project) data;
          data = jset ''instance_name'' (JStr instanceName) data;
          data = setDefault ''id'' (numericID e) data
          in case sqlInsert Sql_users [(C_name, name), (C_project, project), (C_instance_name, instanceName)]
                    (marshalData data) s of
               Inl err \<Rightarrow> (Inl (mapInsertError err), s)
             | Inr s' \<Rightarrow> (loadSQLUser s' project instanceName name, s'))"

lemma CreateSQLUser_inv [keeps_inv]: "repo_inv s \<Longrightarrow> repo_inv (snd (CreateSQLUser e project instanceName data s))"
  unfolding CreateSQLUser_def Let_def by (auto dest!: inv_insertD simp: insertMirrors_def split: sum.split option.split)

definition UpdateSQLUser :: "string \<Rightarrow> string \<Rightarrow> string \<Rightarrow> obj \<Rightarrow> db \<Rightarrow> obj result" where
  "UpdateSQLUser project instanceName name patch s =
     (case loadSQLUser s project instanceName name of
        Inl err \<Rightarrow> (Inl err, s)
      | Inr current \<Rightarrow>
          let merged = patchMerge current patch [''name'', ''project'', ''instance_name''];
          merged = jset ''name'' (JStr name) merged;
          merged = jset ''project'' (JStr project) merged;
          merged = jset ''instance_name'' (JStr instanceName) merged
          in case sqlUpdate Sql_users [(C_project, project), (C_instance_name, instanceName), (C_name, name)] []
                    (marshalData merged) s of
               Inl err \<Rightarrow> (Inl err, s)
             | Inr s' \<Rightarrow> (Inr merged, s'))"

lemma UpdateSQLUser_inv [keeps_inv]: "repo_inv s \<Longrightarrow> repo_inv (snd (UpdateSQLUser project instanceName name patch s))"
  unfolding UpdateSQLUser_def Let_def
  by (auto dest!: inv_updateD simp: condMirrors_def split: sum.split option.split)

definition DeleteSQLUser :: "string \<Rightarrow> string \<Rightarrow> string \<Rightarrow> db \<Rightarrow> unit result" where
  "DeleteSQLUser project instanceName name s =
     deleteWithResult Sql_users [(C_project, project), (C_instance_name, instanceName), (C_name, name)] s"

lemma DeleteSQLUser_inv [keeps_inv]: "repo_inv s \<Longrightarrow> repo_inv (snd (DeleteSQLUser project instanceName name s))"
  by (simp add: DeleteSQLUser_def deleteWithResult_inv)

end
