(* ===== verification/Repo_LoadBalancer.thy ===== *)
theory Repo_LoadBalancer
  imports Repo_Base
begin

text \<open>
  The global load-balancing resources of \<^verbatim>\<open>repository/repository.go\<close>. They refer to each
  other by self-links in their bodies, which the handlers check; their tables have no
  foreign keys.
\<close>

section \<open>Global addresses\<close>

definition GetGlobalAddress :: "db \<Rightarrow> string \<Rightarrow> string \<Rightarrow> go_error + obj" where
  "GetGlobalAddress s project name =
     loadOne Compute_global_addresses [(C_project, project), (C_name, name)] s"

definition ListGlobalAddresses :: "db \<Rightarrow> string \<Rightarrow> obj list" where
  "ListGlobalAddresses s project = loadMany Compute_global_addresses [(C_project, project)] [C_name] s"

definition CreateGlobalAddress :: "env \<Rightarrow> string \<Rightarrow> obj \<Rightarrow> db \<Rightarrow> obj result" where
  "CreateGlobalAddress e project data s =
     (let name = getString data ''name'' in
      if name = [] then (Inl (Errorf ''name is required''), s)
      else
        let data = jset ''name'' (JStr name) data;
          data = jset ''project'' (JStr project) data;
          data = setDefault ''id'' (numericID e) data;
          data = setDefault ''creationTimestamp'' (nowRFC3339 e) data
          in case sqlInsert Compute_global_addresses [(C_name, name), (C_project, project)]
                    (marshalData data) s of
               Inl err \<Rightarrow> (Inl (mapInsertError err), s)
             | Inr s' \<Rightarrow> (GetGlobalAddress s' project name, s'))"

lemma CreateGlobalAddress_inv [keeps_inv]: "repo_inv s \<Longrightarrow> repo_inv (snd (CreateGlobalAddress e project data s))"
  unfolding CreateGlobalAddress_def Let_def by (auto dest!: inv_insertD simp: insertMirrors_def split: sum.split option.split)

definition DeleteGlobalAddress :: "string \<Rightarrow> string \<Rightarrow> db \<Rightarrow> unit result" where
  "DeleteGlobalAddress project name s =
     deleteWithResult Compute_global_addresses [(C_project, project), (C_name, name)] s"

lemma DeleteGlobalAddress_inv [keeps_inv]: "repo_inv s \<Longrightarrow> repo_inv (snd (DeleteGlobalAddress project name s))"
  by (simp add: DeleteGlobalAddress_def deleteWithResult_inv)

section \<open>Health checks\<close>

definition GetHealthCheck :: "db \<Rightarrow> string \<Rightarrow> string \<Rightarrow> go_error + obj" where
  "GetHealthCheck s project name =
     loadOne Compute_health_checks [(C_project, project), (C_name, name)] s"

definition ListHealthChecks :: "db \<Rightarrow> string \<Rightarrow> obj list" where
  "ListHealthChecks s project = loadMany Compute_health_checks [(C_project, project)] [C_name] s"

definition CreateHealthCheck :: "env \<Rightarrow> string \<Rightarrow> obj \<Rightarrow> db \<Rightarrow> obj result" where
  "CreateHealthCheck e project data s =
     (let name = getString data ''name'' in
      if name = [] then (Inl (Errorf ''name is required''), s)
      else
        let data = jset ''name'' (JStr name) data;
          data = jset ''project'' (JStr project) data;
          data = setDefault ''id'' (numericID e) data;
          data = setDefault ''creationTimestamp'' (nowRFC3339 e) data
          in case sqlInsert Compute_health_checks [(C_name, name), (C_project, project)]
                    (marshalData data) s of
               Inl err \<Rightarrow> (Inl (mapInsertError err), s)
             | Inr s' \<Rightarrow> (GetHealthCheck s' project name, s'))"

lemma CreateHealthCheck_inv [keeps_inv]: "repo_inv s \<Longrightarrow> repo_inv (snd (CreateHealthCheck e project data s))"
  unfolding CreateHealthCheck_def Let_def by (auto dest!: inv_insertD simp: insertMirrors_def split: sum.split option.split)

definition UpdateHealthCheck :: "string \<Rightarrow> string \<Rightarrow> obj \<Rightarrow> db \<Rightarrow> obj result" where
  "UpdateHealthCheck project name patch s =
     (case GetHealthCheck s project name of
        Inl err \<Rightarrow> (Inl err, s)
      | Inr current \<Rightarrow>
          let merged = patchMerge current patch [''name'', ''project''];
          merged = jset ''name'' (JStr name) merged;
          merged = jset ''project'' (JStr project) merged
          in case sqlUpdate Compute_health_checks [(C_project, project), (C_name, name)] []
                    (marshalData merged) s of
               Inl err \<Rightarrow> (Inl err, s)
             | Inr s' \<Rightarrow> (Inr merged, s'))"

lemma UpdateHealthCheck_inv [keeps_inv]: "repo_inv s \<Longrightarrow> repo_inv (snd (UpdateHealthCheck project name patch s))"
  unfolding UpdateHealthCheck_def Let_def
  by (auto dest!: inv_updateD simp: condMirrors_def split: sum.split option.split)

definition DeleteHealthCheck :: "string \<Rightarrow> string \<Rightarrow> db \<Rightarrow> unit result" where
  "DeleteHealthCheck project name s =
     deleteWithResult Compute_health_checks [(C_project, project), (C_name, name)] s"

lemma DeleteHealthCheck_inv [keeps_inv]: "repo_inv s \<Longrightarrow> repo_inv (snd (DeleteHealthCheck project name s))"
  by (simp add: DeleteHealthCheck_def deleteWithResult_inv)

section \<open>Backend services\<close>

definition GetBackendService :: "db \<Rightarrow> string \<Rightarrow> string \<Rightarrow> go_error + obj" where
  "GetBackendService s project name =
     loadOne Compute_backend_services [(C_project, project), (C_name, name)] s"

definition ListBackendServices :: "db \<Rightarrow> string \<Rightarrow> obj list" where
  "ListBackendServices s project = loadMany Compute_backend_services [(C_project, project)] [C_name] s"

definition CreateBackendService :: "env \<Rightarrow> string \<Rightarrow> obj \<Rightarrow> db \<Rightarrow> obj result" where
  "CreateBackendService e project data s =
     (let name = getString data ''name'' in
      if name = [] then (Inl (Errorf ''name is required''), s)
      else
        let data = jset ''name'' (JStr name) data;
          data = jset ''project'' (JStr project) data;
          data = setDefault ''id'' (numericID e) data;
          data = setDefault ''creationTimestamp'' (nowRFC3339 e) data
          in case sqlInsert Compute_backend_services [(C_name, name), (C_project, project)]
                    (marshalData data) s of
               Inl err \<Rightarrow> (Inl (mapInsertError err), s)
             | Inr s' \<Rightarrow> (GetBackendService s' project name, s'))"

lemma CreateBackendService_inv [keeps_inv]: "repo_inv s \<Longrightarrow> repo_inv (snd (CreateBackendService e project data s))"
  unfolding CreateBackendService_def Let_def by (auto dest!: inv_insertD simp: insertMirrors_def split: sum.split option.split)

definition UpdateBackendService :: "string \<Rightarrow> string \<Rightarrow> obj \<Rightarrow> db \<Rightarrow> obj result" where
  "UpdateBackendService project name patch s =
     (case GetBackendService s project name of
        Inl err \<Rightarrow> (Inl err, s)
      | Inr current \<Rightarrow>
          let merged = patchMerge current patch [''name'', ''project''];
          merged = jset ''name'' (JStr name) merged;
          merged = jset ''project'' (JStr project) merged
          in case sqlUpdate Compute_backend_services [(C_project, project), (C_name, name)] []
                    (marshalData merged) s of
               Inl err \<Rightarrow> (Inl err, s)
             | Inr s' \<Rightarrow> (Inr merged, s'))"

lemma UpdateBackendService_inv [keeps_inv]: "repo_inv s \<Longrightarrow> repo_inv (snd (UpdateBackendService project name patch s))"
  unfolding UpdateBackendService_def Let_def
  by (auto dest!: inv_updateD simp: condMirrors_def split: sum.split option.split)

definition DeleteBackendService :: "string \<Rightarrow> string \<Rightarrow> db \<Rightarrow> unit result" where
  "DeleteBackendService project name s =
     deleteWithResult Compute_backend_services [(C_project, project), (C_name, name)] s"

lemma DeleteBackendService_inv [keeps_inv]: "repo_inv s \<Longrightarrow> repo_inv (snd (DeleteBackendService project name s))"
  by (simp add: DeleteBackendService_def deleteWithResult_inv)

section \<open>SSL certificates\<close>

definition GetSSLCertificate :: "db \<Rightarrow> string \<Rightarrow> string \<Rightarrow> go_error + obj" where
  "GetSSLCertificate s project name =
     loadOne Compute_ssl_certificates [(C_project, project), (C_name, name)] s"

definition ListSSLCertificates :: "db \<Rightarrow> string \<Rightarrow> obj list" where
  "ListSSLCertificates s project = loadMany Compute_ssl_certificates [(C_project, project)] [C_name] s"

definition CreateSSLCertificate :: "env \<Rightarrow> string \<Rightarrow> obj \<Rightarrow> db \<Rightarrow> obj result" where
  "CreateSSLCertificate e project data s =
     (let name = getString data ''name'' in
      if name = [] then (Inl (Errorf ''name is required''), s)
      else
        let data = jset ''name'' (JStr name) data;
          data = jset ''project'' (JStr project) data;
          data = setDefault ''id'' (numericID e) data;
          data = setDefault ''creationTimestamp'' (nowRFC3339 e) data
          in case sqlInsert Compute_ssl_certificates [(C_name, name), (C_project, project)]
                    (marshalData data) s of
               Inl err \<Rightarrow> (Inl (mapInsertError err), s)
             | Inr s' \<Rightarrow> (GetSSLCertificate s' project name, s'))"

lemma CreateSSLCertificate_inv [keeps_inv]: "repo_inv s \<Longrightarrow> repo_inv (snd (CreateSSLCertificate e project data s))"
  unfolding CreateSSLCertificate_def Let_def by (auto dest!: inv_insertD simp: insertMirrors_def split: sum.split option.split)

definition DeleteSSLCertificate :: "string \<Rightarrow> string \<Rightarrow> db \<Rightarrow> unit result" where
  "DeleteSSLCertificate project name s =
     deleteWithResult Compute_ssl_certificates [(C_project, project), (C_name, name)] s"

lemma DeleteSSLCertificate_inv [keeps_inv]: "repo_inv s \<Longrightarrow> repo_inv (snd (DeleteSSLCertificate project name s))"
  by (simp add: DeleteSSLCertificate_def deleteWithResult_inv)

section \<open>Target HTTPS proxies\<close>

definition GetTargetHTTPSProxy :: "db \<Rightarrow> string \<Rightarrow> string \<Rightarrow> go_error + obj" where
  "GetTargetHTTPSProxy s project name =
     loadOne Compute_target_https_proxies [(C_project, project), (C_name, name)] s"

definition ListTargetHTTPSProxies :: "db \<Rightarrow> string \<Rightarrow> obj list" where
  "ListTargetHTTPSProxies s project = loadMany Compute_target_https_proxies [(C_project, project)] [C_name] s"

definition CreateTargetHTTPSProxy :: "env \<Rightarrow> string \<Rightarrow> obj \<Rightarrow> db \<Rightarrow> obj result" where
  "CreateTargetHTTPSProxy e project data s =
     (let name = getString data ''name'' in
      if name = [] then (Inl (Errorf ''name is required''), s)
      else
        let data = jset ''name'' (JStr name) data;
          data = jset ''project'' (JStr project) data;
          data = setDefault ''id'' (numericID e) data;
          data = setDefault ''creationTimestamp'' (nowRFC3339 e) data
          in case sqlInsert Compute_target_https_proxies [(C_name, name), (C_project, project)]
                    (marshalData data) s of
               Inl err \<Rightarrow> (Inl (mapInsertError err), s)
             | Inr s' \<Rightarrow> (GetTargetHTTPSProxy s' project name, s'))"

lemma CreateTargetHTTPSProxy_inv [keeps_inv]: "repo_inv s \<Longrightarrow> repo_inv (snd (CreateTargetHTTPSProxy e project data s))"
  unfolding CreateTargetHTTPSProxy_def Let_def by (auto dest!: inv_insertD simp: insertMirrors_def split: sum.split option.split)

definition UpdateTargetHTTPSProxy :: "string \<Rightarrow> string \<Rightarrow> obj \<Rightarrow> db \<Rightarrow> obj result" where
  "UpdateTargetHTTPSProxy project name patch s =
     (case GetTargetHTTPSProxy s project name of
        Inl err \<Rightarrow> (Inl err, s)
      | Inr current \<Rightarrow>
          let merged = patchMerge current patch [''name'', ''project''];
          merged = jset ''name'' (JStr name) merged;
          merged = jset ''project'' (JStr project) merged
          in case sqlUpdate Compute_target_https_proxies [(C_project, project), (C_name, name)] []
                    (marshalData merged) s of
               Inl err \<Rightarrow> (Inl err, s)
             | Inr s' \<Rightarrow> (Inr merged, s'))"

lemma UpdateTargetHTTPSProxy_inv [keeps_inv]: "repo_inv s \<Longrightarrow> repo_inv (snd (UpdateTargetHTTPSProxy project name patch s))"
  unfolding UpdateTargetHTTPSProxy_def Let_def
  by (auto dest!: inv_updateD simp: condMirrors_def split: sum.split option.split)

definition DeleteTargetHTTPSProxy :: "string \<Rightarrow> string \<Rightarrow> db \<Rightarrow> unit result" where
  "DeleteTargetHTTPSProxy project name s =
     deleteWithResult Compute_target_https_proxies [(C_project, project), (C_name, name)] s"

lemma DeleteTargetHTTPSProxy_inv [keeps_inv]: "repo_inv s \<Longrightarrow> repo_inv (snd (DeleteTargetHTTPSProxy project name s))"
  by (simp add: DeleteTargetHTTPSProxy_def deleteWithResult_inv)

section \<open>URL maps\<close>

definition GetURLMap :: "db \<Rightarrow> string \<Rightarrow> string \<Rightarrow> go_error + obj" where
  "GetURLMap s project name =
     loadOne Compute_url_maps [(C_project, project), (C_name, name)] s"

definition ListURLMaps :: "db \<Rightarrow> string \<Rightarrow> obj list" where
  "ListURLMaps s project = loadMany Compute_url_maps [(C_project, project)] [C_name] s"

definition CreateURLMap :: "env \<Rightarrow> string \<Rightarrow> obj \<Rightarrow> db \<Rightarrow> obj result" where
  "CreateURLMap e project data s =
     (let name = getString data ''name'' in
      if name = [] then (Inl (Errorf ''name is required''), s)
      else
        let data = jset ''name'' (JStr name) data;
          data = jset ''project'' (JStr project) data;
          data = setDefault ''id'' (numericID e) data;
          data = setDefault ''creationTimestamp'' (nowRFC3339 e) data
          in case sqlInsert Compute_url_maps [(C_name, name), (C_project, project)]
                    (marshalData data) s of
               Inl err \<Rightarrow> (Inl (mapInsertError err), s)
             | Inr s' \<Rightarrow> (GetURLMap s' project name, s'))"

lemma CreateURLMap_inv [keeps_inv]: "repo_inv s \<Longrightarrow> repo_inv (snd (CreateURLMap e project data s))"
  unfolding CreateURLMap_def Let_def by (auto dest!: inv_insertD simp: insertMirrors_def split: sum.split option.split)

definition UpdateURLMap :: "string \<Rightarrow> string \<Rightarrow> obj \<Rightarrow> db \<Rightarrow> obj result" where
  "UpdateURLMap project name patch s =
     (case GetURLMap s project name of
        Inl err \<Rightarrow> (Inl err, s)
      | Inr current \<Rightarrow>
          let merged = patchMerge current patch [''name'', ''project''];
          merged = jset ''name'' (JStr name) merged;
          merged = jset ''project'' (JStr project) merged
          in case sqlUpdate Compute_url_maps [(C_project, project), (C_name, name)] []
                    (marshalData merged) s of
               Inl err \<Rightarrow> (Inl err, s)
             | Inr s' \<Rightarrow> (Inr merged, s'))"

lemma UpdateURLMap_inv [keeps_inv]: "repo_inv s \<Longrightarrow> repo_inv (snd (UpdateURLMap project name patch s))"
  unfolding UpdateURLMap_def Let_def
  by (auto dest!: inv_updateD simp: condMirrors_def split: sum.split option.split)

definition DeleteURLMap :: "string \<Rightarrow> string \<Rightarrow> db \<Rightarrow> unit result" where
  "DeleteURLMap project name s =
     deleteWithResult Compute_url_maps [(C_project, project), (C_name, name)] s"

lemma DeleteURLMap_inv [keeps_inv]: "repo_inv s \<Longrightarrow> repo_inv (snd (DeleteURLMap project name s))"
  by (simp add: DeleteURLMap_def deleteWithResult_inv)

section \<open>Global forwarding rules\<close>

definition GetGlobalForwardingRule :: "db \<Rightarrow> string \<Rightarrow> string \<Rightarrow> go_error + obj" where
  "GetGlobalForwardingRule s project name =
     loadOne Compute_global_forwarding_rules [(C_project, project), (C_name, name)] s"

definition ListGlobalForwardingRules :: "db \<Rightarrow> string \<Rightarrow> obj list" where
  "ListGlobalForwardingRules s project = loadMany Compute_global_forwarding_rules [(C_project, project)] [C_name] s"

definition CreateGlobalForwardingRule :: "env \<Rightarrow> string \<Rightarrow> obj \<Rightarrow> db \<Rightarrow> obj result" where
  "CreateGlobalForwardingRule e project data s =
     (let name = getString data ''name'' in
      if name = [] then (Inl (Errorf ''name is required''), s)
      else
        let data = jset ''name'' (JStr name) data;
          data = jset ''project'' (JStr project) data;
          data = setDefault ''id'' (numericID e) data;
          data = setDefault ''creationTimestamp'' (nowRFC3339 e) data
          in case sqlInsert Compute_global_forwarding_rules [(C_name, name), (C_project, project)]
                    (marshalData data) s of
               Inl err \<Rightarrow> (Inl (mapInsertError err), s)
             | Inr s' \<Rightarrow> (GetGlobalForwardingRule s' project name, s'))"

lemma CreateGlobalForwardingRule_inv [keeps_inv]: "repo_inv s \<Longrightarrow> repo_inv (snd (CreateGlobalForwardingRule e project data s))"
  unfolding CreateGlobalForwardingRule_def Let_def by (auto dest!: inv_insertD simp: insertMirrors_def split: sum.split option.split)

definition DeleteGlobalForwardingRule :: "string \<Rightarrow> string \<Rightarrow> db \<Rightarrow> unit result" where
  "DeleteGlobalForwardingRule project name s =
     deleteWithResult Compute_global_forwarding_rules [(C_project, project), (C_name, name)] s"

lemma DeleteGlobalForwardingRule_inv [keeps_inv]: "repo_inv s \<Longrightarrow> repo_inv (snd (DeleteGlobalForwardingRule project name s))"
  by (simp add: DeleteGlobalForwardingRule_def deleteWithResult_inv)

end
