(* ===== verification/Repo_Iam.thy ===== *)
theory Repo_Iam
  imports Repo_Base Go_Strings
begin

text \<open>
  Service accounts, their keys and the project IAM bindings of
  \<^verbatim>\<open>repository/repository.go\<close>. A key refers to its account by e-mail (foreign key with
  cascade). \<^verbatim>\<open>SetIAMBinding\<close> runs in a transaction: it returns the old state when an
  insert fails.
\<close>

section \<open>Service accounts\<close>

definition GetServiceAccount :: "db \<Rightarrow> string \<Rightarrow> string \<Rightarrow> go_error + obj" where
  "GetServiceAccount s project email =
     loadOne Iam_service_accounts [(C_project, project), (C_email, email)] s"

definition ListServiceAccounts :: "db \<Rightarrow> string \<Rightarrow> obj list" where
  "ListServiceAccounts s project =
     loadMany Iam_service_accounts [(C_project, project)] [C_email] s"

text \<open>\<^verbatim>\<open>"sa-" + strings.ReplaceAll(newID()[:12], "-", "")\<close>\<close>

definition generatedAccountId :: "env \<Rightarrow> string" where
  "generatedAccountId e = ''sa-'' @ filter (\<lambda>c. c \<noteq> CHR ''-'') (take 12 (newID e))"

definition saEmail :: "string \<Rightarrow> string \<Rightarrow> string" where
  "saEmail accountID project = accountID @ ''@'' @ project @ ''.iam.gserviceaccount.com''"

definition CreateServiceAccount :: "env \<Rightarrow> string \<Rightarrow> obj \<Rightarrow> db \<Rightarrow> obj result" where
  "CreateServiceAccount e project data s =
     (let accountID = getString data ''accountId'';
          accountID = (if accountID = [] then getString data ''name'' else accountID);
          accountID = (if accountID = [] then generatedAccountId e else accountID);
          uniqueID = numericID e;
          email = saEmail accountID project;
          data = jset ''accountId'' (JStr accountID) data;
          data = jset ''project'' (JStr project) data;
          data = jset ''uniqueId'' (JStr uniqueID) data;
          data = jset ''email'' (JStr email) data;
          data = setDefault ''name'' (''projects/'' @ project @ ''/serviceAccounts/'' @ email) data
      in case sqlInsert Iam_service_accounts
                [(C_unique_id, uniqueID), (C_project, project), (C_email, email)]
                (marshalData data) s of
           Inl err \<Rightarrow> (Inl (mapInsertError err), s)
         | Inr s' \<Rightarrow> (GetServiceAccount s' project email, s'))"

lemma CreateServiceAccount_inv [keeps_inv]:
  "repo_inv s \<Longrightarrow> repo_inv (snd (CreateServiceAccount e project data s))"
  unfolding CreateServiceAccount_def Let_def
  by (auto dest!: inv_insertD simp: insertMirrors_def split: sum.split)

definition DeleteServiceAccount :: "string \<Rightarrow> string \<Rightarrow> db \<Rightarrow> unit result" where
  "DeleteServiceAccount project email s =
     deleteWithResult Iam_service_accounts [(C_project, project), (C_email, email)] s"

lemma DeleteServiceAccount_inv [keeps_inv]:
  "repo_inv s \<Longrightarrow> repo_inv (snd (DeleteServiceAccount project email s))"
  by (simp add: DeleteServiceAccount_def deleteWithResult_inv)

definition UpdateServiceAccount :: "string \<Rightarrow> string \<Rightarrow> obj \<Rightarrow> db \<Rightarrow> obj result" where
  "UpdateServiceAccount project email patch s =
     (case GetServiceAccount s project email of
        Inl err \<Rightarrow> (Inl err, s)
      | Inr current \<Rightarrow>
          let merged = patchMerge current patch [''name'', ''email'', ''project'', ''uniqueId''];
              merged = jset ''project'' (JStr project) merged;
              merged = jset ''email'' (JStr email) merged;
              name = getString current ''name'';
              merged = (if name \<noteq> [] then jset ''name'' (JStr name) merged else merged)
          in case sqlUpdate Iam_service_accounts [(C_project, project), (C_email, email)] []
                    (marshalData merged) s of
               Inl err \<Rightarrow> (Inl (mapInsertError err), s)
             | Inr s' \<Rightarrow> (Inr merged, s'))"

lemma UpdateServiceAccount_inv [keeps_inv]:
  assumes inv: "repo_inv s"
  shows "repo_inv (snd (UpdateServiceAccount project email patch s))"
proof (cases "GetServiceAccount s project email")
  case (Inl err)
  with inv show ?thesis by (simp add: UpdateServiceAccount_def)
next
  case (Inr current)
  let ?conds = "[(C_project, project), (C_email, email)]"
  have row: "rdata r = current" if "r \<in> set (s Iam_service_accounts)" "matches ?conds r" for r
    using iam_service_accounts_tbl.load_row [OF repo_invD(1) [OF inv] _ that] Inr
    by (simp add: GetServiceAccount_def)
  have uid: "map_of current ''uniqueId'' = map_option JStr (colOf r C_unique_id)"
    if "r \<in> set (s Iam_service_accounts)" "matches ?conds r" for r
    using repo_inv_mirror [OF inv that(1), of "''uniqueId''" C_unique_id] row [OF that] by simp
  have "updateMirrors Iam_service_accounts ?conds [] d s"
    if "map_of d ''project'' = Some (JStr project)" "map_of d ''email'' = Some (JStr email)"
       "map_of d ''uniqueId'' = map_of current ''uniqueId''" for d
    using that uid by (auto simp: updateMirrors_def matches_def)
  with Inr inv show ?thesis
    unfolding UpdateServiceAccount_def Let_def
    by (auto split: sum.split elim!: inv_update)
qed

section \<open>Service account keys\<close>

definition GetSAKey :: "db \<Rightarrow> string \<Rightarrow> go_error + obj" where
  "GetSAKey s name = loadOne Iam_sa_keys [(C_name, name)] s"

definition ListSAKeys :: "db \<Rightarrow> string \<Rightarrow> obj list" where
  "ListSAKeys s serviceAccountEmail =
     loadMany Iam_sa_keys [(C_service_account_email, serviceAccountEmail)] [C_name] s"

definition CreateSAKey :: "env \<Rightarrow> string \<Rightarrow> string \<Rightarrow> obj \<Rightarrow> db \<Rightarrow> obj result" where
  "CreateSAKey e project serviceAccountEmail data s =
     (let name = getString data ''name'';
          name = (if name = [] then ''projects/'' @ project @ ''/serviceAccounts/'' @
                    serviceAccountEmail @ ''/keys/'' @ newID e else name);
          data = jset ''name'' (JStr name) data;
          data = jset ''project'' (JStr project) data;
          data = jset ''serviceAccountEmail'' (JStr serviceAccountEmail) data;
          data = setDefault ''validAfterTime'' (nowRFC3339 e) data
      in case sqlInsert Iam_sa_keys
                [(C_name, name), (C_project, project),
                 (C_service_account_email, serviceAccountEmail)] (marshalData data) s of
           Inl err \<Rightarrow> (Inl (mapInsertError err), s)
         | Inr s' \<Rightarrow> (GetSAKey s' name, s'))"

lemma CreateSAKey_inv [keeps_inv]:
  "repo_inv s \<Longrightarrow> repo_inv (snd (CreateSAKey e project email data s))"
  unfolding CreateSAKey_def Let_def
  by (auto dest!: inv_insertD simp: insertMirrors_def split: sum.split)

definition DeleteSAKey :: "string \<Rightarrow> db \<Rightarrow> unit result" where
  "DeleteSAKey name s = deleteWithResult Iam_sa_keys [(C_name, name)] s"

lemma DeleteSAKey_inv [keeps_inv]: "repo_inv s \<Longrightarrow> repo_inv (snd (DeleteSAKey name s))"
  by (simp add: DeleteSAKey_def deleteWithResult_inv)

section \<open>Project IAM bindings\<close>

text \<open>The loop of \<^verbatim>\<open>SetIAMBinding\<close> over the members.\<close>

fun insertMembers :: "string \<Rightarrow> string \<Rightarrow> string list \<Rightarrow> db \<Rightarrow> go_error + db" where
  "insertMembers project role [] s = Inr s"
| "insertMembers project role (member # members) s =
     (if trimSpace member = [] then insertMembers project role members s
      else
        case sqlInsert Iam_bindings
               [(C_project, project), (C_role, role), (C_member, member)]
               (marshalData [(''role'', JStr role), (''member'', JStr member)]) s of
          Inl err \<Rightarrow> Inl (mapInsertError err)
        | Inr s' \<Rightarrow> insertMembers project role members s')"

definition SetIAMBinding :: "string \<Rightarrow> string \<Rightarrow> string list \<Rightarrow> db \<Rightarrow> unit result" where
  "SetIAMBinding project role members s =
     (if role = [] then (Inl (Errorf ''role is required''), s)
      else
        case sqlDelete Iam_bindings [(C_project, project), (C_role, role)] s of
          Inl err \<Rightarrow> (Inl err, s)
        | Inr (tx, _) \<Rightarrow>
            (case insertMembers project role members tx of
               Inl err \<Rightarrow> (Inl err, s)
             | Inr tx \<Rightarrow> (Inr (), tx)))"

lemma insertMembers_inv:
  "role \<noteq> [] \<Longrightarrow> repo_inv s \<Longrightarrow> insertMembers project role members s = Inr s' \<Longrightarrow> repo_inv s'"
  by (induction project role members s rule: insertMembers.induct)
    (auto dest!: inv_insertD simp: insertMirrors_def split: if_splits sum.splits)

lemma SetIAMBinding_inv [keeps_inv]:
  "repo_inv s \<Longrightarrow> repo_inv (snd (SetIAMBinding project role members s))"
  unfolding SetIAMBinding_def
  by (auto split: sum.split prod.split dest: inv_delete insertMembers_inv)

definition GetIAMBinding :: "db \<Rightarrow> string \<Rightarrow> string \<Rightarrow> obj list" where
  "GetIAMBinding s project role =
     loadMany Iam_bindings [(C_project, project), (C_role, role)] [C_member] s"

definition ListIAMBindings :: "db \<Rightarrow> string \<Rightarrow> obj list" where
  "ListIAMBindings s project = loadMany Iam_bindings [(C_project, project)] [C_role, C_member] s"

definition AddIAMMember :: "string \<Rightarrow> string \<Rightarrow> string \<Rightarrow> db \<Rightarrow> unit result" where
  "AddIAMMember project role member s =
     (if role = [] then (Inl (Errorf ''role is required''), s)
      else if member = [] then (Inl (Errorf ''member is required''), s)
      else
        case sqlInsertOrIgnore Iam_bindings
               [(C_project, project), (C_role, role), (C_member, member)]
               (marshalData [(''role'', JStr role), (''member'', JStr member)]) s of
          Inl err \<Rightarrow> (Inl err, s)
        | Inr s' \<Rightarrow> (Inr (), s'))"

lemma AddIAMMember_inv [keeps_inv]:
  "repo_inv s \<Longrightarrow> repo_inv (snd (AddIAMMember project role member s))"
  unfolding AddIAMMember_def sqlInsertOrIgnore_def
  by (auto dest!: inv_insertD simp: insertMirrors_def split: sum.split)

definition RemoveIAMMember :: "string \<Rightarrow> string \<Rightarrow> string \<Rightarrow> db \<Rightarrow> unit result" where
  "RemoveIAMMember project role member s =
     deleteWithResult Iam_bindings [(C_project, project), (C_role, role), (C_member, member)] s"

lemma RemoveIAMMember_inv [keeps_inv]:
  "repo_inv s \<Longrightarrow> repo_inv (snd (RemoveIAMMember project role member s))"
  by (simp add: RemoveIAMMember_def deleteWithResult_inv)

text \<open>
  \<^verbatim>\<open>byRole\<close> and \<^verbatim>\<open>roles\<close> of \<^verbatim>\<open>GetIAMPolicy\<close> in one association list: its keys are
  \<^verbatim>\<open>roles\<close> in order of first appearance.
\<close>

definition addToRole ::
  "string \<Rightarrow> string \<Rightarrow> (string \<times> string list) list \<Rightarrow> (string \<times> string list) list" where
  "addToRole role member byRole =
     AList.update role
       ((case map_of byRole role of None \<Rightarrow> [] | Some ms \<Rightarrow> ms) @ [member]) byRole"

fun groupByRole :: "obj list \<Rightarrow> (string \<times> string list) list \<Rightarrow> (string \<times> string list) list" where
  "groupByRole [] byRole = byRole"
| "groupByRole (item # items) byRole =
     (let role = getString item ''role''; member = getString item ''member'' in
      if role = [] \<or> member = [] then groupByRole items byRole
      else groupByRole items (addToRole role member byRole))"

definition GetIAMPolicy :: "db \<Rightarrow> string \<Rightarrow> obj" where
  "GetIAMPolicy s project =
     [(''bindings'', JArr (map (\<lambda>(role, members).
         JObj [(''role'', JStr role), (''members'', JArr (map JStr members))])
         (groupByRole (ListIAMBindings s project) []))),
      (''etag'', JStr ''fake-etag''),
      (''version'', JInt 1)]"

end
