(* ===== verification/Change_Loop.thy ===== *)
theory Change_Loop
  imports Prelude
begin

text \<open>
  The loops of \<^verbatim>\<open>CreateDNSChange\<close> (\<^verbatim>\<open>src/handlers/dns.go\<close>) and the interface they rely on.
  A change removes records one at a time, then adds records one at a time; on the first
  failure it undoes what it did: the additions first, the removals after. The locale
  \<open>record_store\<close> states what the loops need of the record operations, and proves that an
  undone change leaves every record as it was and that a completed change has exactly the
  effect it names.
\<close>

section \<open>The loops\<close>

text \<open>
  Apply \<open>op\<close> to the items in turn until one fails. The result has the completed items, the
  error of the failure and the state.
\<close>

fun runAll :: "('x \<Rightarrow> 's \<Rightarrow> ('e + 'r) \<times> 's) \<Rightarrow> 'x list \<Rightarrow> 's \<Rightarrow> 'x list \<times> 'e option \<times> 's" where
  "runAll op [] s = ([], None, s)"
| "runAll op (x # xs) s =
     (case op x s of
        (Inl e, s') \<Rightarrow> ([], Some e, s')
      | (Inr _, s') \<Rightarrow> (case runAll op xs s' of (completed, e, s'') \<Rightarrow> (x # completed, e, s'')))"

text \<open>Apply \<open>op\<close> to every item and ignore the outcomes.\<close>

definition runIgnoring :: "('x \<Rightarrow> 's \<Rightarrow> ('e + 'r) \<times> 's) \<Rightarrow> 'x list \<Rightarrow> 's \<Rightarrow> 's" where
  "runIgnoring op xs s = foldl (\<lambda>s x. snd (op x s)) s xs"

text \<open>A property that \<open>op\<close> keeps is kept by the loops.\<close>

lemma runAll_keeps:
  assumes "\<And>x s. P s \<Longrightarrow> P (snd (op x s))"
  shows "runAll op xs s = (completed, e, s') \<Longrightarrow> P s \<Longrightarrow> P s'"
proof (induction xs arbitrary: s completed)
  case (Cons x xs)
  from assms [OF Cons.prems(2), of x] have "P (snd (op x s))" .
  with Cons show ?case by (auto split: prod.splits sum.splits)
qed simp

lemma runIgnoring_keeps:
  assumes "\<And>x s. P s \<Longrightarrow> P (snd (op x s))"
  shows "P s \<Longrightarrow> P (runIgnoring op xs s)"
  unfolding runIgnoring_def by (induction xs arbitrary: s) (simp_all add: assms)

lemma runAll_completed: "runAll op xs s = (completed, None, s') \<Longrightarrow> completed = xs"
  by (induction op xs s arbitrary: completed s' rule: runAll.induct)
    (auto split: prod.splits sum.splits)

lemma runAll_stops:
  "runAll op xs s = (completed, None, s1) \<Longrightarrow> op y s1 = (Inl e, s2) \<Longrightarrow>
   runAll op (xs @ y # ys) s = (completed, Some e, s2)"
  by (induction op xs s arbitrary: completed rule: runAll.induct) (auto split: prod.splits sum.splits)

lemma runAll_prefix: "runAll op xs s = (completed, e, s') \<Longrightarrow> set completed \<subseteq> set xs"
  by (induction op xs s arbitrary: completed e s' rule: runAll.induct)
    (auto split: prod.splits sum.splits, blast)

section \<open>What the loops need of the records\<close>

locale record_store =
  fixes ok :: "'s \<Rightarrow> bool"
    and find :: "'s \<Rightarrow> 'k \<Rightarrow> 'v option"
    and frame :: "'s \<Rightarrow> 'f"
    and put :: "'v \<Rightarrow> 's \<Rightarrow> ('e + 'r) \<times> 's"
    and remove :: "'k \<Rightarrow> 's \<Rightarrow> ('e + 'u) \<times> 's"
    and keyOf :: "'v \<Rightarrow> 'k"
    and stored :: "'v \<Rightarrow> 'v"
    and valid :: "'k \<Rightarrow> bool"
  assumes put_ok: "ok s \<Longrightarrow> ok (snd (put v s))"
    and put_frame: "ok s \<Longrightarrow> frame (snd (put v s)) = frame s"
    and put_fails: "ok s \<Longrightarrow> put v s = (Inl e, s') \<Longrightarrow> s' = s"
    and put_new: "ok s \<Longrightarrow> put v s = (Inr r, s') \<Longrightarrow>
          find s (keyOf v) = None \<and> find s' = (find s)(keyOf v \<mapsto> stored v)"
    and put_again: "ok s0 \<Longrightarrow> find s0 k = Some v \<Longrightarrow> valid k \<Longrightarrow> ok s \<Longrightarrow> find s k = None \<Longrightarrow>
          \<exists>r s'. put v s = (Inr r, s')"
    and find_stored: "ok s \<Longrightarrow> find s k = Some v \<Longrightarrow> keyOf v = k \<and> stored v = v"
    and remove_ok: "ok s \<Longrightarrow> ok (snd (remove k s))"
    and remove_frame: "ok s \<Longrightarrow> frame (snd (remove k s)) = frame s"
    and remove_absent: "ok s \<Longrightarrow> find s k = None \<Longrightarrow> \<exists>e. remove k s = (Inl e, s)"
    and remove_present: "ok s \<Longrightarrow> find s k = Some v \<Longrightarrow>
          \<exists>u s'. remove k s = (Inr u, s') \<and> find s' = (find s)(k := None)"
begin

lemma remove_find: "ok s \<Longrightarrow> find (snd (remove k s)) = (find s)(k := None)"
  using remove_absent [of s k] remove_present [of s k]
  by (cases "find s k") (auto simp: fun_upd_idem)

text \<open>The removals: the completed ones are distinct and were present.\<close>

lemma removals:
  assumes "ok s" "runAll remove ks s = (completed, e, s')"
  shows "ok s'" and "frame s' = frame s"
    and "find s' = (\<lambda>k. if k \<in> set completed then None else find s k)"
    and "distinct completed" and "\<forall>k\<in>set completed. find s k \<noteq> None"
proof -
  have "ok s' \<and> frame s' = frame s \<and> find s' = (\<lambda>k. if k \<in> set completed then None else find s k)
          \<and> distinct completed \<and> (\<forall>k\<in>set completed. find s k \<noteq> None)"
    using assms
  proof (induction ks arbitrary: s completed)
    case (Cons k ks)
    show ?case
    proof (cases "find s k")
      case None
      then obtain x where "remove k s = (Inl x, s)" using remove_absent [OF Cons.prems(1)] by blast
      with Cons.prems show ?thesis by auto
    next
      case (Some v)
      then obtain u s1 where s1: "remove k s = (Inr u, s1)" "find s1 = (find s)(k := None)"
        using remove_present [OF Cons.prems(1)] by blast
      from Cons.prems(2) s1 obtain done1 where d: "runAll remove ks s1 = (done1, e, s')" "completed = k # done1"
        by (auto split: prod.splits)
      have ok1: "ok s1" "frame s1 = frame s"
        using remove_ok [OF Cons.prems(1), of k] remove_frame [OF Cons.prems(1), of k] s1 by auto
      from Cons.IH [OF ok1(1) d(1)] ok1 s1 d(2) Some show ?thesis
        by (auto simp: fun_eq_iff split: if_splits)
    qed
  qed simp
  then show "ok s'" and "frame s' = frame s"
    and "find s' = (\<lambda>k. if k \<in> set completed then None else find s k)"
    and "distinct completed" and "\<forall>k\<in>set completed. find s k \<noteq> None" by auto
qed

text \<open>The additions: the completed ones have new, distinct keys.\<close>

definition added :: "'v list \<Rightarrow> 'k \<Rightarrow> 'v option" where
  "added vs = map_of (map (\<lambda>v. (keyOf v, stored v)) vs)"

lemma dom_added: "added vs k = None \<longleftrightarrow> k \<notin> keyOf ` set vs"
  by (simp add: added_def map_of_eq_None_iff image_image)

lemma additions:
  assumes "ok s" "runAll put vs s = (completed, e, s')"
  shows "ok s'" and "frame s' = frame s" and "find s' = find s ++ added completed"
    and "distinct (map keyOf completed)" and "\<forall>v\<in>set completed. find s (keyOf v) = None"
proof -
  have "ok s' \<and> frame s' = frame s \<and> find s' = find s ++ added completed
          \<and> distinct (map keyOf completed) \<and> (\<forall>v\<in>set completed. find s (keyOf v) = None)"
    using assms
  proof (induction vs arbitrary: s completed)
    case (Cons v vs)
    obtain res s1 where p: "put v s = (res, s1)" by (cases "put v s")
    have ok1: "ok s1" "frame s1 = frame s"
      using put_ok [OF Cons.prems(1), of v] put_frame [OF Cons.prems(1), of v] p by auto
    show ?case
    proof (cases res)
      case (Inl x)
      with p put_fails [OF Cons.prems(1)] Cons.prems show ?thesis by (auto simp: added_def)
    next
      case (Inr r)
      note n = put_new [OF Cons.prems(1) p [unfolded Inr]]
      from Cons.prems(2) p Inr obtain done1 where d: "runAll put vs s1 = (done1, e, s')" "completed = v # done1"
        by (auto split: prod.splits)
      have IH: "ok s'" "frame s' = frame s1" "find s' = find s1 ++ added done1"
        "distinct (map keyOf done1)" "\<forall>w\<in>set done1. find s1 (keyOf w) = None"
        using Cons.IH [OF ok1(1) d(1)] by auto
      have fresh: "keyOf w \<noteq> keyOf v \<and> find s (keyOf w) = None" if "w \<in> set done1" for w
        using bspec [OF IH(5) that] n by (auto split: if_splits)
      then have "added done1 (keyOf v) = None" by (force simp: dom_added)
      then have "find s' = find s ++ added completed"
        using IH(3) n d(2) by (auto simp: added_def fun_eq_iff map_add_def split: option.split)
      moreover have "keyOf v \<notin> keyOf ` set done1" using fresh by force
      ultimately show ?thesis using IH ok1 n d(2) fresh by simp
    qed
  qed (simp add: added_def)
  then show "ok s'" and "frame s' = frame s" and "find s' = find s ++ added completed"
    and "distinct (map keyOf completed)" and "\<forall>v\<in>set completed. find s (keyOf v) = None" by auto
qed

text \<open>Undoing the additions, and re-creating the removed records.\<close>

lemma undo_additions:
  "ok s \<Longrightarrow> ok (runIgnoring remove ks s) \<and> frame (runIgnoring remove ks s) = frame s \<and>
   find (runIgnoring remove ks s) = (\<lambda>k. if k \<in> set ks then None else find s k)"
  unfolding runIgnoring_def
proof (induction ks arbitrary: s)
  case (Cons k ks)
  show ?case
    using Cons.IH [OF remove_ok [OF Cons.prems, of k]] remove_find [OF Cons.prems, of k]
      remove_frame [OF Cons.prems, of k]
    by (auto simp: fun_eq_iff)
qed simp

lemma undo_removals:
  assumes "ok s0" "ok s" "\<forall>(k, v)\<in>set kvs. find s0 k = Some v \<and> valid k \<and> find s k = None"
    and "distinct (map fst kvs)"
  shows "ok (runIgnoring put (map snd kvs) s) \<and> frame (runIgnoring put (map snd kvs) s) = frame s \<and>
         find (runIgnoring put (map snd kvs) s) = find s ++ map_of kvs"
  using assms(2-) unfolding runIgnoring_def
proof (induction kvs arbitrary: s)
  case (Cons kv kvs)
  obtain k v where kv: "kv = (k, v)" by (cases kv)
  from Cons.prems(2) kv have p: "find s0 k = Some v" "valid k" "find s k = None" by auto
  then obtain r s1 where s1: "put v s = (Inr r, s1)"
    using put_again [OF assms(1) _ _ Cons.prems(1)] by blast
  have key: "keyOf v = k" "stored v = v" using find_stored [OF assms(1) p(1)] by auto
  have f1: "find s1 = (find s)(k \<mapsto> v)" using put_new [OF Cons.prems(1) s1] key by simp
  have ok1: "ok s1" "frame s1 = frame s"
    using put_ok [OF Cons.prems(1), of v] put_frame [OF Cons.prems(1), of v] s1 by auto
  have "\<forall>(k', v')\<in>set kvs. find s0 k' = Some v' \<and> valid k' \<and> find s1 k' = None"
    using Cons.prems(2,3) kv f1 by (force split: prod.splits)
  note IH = Cons.IH [OF ok1(1) this]
  have k: "map_of kvs k = None" using Cons.prems(3) kv by (auto simp: map_of_eq_None_iff)
  have "find s1 ++ map_of kvs = find s ++ map_of (kv # kvs)"
    using k kv f1 by (auto simp: fun_eq_iff map_add_def split: option.split)
  moreover have "distinct (map fst kvs)" using Cons.prems(3) by simp
  moreover have "foldl (\<lambda>s x. snd (put x s)) s (map snd (kv # kvs)) = foldl (\<lambda>s x. snd (put x s)) s1 (map snd kvs)"
    using s1 kv by simp
  ultimately show ?case using IH ok1(2) by presburger
qed simp

text \<open>
  A change that fails in its removals, or in its additions, and is undone, leaves every
  record as it was.
\<close>

lemma undone:
  assumes ok: "ok s"
    and rem: "runAll remove ks s = (gone, e1, s1)"
    and add: "runAll put vs s1 = (new, e2, s2)"
    and valid: "\<forall>k\<in>set gone. valid k"
    and kvs: "map fst kvs = gone" "\<forall>(k, v)\<in>set kvs. find s k = Some v"
  defines "s3 \<equiv> runIgnoring put (map snd kvs) (runIgnoring remove (map keyOf new) s2)"
  shows "ok s3 \<and> frame s3 = frame s \<and> find s3 = find s"
proof -
  note r = removals [OF ok rem]
  note a = additions [OF r(1) add]
  define su where "su = runIgnoring remove (map keyOf new) s2"
  have new: "added new k = None" if "k \<notin> keyOf ` set new" for k
    using that by (simp add: dom_added)
  have d: "ok su" "frame su = frame s2" "find su = (\<lambda>k. if k \<in> keyOf ` set new then None else find s2 k)"
    using undo_additions [OF a(1), of "map keyOf new"] by (auto simp: su_def)
  have "find su k = find s1 k" for k
    using a(5) new [of k] by (auto simp: d(3) a(3) map_add_def)
  then have u: "ok su" "frame su = frame s2" "find su = find s1" using d(1,2) by blast+
  have "find s k = Some v \<and> valid k \<and> find su k = None" if "(k, v) \<in> set kvs" for k v
  proof -
    from that have "k \<in> set (map fst kvs)" by force
    then have "k \<in> set gone" using kvs(1) by simp
    with that kvs(2) valid show ?thesis by (auto simp: u(3) r(3))
  qed
  then have "\<forall>(k, v)\<in>set kvs. find s k = Some v \<and> valid k \<and> find su k = None" by blast
  note w = undo_removals [OF ok u(1) this]
  have "find su ++ map_of kvs = find s"
  proof
    fix k
    show "(find su ++ map_of kvs) k = find s k"
    proof (cases "k \<in> set gone")
      case True
      then obtain v where v: "(k, v) \<in> set kvs" using kvs(1) by force
      with kvs r(4) have "map_of kvs k = Some v" "find s k = Some v"
        by (auto simp: map_of_is_SomeI)
      then show ?thesis by simp
    next
      case False
      with kvs(1) have "map_of kvs k = None" by (simp add: map_of_eq_None_iff set_map [symmetric] del: set_map)
      with False u(3) r(3) show ?thesis by (simp add: map_add_def)
    qed
  qed
  moreover have "s3 = runIgnoring put (map snd kvs) su" by (simp only: s3_def su_def)
  moreover have "distinct (map fst kvs)" using kvs(1) r(4) by simp
  moreover have "frame su = frame s" using u(2) a(2) r(2) by simp
  ultimately show ?thesis using w by presburger
qed

text \<open>A completed change removes the named records and adds the new ones.\<close>

lemma completed:
  assumes ok: "ok s"
    and rem: "runAll remove ks s = (gone, None, s1)"
    and add: "runAll put vs s1 = (new, None, s2)"
  shows "ok s2 \<and> frame s2 = frame s \<and>
         find s2 = (\<lambda>k. if k \<in> set ks then None else find s k) ++ added vs \<and>
         distinct ks \<and> distinct (map keyOf vs)"
  using removals [OF ok rem] additions [OF removals(1) [OF ok rem] add]
    runAll_completed [OF rem] runAll_completed [OF add] by simp

end

end
