(* ===== verification/Repo_Dns.thy ===== *)
theory Repo_Dns
  imports Repo_Base Change_Loop
begin

text \<open>
  Managed zones and record sets of \<^verbatim>\<open>repository/repository.go\<close>. A zone can only be
  deleted when it has no record sets, although the foreign key of the schema would
  cascade.
\<close>

section \<open>Managed zones\<close>

definition GetDNSZone :: "db \<Rightarrow> string \<Rightarrow> string \<Rightarrow> go_error + obj" where
  "GetDNSZone s project name =
     loadOne Dns_managed_zones [(C_project, project), (C_name, name)] s"

definition ListDNSZones :: "db \<Rightarrow> string \<Rightarrow> obj list" where
  "ListDNSZones s project = loadMany Dns_managed_zones [(C_project, project)] [C_name] s"

text \<open>The \<^verbatim>\<open>id\<close> is an \<^verbatim>\<open>int64\<close>, set only when the body has no such field.\<close>

definition CreateDNSZone :: "env \<Rightarrow> string \<Rightarrow> obj \<Rightarrow> db \<Rightarrow> obj result" where
  "CreateDNSZone e project data s =
     (let name = getString data ''name'' in
      if name = [] then (Inl (Errorf ''name is required''), s)
      else
        let data = jset ''name'' (JStr name) data;
            data = jset ''project'' (JStr project) data;
            data = setMissing ''id'' (JInt (numericIntID e)) data;
            data = setDefault ''creationTime'' (nowRFC3339 e) data
        in case sqlInsert Dns_managed_zones [(C_name, name), (C_project, project)]
                  (marshalData data) s of
             Inl err \<Rightarrow> (Inl (mapInsertError err), s)
           | Inr s' \<Rightarrow> (GetDNSZone s' project name, s'))"

lemma CreateDNSZone_inv [keeps_inv]: "repo_inv s \<Longrightarrow> repo_inv (snd (CreateDNSZone e project data s))"
  unfolding CreateDNSZone_def Let_def by (auto dest!: inv_insertD simp: insertMirrors_def split: sum.split)

definition UpdateDNSZone :: "string \<Rightarrow> string \<Rightarrow> obj \<Rightarrow> db \<Rightarrow> obj result" where
  "UpdateDNSZone project name patch s =
     (case GetDNSZone s project name of
        Inl err \<Rightarrow> (Inl err, s)
      | Inr current \<Rightarrow>
          let merged = patchMerge current patch [''name'', ''project''];
          merged = jset ''name'' (JStr name) merged;
          merged = jset ''project'' (JStr project) merged
          in case sqlUpdate Dns_managed_zones [(C_project, project), (C_name, name)] []
                    (marshalData merged) s of
               Inl err \<Rightarrow> (Inl err, s)
             | Inr s' \<Rightarrow> (Inr merged, s'))"

lemma UpdateDNSZone_inv [keeps_inv]: "repo_inv s \<Longrightarrow> repo_inv (snd (UpdateDNSZone project name patch s))"
  unfolding UpdateDNSZone_def Let_def
  by (auto dest!: inv_updateD simp: condMirrors_def split: sum.split option.split)

definition DeleteDNSZone :: "string \<Rightarrow> string \<Rightarrow> db \<Rightarrow> unit result" where
  "DeleteDNSZone project name s =
     (let count = length (filter (matches [(C_project, project), (C_managed_zone, name)]) (s Dns_record_sets)) in
      if count > 0 then (Inl ErrInUse, s)
      else deleteWithResult Dns_managed_zones [(C_project, project), (C_name, name)] s)"

lemma DeleteDNSZone_inv [keeps_inv]: "repo_inv s \<Longrightarrow> repo_inv (snd (DeleteDNSZone project name s))"
  by (simp add: DeleteDNSZone_def deleteWithResult_inv)

section \<open>Record sets\<close>

definition GetDNSRecordSet ::
  "db \<Rightarrow> string \<Rightarrow> string \<Rightarrow> string \<Rightarrow> string \<Rightarrow> go_error + obj" where
  "GetDNSRecordSet s project managedZone name rrtype =
     loadOne Dns_record_sets
       [(C_project, project), (C_managed_zone, managedZone), (C_name, name), (C_type, rrtype)] s"

definition ListDNSRecordSets :: "db \<Rightarrow> string \<Rightarrow> string \<Rightarrow> obj list" where
  "ListDNSRecordSets s project managedZone =
     loadMany Dns_record_sets [(C_project, project), (C_managed_zone, managedZone)] [C_name, C_type] s"

text \<open>
  The caller's map after the four assignments of \<^verbatim>\<open>CreateDNSRecordSet\<close>; the caller sees
  them (the map is shared), so they are a definition of their own.
\<close>

definition dnsRecordData :: "string \<Rightarrow> string \<Rightarrow> obj \<Rightarrow> obj" where
  "dnsRecordData project managedZone data =
     (let data' = jset ''name'' (JStr (getString data ''name'')) data;
          data' = jset ''project'' (JStr project) data';
          data' = jset ''managed_zone'' (JStr managedZone) data'
      in jset ''type'' (JStr (getString data ''type'')) data')"

definition CreateDNSRecordSet :: "string \<Rightarrow> string \<Rightarrow> obj \<Rightarrow> db \<Rightarrow> obj result" where
  "CreateDNSRecordSet project managedZone data s =
     (let name = getString data ''name'' in
      if name = [] then (Inl (Errorf ''name is required''), s)
      else
        let rrtype = getString data ''type'' in
        if rrtype = [] then (Inl (Errorf ''type is required''), s)
        else
          let data = dnsRecordData project managedZone data
          in case sqlInsert Dns_record_sets
                    [(C_name, name), (C_project, project), (C_managed_zone, managedZone),
                     (C_type, rrtype)] (marshalData data) s of
               Inl err \<Rightarrow> (Inl (mapInsertError err), s)
             | Inr s' \<Rightarrow> (GetDNSRecordSet s' project managedZone name rrtype, s'))"

lemma CreateDNSRecordSet_inv [keeps_inv]:
  "repo_inv s \<Longrightarrow> repo_inv (snd (CreateDNSRecordSet project managedZone data s))"
  unfolding CreateDNSRecordSet_def dnsRecordData_def Let_def
  by (auto dest!: inv_insertD simp: insertMirrors_def split: sum.split)

definition DeleteDNSRecordSet :: "string \<Rightarrow> string \<Rightarrow> string \<Rightarrow> string \<Rightarrow> db \<Rightarrow> unit result" where
  "DeleteDNSRecordSet project managedZone name rrtype s =
     deleteWithResult Dns_record_sets
       [(C_project, project), (C_managed_zone, managedZone), (C_name, name), (C_type, rrtype)] s"

lemma DeleteDNSRecordSet_inv [keeps_inv]:
  "repo_inv s \<Longrightarrow> repo_inv (snd (DeleteDNSRecordSet project managedZone name rrtype s))"
  by (simp add: DeleteDNSRecordSet_def deleteWithResult_inv)

section \<open>The record sets of one zone as a record store\<close>

definition zonePresent :: "string \<Rightarrow> string \<Rightarrow> db \<Rightarrow> bool" where
  "zonePresent project zone s \<longleftrightarrow> repo_inv s \<and> (\<exists>z. GetDNSZone s project zone = Inr z)"

definition findRecord :: "string \<Rightarrow> string \<Rightarrow> db \<Rightarrow> string \<times> string \<Rightarrow> obj option" where
  "findRecord project zone s k =
     (case GetDNSRecordSet s project zone (fst k) (snd k) of Inl _ \<Rightarrow> None | Inr d \<Rightarrow> Some d)"

text \<open>Everything but the record sets of the zone.\<close>

definition otherRows :: "string \<Rightarrow> string \<Rightarrow> db \<Rightarrow> db" where
  "otherRows project zone s =
     s(Dns_record_sets :=
         filter (\<lambda>r. \<not> matches [(C_project, project), (C_managed_zone, zone)] r) (s Dns_record_sets))"

definition removeRecord :: "string \<Rightarrow> string \<Rightarrow> string \<times> string \<Rightarrow> db \<Rightarrow> unit result" where
  "removeRecord project zone k s = DeleteDNSRecordSet project zone (fst k) (snd k) s"

definition recordKey :: "obj \<Rightarrow> string \<times> string" where
  "recordKey d = (getString d ''name'', getString d ''type'')"

definition storedRecord :: "string \<Rightarrow> string \<Rightarrow> obj \<Rightarrow> obj" where
  "storedRecord project zone d = marshalData (dnsRecordData project zone d)"

definition validKey :: "string \<times> string \<Rightarrow> bool" where
  "validKey k \<longleftrightarrow> fst k \<noteq> [] \<and> snd k \<noteq> []"

lemma findRecord_None: "findRecord project zone s k = None \<longleftrightarrow>
    loadOne Dns_record_sets
      [(C_project, project), (C_managed_zone, zone), (C_name, fst k), (C_type, snd k)] s = Inl ErrNotFound"
  by (auto simp: findRecord_def GetDNSRecordSet_def split: sum.split dest: loadOne_NotFound [THEN iffD1])

lemma findRecord_Some: "findRecord project zone s k = Some d \<longleftrightarrow>
    loadOne Dns_record_sets
      [(C_project, project), (C_managed_zone, zone), (C_name, fst k), (C_type, snd k)] s = Inr d"
  by (auto simp: findRecord_def GetDNSRecordSet_def split: sum.split)

lemma zone_fk:
  assumes "GetDNSZone s project zone = Inr z" "map_of cs C_project = Some project"
    and "map_of cs C_managed_zone = Some zone"
  shows "fksHold s Dns_record_sets (mkRow cs d rs)"
proof -
  obtain r where r: "r \<in> set (s Dns_managed_zones)" "matches [(C_project, project), (C_name, zone)] r"
    by (rule loadOne_Inr_row [OF assms(1) [unfolded GetDNSZone_def]])
  then have "colOf r C_project = Some project" "colOf r C_name = Some zone"
    by (simp_all add: matches_def)
  with r(1) assms(2,3) show ?thesis
    by (auto simp: fksHold_def fkHolds_def list_ex_iff refersTo_def keyVals_def intro!: bexI [of _ r])
qed

lemma record_insert:
  assumes "GetDNSZone s project zone = Inr z" "findRecord project zone s (name, rrtype) = None"
  shows "\<exists>s'. sqlInsert Dns_record_sets
           [(C_name, name), (C_project, project), (C_managed_zone, zone), (C_type, rrtype)] d s = Inr s'"
proof -
  have "\<not> matches [(C_project, project), (C_managed_zone, zone), (C_name, name), (C_type, rrtype)] r"
    if "r \<in> set (s Dns_record_sets)" for r
    using assms(2) that unfolding findRecord_None loadOne_NotFound by simp
  then have "\<not> keyClash Dns_record_sets
      (mkRow [(C_name, name), (C_project, project), (C_managed_zone, zone), (C_type, rrtype)] d (s Dns_record_sets))
      (s Dns_record_sets)"
    by (auto simp: keyClash_def list_ex_iff keysOf_def sameKey_def keyVals_def matches_def
        split: option.splits)
  then show ?thesis
    using zone_fk [OF assms(1)] by (simp add: sqlInsert_def Let_def)
qed

lemma record_put:
  assumes inv: "repo_inv s" and put: "CreateDNSRecordSet project zone d s = (res, s')"
  shows "(\<exists>e. res = Inl e \<and> s' = s) \<or>
    (\<exists>r. res = Inr r) \<and> recordKey d \<noteq> ([], []) \<and>
    sqlInsert Dns_record_sets
      [(C_name, fst (recordKey d)), (C_project, project), (C_managed_zone, zone), (C_type, snd (recordKey d))]
      (storedRecord project zone d) s = Inr s'"
proof (cases "sqlInsert Dns_record_sets
      [(C_name, fst (recordKey d)), (C_project, project), (C_managed_zone, zone), (C_type, snd (recordKey d))]
      (storedRecord project zone d) s")
  case (Inl e)
  with put show ?thesis
    by (auto simp: CreateDNSRecordSet_def Let_def recordKey_def storedRecord_def split: if_splits)
next
  case (Inr s1)
  have "GetDNSRecordSet s1 project zone (fst (recordKey d)) (snd (recordKey d)) = Inr (storedRecord project zone d)"
    unfolding GetDNSRecordSet_def
    by (rule dns_record_sets_tbl.load_insert [OF repo_invD(1) [OF inv] _ Inr]) (simp_all add: agrees_def)
  note get = this
  show ?thesis
  proof (cases "fst (recordKey d) = [] \<or> snd (recordKey d) = []")
    case True
    with put show ?thesis by (auto simp: CreateDNSRecordSet_def recordKey_def Let_def split: if_splits)
  next
    case False
    with Inr put have "s1 = s'" "res = GetDNSRecordSet s' project zone (fst (recordKey d)) (snd (recordKey d))"
      by (auto simp: CreateDNSRecordSet_def Let_def recordKey_def storedRecord_def)
    with get Inr False show ?thesis by auto
  qed
qed

lemma record_put_find:
  assumes inv: "repo_inv s"
    and ins: "sqlInsert Dns_record_sets
      [(C_name, name), (C_project, project), (C_managed_zone, zone), (C_type, rrtype)] d s = Inr s'"
  shows "findRecord project zone s (name, rrtype) = None"
    and "findRecord project zone s' = (findRecord project zone s)((name, rrtype) \<mapsto> d)"
    and "otherRows project zone s' = otherRows project zone s"
proof -
  have ag: "agrees [(C_project, project), (C_managed_zone, zone), (C_name, n), (C_type, t)]
      [(C_name, name), (C_project, project), (C_managed_zone, zone), (C_type, rrtype)]
      \<longleftrightarrow> n = name \<and> t = rrtype" for n t
    by (auto simp: agrees_def)
  show "findRecord project zone s (name, rrtype) = None"
    unfolding findRecord_None
    by (rule dns_record_sets_tbl.insert_absent [OF _ ins]) (simp_all add: ag)
  show "findRecord project zone s' = (findRecord project zone s)((name, rrtype) \<mapsto> d)"
  proof
    fix k
    show "findRecord project zone s' k = ((findRecord project zone s)((name, rrtype) \<mapsto> d)) k"
    proof (cases "k = (name, rrtype)")
      case True
      have "findRecord project zone s' k = Some d"
        unfolding findRecord_Some True
        by (rule dns_record_sets_tbl.load_insert [OF repo_invD(1) [OF inv] _ ins]) (simp_all add: ag)
      with True show ?thesis by simp
    next
      case False
      then have "\<not> (fst k = name \<and> snd k = rrtype)" by (metis prod.collapse)
      then have "findRecord project zone s' k = findRecord project zone s k"
        unfolding findRecord_def GetDNSRecordSet_def
        by (subst dns_record_sets_tbl.load_insert_other [OF ins]) (simp_all add: ag)
      with False show ?thesis by simp
    qed
  qed
  show "otherRows project zone s' = otherRows project zone s"
    using sqlInsert_Inr(1) [OF ins] by (simp add: otherRows_def agrees_def)
qed

lemma zonePresent_other: "zonePresent project zone s \<Longrightarrow> repo_inv s' \<Longrightarrow>
    otherRows project zone s' = otherRows project zone s \<Longrightarrow> zonePresent project zone s'"
proof -
  assume z: "zonePresent project zone s" "repo_inv s'"
    and o: "otherRows project zone s' = otherRows project zone s"
  from fun_cong [OF o, of Dns_managed_zones] have "s' Dns_managed_zones = s Dns_managed_zones"
    by (simp add: otherRows_def)
  then have "GetDNSZone s' project zone = GetDNSZone s project zone"
    unfolding GetDNSZone_def by (rule loadOne_cong)
  with z show "zonePresent project zone s'" by (simp add: zonePresent_def)
qed

lemma removeRecord_rows:
  "removeRecord project zone k s =
     (if filter (matches [(C_project, project), (C_managed_zone, zone), (C_name, fst k), (C_type, snd k)])
           (s Dns_record_sets) = [] then Inl ErrNotFound else Inr (),
      s(Dns_record_sets := filter
          (\<lambda>r. \<not> matches [(C_project, project), (C_managed_zone, zone), (C_name, fst k), (C_type, snd k)] r)
          (s Dns_record_sets)))"
proof -
  have leaf: "\<forall>c. \<forall>f\<in>set (foreignKeys (migrate c)). fkParent f \<noteq> Dns_record_sets"
  proof
    fix c
    show "\<forall>f\<in>set (foreignKeys (migrate c)). fkParent f \<noteq> Dns_record_sets" by (cases c) auto
  qed
  show ?thesis
    unfolding removeRecord_def DeleteDNSRecordSet_def deleteWithResult_def delete_leaf_Inr [OF leaf]
    by simp
qed

lemma record_remove:
  assumes inv: "repo_inv s" and rem: "removeRecord project zone k s = (res, s')"
  shows "otherRows project zone s' = otherRows project zone s"
    and "findRecord project zone s k = None \<longrightarrow> (\<exists>e. res = Inl e) \<and> s' = s"
    and "findRecord project zone s k = Some d \<longrightarrow>
           res = Inr () \<and> findRecord project zone s' = (findRecord project zone s)(k := None)"
proof -
  let ?c = "[(C_project, project), (C_managed_zone, zone), (C_name, fst k), (C_type, snd k)]"
  have s': "s' = s(Dns_record_sets := filter (\<lambda>r. \<not> matches ?c r) (s Dns_record_sets))"
    and res: "res = (if filter (matches ?c) (s Dns_record_sets) = [] then Inl ErrNotFound else Inr ())"
    using rem unfolding removeRecord_rows by (auto split: if_splits)
  have sub: "matches ?c r \<Longrightarrow> matches [(C_project, project), (C_managed_zone, zone)] r" for r
    by (simp add: matches_def)
  have "\<not> matches ?c r \<and> \<not> matches [(C_project, project), (C_managed_zone, zone)] r \<longleftrightarrow>
      \<not> matches [(C_project, project), (C_managed_zone, zone)] r" for r
    using sub by blast
  then show "otherRows project zone s' = otherRows project zone s"
    by (simp only: otherRows_def s' fun_upd_same fun_upd_upd filter_filter)
  show "findRecord project zone s k = None \<longrightarrow> (\<exists>e. res = Inl e) \<and> s' = s"
    using res s' by (auto simp: findRecord_None loadOne_NotFound filter_empty_conv filter_id_conv)
  show "findRecord project zone s k = Some d \<longrightarrow>
           res = Inr () \<and> findRecord project zone s' = (findRecord project zone s)(k := None)"
  proof
    assume f: "findRecord project zone s k = Some d"
    then have "res = Inr ()"
      by (auto simp: res findRecord_Some filter_empty_conv elim!: loadOne_Inr_row)
    moreover have "findRecord project zone s' k' = ((findRecord project zone s)(k := None)) k'" for k'
    proof (cases "k' = k")
      case True
      then show ?thesis by (simp add: findRecord_None loadOne_NotFound s')
    next
      case False
      let ?c' = "[(C_project, project), (C_managed_zone, zone), (C_name, fst k'), (C_type, snd k')]"
      have "\<not> (matches ?c r \<and> matches ?c' r)" for r
        using False by (auto simp: matches_def prod_eq_iff)
      then have "filter (matches ?c') (s' Dns_record_sets) = filter (matches ?c') (s Dns_record_sets)"
        by (auto simp: s' intro!: filter_cong)
      with False show ?thesis by (simp add: findRecord_def GetDNSRecordSet_def loadOne_def)
    qed
    ultimately show "res = Inr () \<and> findRecord project zone s' = (findRecord project zone s)(k := None)"
      by blast
  qed
qed

text \<open>A stored record carries its own key, and storing it again changes nothing.\<close>

lemma record_stored:
  assumes inv: "repo_inv s" and find: "findRecord project zone s k = Some d"
  shows "recordKey d = k" and "storedRecord project zone d = d"
proof -
  obtain r where r: "r \<in> set (s Dns_record_sets)"
      "matches [(C_project, project), (C_managed_zone, zone), (C_name, fst k), (C_type, snd k)] r" "rdata r = d"
    by (rule loadOne_Inr_row [OF find [unfolded findRecord_Some]])
  note m = repo_inv_mirror [OF inv r(1), unfolded r(3)]
  have f: "map_of d ''name'' = Some (JStr (fst k))" "map_of d ''project'' = Some (JStr project)"
    "map_of d ''managed_zone'' = Some (JStr zone)" "map_of d ''type'' = Some (JStr (snd k))"
    using m [of "''name''" C_name] m [of "''project''" C_project]
      m [of "''managed_zone''" C_managed_zone] m [of "''type''" C_type] r(2)
    by (simp_all add: matches_def)
  then show "recordKey d = k" by (simp add: recordKey_def getString_def)
  have "dnsRecordData project zone d = d"
    using f by (simp add: dnsRecordData_def getString_def jset_same)
  with repo_inv_canonical [OF inv r(1)] r(3) show "storedRecord project zone d = d"
    by (simp add: storedRecord_def)
qed

interpretation zone_records: record_store
  "zonePresent project zone" "findRecord project zone" "otherRows project zone"
  "CreateDNSRecordSet project zone" "removeRecord project zone" recordKey
  "storedRecord project zone" validKey
  for project zone
proof unfold_locales
  fix s d k d' e s' and r :: obj
  assume ok: "zonePresent project zone s"
  then have inv: "repo_inv s" by (simp add: zonePresent_def)
  obtain z where z: "GetDNSZone s project zone = Inr z" using ok by (auto simp: zonePresent_def)
  note key = prod.collapse [of "recordKey d"]
  obtain res s1 where p: "CreateDNSRecordSet project zone d s = (res, s1)"
    by (cases "CreateDNSRecordSet project zone d s")
  have fr: "otherRows project zone s1 = otherRows project zone s"
    using record_put [OF inv p] record_put_find(3) [OF inv] by blast
  have inv1: "repo_inv s1" using CreateDNSRecordSet_inv [OF inv] p by (metis snd_conv)
  show "otherRows project zone (snd (CreateDNSRecordSet project zone d s)) = otherRows project zone s"
    using p fr by simp
  show "zonePresent project zone (snd (CreateDNSRecordSet project zone d s))"
    using zonePresent_other [OF ok inv1 fr] p by simp
  show "s' = s" if "CreateDNSRecordSet project zone d s = (Inl e, s')"
    using record_put [OF inv that] by auto
  show "findRecord project zone s (recordKey d) = None \<and>
        findRecord project zone s' = (findRecord project zone s)(recordKey d \<mapsto> storedRecord project zone d)"
    if "CreateDNSRecordSet project zone d s = (Inr r, s')"
    using record_put [OF inv that] record_put_find(1,2) [OF inv, of "fst (recordKey d)" project zone "snd (recordKey d)"]
    by auto
  show "recordKey d = k \<and> storedRecord project zone d = d" if "findRecord project zone s k = Some d"
    using record_stored [OF inv that] by blast
  obtain resr sr where q: "removeRecord project zone k s = (resr, sr)" by (cases "removeRecord project zone k s")
  note rr = record_remove [OF inv q]
  have invr: "repo_inv sr"
    using DeleteDNSRecordSet_inv [OF inv, of project zone "fst k" "snd k"] q by (simp add: removeRecord_def)
  show "otherRows project zone (snd (removeRecord project zone k s)) = otherRows project zone s"
    using q rr(1) by simp
  show "zonePresent project zone (snd (removeRecord project zone k s))"
    using zonePresent_other [OF ok invr rr(1)] q by simp
  show "\<exists>e. removeRecord project zone k s = (Inl e, s)" if "findRecord project zone s k = None"
    using rr(2) that q by auto
  show "\<exists>u s'. removeRecord project zone k s = (Inr u, s') \<and>
          findRecord project zone s' = (findRecord project zone s)(k := None)"
    if "findRecord project zone s k = Some d"
    using rr(3) [of d] that q by auto
next
  fix s0 s k d
  assume s0: "zonePresent project zone s0" "findRecord project zone s0 k = Some d" "validKey k"
    and s: "zonePresent project zone s" "findRecord project zone s k = None"
  have inv: "repo_inv s" "repo_inv s0" using s s0 by (simp_all add: zonePresent_def)
  obtain z where z: "GetDNSZone s project zone = Inr z" using s(1) by (auto simp: zonePresent_def)
  note d = record_stored [OF inv(2) s0(2)]
  then have k: "getString d ''name'' = fst k" "getString d ''type'' = snd k"
    by (auto simp: recordKey_def)
  obtain s' where s': "sqlInsert Dns_record_sets
      [(C_name, fst k), (C_project, project), (C_managed_zone, zone), (C_type, snd k)] d s = Inr s'"
    using record_insert [OF z, of "fst k" "snd k" d] s(2) by auto
  have "findRecord project zone s' k = Some d"
    using record_put_find(2) [OF inv(1) s'] by simp
  then show "\<exists>r s'. CreateDNSRecordSet project zone d s = (Inr r, s')"
    using s' d(2) s0(3) k
    by (simp add: CreateDNSRecordSet_def Let_def storedRecord_def validKey_def findRecord_Some GetDNSRecordSet_def)
qed

end
