(* ===== verification/Repo_Secret.thy ===== *)
theory Repo_Secret
  imports Repo_Base Refs
begin

text \<open>
  Secrets and secret versions of \<^verbatim>\<open>repository/repository.go\<close>. The number in a
  version's name is one more than the largest rowid of the secret's versions.
\<close>

section \<open>Secrets\<close>

definition secretName :: "string \<Rightarrow> string \<Rightarrow> string" where
  "secretName project name = ''projects/'' @ project @ ''/secrets/'' @ name"

definition GetSecret :: "db \<Rightarrow> string \<Rightarrow> string \<Rightarrow> go_error + obj" where
  "GetSecret s project name = loadOne Secretmanager_secrets [(C_project, project), (C_name, name)] s"

definition ListSecrets :: "db \<Rightarrow> string \<Rightarrow> obj list" where
  "ListSecrets s project = loadMany Secretmanager_secrets [(C_project, project)] [C_name] s"

definition CreateSecret :: "env \<Rightarrow> string \<Rightarrow> obj \<Rightarrow> db \<Rightarrow> obj result" where
  "CreateSecret e project data s =
     (let name = getString data ''secretId'';
          name = (if name = [] then extractNameFromSelfLink (getString data ''name'') else name)
      in if name = [] then (Inl (Errorf ''name is required''), s)
      else
        let data = jset ''project'' (JStr project) data;
            data = jset ''secretId'' (JStr name) data;
            data = setDefault ''name'' (secretName project name) data;
            data = setDefault ''createTime'' (nowRFC3339 e) data
        in case sqlInsert Secretmanager_secrets [(C_name, name), (C_project, project)]
                  (marshalData data) s of
             Inl err \<Rightarrow> (Inl (mapInsertError err), s)
           | Inr s' \<Rightarrow> (GetSecret s' project name, s'))"

lemma CreateSecret_inv [keeps_inv]: "repo_inv s \<Longrightarrow> repo_inv (snd (CreateSecret e project data s))"
  unfolding CreateSecret_def Let_def by (auto dest!: inv_insertD simp: insertMirrors_def split: sum.split)

definition DeleteSecret :: "string \<Rightarrow> string \<Rightarrow> db \<Rightarrow> unit result" where
  "DeleteSecret project name s =
     deleteWithResult Secretmanager_secrets [(C_project, project), (C_name, name)] s"

lemma DeleteSecret_inv [keeps_inv]: "repo_inv s \<Longrightarrow> repo_inv (snd (DeleteSecret project name s))"
  by (simp add: DeleteSecret_def deleteWithResult_inv)

definition UpdateSecret :: "string \<Rightarrow> string \<Rightarrow> obj \<Rightarrow> db \<Rightarrow> obj result" where
  "UpdateSecret project name patch s =
     (case GetSecret s project name of
        Inl err \<Rightarrow> (Inl err, s)
      | Inr current \<Rightarrow>
          let merged = patchMerge current patch [''name'', ''project''];
              merged = jset ''project'' (JStr project) merged;
              merged = jset ''name'' (JStr (secretName project name)) merged
          in case sqlUpdate Secretmanager_secrets [(C_project, project), (C_name, name)] []
                    (marshalData merged) s of
               Inl err \<Rightarrow> (Inl (mapInsertError err), s)
             | Inr s' \<Rightarrow> (Inr merged, s'))"

lemma UpdateSecret_inv [keeps_inv]: "repo_inv s \<Longrightarrow> repo_inv (snd (UpdateSecret project name patch s))"
  unfolding UpdateSecret_def Let_def
  by (auto dest!: inv_updateD simp: condMirrors_def split: sum.split)

section \<open>Secret versions\<close>

text \<open>\<^verbatim>\<open>SELECT MAX(rowid) FROM secretmanager_versions WHERE ...\<close>, plus one; 1 without rows.\<close>

definition versionNumber :: "db \<Rightarrow> string \<Rightarrow> string \<Rightarrow> nat" where
  "versionNumber s project secretName' =
     nextRowid (filter (matches [(C_project, project), (C_secret_name, secretName')]) (s Secretmanager_versions))"

lemma versionNumber_bounds:
  "1 \<le> versionNumber s project n" "versionNumber s project n \<le> nextRowid (s Secretmanager_versions)"
proof -
  have "foldr (\<lambda>r m. max (rowid r) m) (filter P rs) 0 \<le> foldr (\<lambda>r m. max (rowid r) m) rs 0" for P rs
    by (induction rs) (auto simp: max_def)
  then show "versionNumber s project n \<le> nextRowid (s Secretmanager_versions)"
    by (simp add: versionNumber_def nextRowid_def)
qed (simp add: versionNumber_def nextRowid_def)

definition GetSecretVersion :: "db \<Rightarrow> string \<Rightarrow> go_error + obj" where
  "GetSecretVersion s name = loadOne Secretmanager_versions [(C_name, name)] s"

text \<open>\<^verbatim>\<open>ORDER BY rowid\<close>, and \<^verbatim>\<open>ORDER BY rowid DESC LIMIT 1\<close>\<close>

definition ListSecretVersions :: "db \<Rightarrow> string \<Rightarrow> string \<Rightarrow> obj list" where
  "ListSecretVersions s project secretName' =
     map rdata (sort_key rowid
       (filter (matches [(C_project, project), (C_secret_name, secretName')]) (s Secretmanager_versions)))"

definition GetLatestSecretVersion :: "db \<Rightarrow> string \<Rightarrow> string \<Rightarrow> go_error + obj" where
  "GetLatestSecretVersion s project secretName' =
     (case rev (sort_key rowid
         (filter (matches [(C_project, project), (C_secret_name, secretName')]) (s Secretmanager_versions))) of
        [] \<Rightarrow> Inl ErrNotFound
      | r # _ \<Rightarrow> Inr (rdata r))"

definition CreateSecretVersion :: "env \<Rightarrow> string \<Rightarrow> string \<Rightarrow> obj \<Rightarrow> db \<Rightarrow> obj result" where
  "CreateSecretVersion e project secretName' data s =
     (let versionNum = versionNumber s project secretName';
          name = secretVersionName project secretName' versionNum;
          data = jset ''name'' (JStr name) data;
          data = jset ''project'' (JStr project) data;
          data = jset ''secret_name'' (JStr secretName') data;
          data = setDefault ''createTime'' (nowRFC3339 e) data
      in case sqlInsert Secretmanager_versions
                [(C_name, name), (C_project, project), (C_secret_name, secretName')]
                (marshalData data) s of
           Inl err \<Rightarrow> (Inl (mapInsertError err), s)
         | Inr s' \<Rightarrow> (GetSecretVersion s' name, s'))"

lemma filed_version:
  "filed_ok Secretmanager_versions (mkRow [(C_name, secretVersionName project n (versionNumber s project n)),
     (C_project, project), (C_secret_name, n)] d (s Secretmanager_versions))"
  using versionNumber_bounds [of s project n]
  by (auto simp: list_ex_iff simp del: upt_Suc intro!: bexI [of _ "versionNumber s project n"])

lemma filed_same:
  assumes "rcols r' = rcols r" "rowid r' = rowid r"
  shows "filed_ok Secretmanager_versions r' = filed_ok Secretmanager_versions r"
proof -
  have "colOf r' = colOf r" using assms(1) by (simp add: colOf_def fun_eq_iff)
  with assms(2) show ?thesis by (simp only: filed_ok.simps)
qed

declare filed_ok.simps(1) [simp del]

lemma CreateSecretVersion_inv [keeps_inv]:
  "repo_inv s \<Longrightarrow> repo_inv (snd (CreateSecretVersion e project secretName' data s))"
  unfolding CreateSecretVersion_def Let_def
  by (auto dest!: inv_insertD simp: insertMirrors_def filed_version split: sum.split)

definition DeleteSecretVersion :: "string \<Rightarrow> db \<Rightarrow> unit result" where
  "DeleteSecretVersion name s = deleteWithResult Secretmanager_versions [(C_name, name)] s"

lemma DeleteSecretVersion_inv [keeps_inv]: "repo_inv s \<Longrightarrow> repo_inv (snd (DeleteSecretVersion name s))"
  by (simp add: DeleteSecretVersion_def deleteWithResult_inv)

definition SetSecretVersionState :: "string \<Rightarrow> string \<Rightarrow> db \<Rightarrow> obj result" where
  "SetSecretVersionState name state s =
     (case GetSecretVersion s name of
        Inl err \<Rightarrow> (Inl err, s)
      | Inr current \<Rightarrow>
          if getString current ''state'' = ''DESTROYED'' then (Inl ErrTerminalState, s)
          else
            let current = jset ''state'' (JStr state) current
            in case sqlUpdate Secretmanager_versions [(C_name, name)] [] (marshalData current) s of
                 Inl err \<Rightarrow> (Inl (mapInsertError err), s)
               | Inr s' \<Rightarrow> (Inr current, s'))"

definition DestroySecretVersion :: "env \<Rightarrow> string \<Rightarrow> db \<Rightarrow> obj result" where
  "DestroySecretVersion e name s =
     (case GetSecretVersion s name of
        Inl err \<Rightarrow> (Inl err, s)
      | Inr current \<Rightarrow>
          let current = jset ''state'' (JStr ''DESTROYED'') current;
              current = jset ''destroyTime'' (JStr (nowRFC3339 e)) current;
              current = AList.delete ''payload'' current
          in case sqlUpdate Secretmanager_versions [(C_name, name)] [] (marshalData current) s of
               Inl err \<Rightarrow> (Inl (mapInsertError err), s)
             | Inr s' \<Rightarrow> (Inr current, s'))"

text \<open>An update that changes none of the fields that repeat a key column.\<close>

lemma version_update_inv:
  assumes inv: "repo_inv s" and get: "GetSecretVersion s name = Inr current"
    and same: "\<And>f c. (f, c) \<in> set (mirrors Secretmanager_versions) \<Longrightarrow> map_of d f = map_of current f"
    and upd: "sqlUpdate Secretmanager_versions [(C_name, name)] [] (marshalData d) s = Inr s'"
  shows "repo_inv s'"
proof (rule inv_update [OF inv upd])
  have "rdata r = current" if "r \<in> set (s Secretmanager_versions)" "matches [(C_name, name)] r" for r
    using secretmanager_versions_tbl.load_row [OF repo_invD(1) [OF inv] _ that] get
    by (simp add: GetSecretVersion_def)
  then show "updateMirrors Secretmanager_versions [(C_name, name)] [] d s"
    unfolding updateMirrors_def list_all_iff
    using same repo_inv_mirror [OF inv] by fastforce
  show "\<forall>r\<in>set (s Secretmanager_versions). matches [(C_name, name)] r \<longrightarrow>
      filed_ok Secretmanager_versions (setRow [] (marshalData d) r)"
    using repo_inv_filed [OF inv] filed_same by (simp add: setRow_def)
qed simp

lemma SetSecretVersionState_inv [keeps_inv]:
  "repo_inv s \<Longrightarrow> repo_inv (snd (SetSecretVersionState name state s))"
  unfolding SetSecretVersionState_def Let_def
  by (auto split: sum.split elim!: version_update_inv [rotated 3])

lemma DestroySecretVersion_inv [keeps_inv]:
  "repo_inv s \<Longrightarrow> repo_inv (snd (DestroySecretVersion e name s))"
  unfolding DestroySecretVersion_def Let_def
  by (auto split: sum.split elim!: version_update_inv [rotated 3] simp: AList.delete_conv')

end
