(* ===== verification/Repo_Pubsub.thy ===== *)
theory Repo_Pubsub
  imports Repo_Base Refs
begin

text \<open>
  Topics and subscriptions of \<^verbatim>\<open>repository/repository.go\<close>. There is no foreign key
  between them: a subscription names its topic in the column \<^verbatim>\<open>topic_name\<close> and in the
  fields \<^verbatim>\<open>topic\<close> and \<^verbatim>\<open>topic_name\<close> of its body, and survives the topic.
\<close>

section \<open>Topics\<close>

definition topicPath :: "string \<Rightarrow> string \<Rightarrow> string" where
  "topicPath project name = ''projects/'' @ project @ ''/topics/'' @ name"

definition subscriptionPath :: "string \<Rightarrow> string \<Rightarrow> string" where
  "subscriptionPath project name = ''projects/'' @ project @ ''/subscriptions/'' @ name"

definition GetTopic :: "db \<Rightarrow> string \<Rightarrow> string \<Rightarrow> go_error + obj" where
  "GetTopic s project name = loadOne Pubsub_topics [(C_project, project), (C_name, name)] s"

definition ListTopics :: "db \<Rightarrow> string \<Rightarrow> obj list" where
  "ListTopics s project = loadMany Pubsub_topics [(C_project, project)] [C_name] s"

definition CreateTopic :: "string \<Rightarrow> obj \<Rightarrow> db \<Rightarrow> obj result" where
  "CreateTopic project data s =
     (let name = extractNameFromSelfLink (getString data ''name'') in
      if name = [] then (Inl (Errorf ''name is required''), s)
      else
        let data = jset ''project'' (JStr project) data;
            data = (if getString data ''name'' = [] \<or> getString data ''name'' = name
                    then jset ''name'' (JStr (topicPath project name)) data else data)
        in case sqlInsert Pubsub_topics [(C_name, name), (C_project, project)] (marshalData data) s of
             Inl err \<Rightarrow> (Inl (mapInsertError err), s)
           | Inr s' \<Rightarrow> (GetTopic s' project name, s'))"

lemma CreateTopic_inv [keeps_inv]: "repo_inv s \<Longrightarrow> repo_inv (snd (CreateTopic project data s))"
  unfolding CreateTopic_def Let_def by (auto dest!: inv_insertD simp: insertMirrors_def split: sum.split)

text \<open>The short name under which \<^verbatim>\<open>DeleteTopic\<close> writes a subscription back.\<close>

definition subscriptionShortName :: "obj \<Rightarrow> string" where
  "subscriptionShortName sub =
     (let subName = getString sub ''name'';
          shortSubName = extractNameFromSelfLink subName
      in if shortSubName = [] then subName else shortSubName)"

lemma subscriptionShortName_jset [simp]:
  "subscriptionShortName (jset ''topic'' v sub) = subscriptionShortName sub"
  by (simp add: subscriptionShortName_def)

text \<open>The loop of \<^verbatim>\<open>DeleteTopic\<close> over the topic's subscriptions.\<close>

fun detachSubscriptions :: "string \<Rightarrow> obj list \<Rightarrow> db \<Rightarrow> (go_error + unit) \<times> db" where
  "detachSubscriptions project [] s = (Inr (), s)"
| "detachSubscriptions project (sub # subs) s =
     (let sub = jset ''topic'' (JStr deletedTopic) sub;
          shortSubName = subscriptionShortName sub
      in case sqlUpdate Pubsub_subscriptions
                [(C_project, project), (C_name, shortSubName)] [(C_topic_name, deletedTopic)]
                (marshalData sub) s of
           Inl err \<Rightarrow> (Inl (mapInsertError err), s)
         | Inr s' \<Rightarrow> detachSubscriptions project subs s')"

definition DeleteTopic :: "string \<Rightarrow> string \<Rightarrow> db \<Rightarrow> unit result" where
  "DeleteTopic project name s =
     (let subs = loadMany Pubsub_subscriptions [(C_project, project), (C_topic_name, name)] [] s in
      case detachSubscriptions project subs s of
        (Inl err, s') \<Rightarrow> (Inl err, s')
      | (Inr _, s') \<Rightarrow> deleteWithResult Pubsub_topics [(C_project, project), (C_name, name)] s')"

section \<open>Subscriptions\<close>

definition GetSubscription :: "db \<Rightarrow> string \<Rightarrow> string \<Rightarrow> go_error + obj" where
  "GetSubscription s project name =
     loadOne Pubsub_subscriptions [(C_project, project), (C_name, name)] s"

definition ListSubscriptions :: "db \<Rightarrow> string \<Rightarrow> obj list" where
  "ListSubscriptions s project = loadMany Pubsub_subscriptions [(C_project, project)] [C_name] s"

definition CreateSubscription :: "string \<Rightarrow> obj \<Rightarrow> db \<Rightarrow> obj result" where
  "CreateSubscription project data s =
     (let name = extractNameFromSelfLink (getString data ''name'') in
      if name = [] then (Inl (Errorf ''name is required''), s)
      else
        let topicRef = getString data ''topic'' in
        if topicRef = [] then (Inl (Errorf ''topic reference is required''), s)
        else
          case resolveSameProjectName project topicRef ''topics'' of
            Inl err \<Rightarrow> (Inl err, s)
          | Inr topicName \<Rightarrow>
            (case GetTopic s project topicName of
               Inl _ \<Rightarrow> (Inl ErrNotFound, s)
             | Inr _ \<Rightarrow>
               let data = jset ''project'' (JStr project) data;
                   data = (if getString data ''name'' = [] \<or> getString data ''name'' = name
                           then jset ''name'' (JStr (subscriptionPath project name)) data else data);
                   data = jset ''topic_name'' (JStr topicName) data
               in case sqlInsert Pubsub_subscriptions
                         [(C_name, name), (C_project, project), (C_topic_name, topicName)]
                         (marshalData data) s of
                    Inl err \<Rightarrow> (Inl (mapInsertError err), s)
                  | Inr s' \<Rightarrow> (GetSubscription s' project name, s')))"

lemma subscriptionPath_name:
  assumes "shortName_ok n"
  shows "extractNameFromSelfLink (subscriptionPath project n) = n"
proof -
  have path: "subscriptionPath project n = (''projects/'' @ project @ ''/subscriptions'') @ CHR ''/'' # n"
    by (simp add: subscriptionPath_def)
  show ?thesis unfolding path by (rule extract_path [OF assms]) (simp_all add: isSpace_def)
qed

text \<open>
  The name must not end in white space, which the next reading of the path would trim: the
  handler passes a path that ends in a path parameter.
\<close>

lemma CreateSubscription_inv:
  assumes inv: "repo_inv s" and n: "shortName_ok (extractNameFromSelfLink (getString data ''name''))"
  shows "repo_inv (snd (CreateSubscription project data s))"
proof -
  have "getString data ''name'' \<noteq> []" using n by (auto simp: extractNameFromSelfLink_def shortName_ok_def trimSpace_def trimSuffix_def)
  with inv n show ?thesis
    unfolding CreateSubscription_def Let_def
    by (auto dest!: inv_insertD simp: insertMirrors_def subscriptionPath_name map_of_marshalData split: sum.split)
qed

text \<open>
  The merged body of \<^verbatim>\<open>UpdateSubscription\<close>, before \<^verbatim>\<open>topic_name\<close> is set, and the topic it
  binds the row to.
\<close>

definition mergeSubscription :: "string \<Rightarrow> obj \<Rightarrow> obj \<Rightarrow> obj" where
  "mergeSubscription project current patch =
     (let merged = patchMerge current patch [''name'', ''project'', ''topic_name'', ''topic''];
          merged = jset ''project'' (JStr project) merged;
          currentName = extractNameFromSelfLink (getString current ''name'');
          merged = (if currentName \<noteq> []
                    then jset ''name'' (JStr (subscriptionPath project currentName)) merged else merged);
          currentTopic = getString current ''topic''
      in if currentTopic \<noteq> [] then jset ''topic'' (JStr currentTopic) merged else merged)"

definition boundTopicName :: "obj \<Rightarrow> string" where
  "boundTopicName current =
     (let topicName = getString current ''topic_name'' in
      if topicName = [] then extractNameFromSelfLink (getString current ''topic'') else topicName)"

definition UpdateSubscription :: "string \<Rightarrow> string \<Rightarrow> obj \<Rightarrow> db \<Rightarrow> obj result" where
  "UpdateSubscription project name patch s =
     (case GetSubscription s project name of
        Inl err \<Rightarrow> (Inl err, s)
      | Inr current \<Rightarrow>
          let merged = mergeSubscription project current patch;
              topicName = boundTopicName current
          in if topicName = [] then (Inl (Errorf ''topic reference is required''), s)
             else
               let merged = jset ''topic_name'' (JStr topicName) merged
               in case sqlUpdate Pubsub_subscriptions [(C_project, project), (C_name, name)]
                         [(C_topic_name, topicName)] (marshalData merged) s of
                    Inl err \<Rightarrow> (Inl (mapInsertError err), s)
                  | Inr s' \<Rightarrow> (Inr merged, s'))"

lemma mergeSubscription_project [simp]:
  "map_of (mergeSubscription project current patch) ''project'' = Some (JStr project)"
  by (simp add: mergeSubscription_def Let_def)

lemma subscription_update_inv:
  assumes inv: "repo_inv s"
    and upd: "sqlUpdate Pubsub_subscriptions [(C_project, project), (C_name, n)] [(C_topic_name, v)]
           (marshalData d) s = Inr s'"
    and d: "map_of d ''project'' = Some (JStr project)" "extractNameFromSelfLink (getString d ''name'') = n"
    and topic: "v \<noteq> deletedTopic \<Longrightarrow> map_of d ''topic_name'' = Some (JStr v)"
  shows "repo_inv s'"
proof -
  have "filed_ok Pubsub_subscriptions (setRow [(C_topic_name, v)] (marshalData d) r)"
    if "r \<in> set (s Pubsub_subscriptions)" "matches [(C_project, project), (C_name, n)] r" for r
    using repo_inv_filed [OF inv that(1)] that(2) d(2) topic
    by (auto simp: matches_def colOf_setRow map_of_marshalData)
  with inv_updateD [OF upd inv] d(1) show ?thesis
    by (simp add: condMirrors_def keyFree_def keysOf_def)
qed

lemma subscription_name:
  assumes "repo_inv s" "r \<in> set (s Pubsub_subscriptions)"
  shows "extractNameFromSelfLink (getString (rdata r) ''name'') = subscriptionShortName (rdata r)"
    and "colOf r C_name = Some (subscriptionShortName (rdata r))" "shortName_ok (subscriptionShortName (rdata r))"
  using repo_inv_filed [OF assms]
  by (auto simp: subscriptionShortName_def shortName_ok_def Let_def split: option.splits)

lemma GetSubscription_name:
  assumes inv: "repo_inv s" and get: "GetSubscription s project name = Inr current"
  shows "extractNameFromSelfLink (getString current ''name'') = name" "shortName_ok name"
proof -
  obtain r where r: "r \<in> set (s Pubsub_subscriptions)" "matches [(C_project, project), (C_name, name)] r"
    "rdata r = current"
    by (rule loadOne_Inr_row [OF get [unfolded GetSubscription_def]])
  with subscription_name [OF inv r(1)]
  show "extractNameFromSelfLink (getString current ''name'') = name" "shortName_ok name"
    by (simp_all add: matches_def)
qed

lemma mergeSubscription_name:
  assumes "extractNameFromSelfLink (getString current ''name'') = n" "shortName_ok n"
  shows "extractNameFromSelfLink (getString (mergeSubscription project current patch) ''name'') = n"
  using assms by (auto simp: mergeSubscription_def Let_def subscriptionPath_name shortName_ok_def)

lemma UpdateSubscription_inv [keeps_inv]:
  "repo_inv s \<Longrightarrow> repo_inv (snd (UpdateSubscription project name patch s))"
  unfolding UpdateSubscription_def Let_def
  by (auto split: sum.split dest: GetSubscription_name
      intro!: mergeSubscription_name elim!: subscription_update_inv [rotated])

definition DeleteSubscription :: "string \<Rightarrow> string \<Rightarrow> db \<Rightarrow> unit result" where
  "DeleteSubscription project name s =
     deleteWithResult Pubsub_subscriptions [(C_project, project), (C_name, name)] s"

lemma DeleteSubscription_inv [keeps_inv]:
  "repo_inv s \<Longrightarrow> repo_inv (snd (DeleteSubscription project name s))"
  by (simp add: DeleteSubscription_def deleteWithResult_inv)

section \<open>Deleting a topic keeps the invariant\<close>

lemma detachSubscriptions_inv:
  "repo_inv s \<Longrightarrow> \<forall>sub\<in>set subs. map_of sub ''project'' = Some (JStr project) \<and>
     extractNameFromSelfLink (getString sub ''name'') = subscriptionShortName sub \<Longrightarrow>
   repo_inv (snd (detachSubscriptions project subs s))"
proof (induction subs arbitrary: s)
  case (Cons sub subs)
  then show ?case
    by (auto simp: Let_def split: sum.split dest!: subscription_update_inv [rotated])
qed simp

lemma subscriptions_of_topic:
  assumes "repo_inv s"
  shows "\<forall>sub\<in>set (loadMany Pubsub_subscriptions [(C_project, project), (C_topic_name, name)] ord s).
           map_of sub ''project'' = Some (JStr project) \<and>
           extractNameFromSelfLink (getString sub ''name'') = subscriptionShortName sub"
  using repo_inv_mirror [OF assms, of _ Pubsub_subscriptions "''project''" C_project] subscription_name(1) [OF assms]
  by (auto simp: set_loadMany matches_def)

lemma DeleteTopic_inv [keeps_inv]:
  assumes "repo_inv s"
  shows "repo_inv (snd (DeleteTopic project name s))"
proof -
  let ?r = "detachSubscriptions project
              (loadMany Pubsub_subscriptions [(C_project, project), (C_topic_name, name)] [] s) s"
  have "repo_inv (snd ?r)"
    by (rule detachSubscriptions_inv [OF assms subscriptions_of_topic [OF assms]])
  then show ?thesis
    by (cases ?r) (auto simp: DeleteTopic_def deleteWithResult_inv split: sum.split)
qed

end
