(* ===== verification/Repo_Services.thy ===== *)
theory Repo_Services
  imports Repo_Base Refs
begin

text \<open>
  Storage buckets, Cloud Run services and Redis instances of
  \<^verbatim>\<open>repository/repository.go\<close>. Bucket names are global: the project is not part of the
  key.
\<close>

section \<open>Buckets\<close>

definition GetBucket :: "db \<Rightarrow> string \<Rightarrow> go_error + obj" where
  "GetBucket s name = loadOne Storage_buckets [(C_name, name)] s"

definition ListBuckets :: "db \<Rightarrow> string \<Rightarrow> obj list" where
  "ListBuckets s project = loadMany Storage_buckets [(C_project, project)] [C_name] s"

definition CreateBucket :: "env \<Rightarrow> string \<Rightarrow> obj \<Rightarrow> db \<Rightarrow> obj result" where
  "CreateBucket e project data s =
     (let name = getString data ''name'' in
      if name = [] then (Inl (Errorf ''name is required''), s)
      else
        let location = getString data ''location'';
            location = (if location = [] then ''US'' else location);
            data = jset ''name'' (JStr name) data;
            data = jset ''project'' (JStr project) data;
            data = jset ''location'' (JStr location) data;
            data = setDefault ''id'' name data;
            data = setDefault ''timeCreated'' (nowRFC3339 e) data
        in case sqlInsert Storage_buckets
                  [(C_name, name), (C_project, project), (C_location, location)] (marshalData data) s of
             Inl err \<Rightarrow> (Inl (mapInsertError err), s)
           | Inr s' \<Rightarrow> (GetBucket s' name, s'))"

lemma CreateBucket_inv [keeps_inv]: "repo_inv s \<Longrightarrow> repo_inv (snd (CreateBucket e project data s))"
  unfolding CreateBucket_def Let_def by (auto dest!: inv_insertD simp: insertMirrors_def split: sum.split)

text \<open>The merged body of \<^verbatim>\<open>UpdateBucket\<close> and the location it is filed under.\<close>

definition mergeBucket :: "string \<Rightarrow> obj \<Rightarrow> obj \<Rightarrow> obj" where
  "mergeBucket name current patch =
     (let merged = patchMerge current patch [''name'', ''project''];
          merged = jset ''name'' (JStr name) merged;
          p = getString current ''project'';
          merged = (if p \<noteq> [] then jset ''project'' (JStr p) merged else merged)
      in setDefault ''location'' ''US'' merged)"

definition UpdateBucket :: "string \<Rightarrow> obj \<Rightarrow> db \<Rightarrow> obj result" where
  "UpdateBucket name patch s =
     (case GetBucket s name of
        Inl err \<Rightarrow> (Inl err, s)
      | Inr current \<Rightarrow>
          let merged = mergeBucket name current patch;
              location = getString merged ''location''
          in case sqlUpdate Storage_buckets [(C_name, name)] [(C_location, location)]
                    (marshalData merged) s of
               Inl err \<Rightarrow> (Inl err, s)
             | Inr s' \<Rightarrow> (Inr merged, s'))"

lemma mergeBucket_fields:
  "map_of (mergeBucket name current patch) ''name'' = Some (JStr name)"
  "map_of (mergeBucket name current patch) ''project'' = map_of current ''project''"
  "map_of (mergeBucket name current patch) ''location''
     = Some (JStr (getString (mergeBucket name current patch) ''location''))"
  by (auto simp: mergeBucket_def Let_def getString_nonempty setDefault_def)

lemma UpdateBucket_inv [keeps_inv]:
  assumes inv: "repo_inv s"
  shows "repo_inv (snd (UpdateBucket name patch s))"
proof (cases "GetBucket s name")
  case (Inl err)
  with inv show ?thesis by (simp add: UpdateBucket_def)
next
  case (Inr current)
  let ?m = "mergeBucket name current patch"
  let ?sets = "[(C_location, getString ?m ''location'')]"
  have row: "rdata r = current" if "r \<in> set (s Storage_buckets)" "matches [(C_name, name)] r" for r
    using storage_buckets_tbl.load_row [OF repo_invD(1) [OF inv] _ that] Inr
    by (simp add: GetBucket_def)
  have "map_of current ''project'' = map_option JStr (colOf r C_project)"
    if "r \<in> set (s Storage_buckets)" "matches [(C_name, name)] r" for r
    using repo_inv_mirror [OF inv that(1), of "''project''" C_project] row [OF that] by simp
  then have "updateMirrors Storage_buckets [(C_name, name)] ?sets ?m s"
    by (auto simp: updateMirrors_def mergeBucket_fields matches_def)
  with Inr inv show ?thesis
    unfolding UpdateBucket_def Let_def
    by (auto split: sum.split elim!: inv_update simp: keyFree_def keysOf_def)
qed

definition DeleteBucket :: "string \<Rightarrow> db \<Rightarrow> unit result" where
  "DeleteBucket name s = deleteWithResult Storage_buckets [(C_name, name)] s"

lemma DeleteBucket_inv [keeps_inv]: "repo_inv s \<Longrightarrow> repo_inv (snd (DeleteBucket name s))"
  by (simp add: DeleteBucket_def deleteWithResult_inv)

section \<open>Cloud Run services\<close>

definition servicePath :: "string \<Rightarrow> string \<Rightarrow> string \<Rightarrow> string" where
  "servicePath project location name =
     ''projects/'' @ project @ ''/locations/'' @ location @ ''/services/'' @ name"

definition GetCloudRunService :: "db \<Rightarrow> string \<Rightarrow> string \<Rightarrow> string \<Rightarrow> go_error + obj" where
  "GetCloudRunService s project location name =
     loadOne Cloudrun_services [(C_project, project), (C_location, location), (C_name, name)] s"

definition ListCloudRunServices :: "db \<Rightarrow> string \<Rightarrow> string \<Rightarrow> obj list" where
  "ListCloudRunServices s project location =
     loadMany Cloudrun_services [(C_project, project), (C_location, location)] [C_name] s"

definition CreateCloudRunService :: "env \<Rightarrow> string \<Rightarrow> string \<Rightarrow> obj \<Rightarrow> db \<Rightarrow> obj result" where
  "CreateCloudRunService e project location data s =
     (let name = extractNameFromSelfLink (getString data ''name'') in
      if name = [] then (Inl (Errorf ''name is required''), s)
      else
        let data = jset ''project'' (JStr project) data;
            data = jset ''location'' (JStr location) data;
            data = (if getString data ''name'' = [] \<or> getString data ''name'' = name
                    then jset ''name'' (JStr (servicePath project location name)) data else data);
            data = setDefault ''createTime'' (nowRFC3339 e) data
        in case sqlInsert Cloudrun_services
                  [(C_name, name), (C_project, project), (C_location, location)] (marshalData data) s of
             Inl err \<Rightarrow> (Inl (mapInsertError err), s)
           | Inr s' \<Rightarrow> (GetCloudRunService s' project location name, s'))"

lemma CreateCloudRunService_inv [keeps_inv]:
  "repo_inv s \<Longrightarrow> repo_inv (snd (CreateCloudRunService e project location data s))"
  unfolding CreateCloudRunService_def Let_def
  by (auto dest!: inv_insertD simp: insertMirrors_def split: sum.split)

definition UpdateCloudRunService :: "string \<Rightarrow> string \<Rightarrow> string \<Rightarrow> obj \<Rightarrow> db \<Rightarrow> obj result" where
  "UpdateCloudRunService project location name patch s =
     (case GetCloudRunService s project location name of
        Inl err \<Rightarrow> (Inl err, s)
      | Inr current \<Rightarrow>
          let merged = patchMerge current patch [''name'', ''project'', ''location''];
              merged = jset ''project'' (JStr project) merged;
              merged = jset ''location'' (JStr location) merged;
              merged = jset ''name'' (JStr (servicePath project location name)) merged
          in case sqlUpdate Cloudrun_services
                    [(C_project, project), (C_location, location), (C_name, name)] []
                    (marshalData merged) s of
               Inl err \<Rightarrow> (Inl err, s)
             | Inr s' \<Rightarrow> (Inr merged, s'))"

lemma UpdateCloudRunService_inv [keeps_inv]:
  "repo_inv s \<Longrightarrow> repo_inv (snd (UpdateCloudRunService project location name patch s))"
  unfolding UpdateCloudRunService_def Let_def
  by (auto dest!: inv_updateD simp: condMirrors_def split: sum.split)

definition DeleteCloudRunService :: "string \<Rightarrow> string \<Rightarrow> string \<Rightarrow> db \<Rightarrow> unit result" where
  "DeleteCloudRunService project location name s =
     deleteWithResult Cloudrun_services [(C_project, project), (C_location, location), (C_name, name)] s"

lemma DeleteCloudRunService_inv [keeps_inv]:
  "repo_inv s \<Longrightarrow> repo_inv (snd (DeleteCloudRunService project location name s))"
  by (simp add: DeleteCloudRunService_def deleteWithResult_inv)

section \<open>Redis instances\<close>

definition redisPath :: "string \<Rightarrow> string \<Rightarrow> string \<Rightarrow> string" where
  "redisPath project location name =
     ''projects/'' @ project @ ''/locations/'' @ location @ ''/instances/'' @ name"

definition GetRedisInstance :: "db \<Rightarrow> string \<Rightarrow> string \<Rightarrow> string \<Rightarrow> go_error + obj" where
  "GetRedisInstance s project location name =
     loadOne Redis_instances [(C_project, project), (C_location, location), (C_name, name)] s"

definition ListRedisInstances :: "db \<Rightarrow> string \<Rightarrow> string \<Rightarrow> obj list" where
  "ListRedisInstances s project location =
     loadMany Redis_instances [(C_project, project), (C_location, location)] [C_name] s"

definition CreateRedisInstance :: "env \<Rightarrow> string \<Rightarrow> string \<Rightarrow> obj \<Rightarrow> db \<Rightarrow> obj result" where
  "CreateRedisInstance e project location data s =
     (let name = extractNameFromSelfLink (getString data ''name'') in
      if name = [] then (Inl (Errorf ''name is required''), s)
      else
        let data = jset ''project'' (JStr project) data;
            data = jset ''location'' (JStr location) data;
            data = jset ''name'' (JStr (redisPath project location name)) data;
            data = setDefault ''createTime'' (nowRFC3339 e) data;
            data = setDefault ''state'' ''READY'' data
        in case sqlInsert Redis_instances
                  [(C_name, name), (C_project, project), (C_location, location)] (marshalData data) s of
             Inl err \<Rightarrow> (Inl (mapInsertError err), s)
           | Inr s' \<Rightarrow> (GetRedisInstance s' project location name, s'))"

lemma CreateRedisInstance_inv [keeps_inv]:
  "repo_inv s \<Longrightarrow> repo_inv (snd (CreateRedisInstance e project location data s))"
  unfolding CreateRedisInstance_def Let_def
  by (auto dest!: inv_insertD simp: insertMirrors_def split: sum.split)

definition UpdateRedisInstance :: "string \<Rightarrow> string \<Rightarrow> string \<Rightarrow> obj \<Rightarrow> db \<Rightarrow> obj result" where
  "UpdateRedisInstance project location name patch s =
     (case GetRedisInstance s project location name of
        Inl err \<Rightarrow> (Inl err, s)
      | Inr current \<Rightarrow>
          let merged = patchMerge current patch [''name'', ''project'', ''location''];
              merged = jset ''project'' (JStr project) merged;
              merged = jset ''location'' (JStr location) merged;
              merged = jset ''name'' (JStr (redisPath project location name)) merged
          in case sqlUpdate Redis_instances
                    [(C_project, project), (C_location, location), (C_name, name)] []
                    (marshalData merged) s of
               Inl err \<Rightarrow> (Inl err, s)
             | Inr s' \<Rightarrow> (Inr merged, s'))"

lemma UpdateRedisInstance_inv [keeps_inv]:
  "repo_inv s \<Longrightarrow> repo_inv (snd (UpdateRedisInstance project location name patch s))"
  unfolding UpdateRedisInstance_def Let_def
  by (auto dest!: inv_updateD simp: condMirrors_def split: sum.split)

definition DeleteRedisInstance :: "string \<Rightarrow> string \<Rightarrow> string \<Rightarrow> db \<Rightarrow> unit result" where
  "DeleteRedisInstance project location name s =
     deleteWithResult Redis_instances [(C_project, project), (C_location, location), (C_name, name)] s"

lemma DeleteRedisInstance_inv [keeps_inv]:
  "repo_inv s \<Longrightarrow> repo_inv (snd (DeleteRedisInstance project location name s))"
  by (simp add: DeleteRedisInstance_def deleteWithResult_inv)

end
