(* ===== verification/Repo_Steps.thy ===== *)
theory Repo_Steps
  imports Repo_Compute Repo_Container Repo_CloudSql Repo_LoadBalancer Repo_Iam Repo_Dns Repo_Secret Repo_Pubsub Repo_Services
begin

text \<open>
  The repository as a state machine: one step for every exported operation of
  \<^verbatim>\<open>repository/repository.go\<close> that writes to the database, with any arguments and whatever
  its outcome, and the invariant over all runs. (The name given to \<^verbatim>\<open>CreateSubscription\<close> must
  not end in white space; the handler passes a path that ends in a parameter.) The operations of one \<^verbatim>\<open>Repository\<close> do not
  interleave their statements with each other only if the callers serialise them; the
  second relation, \<open>sql_step\<close>, therefore runs single statements in any order.
\<close>

inductive repo_step :: "db \<Rightarrow> db \<Rightarrow> bool" where
  CreateNetwork_step: "repo_step s (snd (CreateNetwork e a1 data s))"
| UpdateNetwork_step: "repo_step s (snd (UpdateNetwork a0 a1 data s))"
| DeleteNetwork_step: "repo_step s (snd (DeleteNetwork a0 a1 s))"
| CreateSubnetwork_step: "repo_step s (snd (CreateSubnetwork e a1 a2 data s))"
| UpdateSubnetwork_step: "repo_step s (snd (UpdateSubnetwork a0 a1 a2 data s))"
| DeleteSubnetwork_step: "repo_step s (snd (DeleteSubnetwork a0 a1 a2 s))"
| CreateFirewall_step: "repo_step s (snd (CreateFirewall e a1 data s))"
| UpdateFirewall_step: "repo_step s (snd (UpdateFirewall a0 a1 data s))"
| DeleteFirewall_step: "repo_step s (snd (DeleteFirewall a0 a1 s))"
| CreateRouter_step: "repo_step s (snd (CreateRouter e a1 a2 data s))"
| UpdateRouter_step: "repo_step s (snd (UpdateRouter a0 a1 a2 data s))"
| DeleteRouter_step: "repo_step s (snd (DeleteRouter a0 a1 a2 s))"
| CreateRouterNAT_step: "repo_step s (snd (CreateRouterNAT e a1 a2 a3 data s))"
| UpdateRouterNAT_step: "repo_step s (snd (UpdateRouterNAT a0 a1 a2 a3 data s))"
| DeleteRouterNAT_step: "repo_step s (snd (DeleteRouterNAT a0 a1 a2 a3 s))"
| CreateDisk_step: "repo_step s (snd (CreateDisk e a1 a2 data s))"
| DeleteDisk_step: "repo_step s (snd (DeleteDisk a0 a1 a2 s))"
| CreateInstance_step: "repo_step s (snd (CreateInstance e a1 a2 data s))"
| DeleteInstance_step: "repo_step s (snd (DeleteInstance a0 a1 a2 s))"
| CreateAddress_step: "repo_step s (snd (CreateAddress e a1 a2 data s))"
| DeleteAddress_step: "repo_step s (snd (DeleteAddress a0 a1 a2 s))"
| StoreOperation_step: "repo_step s (snd (StoreOperation e a1 a2 a3 a4 data s))"
| CreateCluster_step: "repo_step s (snd (CreateCluster e a1 a2 data s))"
| UpdateCluster_step: "repo_step s (snd (UpdateCluster a0 a1 a2 data s))"
| DeleteCluster_step: "repo_step s (snd (DeleteCluster a0 a1 a2 s))"
| CreateNodePool_step: "repo_step s (snd (CreateNodePool e a1 a2 a3 data s))"
| DeleteNodePool_step: "repo_step s (snd (DeleteNodePool a0 a1 a2 a3 s))"
| CreateSQLInstance_step: "repo_step s (snd (CreateSQLInstance e a1 data s))"
| UpdateSQLInstance_step: "repo_step s (snd (UpdateSQLInstance a0 a1 data s))"
| DeleteSQLInstance_step: "repo_step s (snd (DeleteSQLInstance a0 a1 s))"
| CreateSQLDatabase_step: "repo_step s (snd (CreateSQLDatabase e a1 a2 data s))"
| DeleteSQLDatabase_step: "repo_step s (snd (DeleteSQLDatabase a0 a1 a2 s))"
| CreateSQLUser_step: "repo_step s (snd (CreateSQLUser e a1 a2 data s))"
| UpdateSQLUser_step: "repo_step s (snd (UpdateSQLUser a0 a1 a2 data s))"
| DeleteSQLUser_step: "repo_step s (snd (DeleteSQLUser a0 a1 a2 s))"
| CreateGlobalAddress_step: "repo_step s (snd (CreateGlobalAddress e a1 data s))"
| DeleteGlobalAddress_step: "repo_step s (snd (DeleteGlobalAddress a0 a1 s))"
| CreateHealthCheck_step: "repo_step s (snd (CreateHealthCheck e a1 data s))"
| UpdateHealthCheck_step: "repo_step s (snd (UpdateHealthCheck a0 a1 data s))"
| DeleteHealthCheck_step: "repo_step s (snd (DeleteHealthCheck a0 a1 s))"
| CreateBackendService_step: "repo_step s (snd (CreateBackendService e a1 data s))"
| UpdateBackendService_step: "repo_step s (snd (UpdateBackendService a0 a1 data s))"
| DeleteBackendService_step: "repo_step s (snd (DeleteBackendService a0 a1 s))"
| CreateSSLCertificate_step: "repo_step s (snd (CreateSSLCertificate e a1 data s))"
| DeleteSSLCertificate_step: "repo_step s (snd (DeleteSSLCertificate a0 a1 s))"
| CreateTargetHTTPSProxy_step: "repo_step s (snd (CreateTargetHTTPSProxy e a1 data s))"
| UpdateTargetHTTPSProxy_step: "repo_step s (snd (UpdateTargetHTTPSProxy a0 a1 data s))"
| DeleteTargetHTTPSProxy_step: "repo_step s (snd (DeleteTargetHTTPSProxy a0 a1 s))"
| CreateURLMap_step: "repo_step s (snd (CreateURLMap e a1 data s))"
| UpdateURLMap_step: "repo_step s (snd (UpdateURLMap a0 a1 data s))"
| DeleteURLMap_step: "repo_step s (snd (DeleteURLMap a0 a1 s))"
| CreateGlobalForwardingRule_step: "repo_step s (snd (CreateGlobalForwardingRule e a1 data s))"
| DeleteGlobalForwardingRule_step: "repo_step s (snd (DeleteGlobalForwardingRule a0 a1 s))"
| CreateServiceAccount_step: "repo_step s (snd (CreateServiceAccount e a1 data s))"
| DeleteServiceAccount_step: "repo_step s (snd (DeleteServiceAccount a0 a1 s))"
| UpdateServiceAccount_step: "repo_step s (snd (UpdateServiceAccount a0 a1 data s))"
| CreateSAKey_step: "repo_step s (snd (CreateSAKey e a1 a2 data s))"
| DeleteSAKey_step: "repo_step s (snd (DeleteSAKey a0 s))"
| SetIAMBinding_step: "repo_step s (snd (SetIAMBinding a0 a1 l2 s))"
| AddIAMMember_step: "repo_step s (snd (AddIAMMember a0 a1 a2 s))"
| RemoveIAMMember_step: "repo_step s (snd (RemoveIAMMember a0 a1 a2 s))"
| CreateDNSZone_step: "repo_step s (snd (CreateDNSZone e a1 data s))"
| UpdateDNSZone_step: "repo_step s (snd (UpdateDNSZone a0 a1 data s))"
| DeleteDNSZone_step: "repo_step s (snd (DeleteDNSZone a0 a1 s))"
| CreateDNSRecordSet_step: "repo_step s (snd (CreateDNSRecordSet a0 a1 data s))"
| DeleteDNSRecordSet_step: "repo_step s (snd (DeleteDNSRecordSet a0 a1 a2 a3 s))"
| CreateSecret_step: "repo_step s (snd (CreateSecret e a1 data s))"
| DeleteSecret_step: "repo_step s (snd (DeleteSecret a0 a1 s))"
| UpdateSecret_step: "repo_step s (snd (UpdateSecret a0 a1 data s))"
| CreateSecretVersion_step: "repo_step s (snd (CreateSecretVersion e a1 a2 data s))"
| DeleteSecretVersion_step: "repo_step s (snd (DeleteSecretVersion a0 s))"
| SetSecretVersionState_step: "repo_step s (snd (SetSecretVersionState a0 a1 s))"
| DestroySecretVersion_step: "repo_step s (snd (DestroySecretVersion e a1 s))"
| CreateTopic_step: "repo_step s (snd (CreateTopic a0 data s))"
| CreateSubscription_step: "shortName_ok (extractNameFromSelfLink (getString data ''name'')) \<Longrightarrow>
    repo_step s (snd (CreateSubscription a0 data s))"
| UpdateSubscription_step: "repo_step s (snd (UpdateSubscription a0 a1 data s))"
| DeleteSubscription_step: "repo_step s (snd (DeleteSubscription a0 a1 s))"
| DeleteTopic_step: "repo_step s (snd (DeleteTopic a0 a1 s))"
| CreateBucket_step: "repo_step s (snd (CreateBucket e a1 data s))"
| UpdateBucket_step: "repo_step s (snd (UpdateBucket a0 data s))"
| DeleteBucket_step: "repo_step s (snd (DeleteBucket a0 s))"
| CreateCloudRunService_step: "repo_step s (snd (CreateCloudRunService e a1 a2 data s))"
| UpdateCloudRunService_step: "repo_step s (snd (UpdateCloudRunService a0 a1 a2 data s))"
| DeleteCloudRunService_step: "repo_step s (snd (DeleteCloudRunService a0 a1 a2 s))"
| CreateRedisInstance_step: "repo_step s (snd (CreateRedisInstance e a1 a2 data s))"
| UpdateRedisInstance_step: "repo_step s (snd (UpdateRedisInstance a0 a1 a2 data s))"
| DeleteRedisInstance_step: "repo_step s (snd (DeleteRedisInstance a0 a1 a2 s))"

definition reachable :: "db \<Rightarrow> bool" where
  "reachable s \<longleftrightarrow> repo_step\<^sup>*\<^sup>* emptyDb s"

lemma repo_step_inv: "repo_step s s' \<Longrightarrow> repo_inv s \<Longrightarrow> repo_inv s'"
  by (induction rule: repo_step.induct) (simp_all only: keeps_inv CreateSubscription_inv)

lemma repo_steps_inv: "repo_step\<^sup>*\<^sup>* s s' \<Longrightarrow> repo_inv s \<Longrightarrow> repo_inv s'"
  by (induction rule: rtranclp_induct) (auto dest: repo_step_inv)

lemma reachable_inv: "reachable s \<Longrightarrow> repo_inv s"
  unfolding reachable_def by (rule repo_steps_inv [OF _ repo_inv_empty])

text \<open>
  The same relation as a property of its second state, the form in which the handlers are
  checked: an operation takes a state that \<open>s0\<close> leads to on to another one.
\<close>

definition runs :: "db \<Rightarrow> db \<Rightarrow> bool" where
  "runs s0 s \<longleftrightarrow> repo_step\<^sup>*\<^sup>* s0 s"

lemma runs_refl [simp]: "runs s s"
  by (simp add: runs_def)

lemma runs_step: "repo_step s s' \<Longrightarrow> runs s0 s \<Longrightarrow> runs s0 s'"
  unfolding runs_def by (rule rtranclp.rtrancl_into_rtrancl)

lemmas operations_run [keeps_runs] = repo_step.intros [THEN runs_step]

lemma runs_inv: "runs s0 s \<Longrightarrow> repo_inv s0 \<Longrightarrow> repo_inv s"
  unfolding runs_def by (rule repo_steps_inv)

lemma runs_reachable: "runs s0 s \<Longrightarrow> reachable s0 \<Longrightarrow> reachable s"
  unfolding runs_def reachable_def by (rule rtranclp_trans)

section \<open>Interleaved statements\<close>

text \<open>
  Each statement is atomic in SQLite, whatever the goroutines do between statements. The
  updates of the sources set no key column (\<open>keyFree\<close>).
\<close>

inductive sql_step :: "db \<Rightarrow> db \<Rightarrow> bool" where
  insert_step: "sqlInsert t cs d s = Inr s' \<Longrightarrow> sql_step s s'"
| ignore_step: "sqlInsertOrIgnore t cs d s = Inr s' \<Longrightarrow> sql_step s s'"
| update_step: "keyFree t sets \<Longrightarrow> sqlUpdate t conds sets d s = Inr s' \<Longrightarrow> sql_step s s'"
| delete_step: "sqlDelete t conds s = Inr (s', n) \<Longrightarrow> sql_step s s'"

lemma sql_step_ok: "sql_step s s' \<Longrightarrow> db_ok s \<Longrightarrow> db_ok s'"
  by (induction rule: sql_step.induct) (blast intro: insert_ok insertOrIgnore_ok update_ok delete_ok)+

lemma sql_steps_ok: "sql_step\<^sup>*\<^sup>* s s' \<Longrightarrow> db_ok s \<Longrightarrow> db_ok s'"
  by (induction rule: rtranclp_induct) (auto dest: sql_step_ok)

end
