(* ===== verification/Correct_Network.thy ===== *)
theory Correct_Network
  imports Repo_Compute
begin

text \<open>
  What the network operations promise: a created network can be read and a name can be
  taken only once; a network in use cannot be deleted; a subnetwork hangs on an existing
  network of its own project; listings and lookups agree; the interfaces of an accepted
  instance refer to existing resources; operation records are upserted.
\<close>

section \<open>Deletes as cases\<close>

lemma deleteWithResult_cases:
  "deleteWithResult t conds s =
     (if list_ex (\<lambda>c. list_ex (restrictsFrom t (filter (matches conds) (s t)) c) (s c)) all_tbls
      then (Inl ErrInUse, s)
      else if \<forall>r\<in>set (s t). \<not> matches conds r then (Inl ErrNotFound, s)
      else (Inr (), \<lambda>c. filter (\<lambda>r. \<not> (c = t \<and> matches conds r) \<and>
                         \<not> cascadesFrom t (filter (matches conds) (s t)) c r) (s c)))"
proof -
  have same: "(\<lambda>c. filter (\<lambda>r. \<not> (c = t \<and> matches conds r) \<and>
      \<not> cascadesFrom t (filter (matches conds) (s t)) c r) (s c)) = s"
    if "\<forall>r\<in>set (s t). \<not> matches conds r"
  proof -
    from that have none: "filter (matches conds) (s t) = []" by (simp add: filter_empty_conv)
    have "filter (\<lambda>r. \<not> (c = t \<and> matches conds r) \<and> \<not> cascadesFrom t [] c r) (s c) = s c" for c
      using that by (auto simp: filter_id_conv cascadesFrom_def list_ex_iff)
    then show ?thesis by (simp add: none)
  qed
  show ?thesis
    using same by (auto simp: deleteWithResult_def sqlDelete_def Let_def filter_empty_conv)
qed

section \<open>Networks\<close>

text \<open>The tables whose rows refer to a network, and the test for such a row.\<close>

definition networkUsers :: "tbl list" where
  "networkUsers = [Compute_subnetworks, Compute_firewalls, Compute_routers]"

definition networkUsed :: "string \<Rightarrow> string \<Rightarrow> db \<Rightarrow> bool" where
  "networkUsed project name s \<longleftrightarrow>
     list_ex (\<lambda>t. list_ex (matches [(C_project, project), (C_network_name, name)]) (s t)) networkUsers"

lemma network_fks:
  "f \<in> set (foreignKeys (migrate c)) \<and> fkParent f = Compute_networks \<longleftrightarrow>
   c \<in> set networkUsers \<and>
   f = \<lparr>fkCols = [C_project, C_network_name], fkParent = Compute_networks,
        fkParentCols = [C_project, C_name], fkCascade = False\<rparr>"
  by (cases c) (auto simp: networkUsers_def)

lemma refers_to_key:
  assumes "colOf p C_project = Some project" "colOf p C_name = Some name"
  shows "refersTo \<lparr>fkCols = [C_project, c], fkParent = t, fkParentCols = [C_project, C_name], fkCascade = b\<rparr> r p
    \<longleftrightarrow> matches [(C_project, project), (c, name)] r"
  using assms by (auto simp: refersTo_def keyVals_def matches_def split: option.splits)

lemma network_restricts:
  assumes "\<exists>p\<in>set (s Compute_networks). matches [(C_project, project), (C_name, name)] p"
  shows "list_ex (\<lambda>c. list_ex (restrictsFrom Compute_networks
           (filter (matches [(C_project, project), (C_name, name)]) (s Compute_networks)) c) (s c)) all_tbls
         \<longleftrightarrow> networkUsed project name s"
proof -
  let ?gone = "filter (matches [(C_project, project), (C_name, name)]) (s Compute_networks)"
  have ref: "list_ex (refersTo \<lparr>fkCols = [C_project, C_network_name], fkParent = Compute_networks,
        fkParentCols = [C_project, C_name], fkCascade = False\<rparr> r) ?gone
      \<longleftrightarrow> matches [(C_project, project), (C_network_name, name)] r" for r
    using assms by (auto simp: list_ex_iff matches_def refersTo_def keyVals_def split: option.splits)
  have "restrictsFrom Compute_networks ?gone c r \<longleftrightarrow>
      c \<in> set networkUsers \<and> matches [(C_project, project), (C_network_name, name)] r" for c r
  proof -
    have "restrictsFrom Compute_networks ?gone c r \<longleftrightarrow>
        (\<exists>f. (f \<in> set (foreignKeys (migrate c)) \<and> fkParent f = Compute_networks) \<and>
             \<not> fkCascade f \<and> list_ex (refersTo f r) ?gone)"
      by (auto simp: restrictsFrom_def list_ex_iff)
    then show ?thesis unfolding network_fks using ref by auto
  qed
  then show ?thesis by (auto simp: networkUsed_def list_ex_iff)
qed

lemma network_no_restrict:
  assumes "\<forall>p\<in>set (s Compute_networks). \<not> matches conds p"
  shows "\<not> list_ex (\<lambda>c. list_ex (restrictsFrom Compute_networks
           (filter (matches conds) (s Compute_networks)) c) (s c)) all_tbls"
  using assms by (auto simp: list_ex_iff restrictsFrom_def)

lemma network_no_cascade: "\<not> cascadesFrom Compute_networks gone c r"
  by (cases c) (auto simp: cascadesFrom_def)

text \<open>C9 Deleting a network: it fails with ErrNotFound when there is no such network, with
ErrInUse when a subnetwork, firewall or router of the project refers to it, and then
changes nothing; otherwise it removes exactly the network's row and no other row of any
table.\<close>

theorem network_delete:
  "DeleteNetwork project name s =
     (if GetNetwork s project name = Inl ErrNotFound then (Inl ErrNotFound, s)
      else if networkUsed project name s then (Inl ErrInUse, s)
      else (Inr (), s(Compute_networks :=
              filter (\<lambda>r. \<not> matches [(C_project, project), (C_name, name)] r) (s Compute_networks))))"
proof (cases "\<forall>p\<in>set (s Compute_networks). \<not> matches [(C_project, project), (C_name, name)] p")
  case True
  then show ?thesis
    using network_no_restrict [of s, OF True]
    by (simp add: DeleteNetwork_def deleteWithResult_cases GetNetwork_def loadOne_NotFound)
next
  case False
  then have "GetNetwork s project name \<noteq> Inl ErrNotFound" by (simp add: GetNetwork_def loadOne_NotFound)
  moreover have "(\<lambda>c. filter (\<lambda>r. \<not> (c = Compute_networks \<and> matches [(C_project, project), (C_name, name)] r)) (s c))
      = s(Compute_networks := filter (\<lambda>r. \<not> matches [(C_project, project), (C_name, name)] r) (s Compute_networks))"
    by (auto simp: fun_eq_iff)
  ultimately show ?thesis
    using False network_restricts [of s project name]
    by (auto simp: DeleteNetwork_def deleteWithResult_cases network_no_cascade)
qed

text \<open>An insertion of a network is refused only because the name is taken.\<close>

lemma network_insert_refused:
  assumes inv: "repo_inv s"
    and ins: "sqlInsert Compute_networks [(C_name, n), (C_project, project)] d s = Inl err"
  shows "err = uniqueError Compute_networks" "\<exists>d. GetNetwork s project n = Inr d"
proof -
  let ?cs = "[(C_name, n), (C_project, project)]"
  have nofk: "fksHold s Compute_networks r" for r by (simp add: fksHold_def)
  from ins have clash: "keyClash Compute_networks (mkRow ?cs d (s Compute_networks)) (s Compute_networks)"
    and err: "err = uniqueError Compute_networks"
    by (auto simp: sqlInsert_def Let_def nofk split: if_splits)
  show "err = uniqueError Compute_networks" by (rule err)
  from clash obtain r where "r \<in> set (s Compute_networks)" "matches [(C_project, project), (C_name, n)] r"
    by (auto simp: keyClash_def list_ex_iff keysOf_def sameKey_def keyVals_def matches_def split: option.splits)
  then show "\<exists>d. GetNetwork s project n = Inr d"
    using compute_networks_tbl.load_row [OF repo_invD(1) [OF inv]] by (simp add: GetNetwork_def)
qed

text \<open>C13 Creating a network with a name: it succeeds exactly when the project has no network
of that name (else ErrAlreadyExists and nothing changes). After a success the network reads
back as returned, under the name given and in the project of the path; its id and its creation
timestamp are those given, or the server's own when none (or an empty one) was given; every other
field is the given one, as JSON stores it; every other network and every other table is as
before.\<close>

theorem network_create:
  assumes inv: "repo_inv s" and name: "getString data ''name'' \<noteq> []"
  shows "case CreateNetwork e project data s of
      (Inl err, s') \<Rightarrow> err = ErrAlreadyExists \<and> s' = s \<and> (\<exists>d. GetNetwork s project (getString data ''name'') = Inr d)
    | (Inr d, s') \<Rightarrow>
        GetNetwork s project (getString data ''name'') = Inl ErrNotFound \<and>
        (\<forall>p n. GetNetwork s' p n =
           (if p = project \<and> n = getString data ''name'' then Inr d else GetNetwork s p n)) \<and>
        (\<forall>t. t \<noteq> Compute_networks \<longrightarrow> s' t = s t) \<and>
        getString d ''name'' = getString data ''name'' \<and> getString d ''project'' = project \<and>
        getString d ''id'' = (if getString data ''id'' = [] then numericID e else getString data ''id'') \<and>
        getString d ''creationTimestamp'' =
          (if getString data ''creationTimestamp'' = [] then nowRFC3339 e else getString data ''creationTimestamp'') \<and>
        (\<forall>k. k \<notin> {''name'', ''project'', ''id'', ''creationTimestamp''} \<longrightarrow>
             map_of d k = map_option reread (map_of data k))"
proof -
  let ?name = "getString data ''name''"
  let ?d = "marshalData (setDefault ''creationTimestamp'' (nowRFC3339 e)
      (setDefault ''id'' (numericID e) (jset ''project'' (JStr project) (jset ''name'' (JStr ?name) data))))"
  let ?cs = "[(C_name, ?name), (C_project, project)]"
  note tb = compute_networks_tbl.insert_absent compute_networks_tbl.load_insert
  have ag: "agrees [(C_project, p), (C_name, n)] ?cs \<longleftrightarrow> p = project \<and> n = ?name" for p n
    by (auto simp: agrees_def)
  show ?thesis
  proof (cases "sqlInsert Compute_networks ?cs ?d s")
    case (Inl err)
    with network_insert_refused [OF inv Inl] name show ?thesis by (simp add: CreateNetwork_def)
  next
    case (Inr s')
    have get: "GetNetwork s' project ?name = Inr ?d"
      unfolding GetNetwork_def
      by (rule tb(2) [OF repo_invD(1) [OF inv] _ Inr]) (simp_all add: ag)
    have absent: "GetNetwork s project ?name = Inl ErrNotFound"
      unfolding GetNetwork_def by (rule tb(1) [OF _ Inr]) (simp_all add: ag)
    have other: "GetNetwork s' p n = GetNetwork s p n" if "\<not> (p = project \<and> n = ?name)" for p n
      unfolding GetNetwork_def using that
      by (intro compute_networks_tbl.load_insert_other [OF Inr]) (simp add: ag)
    have tables: "\<forall>t. t \<noteq> Compute_networks \<longrightarrow> s' t = s t" using sqlInsert_Inr(1) [OF Inr] by simp
    from Inr name get have "CreateNetwork e project data s = (Inr ?d, s')"
      by (simp add: CreateNetwork_def)
    moreover have "getString ?d ''name'' = ?name" "getString ?d ''project'' = project"
      "getString ?d ''id'' = (if getString data ''id'' = [] then numericID e else getString data ''id'')"
      "getString ?d ''creationTimestamp'' =
         (if getString data ''creationTimestamp'' = [] then nowRFC3339 e else getString data ''creationTimestamp'')"
      by (simp_all add: setDefault_def)
    moreover have "map_of ?d k = map_option reread (map_of data k)"
      if "k \<notin> {''name'', ''project'', ''id'', ''creationTimestamp''}" for k
      using that by (simp add: map_of_marshalData)
    ultimately show ?thesis using get absent other tables by simp
  qed
qed


theorem network_create_witness:
  "\<exists>d s'. CreateNetwork env0 ''p'' [(''name'', JStr ''net'')] emptyDb = (Inr d, s') \<and>
     GetNetwork s' ''p'' ''net'' = Inr d \<and> GetNetwork s' ''q'' ''net'' = Inl ErrNotFound"
proof -
  have "GetNetwork emptyDb p n = Inl ErrNotFound" for p n
    by (simp add: GetNetwork_def loadOne_def emptyDb_def)
  moreover have "getString [(''name'', JStr ''net'')] ''name'' = ''net''" by (simp add: getString_def)
  ultimately show ?thesis
    using network_create [OF repo_inv_empty, where data = "[(''name'', JStr ''net'')]" and e = env0 and project = "''p''"]
    by (auto split: prod.splits sum.splits)
qed

section \<open>Subnetworks\<close>

text \<open>A row that refers to a network by its key columns refers to an existing one.\<close>

lemma network_exists:
  assumes inv: "repo_inv s" and fks: "c \<in> set networkUsers" "fksHold s c r"
    and cols: "colOf r C_project = Some project" "colOf r C_network_name = Some n"
  shows "\<exists>net. GetNetwork s project n = Inr net"
proof -
  have "\<exists>q\<in>set (s Compute_networks). matches [(C_project, project), (C_name, n)] q"
    using fks cols by (auto simp: networkUsers_def fksHold_def fkHolds_def list_ex_iff refersTo_def keyVals_def
        matches_def split: option.splits) blast+
  then show ?thesis
    using compute_networks_tbl.load_row [OF repo_invD(1) [OF inv]] by (force simp: GetNetwork_def)
qed

text \<open>C14 Creating a subnetwork: a success means that the network it was given (as
\<open>network_name\<close> or as a reference that resolves in the project) exists in the project, that
the subnetwork records that network's name, and that it reads back under its project,
region and name; a failure changes nothing.\<close>

theorem subnetwork_create:
  assumes inv: "repo_inv s"
  shows "case CreateSubnetwork e project region data s of
      (Inl err, s') \<Rightarrow> s' = s
    | (Inr d, s') \<Rightarrow>
        \<exists>n net. networkNameOf s project data = Inr n \<and> GetNetwork s project n = Inr net \<and>
          getString d ''network_name'' = n \<and>
          GetSubnetwork s project region (getString data ''name'') = Inl ErrNotFound \<and>
          (\<forall>p r m. GetSubnetwork s' p r m =
             (if p = project \<and> r = region \<and> m = getString data ''name'' then Inr d
              else GetSubnetwork s p r m)) \<and>
          (\<forall>t. t \<noteq> Compute_subnetworks \<longrightarrow> s' t = s t)"
proof (cases "getString data ''name'' = [] \<or> (\<exists>e. networkNameOf s project data = Inl e) \<or>
      networkNameOf s project data = Inr []")
  case True
  then have "\<exists>err. CreateSubnetwork e project region data s = (Inl err, s)"
    by (auto simp: CreateSubnetwork_def Let_def)
  then show ?thesis by auto
next
  case False
  let ?name = "getString data ''name''"
  from False obtain n where n: "networkNameOf s project data = Inr n" "n \<noteq> []"
    by (cases "networkNameOf s project data") auto
  let ?d = "marshalData (setDefault ''creationTimestamp'' (nowRFC3339 e) (setDefault ''id'' (numericID e)
      (jset ''network_name'' (JStr n) (jset ''region'' (JStr region)
        (jset ''project'' (JStr project) (jset ''name'' (JStr ?name) data))))))"
  let ?cs = "[(C_name, ?name), (C_project, project), (C_region, region), (C_network_name, n)]"
  have ag: "agrees [(C_project, p), (C_region, r), (C_name, m)] ?cs \<longleftrightarrow> p = project \<and> r = region \<and> m = ?name"
    for p r m by (auto simp: agrees_def)
  show ?thesis
  proof (cases "sqlInsert Compute_subnetworks ?cs ?d s")
    case (Inl err)
    with False n show ?thesis by (simp add: CreateSubnetwork_def)
  next
    case (Inr s')
    obtain net where net: "GetNetwork s project n = Inr net"
      using network_exists [OF inv _ sqlInsert_Inr(4) [OF Inr], of project n]
      by (auto simp: networkUsers_def colOf_def)
    have get: "GetSubnetwork s' p r m =
        (if p = project \<and> r = region \<and> m = ?name then Inr ?d else GetSubnetwork s p r m)" for p r m
      unfolding GetSubnetwork_def
      by (subst compute_subnetworks_tbl.load_insert_if [OF repo_invD(1) [OF inv] _ Inr]) (simp_all only: ag, simp)
    have absent: "GetSubnetwork s project region ?name = Inl ErrNotFound"
      unfolding GetSubnetwork_def by (rule compute_subnetworks_tbl.insert_absent [OF _ Inr]) (simp_all add: ag)
    have run: "CreateSubnetwork e project region data s = (Inr ?d, s')"
      using Inr False n get by (simp add: CreateSubnetwork_def)
    have field: "getString ?d ''network_name'' = n" by (simp add: setDefault_def)
    show ?thesis
      unfolding run prod.case sum.case
      using n(1) net absent get field sqlInsert_Inr(1) [OF Inr] by (intro exI [of _ n] exI [of _ net]) simp
  qed
qed

text \<open>A project with one network, for the examples.\<close>

definition netDb :: db where
  "netDb = snd (CreateNetwork env0 ''p'' [(''name'', JStr ''net'')] emptyDb)"

lemma netDb_inv: "repo_inv netDb"
  unfolding netDb_def by (rule CreateNetwork_inv [OF repo_inv_empty])

lemma netDb_eval:
  "netDb = emptyDb(Compute_networks :=
     [\<lparr>rowid = 1, rcols = [(C_name, ''net''), (C_project, ''p'')],
       rdata = [(''name'', JStr ''net''), (''project'', JStr ''p''), (''id'', JStr ''123''),
                (''creationTimestamp'', JStr ''2024'')]\<rparr>])"
  by (simp add: netDb_def CreateNetwork_def GetNetwork_def sql_eval)

definition subnetDb :: db where
  "subnetDb = snd (CreateSubnetwork env0 ''p'' ''r''
     [(''name'', JStr ''sub''), (''network_name'', JStr ''net'')] netDb)"

lemma subnetDb_inv: "repo_inv subnetDb"
  unfolding subnetDb_def by (rule CreateSubnetwork_inv [OF netDb_inv])

theorem subnetwork_create_witness:
  "\<exists>d s'. CreateSubnetwork env0 ''p'' ''r'' [(''name'', JStr ''sub''), (''network_name'', JStr ''net'')] netDb
     = (Inr d, s') \<and> getString d ''network_name'' = ''net'' \<and> GetSubnetwork s' ''p'' ''r'' ''sub'' = Inr d"
proof -
  have "\<exists>d s'. CreateSubnetwork env0 ''p'' ''r''
      [(''name'', JStr ''sub''), (''network_name'', JStr ''net'')] netDb = (Inr d, s')"
    by (simp add: netDb_eval CreateSubnetwork_def GetSubnetwork_def networkNameOf_def sql_eval)
  moreover have "networkNameOf netDb ''p'' [(''name'', JStr ''sub''), (''network_name'', JStr ''net'')] = Inr ''net''"
    "getString [(''name'', JStr ''sub''), (''network_name'', JStr ''net'')] ''name'' = ''sub''"
    by (simp_all add: networkNameOf_def getString_def)
  ultimately show ?thesis
    using subnetwork_create [OF netDb_inv, where e = env0 and project = "''p''" and region = "''r''"
        and data = "[(''name'', JStr ''sub''), (''network_name'', JStr ''net'')]"]
    by auto
qed

text \<open>The steps of a patch that succeeds.\<close>

lemma UpdateSubnetwork_success:
  assumes "UpdateSubnetwork project region name patch s = (Inr d, s')"
  obtains current n m0 where "GetSubnetwork s project region name = Inr current"
    and "repatchNetwork s project patch (jset ''region'' (JStr region) (jset ''project'' (JStr project)
        (jset ''name'' (JStr name) (patchMerge current patch [''name'', ''project'', ''region'', ''network_name''])))) = Inr m0"
    and "d = jset ''network_name'' (JStr n) m0"
    and "sqlUpdate Compute_subnetworks [(C_project, project), (C_region, region), (C_name, name)]
           [(C_network_name, n)] (marshalData d) s = Inr s'"
  using assms by (auto simp: UpdateSubnetwork_def Let_def split: sum.splits if_splits)

text \<open>C15 Patching a subnetwork: a failure changes nothing. After a success the subnetwork reads
back with the fields the answer has; its name, project and region are those of the path
whatever the patch says; the network it names exists in its project; and every other
subnetwork and table is as before.\<close>

theorem subnetwork_update:
  assumes inv: "repo_inv s"
  shows "case UpdateSubnetwork project region name patch s of
      (Inl err, s') \<Rightarrow> s' = s
    | (Inr d, s') \<Rightarrow>
        getString d ''name'' = name \<and> getString d ''project'' = project \<and> getString d ''region'' = region \<and>
        (\<exists>net. GetNetwork s project (getString d ''network_name'') = Inr net) \<and>
        (\<forall>p r m. GetSubnetwork s' p r m =
           (if p = project \<and> r = region \<and> m = name then Inr (marshalData d) else GetSubnetwork s p r m)) \<and>
        (\<forall>t. t \<noteq> Compute_subnetworks \<longrightarrow> s' t = s t)"
proof (cases "fst (UpdateSubnetwork project region name patch s)")
  case (Inl err)
  then show ?thesis
    by (auto simp: UpdateSubnetwork_def Let_def split: sum.splits if_splits)
next
  case (Inr d)
  let ?conds = "[(C_project, project), (C_region, region), (C_name, name)]"
  obtain s' where run: "UpdateSubnetwork project region name patch s = (Inr d, s')"
    using Inr by (cases "UpdateSubnetwork project region name patch s") auto
  from run obtain current n m0 where cur: "GetSubnetwork s project region name = Inr current"
    and rep: "repatchNetwork s project patch (jset ''region'' (JStr region) (jset ''project'' (JStr project)
        (jset ''name'' (JStr name) (patchMerge current patch [''name'', ''project'', ''region'', ''network_name''])))) = Inr m0"
    and d: "d = jset ''network_name'' (JStr n) m0"
    and upd: "sqlUpdate Compute_subnetworks ?conds [(C_network_name, n)] (marshalData d) s = Inr s'"
    by (rule UpdateSubnetwork_success)
  note u = sqlUpdate_Inr [OF upd]
  have fields: "getString d ''name'' = name" "getString d ''project'' = project" "getString d ''region'' = region"
    using repatchNetwork_fields [OF rep] d by (simp_all add: getString_def)
  obtain r where r: "r \<in> set (s Compute_subnetworks)" "matches ?conds r"
    by (rule loadOne_Inr_row [OF cur [unfolded GetSubnetwork_def]])
  have "fksHold s Compute_subnetworks (setRow [(C_network_name, n)] (marshalData d) r)"
    using u(2) r by blast
  from network_exists [OF inv _ this, of project n]
  have net: "\<exists>net. GetNetwork s project (getString d ''network_name'') = Inr net"
    using r(2) d by (simp add: networkUsers_def colOf_setRow matches_def)
  have get: "GetSubnetwork s' project region name = Inr (marshalData d)"
    unfolding GetSubnetwork_def
    by (rule compute_subnetworks_tbl.load_update [OF repo_invD(1) [OF inv] _ upd _ _ cur [unfolded GetSubnetwork_def]])
      (simp_all add: keyFree_def keysOf_def)
  have other: "GetSubnetwork s' p r m = GetSubnetwork s p r m"
    if "\<not> (p = project \<and> r = region \<and> m = name)" for p r m
    unfolding GetSubnetwork_def
    by (rule load_update_other [OF upd]) (use that in \<open>auto simp: matches_def colOf_setRow\<close>)
  show ?thesis
    unfolding run prod.case sum.case
    using fields net get other u(1) by auto
qed

theorem subnetwork_update_witness:
  "\<exists>d s'. UpdateSubnetwork ''p'' ''r'' ''sub'' [(''name'', JStr ''other''), (''mtu'', JNum 9)] subnetDb = (Inr d, s') \<and>
     getString d ''name'' = ''sub'' \<and> GetSubnetwork s' ''p'' ''r'' ''sub'' = Inr (marshalData d)"
proof -
  have "\<exists>d s'. UpdateSubnetwork ''p'' ''r'' ''sub'' [(''name'', JStr ''other''), (''mtu'', JNum 9)] subnetDb = (Inr d, s')"
    by (simp add: subnetDb_def netDb_eval CreateSubnetwork_def UpdateSubnetwork_def GetSubnetwork_def
        repatchNetwork_def networkNameOf_def patchMerge_def mergeStep_def toMap_def sqlUpdate_def setRow_def sql_eval)
  with subnetwork_update [OF subnetDb_inv, where project = "''p''" and region = "''r''" and name = "''sub''"
      and patch = "[(''name'', JStr ''other''), (''mtu'', JNum 9)]"]
  show ?thesis by auto
qed

section \<open>Listings\<close>

text \<open>C17 Listing the subnetworks of a region gives exactly the subnetworks that a lookup in that
project and region finds, in strictly increasing order of name.\<close>

theorem subnetwork_list:
  assumes "repo_inv s"
  shows "set (ListSubnetworks s project region) = {d. \<exists>n. GetSubnetwork s project region n = Inr d} \<and>
    sorted_wrt (\<lambda>d d'. getString d ''name'' < getString d' ''name'') (ListSubnetworks s project region)"
  using listing [OF assms, of Compute_subnetworks "[(C_project, project), (C_region, region)]"]
    compute_subnetworks_tbl.keyed_table_axioms
  by (simp add: ListSubnetworks_def GetSubnetwork_def)

theorem subnetwork_list_witness:
  "set (ListSubnetworks subnetDb ''p'' ''r'') = {d. \<exists>n. GetSubnetwork subnetDb ''p'' ''r'' n = Inr d}"
  using subnetwork_list [OF subnetDb_inv] by blast

end
