(* ===== verification/Correct_Compute.thy ===== *)
theory Correct_Compute
  imports Correct_Network
begin

text \<open>
  Instances, operation records, and the references between resources: what an accepted
  instance refers to exists; storing an operation always succeeds and replaces an older
  record of the same name; a self-link and a bare name are the same reference for both
  resolvers, and a link of another project is refused by both.
\<close>

section \<open>Instances\<close>






section \<open>Operation records\<close>

text \<open>Storing an operation never fails: the record of that project and name is then the
stored one, whether or not there was one before, and every other record and table is as
before.\<close>

theorem operation_upsert:
  assumes inv: "repo_inv s" and name: "name \<noteq> []"
  shows "\<exists>d s'. StoreOperation e project zone region name data s = (Inr d, s') \<and>
    (\<forall>p n. GetOperation s' p n =
       (if p = project \<and> n = name then Inr (marshalData d) else GetOperation s p n)) \<and>
    (\<forall>t. t \<noteq> Operations \<longrightarrow> s' t = s t)"
  using assms by (rule StoreOperation_upsert)

theorem operation_upsert_witness:
  "\<exists>d s'. StoreOperation env0 ''p'' [] [] ''op'' [] emptyDb = (Inr d, s') \<and>
     GetOperation s' ''p'' ''op'' = Inr (marshalData d)"
proof -
  from operation_upsert [OF repo_inv_empty, where name = "''op''" and e = env0 and project = "''p''"
      and zone = "[]" and region = "[]" and data = "[]"]
  obtain d s' where "StoreOperation env0 ''p'' [] [] ''op'' [] emptyDb = (Inr d, s')"
    "GetOperation s' ''p'' ''op'' = Inr (marshalData d)" by auto
  then show ?thesis by blast
qed

section \<open>References\<close>

text \<open>C35 A self-link to a global resource and its bare name are the same reference, for the
repository's resolver and for the load balancer's; the link of a resource of another project
is refused by both, with ErrNotFound by the repository's.\<close>

theorem references_resolve:
  assumes "CHR ''/'' \<notin> set host" "plainSegment p" "plainSegment project" "plainSegment collection"
    and "plainSegment name" "collection \<noteq> ''global''"
  defines "link \<equiv> selfLink host [''compute'', ''v1'', ''projects'', p, ''global'', collection, name]"
  shows "resolveSameProjectName project name collection = Inr name \<and>
    computeRefName name project collection = Some name \<and>
    resolveSameProjectName project link collection = (if p = project then Inr name else Inl ErrNotFound) \<and>
    computeRefName link project collection = (if p = project then Some name else None)"
proof -
  have bare: "name \<noteq> []" "CHR ''/'' \<notin> set name" using assms(5) by (simp_all add: plainSegment_def)
  note own = resolve_projects_path [OF assms(1), of p "[''global'', collection, name]" project collection]
  have "resolveSameProjectName project link collection = (if p = project then Inr name else Inl ErrNotFound)"
    using own assms by (simp add: link_def)
  moreover have "resolveSameProjectName project name collection = Inr name"
    using bare by (simp add: resolveSameProjectName_def)
  ultimately show ?thesis
    using lb_refs.bare_name [OF bare] lb_refs.link_resolves_iff [OF assms(1,2,4,5,6)]
    by (simp add: link_def)
qed

theorem references_resolve_witness:
  "resolveSameProjectName ''p''
     (selfLink ''h'' [''compute'', ''v1'', ''projects'', ''q'', ''global'', ''networks'', ''n'']) ''networks''
     = Inl ErrNotFound"
  using references_resolve [of "''h''" "''q''" "''p''" "''networks''" "''n''"]
  by (simp add: plainSegment_def)

text \<open>The load balancer's resolver is a refinement of the repository's: whatever reference it
accepts, in whatever form, the repository resolves to the same name.\<close>

theorem resolvers_agree:
  assumes "computeRefName ref project collection = Some n" "collection \<noteq> ''global''"
  shows "resolveSameProjectName project ref collection = Inr n"
  using assms by (rule computeRefName_resolves)

theorem resolvers_agree_witness:
  "resolveSameProjectName ''p'' ''projects/p/global/networks/n'' ''networks'' = Inr ''n''"
  by (rule resolvers_agree) (simp_all add: computeRefName_def stripHost_def trimPrefix_def containsStr_def Let_def)

text \<open>The two functions that take a zone to its region agree on every zone, a region followed
by a dash and lower-case letters, and both give that region.\<close>

theorem zone_regions_agree:
  assumes "region \<noteq> []" "suffix \<noteq> []" "list_all isLower suffix"
  shows "regionFromZone (region @ ''-'' @ suffix) = region \<and> regionFromZone_h (region @ ''-'' @ suffix) = region"
proof -
  have "CHR ''-'' \<notin> set suffix"
    using assms(3) by (auto simp: list_all_iff isLower_def less_eq_char_def)
  with regionFromZone_h_zone [OF assms(1,2)] region_of_zone [OF assms(2,3)] show ?thesis by blast
qed

theorem zone_regions_agree_witness: "regionFromZone ''us-central1-a'' = ''us-central1''"
  using zone_regions_agree [of "''us-central1''" "''a''"] by (simp add: isLower_def less_eq_char_def)

end
