(* ===== verification/Correct_Cascade.thy ===== *)
theory Correct_Cascade
  imports Correct_Network Repo_Container Repo_CloudSql Repo_Iam Repo_Secret
begin

text \<open>
  Deletes that cascade: deleting a cluster, a Cloud SQL instance, a service account or a
  secret removes exactly what belongs to it. One lemma, \<open>cascade_delete\<close>, describes every
  such delete; a property reads off the lookups.
\<close>

definition cascaded :: "tbl \<Rightarrow> string list \<Rightarrow> tbl \<Rightarrow> row \<Rightarrow> bool" where
  "cascaded t vs c r \<longleftrightarrow>
     list_ex (\<lambda>f. fkParent f = t \<and> keyVals (fkCols f) r = Some vs) (foreignKeys (migrate c))"

lemma cascade_delete:
  assumes fk: "\<And>c f. f \<in> set (foreignKeys (migrate c)) \<Longrightarrow> fkParent f = t \<Longrightarrow>
      fkCascade f \<and> fkParentCols f = pcols"
    and vals: "\<And>p. p \<in> set (s t) \<Longrightarrow> matches conds p \<Longrightarrow> keyVals pcols p = Some vs"
  shows "deleteWithResult t conds s =
    (if loadOne t conds s = Inl ErrNotFound then (Inl ErrNotFound, s)
     else (Inr (), \<lambda>c. filter (\<lambda>r. \<not> (c = t \<and> matches conds r) \<and> \<not> cascaded t vs c r) (s c)))"
proof -
  let ?gone = "filter (matches conds) (s t)"
  have norestrict: "\<not> restrictsFrom t ?gone c r" for c r
    using fk by (auto simp: restrictsFrom_def list_ex_iff)
  have "cascadesFrom t ?gone c r \<longleftrightarrow> cascaded t vs c r" if "\<exists>p\<in>set (s t). matches conds p" for c r
  proof -
    have "refersTo f r p \<longleftrightarrow> keyVals (fkCols f) r = Some vs"
      if "f \<in> set (foreignKeys (migrate c))" "fkParent f = t" "p \<in> set ?gone" for f p
      using fk [OF that(1,2)] vals [of p] that(3) by (auto simp: refersTo_def)
    then have "fkCascade f \<and> fkParent f = t \<and> list_ex (refersTo f r) ?gone \<longleftrightarrow>
        fkParent f = t \<and> keyVals (fkCols f) r = Some vs" if "f \<in> set (foreignKeys (migrate c))" for f
      using that \<open>\<exists>p\<in>set (s t). matches conds p\<close> fk [OF that] by (auto simp: list_ex_iff)
    then show ?thesis by (simp add: cascadesFrom_def cascaded_def list_ex_iff cong: bex_cong)
  qed
  then show ?thesis
    using norestrict by (auto simp: deleteWithResult_cases loadOne_NotFound list_ex_iff)
qed

text \<open>A table that no foreign key refers to.\<close>

lemma sqlDelete_childless:
  assumes "\<And>c f. f \<in> set (foreignKeys (migrate c)) \<Longrightarrow> fkParent f \<noteq> t"
  shows "sqlDelete t conds s =
    Inr (s(t := filter (\<lambda>r. \<not> matches conds r) (s t)), length (filter (matches conds) (s t)))"
proof -
  have "\<not> restrictsFrom t gone c r" "\<not> cascadesFrom t gone c r" for gone c r
    using assms by (auto simp: restrictsFrom_def cascadesFrom_def list_ex_iff)
  then show ?thesis by (auto simp: sqlDelete_def Let_def list_ex_iff fun_eq_iff)
qed

lemma childless_delete:
  assumes "\<And>c f. f \<in> set (foreignKeys (migrate c)) \<Longrightarrow> fkParent f \<noteq> t"
  shows "deleteWithResult t conds s =
    (if loadOne t conds s = Inl ErrNotFound then (Inl ErrNotFound, s)
     else (Inr (), s(t := filter (\<lambda>r. \<not> matches conds r) (s t))))"
  using sqlDelete_childless [OF assms, where conds = conds and s = s]
  by (auto simp: deleteWithResult_def loadOne_NotFound filter_empty_conv filter_id_conv fun_upd_idem)

lemma keyVals_eq: "keyVals ks r = Some vs \<longleftrightarrow> length vs = length ks \<and> matches (zip ks vs) r"
proof (induction ks arbitrary: vs)
  case Nil
  then show ?case by (auto simp: keyVals_def matches_def)
next
  case (Cons k ks)
  then show ?case by (cases vs) (auto simp: keyVals_def matches_def split: option.splits)
qed

lemma children:
  "cascaded Container_clusters vs c r \<longleftrightarrow>
     c = Container_node_pools \<and> keyVals [C_project, C_location, C_cluster_name] r = Some vs"
  "cascaded Sql_instances vs c r \<longleftrightarrow>
     (c = Sql_databases \<or> c = Sql_users) \<and> keyVals [C_project, C_instance_name] r = Some vs"
  "cascaded Iam_service_accounts vs c r \<longleftrightarrow>
     c = Iam_sa_keys \<and> keyVals [C_service_account_email] r = Some vs"
  "cascaded Secretmanager_secrets vs c r \<longleftrightarrow>
     c = Secretmanager_versions \<and> keyVals [C_project, C_secret_name] r = Some vs"
  by (cases c; simp add: cascaded_def)+

lemma cascade_fks:
  "f \<in> set (foreignKeys (migrate c)) \<Longrightarrow> fkParent f = Container_clusters \<Longrightarrow>
     fkCascade f \<and> fkParentCols f = [C_project, C_location, C_name]"
  "f \<in> set (foreignKeys (migrate c)) \<Longrightarrow> fkParent f = Sql_instances \<Longrightarrow>
     fkCascade f \<and> fkParentCols f = [C_project, C_name]"
  "f \<in> set (foreignKeys (migrate c)) \<Longrightarrow> fkParent f = Iam_service_accounts \<Longrightarrow>
     fkCascade f \<and> fkParentCols f = [C_email]"
  "f \<in> set (foreignKeys (migrate c)) \<Longrightarrow> fkParent f = Secretmanager_secrets \<Longrightarrow>
     fkCascade f \<and> fkParentCols f = [C_project, C_name]"
  by (cases c; auto)+

text \<open>The deletes of the four parents, as changes of tables.\<close>

lemma DeleteCluster_eq:
  "DeleteCluster project location name s =
     (if GetCluster s project location name = Inl ErrNotFound then (Inl ErrNotFound, s)
      else (Inr (), s(
        Container_clusters := filter (\<lambda>r. \<not> matches
          [(C_project, project), (C_location, location), (C_name, name)] r) (s Container_clusters),
        Container_node_pools := filter (\<lambda>r. \<not> matches
          [(C_project, project), (C_location, location), (C_cluster_name, name)] r) (s Container_node_pools))))"
  unfolding DeleteCluster_def
  by (subst cascade_delete [OF cascade_fks(1), where vs = "[project, location, name]"])
    (auto simp: GetCluster_def keyVals_eq children fun_eq_iff matchesD)

lemma DeleteSQLInstance_eq:
  "DeleteSQLInstance project name s =
     (if GetSQLInstance s project name = Inl ErrNotFound then (Inl ErrNotFound, s)
      else (Inr (), s(
        Sql_instances := filter (\<lambda>r. \<not> matches [(C_project, project), (C_name, name)] r) (s Sql_instances),
        Sql_databases := filter (\<lambda>r. \<not> matches [(C_project, project), (C_instance_name, name)] r) (s Sql_databases),
        Sql_users := filter (\<lambda>r. \<not> matches [(C_project, project), (C_instance_name, name)] r) (s Sql_users))))"
  unfolding DeleteSQLInstance_def
  by (subst cascade_delete [OF cascade_fks(2), where vs = "[project, name]"])
    (auto simp: GetSQLInstance_def keyVals_eq children fun_eq_iff matchesD)

lemma DeleteServiceAccount_eq:
  "DeleteServiceAccount project email s =
     (if GetServiceAccount s project email = Inl ErrNotFound then (Inl ErrNotFound, s)
      else (Inr (), s(
        Iam_service_accounts := filter (\<lambda>r. \<not> matches [(C_project, project), (C_email, email)] r) (s Iam_service_accounts),
        Iam_sa_keys := filter (\<lambda>r. \<not> matches [(C_service_account_email, email)] r) (s Iam_sa_keys))))"
  unfolding DeleteServiceAccount_def
  by (subst cascade_delete [OF cascade_fks(3), where vs = "[email]"])
    (auto simp: GetServiceAccount_def keyVals_eq children fun_eq_iff matches_def)

lemma DeleteSecret_eq:
  "DeleteSecret project name s =
     (if GetSecret s project name = Inl ErrNotFound then (Inl ErrNotFound, s)
      else (Inr (), s(
        Secretmanager_secrets := filter (\<lambda>r. \<not> matches [(C_project, project), (C_name, name)] r) (s Secretmanager_secrets),
        Secretmanager_versions := filter (\<lambda>r. \<not> matches [(C_project, project), (C_secret_name, name)] r) (s Secretmanager_versions))))"
  unfolding DeleteSecret_def
  by (subst cascade_delete [OF cascade_fks(4), where vs = "[project, name]"])
    (auto simp: GetSecret_def keyVals_eq children fun_eq_iff matchesD)

text \<open>The rows of one parent, after the rows of another have been removed.\<close>

lemma filter_pair:
  "filter (\<lambda>r. \<not> matches [(a, p'), (b, n')] r \<and> matches [(a, p), (b, n)] r) rs =
     (if p = p' \<and> n = n' then [] else filter (matches [(a, p), (b, n)]) rs)"
  by (auto simp: matches_def filter_empty_conv intro!: filter_cong)

text \<open>A lookup finds something or is refused with ErrNotFound.\<close>

lemma loadOne_found: "(\<exists>d. loadOne t conds s = Inr d) \<longleftrightarrow> loadOne t conds s \<noteq> Inl ErrNotFound"
  using loadOne_NotFound [of t conds s] by (cases "loadOne t conds s") auto

lemma lookup_found:
  "(\<exists>d. GetCluster s p l n = Inr d) \<longleftrightarrow> GetCluster s p l n \<noteq> Inl ErrNotFound"
  "(\<exists>d. GetSQLInstance s p n = Inr d) \<longleftrightarrow> GetSQLInstance s p n \<noteq> Inl ErrNotFound"
  "(\<exists>d. GetServiceAccount s p n = Inr d) \<longleftrightarrow> GetServiceAccount s p n \<noteq> Inl ErrNotFound"
  "(\<exists>d. GetSecret s p n = Inr d) \<longleftrightarrow> GetSecret s p n \<noteq> Inl ErrNotFound"
  by (simp_all add: GetCluster_def GetSQLInstance_def GetServiceAccount_def GetSecret_def loadOne_found)

section \<open>Clusters\<close>

text \<open>C29 Deleting a cluster: ErrNotFound and no change when there is none; otherwise the cluster
and exactly its own node pools are gone, and every other cluster, node pool and table is as
before.\<close>

theorem cluster_delete:
  "case DeleteCluster project location name s of
     (Inl err, s') \<Rightarrow> err = ErrNotFound \<and> s' = s \<and> GetCluster s project location name = Inl ErrNotFound
   | (Inr _, s') \<Rightarrow>
       (\<exists>d. GetCluster s project location name = Inr d) \<and>
       (\<forall>p l n. GetCluster s' p l n =
          (if p = project \<and> l = location \<and> n = name then Inl ErrNotFound else GetCluster s p l n)) \<and>
       (\<forall>p l c n. GetNodePool s' p l c n =
          (if p = project \<and> l = location \<and> c = name then Inl ErrNotFound else GetNodePool s p l c n)) \<and>
       (\<forall>t. t \<in> {Container_clusters, Container_node_pools} \<or> s' t = s t)"
proof -
  let ?s' = "snd (DeleteCluster project location name s)"
  have c: "GetCluster ?s' p l n =
      (if p = project \<and> l = location \<and> n = name then Inl ErrNotFound else GetCluster s p l n)"
    if "GetCluster s project location name \<noteq> Inl ErrNotFound" for p l n
    unfolding GetCluster_def
    by (rule load_filter_conds, simp add: that DeleteCluster_eq, auto)
  have n: "GetNodePool ?s' p l c n =
      (if p = project \<and> l = location \<and> c = name then Inl ErrNotFound else GetNodePool s p l c n)"
    if "GetCluster s project location name \<noteq> Inl ErrNotFound" for p l c n
    unfolding GetNodePool_def
    by (rule load_filter_conds, simp add: that DeleteCluster_eq, auto)
  show ?thesis
    using c n by (cases "GetCluster s project location name = Inl ErrNotFound") (simp_all add: lookup_found DeleteCluster_eq)
qed

section \<open>Cloud SQL\<close>

text \<open>C30 Deleting a Cloud SQL instance: ErrNotFound and no change when there is none; otherwise
the instance, its databases and its users are gone, and every other instance, database, user
and table is as before.\<close>

theorem sql_instance_delete:
  "case DeleteSQLInstance project name s of
     (Inl err, s') \<Rightarrow> err = ErrNotFound \<and> s' = s \<and> GetSQLInstance s project name = Inl ErrNotFound
   | (Inr _, s') \<Rightarrow>
       (\<exists>d. GetSQLInstance s project name = Inr d) \<and>
       (\<forall>p n. GetSQLInstance s' p n =
          (if p = project \<and> n = name then Inl ErrNotFound else GetSQLInstance s p n)) \<and>
       (\<forall>p i n. GetSQLDatabase s' p i n =
          (if p = project \<and> i = name then Inl ErrNotFound else GetSQLDatabase s p i n)) \<and>
       (\<forall>p i. ListSQLUsers s' p i = (if p = project \<and> i = name then [] else ListSQLUsers s p i)) \<and>
       (\<forall>t. t \<in> {Sql_instances, Sql_databases, Sql_users} \<or> s' t = s t)"
proof -
  let ?s' = "snd (DeleteSQLInstance project name s)"
  have i: "GetSQLInstance ?s' p n =
      (if p = project \<and> n = name then Inl ErrNotFound else GetSQLInstance s p n)"
    if "GetSQLInstance s project name \<noteq> Inl ErrNotFound" for p n
    unfolding GetSQLInstance_def
    by (rule load_filter_conds, simp add: that DeleteSQLInstance_eq, auto)
  have d: "GetSQLDatabase ?s' p i n =
      (if p = project \<and> i = name then Inl ErrNotFound else GetSQLDatabase s p i n)"
    if "GetSQLInstance s project name \<noteq> Inl ErrNotFound" for p i n
    unfolding GetSQLDatabase_def
    by (rule load_filter_conds, simp add: that DeleteSQLInstance_eq, auto)
  show ?thesis
    using i d by (cases "GetSQLInstance s project name = Inl ErrNotFound")
      (simp_all add: lookup_found DeleteSQLInstance_eq ListSQLUsers_def loadMany_def sqlSelect_def filter_pair)
qed

section \<open>Service accounts\<close>

text \<open>A stored key carries the e-mail of its account, and is found under its name.\<close>

lemma key_mail:
  assumes inv: "repo_inv s" and r: "r \<in> set (s Iam_sa_keys)"
  shows "matches [(C_service_account_email, email)] r \<longleftrightarrow> getString (rdata r) ''serviceAccountEmail'' = email"
proof -
  have "colOf r C_service_account_email \<noteq> None"
    using db_okD(3) [OF repo_invD(1) [OF inv], of Iam_sa_keys] r by (simp add: nulls_ok_def)
  with repo_inv_mirror [OF inv r, of "''serviceAccountEmail''" C_service_account_email]
  show ?thesis by (auto simp: getString_def matches_def)
qed

lemma key_row:
  assumes "repo_inv s"
  shows "GetSAKey s n = Inr d \<longleftrightarrow> (\<exists>r\<in>set (s Iam_sa_keys). matches [(C_name, n)] r \<and> rdata r = d)"
  unfolding GetSAKey_def
  using iam_sa_keys_tbl.load_row [OF repo_invD(1) [OF assms], of "[(C_name, n)]"]
  by (auto elim: loadOne_Inr_row)

text \<open>C31 Deleting a service account: ErrNotFound and no change when there is none; otherwise the
account is gone, and with it every key that carries its e-mail; every other account, key and
table is as before.\<close>

theorem service_account_delete:
  assumes inv: "repo_inv s"
  shows "case DeleteServiceAccount project email s of
     (Inl err, s') \<Rightarrow> err = ErrNotFound \<and> s' = s \<and> GetServiceAccount s project email = Inl ErrNotFound
   | (Inr _, s') \<Rightarrow>
       (\<exists>d. GetServiceAccount s project email = Inr d) \<and>
       (\<forall>p m. GetServiceAccount s' p m =
          (if p = project \<and> m = email then Inl ErrNotFound else GetServiceAccount s p m)) \<and>
       ListSAKeys s' email = [] \<and>
       (\<forall>n d. GetSAKey s' n = Inr d \<longleftrightarrow>
          GetSAKey s n = Inr d \<and> getString d ''serviceAccountEmail'' \<noteq> email) \<and>
       (\<forall>t. t \<notin> {Iam_service_accounts, Iam_sa_keys} \<longrightarrow> s' t = s t)"
proof -
  let ?s' = "snd (DeleteServiceAccount project email s)"
  have a: "GetServiceAccount ?s' p m =
      (if p = project \<and> m = email then Inl ErrNotFound else GetServiceAccount s p m)"
    if "GetServiceAccount s project email \<noteq> Inl ErrNotFound" for p m
    unfolding GetServiceAccount_def
    by (rule load_filter_conds, simp add: that DeleteServiceAccount_eq, auto)
  have inv': "repo_inv ?s'" using DeleteServiceAccount_inv [OF inv] .
  have k: "GetSAKey ?s' n = Inr d \<longleftrightarrow>
      GetSAKey s n = Inr d \<and> getString d ''serviceAccountEmail'' \<noteq> email"
    if "GetServiceAccount s project email \<noteq> Inl ErrNotFound" for n d
    unfolding key_row [OF inv] key_row [OF inv'] using that key_mail [OF inv, of _ email]
    by (auto simp: DeleteServiceAccount_eq)
  show ?thesis
    using a k by (cases "GetServiceAccount s project email = Inl ErrNotFound")
      (simp_all add: lookup_found DeleteServiceAccount_eq ListSAKeys_def loadMany_def sqlSelect_def)
qed

text \<open>An account with a key, for the examples.\<close>

definition accountDb :: db where
  "accountDb = snd (CreateServiceAccount env0 ''p'' [(''accountId'', JStr ''a'')] emptyDb)"

definition saMail :: string where "saMail = ''a@p.iam.gserviceaccount.com''"

lemma accountDb_inv: "repo_inv accountDb"
  unfolding accountDb_def by (rule CreateServiceAccount_inv [OF repo_inv_empty])

definition keyDb :: db where
  "keyDb = snd (CreateSAKey env0 ''p'' saMail [(''name'', JStr ''k'')] accountDb)"

lemma keyDb_inv: "repo_inv keyDb"
  unfolding keyDb_def by (rule CreateSAKey_inv [OF accountDb_inv])

lemma keyDb_eval:
  "GetServiceAccount keyDb ''p'' saMail \<noteq> Inl ErrNotFound" "\<exists>d. GetSAKey keyDb ''k'' = Inr d"
  by (simp_all add: keyDb_def accountDb_def CreateSAKey_def CreateServiceAccount_def GetSAKey_def
      GetServiceAccount_def saEmail_def saMail_def sql_eval)

theorem service_account_delete_witness:
  "\<exists>s'. DeleteServiceAccount ''p'' saMail keyDb = (Inr (), s') \<and> ListSAKeys s' saMail = []"
  using service_account_delete [OF keyDb_inv, where project = "''p''" and email = saMail] keyDb_eval(1)
  by (cases "DeleteServiceAccount ''p'' saMail keyDb") (auto split: sum.splits)

section \<open>Secrets\<close>

text \<open>C32 Deleting a secret: ErrNotFound and no change when there is none; otherwise the secret and
exactly its own versions are gone, and every other secret, version and table is as before.\<close>

theorem secret_delete:
  "case DeleteSecret project name s of
     (Inl err, s') \<Rightarrow> err = ErrNotFound \<and> s' = s \<and> GetSecret s project name = Inl ErrNotFound
   | (Inr _, s') \<Rightarrow>
       (\<exists>d. GetSecret s project name = Inr d) \<and>
       (\<forall>p n. GetSecret s' p n =
          (if p = project \<and> n = name then Inl ErrNotFound else GetSecret s p n)) \<and>
       (\<forall>p n. ListSecretVersions s' p n =
          (if p = project \<and> n = name then [] else ListSecretVersions s p n)) \<and>
       (\<forall>p n. GetLatestSecretVersion s' p n =
          (if p = project \<and> n = name then Inl ErrNotFound else GetLatestSecretVersion s p n)) \<and>
       (\<forall>t. t \<in> {Secretmanager_secrets, Secretmanager_versions} \<or> s' t = s t)"
proof -
  let ?s' = "snd (DeleteSecret project name s)"
  have k: "GetSecret ?s' p n = (if p = project \<and> n = name then Inl ErrNotFound else GetSecret s p n)"
    if "GetSecret s project name \<noteq> Inl ErrNotFound" for p n
    unfolding GetSecret_def
    by (rule load_filter_conds, simp add: that DeleteSecret_eq, auto)
  show ?thesis
    using k by (cases "GetSecret s project name = Inl ErrNotFound")
      (simp_all add: lookup_found DeleteSecret_eq ListSecretVersions_def GetLatestSecretVersion_def filter_pair)
qed

end
