(* ===== verification/Http.thy ===== *)
theory Http
  imports Json
begin

text \<open>
  Requests, responses and the shared helpers of \<^verbatim>\<open>src/handlers/handlers.go\<close>:
  \<^verbatim>\<open>decodeBody\<close>, \<^verbatim>\<open>writeJSON\<close>, \<^verbatim>\<open>writeGCPError\<close>, the two mappings of repository errors
  to statuses, and the middleware \<^verbatim>\<open>requireBearerToken\<close>. Path parameters are arguments
  of the handlers.
\<close>

section \<open>Requests and responses\<close>

text \<open>
  What reading the body and \<^verbatim>\<open>encoding/json\<close> make of it: nothing but white space, a read
  or syntax error, or a value. A response has a status and a JSON body, or a status only;
  \<open>Aborted\<close> is a handler that panics (the server drops the
  connection).
\<close>

datatype body = EmptyBody | Malformed | Value json

record request =
  authorization :: string
  host :: string
  query :: "(string \<times> string) list"
  rbody :: body

datatype response = Response nat json | NoBody nat | Aborted

text \<open>\<^verbatim>\<open>r.URL.Query().Get(k)\<close>\<close>

definition queryGet :: "request \<Rightarrow> string \<Rightarrow> string" where
  "queryGet r k = (case map_of (query r) k of None \<Rightarrow> [] | Some v \<Rightarrow> v)"

text \<open>
  \<^verbatim>\<open>json.Unmarshal\<close> into a \<^verbatim>\<open>map[string]any\<close>: the text \<^verbatim>\<open>null\<close> is accepted and makes the
  map nil (\<open>Inr None\<close>).
\<close>

definition decodeBody :: "request \<Rightarrow> unit + obj option" where
  "decodeBody r =
     (case rbody r of
        EmptyBody \<Rightarrow> Inr (Some [])
      | Malformed \<Rightarrow> Inl ()
      | Value v \<Rightarrow>
          (case v of JObj m \<Rightarrow> Inr (Some m) | JNull \<Rightarrow> Inr None | _ \<Rightarrow> Inl ()))"

text \<open>Reading a nil map finds no field.\<close>

definition bodyFields :: "obj option \<Rightarrow> obj" where
  "bodyFields m = (case m of None \<Rightarrow> [] | Some d \<Rightarrow> d)"

definition writeJSON :: "nat \<Rightarrow> json \<Rightarrow> response" where
  "writeJSON code v = Response code v"

definition writeGCPError :: "nat \<Rightarrow> string \<Rightarrow> string \<Rightarrow> response" where
  "writeGCPError code message reason =
     writeJSON code (JObj
       [(''error'', JObj
          [(''code'', JInt (int code)),
           (''message'', JStr message),
           (''errors'', JArr
              [JObj [(''message'', JStr message),
                     (''domain'', JStr ''global''),
                     (''reason'', JStr reason)]])])])"

definition badJSON :: response where
  "badJSON = writeGCPError 400 ''Invalid JSON body'' ''invalid''"

definition missingField :: "string \<Rightarrow> response" where
  "missingField f = writeGCPError 400 (''Missing required field: '' @ f) ''required''"

text \<open>
  A handler that goes on to assign to fields of the body panics when the map is nil; one
  that only reads it does not.
\<close>

definition withBody :: "request \<Rightarrow> (obj option \<Rightarrow> response \<times> 's) \<Rightarrow> 's \<Rightarrow> response \<times> 's" where
  "withBody r k s = (case decodeBody r of Inl _ \<Rightarrow> (badJSON, s) | Inr m \<Rightarrow> k m)"

definition assignable :: "obj option \<Rightarrow> (obj \<Rightarrow> response \<times> 's) \<Rightarrow> 's \<Rightarrow> response \<times> 's" where
  "assignable m k s = (case m of None \<Rightarrow> (Aborted, s) | Some d \<Rightarrow> k d)"

text \<open>A field that holds an array; \<^verbatim>\<open>nil\<close> reads as empty.\<close>

definition arrayField :: "obj \<Rightarrow> string \<Rightarrow> json list" where
  "arrayField body k = (case toArr (map_of body k) of None \<Rightarrow> [] | Some xs \<Rightarrow> xs)"

text \<open>The entries of an array that are objects; the others are skipped.\<close>

definition objectEntries :: "json list \<Rightarrow> obj list" where
  "objectEntries xs = List.map_filter (\<lambda>v. toMap (Some v)) xs"

lemma map_filter_Some: "\<forall>x\<in>set xs. f x \<noteq> None \<Longrightarrow> List.map_filter f xs = map (\<lambda>x. the (f x)) xs"
  by (induction xs) (auto simp: List.map_filter_simps)

text \<open>
  \<^verbatim>\<open>isShallowEmpty\<close> of \<^verbatim>\<open>dns.go\<close>, and the loop that removes the listed fields whose
  values are empty in this sense.
\<close>

definition isShallowEmptyInner :: "json \<Rightarrow> bool" where
  "isShallowEmptyInner v =
     (case v of
        JNull \<Rightarrow> True
      | JArr xs \<Rightarrow> xs = []
      | JStr s \<Rightarrow> s = []
      | JBool b \<Rightarrow> \<not> b
      | _ \<Rightarrow> False)"

definition isShallowEmpty :: "json \<Rightarrow> bool" where
  "isShallowEmpty v =
     (case v of
        JNull \<Rightarrow> True
      | JArr xs \<Rightarrow> xs = []
      | JObj m \<Rightarrow> list_all (\<lambda>(k, inner). isShallowEmptyInner inner) m
      | _ \<Rightarrow> False)"

definition stripShallowEmpty :: "string list \<Rightarrow> obj \<Rightarrow> obj" where
  "stripShallowEmpty keys body =
     foldl (\<lambda>body key.
        case map_of body key of
          None \<Rightarrow> body
        | Some v \<Rightarrow> if isShallowEmpty v then AList.delete key body else body) body keys"

lemma map_of_stripShallowEmpty:
  "map_of (stripShallowEmpty keys body) k =
     (case map_of body k of
        None \<Rightarrow> None
      | Some v \<Rightarrow> if k \<in> set keys \<and> isShallowEmpty v then None else Some v)"
  unfolding stripShallowEmpty_def
proof (induction keys arbitrary: body)
  case (Cons key keys)
  show ?case
    by (cases "map_of body key") (auto simp: Cons delete_conv' split: option.split)
qed (simp split: option.split)

section \<open>Defaults of a body\<close>

text \<open>A list of fields set where they are absent, in the order of the code.\<close>

definition setAllMissing :: "(string \<times> json) list \<Rightarrow> obj \<Rightarrow> obj" where
  "setAllMissing defaults body = foldl (\<lambda>body (k, v). setMissing k v body) body defaults"

text \<open>
  \<^verbatim>\<open>sub, ok := body[k].(map[string]any); if !ok { sub = {}; body[k] = sub }\<close> followed by the
  defaults of its fields. The map is shared, so the assignments show in the body.
\<close>

definition subObject :: "string \<Rightarrow> obj \<Rightarrow> obj" where
  "subObject k body = (case toMap (map_of body k) of Some m \<Rightarrow> m | None \<Rightarrow> [])"

definition defaultSub :: "string \<Rightarrow> (string \<times> json) list \<Rightarrow> obj \<Rightarrow> obj" where
  "defaultSub k defaults body = jset k (JObj (setAllMissing defaults (subObject k body))) body"

text \<open>\<^verbatim>\<open>if _, ok := body[k].(map[string]any); !ok { body[k] = m }\<close>\<close>

definition setUnlessMap :: "string \<Rightarrow> obj \<Rightarrow> obj \<Rightarrow> obj" where
  "setUnlessMap k m body = (case toMap (map_of body k) of None \<Rightarrow> jset k (JObj m) body | Some _ \<Rightarrow> body)"

text \<open>Defaults never replace a field that is present.\<close>

lemma map_of_setAllMissing:
  "map_of (setAllMissing defaults body) k =
     (case map_of body k of Some v \<Rightarrow> Some v | None \<Rightarrow> map_of defaults k)"
  unfolding setAllMissing_def
proof (induction defaults arbitrary: body)
  case (Cons kv defaults)
  obtain k0 v0 where "kv = (k0, v0)" by (cases kv)
  with Cons show ?case by (cases "map_of body k0") (auto split: option.split)
qed (simp split: option.split)

lemma map_of_defaultSub:
  "map_of (defaultSub k defaults body) k' =
     (if k' = k then Some (JObj (setAllMissing defaults (subObject k body))) else map_of body k')"
  by (simp add: defaultSub_def)

section \<open>Errors of the repository as responses\<close>

fun writeCreateError :: "go_error \<Rightarrow> response" where
  "writeCreateError ErrNotFound = writeGCPError 404 ''Referenced resource not found'' ''notFound''"
| "writeCreateError ErrAlreadyExists = writeGCPError 409 ''Resource already exists'' ''alreadyExists''"
| "writeCreateError _ = writeGCPError 500 ''Internal error'' ''internalError''"

fun writeDomainError :: "go_error \<Rightarrow> response" where
  "writeDomainError ErrNotFound = writeGCPError 404 ''The resource was not found'' ''notFound''"
| "writeDomainError ErrInUse =
     writeGCPError 409 ''The resource has dependents and cannot be deleted'' ''resourceInUseByAnotherResource''"
| "writeDomainError ErrTerminalState =
     writeGCPError 409 ''The resource is in a terminal state'' ''conflict''"
| "writeDomainError ErrConflict =
     writeGCPError 409 ''The resource is in a conflicting state'' ''conflict''"
| "writeDomainError _ = writeGCPError 500 ''Internal error'' ''internalError''"

fun status :: "response \<Rightarrow> nat option" where
  "status (Response code v) = Some code"
| "status (NoBody code) = Some code"
| "status Aborted = None"

lemma status_writeJSON [simp]: "status (writeJSON code v) = Some code"
  by (simp add: writeJSON_def)

lemma status_writeGCPError [simp]: "status (writeGCPError code m reason) = Some code"
  by (simp add: writeGCPError_def)

lemma status_badJSON [simp]: "status badJSON = Some 400"
  by (simp add: badJSON_def)

lemma status_missingField [simp]: "status (missingField f) = Some 400"
  by (simp add: missingField_def)

text \<open>No error of the repository is answered with a success status.\<close>

lemma status_writeDomainError:
  "status (writeDomainError err) =
     Some (case err of ErrNotFound \<Rightarrow> 404 | ErrInUse \<Rightarrow> 409 | ErrTerminalState \<Rightarrow> 409
           | ErrConflict \<Rightarrow> 409 | _ \<Rightarrow> 500)"
  by (cases err) simp_all

lemma status_writeCreateError:
  "status (writeCreateError err) =
     Some (case err of ErrNotFound \<Rightarrow> 404 | ErrAlreadyExists \<Rightarrow> 409 | _ \<Rightarrow> 500)"
  by (cases err) simp_all

lemma writeError_not_200 [simp]:
  "status (writeDomainError err) \<noteq> Some 200" "status (writeCreateError err) \<noteq> Some 200"
  by (simp_all add: status_writeDomainError status_writeCreateError split: go_error.split)

section \<open>Answers built from results\<close>

text \<open>The two shapes in which handlers answer with what the repository returned.\<close>

definition respond :: "(go_error \<Rightarrow> response) \<Rightarrow> (go_error + obj) \<Rightarrow> response" where
  "respond onError res =
     (case res of Inl err \<Rightarrow> onError err | Inr item \<Rightarrow> writeJSON 200 (JObj item))"

definition respondUnit :: "(go_error \<Rightarrow> response) \<Rightarrow> (go_error + unit) \<Rightarrow> response" where
  "respondUnit onError res =
     (case res of Inl err \<Rightarrow> onError err | Inr _ \<Rightarrow> writeJSON 200 (JObj []))"

section \<open>Authentication\<close>

text \<open>\<^verbatim>\<open>strings.SplitN(s, " ", 2)\<close>; \<^verbatim>\<open>strings.EqualFold\<close> with \<^verbatim>\<open>Bearer\<close> is equality up to ASCII case.\<close>

definition splitTwo :: "string \<Rightarrow> string list" where
  "splitTwo s =
     (case indexOf s '' '' of None \<Rightarrow> [s] | Some i \<Rightarrow> [take i s, drop (Suc i) s])"

definition bearerToken :: "string \<Rightarrow> bool" where
  "bearerToken header =
     (let auth = trimSpace header in
      if auth = [] then False
      else
        case splitTwo auth of
          [scheme, token] \<Rightarrow> toLower scheme = ''bearer'' \<and> trimSpace token \<noteq> []
        | _ \<Rightarrow> False)"

definition requireBearerToken ::
  "(request \<Rightarrow> 's \<Rightarrow> response \<times> 's) \<Rightarrow> request \<Rightarrow> 's \<Rightarrow> response \<times> 's" where
  "requireBearerToken next r s =
     (if bearerToken (authorization r) then next r s
      else (writeGCPError 401 ''Request is missing required authentication credential.'' ''required'', s))"

text \<open>A header of the form \<^verbatim>\<open>Bearer <token>\<close> is accepted.\<close>

lemma indexOf_space: "CHR '' '' \<notin> set a \<Longrightarrow> indexOf (a @ CHR '' '' # b) '' '' = Some (length a)"
  by (induction a) auto

lemma bearerToken_accepts:
  assumes "token \<noteq> []" "\<forall>c\<in>set token. \<not> isSpace c" "toLower scheme = ''bearer''"
    and "\<forall>c\<in>set scheme. \<not> isSpace c"
  shows "bearerToken (scheme @ '' '' @ token)"
proof -
  let ?h = "scheme @ '' '' @ token"
  have ne: "scheme \<noteq> []" using assms(3) by (auto simp: toLower_def)
  have sp: "isSpace CHR '' ''" by (simp add: isSpace_def)
  have "trimSpace ?h = ?h"
    unfolding trimSpace_def using assms ne
    by (intro trimWhile_id) (auto dest: hd_in_set last_in_set)
  moreover have "indexOf ?h '' '' = Some (length scheme)"
    using indexOf_space [of scheme token] assms(4) sp by auto
  moreover have "trimSpace token = token"
    unfolding trimSpace_def using assms(2) by (rule trimWhile_no_match)
  ultimately show ?thesis using assms(1,3) by (simp add: bearerToken_def splitTwo_def Let_def)
qed

end
