(* ===== verification/Repo_Admin.thy ===== *)
theory Repo_Admin
  imports Repo_Base
begin

text \<open>
  The administrative operations of \<^verbatim>\<open>repository/repository.go\<close>: \<^verbatim>\<open>Reset\<close>,
  \<^verbatim>\<open>Snapshot\<close>, \<^verbatim>\<open>Restore\<close> and the state dumps. The state is the open database, the file
  of its main database (\<open>None\<close> when it has none) and the snapshot file beside it. Failures
  of the operating system (a file that cannot be removed or copied) are not modelled.
  \<^verbatim>\<open>VACUUM INTO\<close> writes a database with the same rows.
\<close>

record repository =
  rdb :: db
  dbFile :: "string option"
  snapshotFile :: "db option"

text \<open>\<^verbatim>\<open>New\<close> on a file that holds no tables yet; \<^verbatim>\<open>:memory:\<close> has no file.\<close>

definition NewRepository :: "string \<Rightarrow> repository" where
  "NewRepository dbPath =
     \<lparr>rdb = emptyDb, dbFile = (if dbPath = '':memory:'' then None else Some dbPath),
      snapshotFile = None\<rparr>"

definition dbFilePath :: "repository \<Rightarrow> go_error + string" where
  "dbFilePath r =
     (case dbFile r of
        None \<Rightarrow> Inl (Errorf ''main database has no file path'')
      | Some file \<Rightarrow> Inr file)"

section \<open>Reset\<close>

definition resetTables :: "tbl list" where
  "resetTables =
     [Secretmanager_versions, Secretmanager_secrets, Pubsub_subscriptions,
      Pubsub_topics, Dns_record_sets, Dns_managed_zones,
      Compute_router_nats, Compute_routers, Cloudrun_services,
      Redis_instances, Compute_global_forwarding_rules, Compute_target_https_proxies,
      Compute_url_maps, Compute_ssl_certificates, Compute_backend_services,
      Compute_health_checks, Compute_global_addresses, Iam_bindings,
      Iam_sa_keys, Iam_service_accounts, Container_node_pools,
      Container_clusters, Sql_databases, Sql_users,
      Sql_instances, Compute_subnetworks, Compute_firewalls,
      Compute_instances, Compute_disks, Compute_addresses,
      Compute_networks, Operations, Storage_buckets]"

text \<open>\<^verbatim>\<open>DELETE FROM t\<close> while foreign keys are off.\<close>

definition truncate :: "tbl \<Rightarrow> db \<Rightarrow> db" where
  "truncate t s = s(t := [])"

definition Reset :: "repository \<Rightarrow> (go_error + unit) \<times> repository" where
  "Reset r =
     (case dbFilePath r of
        Inl err \<Rightarrow> (Inl (Errorf (''resolve db path for snapshot clear: '' @ errText err)), r)
      | Inr path \<Rightarrow>
          (Inr (), r\<lparr>rdb := foldl (\<lambda>s t. truncate t s) (rdb r) resetTables, snapshotFile := None\<rparr>))"

lemma foldl_truncate: "foldl (\<lambda>s t. truncate t s) s ts = (\<lambda>t. if t \<in> set ts then [] else s t)"
  by (induction ts arbitrary: s) (auto simp: truncate_def fun_eq_iff)

lemma set_resetTables: "set resetTables = UNIV"
proof -
  have "list_all (\<lambda>t. t \<in> set resetTables) all_tbls" by (simp add: all_tbls_def resetTables_def)
  then show ?thesis by (auto simp: list_all_iff)
qed

lemma foldl_truncate_reset: "foldl (\<lambda>s t. truncate t s) s resetTables = emptyDb"
  by (simp add: foldl_truncate set_resetTables emptyDb_def)

section \<open>Snapshot and Restore\<close>

text \<open>
  \<^verbatim>\<open>VACUUM INTO\<close> writes a copy of every table; that the copy keeps the numbers of the rows is
  what SQLite does, documented only for tables with an integer primary key.
\<close>

definition Snapshot :: "repository \<Rightarrow> (go_error + unit) \<times> repository" where
  "Snapshot r =
     (case dbFilePath r of
        Inl err \<Rightarrow> (Inl err, r)
      | Inr path \<Rightarrow> (Inr (), r\<lparr>snapshotFile := Some (rdb r)\<rparr>))"

definition Restore :: "repository \<Rightarrow> (go_error + unit) \<times> repository" where
  "Restore r =
     (case dbFilePath r of
        Inl err \<Rightarrow> (Inl err, r)
      | Inr path \<Rightarrow>
          (case snapshotFile r of
             None \<Rightarrow> (Inl ErrNotFound, r)
           | Some snap \<Rightarrow> (Inr (), r\<lparr>rdb := snap\<rparr>)))"

text \<open>The invariant of the repository: both databases satisfy \<open>repo_inv\<close>.\<close>

definition repository_ok :: "repository \<Rightarrow> bool" where
  "repository_ok r \<longleftrightarrow> repo_inv (rdb r) \<and> (\<forall>snap. snapshotFile r = Some snap \<longrightarrow> repo_inv snap)"

lemma NewRepository_ok: "repository_ok (NewRepository dbPath)"
  by (simp add: repository_ok_def NewRepository_def repo_inv_empty)

lemma admin_ok:
  assumes "repository_ok r"
  shows "repository_ok (snd (Reset r))" "repository_ok (snd (Snapshot r))" "repository_ok (snd (Restore r))"
  using assms
  by (auto simp: repository_ok_def Reset_def Snapshot_def Restore_def foldl_truncate_reset
        repo_inv_empty split: sum.split option.split)

section \<open>State dumps\<close>

text \<open>The collections of each service with the table and order they are read in.\<close>

fun serviceTables :: "string \<Rightarrow> (string \<times> tbl \<times> col list) list" where
  "serviceTables service =
     (if service = ''compute'' then
       [(''networks'', Compute_networks, [C_project, C_name]),
        (''subnetworks'', Compute_subnetworks, [C_project, C_region, C_name]),
        (''firewalls'', Compute_firewalls, [C_project, C_name]),
        (''disks'', Compute_disks, [C_project, C_zone, C_name]),
        (''instances'', Compute_instances, [C_project, C_zone, C_name]),
        (''addresses'', Compute_addresses, [C_project, C_region, C_name]),
        (''routers'', Compute_routers, [C_project, C_region, C_name]),
        (''router_nats'', Compute_router_nats, [C_project, C_region, C_router_name, C_name])]
      else if service = ''container'' then
       [(''clusters'', Container_clusters, [C_project, C_location, C_name]),
        (''nodePools'', Container_node_pools, [C_project, C_location, C_cluster_name, C_name])]
      else if service = ''sql'' then
       [(''instances'', Sql_instances, [C_project, C_name]),
        (''databases'', Sql_databases, [C_project, C_instance_name, C_name]),
        (''users'', Sql_users, [C_project, C_instance_name, C_name])]
      else if service = ''iam'' then
       [(''serviceAccounts'', Iam_service_accounts, [C_project, C_email]),
        (''keys'', Iam_sa_keys, [C_service_account_email, C_name]),
        (''iam_bindings'', Iam_bindings, [C_project, C_role, C_member])]
      else if service = ''dns'' then
       [(''zones'', Dns_managed_zones, [C_project, C_name]),
        (''record_sets'', Dns_record_sets, [C_project, C_managed_zone, C_name, C_type])]
      else if service = ''lb'' then
       [(''global_addresses'', Compute_global_addresses, [C_project, C_name]),
        (''health_checks'', Compute_health_checks, [C_project, C_name]),
        (''backend_services'', Compute_backend_services, [C_project, C_name]),
        (''ssl_certificates'', Compute_ssl_certificates, [C_project, C_name]),
        (''target_https_proxies'', Compute_target_https_proxies, [C_project, C_name]),
        (''url_maps'', Compute_url_maps, [C_project, C_name]),
        (''global_forwarding_rules'', Compute_global_forwarding_rules, [C_project, C_name])]
      else if service = ''secretmanager'' then
       [(''secrets'', Secretmanager_secrets, [C_project, C_name]),
        (''versions'', Secretmanager_versions, [C_project, C_secret_name, C_name])]
      else if service = ''pubsub'' then
       [(''topics'', Pubsub_topics, [C_project, C_name]),
        (''subscriptions'', Pubsub_subscriptions, [C_project, C_name])]
      else if service = ''cloudrun'' then
       [(''services'', Cloudrun_services, [C_project, C_location, C_name])]
      else if service = ''redis'' then
       [(''instances'', Redis_instances, [C_project, C_location, C_name])]
      else if service = ''storage'' then
       [(''buckets'', Storage_buckets, [C_project, C_name])]
      else if service = ''operations'' then
       [(''operations'', Operations, [C_project, C_name])]
      else [])"

declare serviceTables.simps [simp del]

definition dumpTable :: "db \<Rightarrow> string \<times> tbl \<times> col list \<Rightarrow> string \<times> json" where
  "dumpTable s entry =
     (case entry of (key, t, order) \<Rightarrow> (key, JArr (map JObj (loadMany t [] order s))))"

definition ServiceState :: "string \<Rightarrow> db \<Rightarrow> go_error + obj" where
  "ServiceState service s =
     (case serviceTables (toLower service) of
        [] \<Rightarrow> Inl ErrNotFound
      | entries \<Rightarrow> Inr (map (dumpTable s) entries))"

definition stateServices :: "string list" where
  "stateServices =
     [''compute'', ''container'', ''sql'', ''iam'', ''storage'', ''operations'', ''dns'', ''lb'',
      ''secretmanager'', ''pubsub'', ''cloudrun'', ''redis'']"

fun dumpServices :: "string list \<Rightarrow> db \<Rightarrow> go_error + obj" where
  "dumpServices [] s = Inr []"
| "dumpServices (svc # svcs) s =
     (case ServiceState svc s of
        Inl err \<Rightarrow> Inl err
      | Inr st \<Rightarrow>
          (case dumpServices svcs s of Inl err \<Rightarrow> Inl err | Inr rest \<Rightarrow> Inr ((svc, JObj st) # rest)))"

definition FullState :: "db \<Rightarrow> go_error + obj" where
  "FullState s = dumpServices stateServices s"

end
