(* ===== verification/App.thy ===== *)
theory App
  imports Http Repo_Admin Repo_Steps
begin

text \<open>
  The state of the server: the \<^verbatim>\<open>Application\<close> of \<^verbatim>\<open>src/handlers/handlers.go\<close> with its
  in-memory caches, and the package-level stores of \<^verbatim>\<open>iam.go\<close>, \<^verbatim>\<open>kms.go\<close> and
  \<^verbatim>\<open>serviceusage.go\<close>. A Go map that is only indexed is a function to options; one that
  is iterated is an association list. The Service Networking connections are maps that are
  shared and assigned to in place, so they live in a heap (\<open>snHeap\<close>) and the two tables of
  connections hold addresses.
\<close>

record application =
  repo :: repository
  dnsChanges :: "string \<Rightarrow> obj option"
  dnsChangesSnapshot :: "(string \<Rightarrow> obj option) option"
  snHeap :: "nat \<Rightarrow> obj"
  snFresh :: nat
  snConnections :: "(string \<times> nat) list"
  snConnectionsSnapshot :: "(string \<times> nat) list option"
  saIamStor :: "string \<Rightarrow> obj option"
  kmsIamStor :: "string \<Rightarrow> obj option"
  enabledServices :: "string \<Rightarrow> string list"

definition NewApplication :: "repository \<Rightarrow> application" where
  "NewApplication r =
     \<lparr>repo = r, dnsChanges = (\<lambda>_. None), dnsChangesSnapshot = None,
      snHeap = (\<lambda>_. []), snFresh = 0, snConnections = [], snConnectionsSnapshot = None,
      saIamStor = (\<lambda>_. None), kmsIamStor = (\<lambda>_. None), enabledServices = (\<lambda>_. [])\<rparr>"

text \<open>
  What one request obtains from the clock and the random sources, beside the \<open>env\<close> of the
  repository call it makes: \<^verbatim>\<open>time.Now()\<close> in RFC 3339 with seconds and with nanoseconds
  (the \<open>n\<close>-th reading of the request), in nanoseconds since the epoch, ten years on, a UUID,
  \<^verbatim>\<open>numericID()\<close> of \<^verbatim>\<open>compute.go\<close>, the numbers drawn for the octets of an
  address, and the eight random bytes in hexadecimal that serve as a fingerprint.
\<close>

record clock =
  nowLocal :: string
  nowNano :: "nat \<Rightarrow> string"
  unixNano :: nat
  inTenYears :: string
  uuid :: string
  handlerNumericID :: string
  drawn :: "nat \<Rightarrow> nat"
  randomHex :: string

definition clock0 :: clock where
  "clock0 = \<lparr>nowLocal = ''2024'', nowNano = (\<lambda>_. ''2024.0''), unixNano = 5, inTenYears = ''2034'',
     uuid = ''u-1'', handlerNumericID = ''456'', drawn = (\<lambda>n. n), randomHex = ''00''\<rparr>"

text \<open>Handlers that only use the repository's database.\<close>

type_synonym db_handler = "db \<Rightarrow> response \<times> db"

definition onDb :: "db_handler \<Rightarrow> application \<Rightarrow> response \<times> application" where
  "onDb h app =
     (case h (rdb (repo app)) of
        (resp, s) \<Rightarrow> (resp, app\<lparr>repo := (repo app)\<lparr>rdb := s\<rparr>\<rparr>))"

text \<open>The whole state satisfies the invariant of the repository.\<close>

definition app_ok :: "application \<Rightarrow> bool" where
  "app_ok app \<longleftrightarrow> repository_ok (repo app)"

text \<open>An authorised request without a query.\<close>

definition requestWith :: "body \<Rightarrow> request" where
  "requestWith b = \<lparr>authorization = ''Bearer t'', host = ''h'', query = [], rbody = b\<rparr>"

definition appWith :: "db \<Rightarrow> application" where
  "appWith s = NewApplication \<lparr>rdb = s, dbFile = Some ''f'', snapshotFile = None\<rparr>"

lemma appWith_ok: "repo_inv s \<Longrightarrow> app_ok (appWith s)"
  by (simp add: appWith_def app_ok_def NewApplication_def repository_ok_def)

section \<open>DNS changes\<close>

definition dnsChangeKey :: "string \<Rightarrow> string \<Rightarrow> string \<Rightarrow> string" where
  "dnsChangeKey project zone ident = project @ ''/'' @ zone @ ''/'' @ ident"

definition recordDNSChange :: "string \<Rightarrow> string \<Rightarrow> obj \<Rightarrow> application \<Rightarrow> application" where
  "recordDNSChange project zone change app =
     (let ident = getString change ''id'' in
      if ident = [] then app
      else app\<lparr>dnsChanges := (dnsChanges app)(dnsChangeKey project zone ident := Some change)\<rparr>)"

definition lookupDNSChange :: "string \<Rightarrow> string \<Rightarrow> string \<Rightarrow> application \<Rightarrow> obj option" where
  "lookupDNSChange project zone ident app = dnsChanges app (dnsChangeKey project zone ident)"

definition resetDNSChanges :: "application \<Rightarrow> application" where
  "resetDNSChanges app = app\<lparr>dnsChanges := (\<lambda>_. None), dnsChangesSnapshot := None\<rparr>"

definition snapshotDNSChanges :: "application \<Rightarrow> application" where
  "snapshotDNSChanges app = app\<lparr>dnsChangesSnapshot := Some (dnsChanges app)\<rparr>"

definition restoreDNSChanges :: "application \<Rightarrow> application" where
  "restoreDNSChanges app =
     (case dnsChangesSnapshot app of None \<Rightarrow> app | Some snap \<Rightarrow> app\<lparr>dnsChanges := snap\<rparr>)"

text \<open>
  The key of a change determines its project, zone and id when none of them contains a
  slash, as path parameters do not.
\<close>

lemma append_slash_inject:
  assumes "a @ CHR ''/'' # x = b @ CHR ''/'' # y" "CHR ''/'' \<notin> set a" "CHR ''/'' \<notin> set b"
  shows "a = b \<and> x = y"
  using assms
proof (induction a arbitrary: b)
  case Nil
  then show ?case by (cases b) auto
next
  case (Cons c a)
  then show ?case by (cases b) auto
qed

lemma dnsChangeKey_inject:
  assumes "dnsChangeKey p z i = dnsChangeKey p' z' i'"
    and "CHR ''/'' \<notin> set p" "CHR ''/'' \<notin> set p'" "CHR ''/'' \<notin> set z" "CHR ''/'' \<notin> set z'"
  shows "p = p' \<and> z = z' \<and> i = i'"
proof -
  have "p = p' \<and> z @ CHR ''/'' # i = z' @ CHR ''/'' # i'"
    by (rule append_slash_inject) (use assms in \<open>simp_all add: dnsChangeKey_def\<close>)
  with append_slash_inject [of z i z' i'] assms(4,5) show ?thesis by blast
qed

section \<open>Service Networking connections\<close>

definition snConnectionKey :: "string \<Rightarrow> string \<Rightarrow> string" where
  "snConnectionKey service network = service @ ''/'' @ network"

definition resetServiceNetworkingConnections :: "application \<Rightarrow> application" where
  "resetServiceNetworkingConnections app = app\<lparr>snConnections := [], snConnectionsSnapshot := None\<rparr>"

text \<open>The copies share the connection maps: only the table is copied.\<close>

definition snapshotServiceNetworkingConnections :: "application \<Rightarrow> application" where
  "snapshotServiceNetworkingConnections app = app\<lparr>snConnectionsSnapshot := Some (snConnections app)\<rparr>"

definition restoreServiceNetworkingConnections :: "application \<Rightarrow> application" where
  "restoreServiceNetworkingConnections app =
     (case snConnectionsSnapshot app of None \<Rightarrow> app | Some snap \<Rightarrow> app\<lparr>snConnections := snap\<rparr>)"

section \<open>The package-level policy stores\<close>

definition resetSAIamStore :: "application \<Rightarrow> application" where
  "resetSAIamStore app = app\<lparr>saIamStor := (\<lambda>_. None)\<rparr>"

definition resetKMSIamStore :: "application \<Rightarrow> application" where
  "resetKMSIamStore app = app\<lparr>kmsIamStor := (\<lambda>_. None)\<rparr>"

section \<open>The administrative endpoints (admin.go)\<close>

definition adminError :: "go_error \<Rightarrow> response" where
  "adminError err =
     writeJSON 500 (JObj [(''status'', JStr ''error''), (''error'', JStr (errText err))])"

definition adminOk :: response where
  "adminOk = writeJSON 200 (JObj [(''status'', JStr ''ok'')])"

definition ResetState_h :: "application \<Rightarrow> response \<times> application" where
  "ResetState_h app =
     (case Reset (repo app) of
        (Inl err, r) \<Rightarrow> (adminError err, app\<lparr>repo := r\<rparr>)
      | (Inr _, r) \<Rightarrow>
          let app = app\<lparr>repo := r\<rparr>;
              app = resetDNSChanges app;
              app = resetServiceNetworkingConnections app;
              app = resetKMSIamStore app;
              app = resetSAIamStore app
          in (adminOk, app))"

definition SnapshotState_h :: "application \<Rightarrow> response \<times> application" where
  "SnapshotState_h app =
     (case Snapshot (repo app) of
        (Inl err, r) \<Rightarrow> (adminError err, app\<lparr>repo := r\<rparr>)
      | (Inr _, r) \<Rightarrow>
          let app = app\<lparr>repo := r\<rparr>;
              app = snapshotDNSChanges app;
              app = snapshotServiceNetworkingConnections app
          in (adminOk, app))"

definition RestoreState_h :: "application \<Rightarrow> response \<times> application" where
  "RestoreState_h app =
     (case Restore (repo app) of
        (Inl err, r) \<Rightarrow> (adminError err, app\<lparr>repo := r\<rparr>)
      | (Inr _, r) \<Rightarrow>
          let app = app\<lparr>repo := r\<rparr>;
              app = restoreDNSChanges app;
              app = restoreServiceNetworkingConnections app
          in (adminOk, app))"

definition FullState_h :: "application \<Rightarrow> response" where
  "FullState_h app =
     (case FullState (rdb (repo app)) of
        Inl err \<Rightarrow> adminError err
      | Inr state \<Rightarrow> writeJSON 200 (JObj state))"

definition ServiceState_h :: "string \<Rightarrow> application \<Rightarrow> response" where
  "ServiceState_h service app = respond writeDomainError (ServiceState service (rdb (repo app)))"

end
