(* ===== verification/H_Dns.thy ===== *)
theory H_Dns
  imports App Repo_Dns
begin

text \<open>
  The Cloud DNS handlers of \<^verbatim>\<open>src/handlers/dns.go\<close>. \<^verbatim>\<open>CreateDNSChange\<close> applies a list of
  deletions and a list of additions; its loops are those of \<open>Change_Loop\<close>, run on the
  operations of \<open>Repo_Dns\<close>, whose interpretation \<open>zone_records\<close> gives the all-or-nothing
  behaviour.
\<close>

section \<open>Managed zones\<close>

definition dnsZoneSubObjects :: "string list" where
  "dnsZoneSubObjects =
     [''privateVisibilityConfig'', ''dnssecConfig'', ''forwardingConfig'', ''peeringConfig'',
      ''reverseLookupConfig'', ''serviceDirectoryConfig'', ''cloudLoggingConfig'']"

definition stripEmptyDNSZoneSubObjects :: "obj \<Rightarrow> obj" where
  "stripEmptyDNSZoneSubObjects body = stripShallowEmpty dnsZoneSubObjects body"

definition CreateDNSZone_h :: "env \<Rightarrow> clock \<Rightarrow> string \<Rightarrow> request \<Rightarrow> db_handler" where
  "CreateDNSZone_h e c project r s =
     withBody r (\<lambda>body.
       if getString (bodyFields body) ''name'' = [] then (missingField ''name'', s)
       else if \<not> hasField (bodyFields body) ''dnsName'' then (missingField ''dnsName'', s)
       else
         let body = jset ''kind'' (JStr ''dns#managedZone'') (bodyFields body);
             body = jset ''visibility'' (JStr ''public'') body;
             body = jset ''nameServers'' (JArr [JStr ''ns1.fakegcp.com'', JStr ''ns2.fakegcp.com'']) body;
             body = jset ''creationTime'' (JStr (nowLocal c)) body;
             body = stripEmptyDNSZoneSubObjects body;
             (res, s') = CreateDNSZone e project body s
         in (respond writeCreateError res, s')) s"

definition ListDNSZones_h :: "string \<Rightarrow> db_handler" where
  "ListDNSZones_h project s =
     (writeJSON 200 (JObj
        [(''kind'', JStr ''dns#managedZonesListResponse''),
         (''managedZones'', JArr (map JObj (ListDNSZones s project)))]), s)"

definition GetDNSZone_h :: "string \<Rightarrow> string \<Rightarrow> db_handler" where
  "GetDNSZone_h project zone s = (respond writeDomainError (GetDNSZone s project zone), s)"

definition UpdateDNSZone_h :: "string \<Rightarrow> string \<Rightarrow> request \<Rightarrow> db_handler" where
  "UpdateDNSZone_h project zone r s =
     withBody r (\<lambda>patch.
       case UpdateDNSZone project zone (bodyFields patch) s of
         (res, s') \<Rightarrow> (respond writeDomainError res, s')) s"

definition DeleteDNSZone_h :: "string \<Rightarrow> string \<Rightarrow> db_handler" where
  "DeleteDNSZone_h project zone s =
     (case DeleteDNSZone project zone s of (res, s') \<Rightarrow> (respondUnit writeDomainError res, s'))"

section \<open>Record sets\<close>

text \<open>\<open>Some resp\<close> is the refusal that \<^verbatim>\<open>requireDNSZone\<close> has written.\<close>

definition requireDNSZone :: "string \<Rightarrow> string \<Rightarrow> db \<Rightarrow> response option" where
  "requireDNSZone project zone s =
     (case GetDNSZone s project zone of Inl err \<Rightarrow> Some (writeDomainError err) | Inr _ \<Rightarrow> None)"

definition CreateDNSRecordSet_h :: "clock \<Rightarrow> string \<Rightarrow> string \<Rightarrow> request \<Rightarrow> db_handler" where
  "CreateDNSRecordSet_h c project zone r s =
     (case requireDNSZone project zone s of
        Some resp \<Rightarrow> (resp, s)
      | None \<Rightarrow>
          withBody r (\<lambda>body.
            if getString (bodyFields body) ''name'' = [] then (missingField ''name'', s)
            else if getString (bodyFields body) ''type'' = [] then (missingField ''type'', s)
            else
              let body = jset ''kind'' (JStr ''dns#resourceRecordSet'') (bodyFields body);
                  body = jset ''creationTime'' (JStr (nowNano c 0)) body;
                  (res, s') = CreateDNSRecordSet project zone body s
              in (respond writeCreateError res, s')) s)"

definition ListDNSRecordSets_h :: "string \<Rightarrow> string \<Rightarrow> db_handler" where
  "ListDNSRecordSets_h project zone s =
     (case requireDNSZone project zone s of
        Some resp \<Rightarrow> (resp, s)
      | None \<Rightarrow>
          (writeJSON 200 (JObj
             [(''kind'', JStr ''dns#resourceRecordSetsListResponse''),
              (''rrsets'', JArr (map JObj (ListDNSRecordSets s project zone)))]), s))"

definition GetDNSRecordSet_h :: "string \<Rightarrow> string \<Rightarrow> string \<Rightarrow> string \<Rightarrow> db_handler" where
  "GetDNSRecordSet_h project zone name rrtype s =
     (case requireDNSZone project zone s of
        Some resp \<Rightarrow> (resp, s)
      | None \<Rightarrow> (respond writeDomainError (GetDNSRecordSet s project zone name rrtype), s))"

definition DeleteDNSRecordSet_h :: "string \<Rightarrow> string \<Rightarrow> string \<Rightarrow> string \<Rightarrow> db_handler" where
  "DeleteDNSRecordSet_h project zone name rrtype s =
     (case requireDNSZone project zone s of
        Some resp \<Rightarrow> (resp, s)
      | None \<Rightarrow>
          (case DeleteDNSRecordSet project zone name rrtype s of
             (res, s') \<Rightarrow> (respondUnit writeDomainError res, s')))"

section \<open>Changes\<close>

text \<open>
  A pending or completed deletion: the key, and the record found under it before anything
  was changed (for the rollback).
\<close>

type_synonym rrset = "(string \<times> string) \<times> obj option"

definition keyGiven :: "obj \<Rightarrow> bool" where
  "keyGiven entry \<longleftrightarrow> getString entry ''name'' \<noteq> [] \<and> getString entry ''type'' \<noteq> []"

definition pendingDeletions :: "string \<Rightarrow> string \<Rightarrow> db \<Rightarrow> json list \<Rightarrow> response + rrset list" where
  "pendingDeletions project zone s deletions =
     (if list_all keyGiven (objectEntries deletions)
      then Inr (map (\<lambda>entry. (recordKey entry, findRecord project zone s (recordKey entry)))
                 (objectEntries deletions))
      else Inl (missingField ''name/type in deletion''))"

text \<open>
  The additions with the two bodyFields the server assigns, each with its own reading of the
  clock. The entries are changed in place, so the whole array is kept for the answer.
\<close>

fun stampAdditions :: "clock \<Rightarrow> nat \<Rightarrow> json list \<Rightarrow> json list" where
  "stampAdditions c n [] = []"
| "stampAdditions c n (v # vs) =
     (case toMap (Some v) of
        None \<Rightarrow> v # stampAdditions c n vs
      | Some entry \<Rightarrow>
          JObj (jset ''creationTime'' (JStr (nowNano c n))
                 (jset ''kind'' (JStr ''dns#resourceRecordSet'') entry)) # stampAdditions c (Suc n) vs)"

definition pendingAdditions :: "clock \<Rightarrow> json list \<Rightarrow> response + json list" where
  "pendingAdditions c additions =
     (if list_all keyGiven (objectEntries additions)
      then Inr (stampAdditions c 0 additions)
      else Inl (missingField ''name/type in addition''))"

text \<open>\<^verbatim>\<open>CreateDNSRecordSet\<close> assigns to the entries it is given, which the answer shows.\<close>

definition assignedAddition :: "string \<Rightarrow> string \<Rightarrow> json \<Rightarrow> json" where
  "assignedAddition project zone v =
     (case toMap (Some v) of None \<Rightarrow> v | Some entry \<Rightarrow> JObj (dnsRecordData project zone entry))"

text \<open>The rollback: additions are undone first, then deleted records are created again.\<close>

definition rollback :: "string \<Rightarrow> string \<Rightarrow> rrset list \<Rightarrow> (string \<times> string) list \<Rightarrow> db \<Rightarrow> db" where
  "rollback project zone deleted added s =
     runIgnoring (CreateDNSRecordSet project zone) (List.map_filter snd deleted)
       (runIgnoring (removeRecord project zone) added s)"

definition deletePending :: "string \<Rightarrow> string \<Rightarrow> rrset \<Rightarrow> db \<Rightarrow> unit result" where
  "deletePending project zone rec s = removeRecord project zone (fst rec) s"

text \<open>Both phases; an error comes with the answer to write.\<close>

definition applyDNSChange ::
  "string \<Rightarrow> string \<Rightarrow> rrset list \<Rightarrow> obj list \<Rightarrow> db \<Rightarrow> response option \<times> db" where
  "applyDNSChange project zone dels adds s =
     (case runAll (deletePending project zone) dels s of
        (completedDeletions, Some err, s1) \<Rightarrow>
          (Some (writeDomainError err), rollback project zone completedDeletions [] s1)
      | (completedDeletions, None, s1) \<Rightarrow>
          (case runAll (CreateDNSRecordSet project zone) adds s1 of
             (completedAdditions, Some err, s2) \<Rightarrow>
               (Some (writeCreateError err),
                rollback project zone completedDeletions (map recordKey completedAdditions) s2)
           | (completedAdditions, None, s2) \<Rightarrow> (None, s2)))"

definition dnsChange :: "clock \<Rightarrow> json list \<Rightarrow> json list \<Rightarrow> obj" where
  "dnsChange c additions deletions =
     (let change =
        [(''kind'', JStr ''dns#change''),
         (''id'', JStr (''change-'' @ natStr (unixNano c))),
         (''status'', JStr ''done''),
         (''startTime'', JStr (nowLocal c))];
          change = (if additions \<noteq> [] then jset ''additions'' (JArr additions) change else change)
      in if deletions \<noteq> [] then jset ''deletions'' (JArr deletions) change else change)"

text \<open>The change on the database: the answer, and the change to record when it succeeded.\<close>

definition dnsChangeOnDb ::
  "clock \<Rightarrow> string \<Rightarrow> string \<Rightarrow> request \<Rightarrow> db \<Rightarrow> (response \<times> obj option) \<times> db" where
  "dnsChangeOnDb c project zone r s =
     (case requireDNSZone project zone s of
        Some resp \<Rightarrow> ((resp, None), s)
      | None \<Rightarrow>
        (case decodeBody r of
           Inl _ \<Rightarrow> ((badJSON, None), s)
         | Inr body \<Rightarrow>
           let deletions = arrayField (bodyFields body) ''deletions'';
               additions = arrayField (bodyFields body) ''additions''
           in (case pendingDeletions project zone s deletions of
                 Inl resp \<Rightarrow> ((resp, None), s)
               | Inr dels \<Rightarrow>
                 (case pendingAdditions c additions of
                    Inl resp \<Rightarrow> ((resp, None), s)
                  | Inr stamped \<Rightarrow>
                    (case applyDNSChange project zone dels (objectEntries stamped) s of
                       (Some resp, s') \<Rightarrow> ((resp, None), s')
                     | (None, s') \<Rightarrow>
                         let change = dnsChange c (map (assignedAddition project zone) stamped) deletions
                         in ((writeJSON 200 (JObj change), Some change), s'))))))"

definition CreateDNSChange_h ::
  "clock \<Rightarrow> string \<Rightarrow> string \<Rightarrow> request \<Rightarrow> application \<Rightarrow> response \<times> application" where
  "CreateDNSChange_h c project zone r app =
     (case dnsChangeOnDb c project zone r (rdb (repo app)) of
        ((resp, change), s) \<Rightarrow>
          let app = app\<lparr>repo := (repo app)\<lparr>rdb := s\<rparr>\<rparr>
          in (resp, case change of None \<Rightarrow> app | Some ch \<Rightarrow> recordDNSChange project zone ch app))"

definition GetDNSChange_h :: "string \<Rightarrow> string \<Rightarrow> string \<Rightarrow> application \<Rightarrow> response" where
  "GetDNSChange_h project zone ident app =
     (case requireDNSZone project zone (rdb (repo app)) of
        Some resp \<Rightarrow> resp
      | None \<Rightarrow>
          (case lookupDNSChange project zone ident app of
             Some change \<Rightarrow> writeJSON 200 (JObj change)
           | None \<Rightarrow> writeGCPError 404 (''Change '' @ [CHR 0x22] @ ident @ [CHR 0x22] @ '' not found'') ''notFound''))"

section \<open>The effect of a change\<close>

lemma runAll_map:
  "runAll (\<lambda>rec. op (f rec)) xs s =
     (case runAll op (map f xs) s of (completed, e, s') \<Rightarrow> (take (length completed) xs, e, s'))"
  by (induction xs arbitrary: s) (auto split: prod.splits sum.splits)

lemma runAll_length: "runAll op xs s = (completed, e, s') \<Longrightarrow> completed = take (length completed) xs"
  by (induction op xs s arbitrary: completed s' rule: runAll.induct)
    (auto split: prod.splits sum.splits)

lemma objectEntries_stamp: "list_all keyGiven (objectEntries vs) \<Longrightarrow>
    list_all keyGiven (objectEntries (stampAdditions c n vs))"
  by (induction vs arbitrary: n)
    (auto simp: objectEntries_def List.map_filter_simps toMap_def keyGiven_def split: option.splits)

text \<open>
  The two phases: when they fail the records of the zone and everything else are as before.
\<close>

lemma applyDNSChange_fails:
  assumes ok: "zonePresent project zone s"
    and dels: "\<forall>(k, d)\<in>set dels. validKey k \<and> d = findRecord project zone s k"
    and res: "applyDNSChange project zone dels adds s = (Some resp, s')"
  shows "zonePresent project zone s' \<and> otherRows project zone s' = otherRows project zone s \<and>
         findRecord project zone s' = findRecord project zone s"
proof -
  obtain gone e1 s1 where rem: "runAll (removeRecord project zone) (map fst dels) s = (gone, e1, s1)"
    by (cases "runAll (removeRecord project zone) (map fst dels) s")
  let ?done = "take (length gone) dels"
  have del: "runAll (deletePending project zone) dels s = (?done, e1, s1)"
    using runAll_map [of "removeRecord project zone" fst dels s] rem
    by (simp add: deletePending_def [abs_def])
  have gone: "gone = map fst ?done" using runAll_length [OF rem] by (simp add: take_map)
  note rm = zone_records.removals [OF ok rem]
  have found: "d = findRecord project zone s k \<and> d \<noteq> None \<and> validKey k" if "(k, d) \<in> set ?done" for k d
  proof -
    from that have "(k, d) \<in> set dels" by (auto dest: in_set_takeD)
    moreover have "k \<in> set gone" by (subst gone) (use that in force)
    ultimately show ?thesis using dels rm(5) by auto
  qed
  let ?kvs = "map (\<lambda>(k, d). (k, the d)) ?done"
  have kvs: "map fst ?kvs = gone" by (subst gone) (simp add: comp_def split_beta)
  have kvs_find: "\<forall>(k, v)\<in>set ?kvs. findRecord project zone s k = Some v"
    using found by fastforce
  have entries: "List.map_filter snd ?done = map snd ?kvs"
  proof -
    have "\<forall>x\<in>set ?done. snd x \<noteq> None" using found by (metis prod.collapse)
    then have "List.map_filter snd ?done = map (\<lambda>x. the (snd x)) ?done"
      by (rule map_filter_Some)
    then show ?thesis by (simp add: comp_def split_beta)
  qed
  have valid: "\<forall>k\<in>set gone. validKey k" by (subst gone) (use found in force)
  show ?thesis
  proof (cases e1)
    case (Some err)
    have "runAll (CreateDNSRecordSet project zone) [] s1 = ([], None, s1)" by simp
    from zone_records.undone [OF ok rem this valid kvs kvs_find] res del Some entries show ?thesis
      by (simp add: applyDNSChange_def rollback_def)
  next
    case None
    obtain new e2 s2 where add: "runAll (CreateDNSRecordSet project zone) adds s1 = (new, e2, s2)"
      by (cases "runAll (CreateDNSRecordSet project zone) adds s1")
    with res del None have "e2 \<noteq> None" by (auto simp: applyDNSChange_def split: option.splits)
    with zone_records.undone [OF ok rem add valid kvs kvs_find] res del None add entries show ?thesis
      by (auto simp: applyDNSChange_def rollback_def)
  qed
qed

text \<open>A change that succeeds deletes exactly its deletions and stores exactly its additions.\<close>

definition recordMap :: "string \<Rightarrow> string \<Rightarrow> obj list \<Rightarrow> string \<times> string \<Rightarrow> obj option" where
  "recordMap project zone ds = map_of (map (\<lambda>d. (recordKey d, storedRecord project zone d)) ds)"

lemma applyDNSChange_succeeds:
  assumes ok: "zonePresent project zone s"
    and res: "applyDNSChange project zone dels adds s = (None, s')"
  shows "zonePresent project zone s' \<and> otherRows project zone s' = otherRows project zone s \<and>
         findRecord project zone s' =
           (\<lambda>k. if k \<in> fst ` set dels then None else findRecord project zone s k) ++ recordMap project zone adds"
proof -
  obtain gone e1 s1 where rem: "runAll (removeRecord project zone) (map fst dels) s = (gone, e1, s1)"
    by (cases "runAll (removeRecord project zone) (map fst dels) s")
  have del: "runAll (deletePending project zone) dels s = (take (length gone) dels, e1, s1)"
    using runAll_map [of "removeRecord project zone" fst dels s] rem
    by (simp add: deletePending_def [abs_def])
  obtain new e2 s2 where add: "runAll (CreateDNSRecordSet project zone) adds s1 = (new, e2, s2)"
    by (cases "runAll (CreateDNSRecordSet project zone) adds s1")
  from res del add have e: "e1 = None" "e2 = None" "s' = s2"
    by (auto simp: applyDNSChange_def split: option.splits)
  from zone_records.completed [OF ok rem [unfolded e] add [unfolded e]] show ?thesis
    by (simp add: e recordMap_def zone_records.added_def)
qed

section \<open>The handlers act by repository operations\<close>

lemma DNS_handlers_runs [keeps_runs]:
  assumes "runs s0 s"
  shows "runs s0 (snd (CreateDNSZone_h e c project r s))"
    and "runs s0 (snd (UpdateDNSZone_h project zone r s))"
    and "runs s0 (snd (DeleteDNSZone_h project zone s))"
    and "runs s0 (snd (CreateDNSRecordSet_h c project zone r s))"
    and "runs s0 (snd (DeleteDNSRecordSet_h project zone name rrtype s))"
  using assms
  by (auto simp: CreateDNSZone_h_def UpdateDNSZone_h_def DeleteDNSZone_h_def CreateDNSRecordSet_h_def
      DeleteDNSRecordSet_h_def withBody_def Let_def split: prod.split sum.split option.split
      dest!: arg_cong [where f = snd] intro: keeps_runs)

lemma removeRecord_runs: "runs s0 s \<Longrightarrow> runs s0 (snd (removeRecord project zone k s))"
  by (simp add: removeRecord_def keeps_runs)

lemma rollback_runs: "runs s0 s \<Longrightarrow> runs s0 (rollback project zone deleted added s)"
  unfolding rollback_def by (intro runIgnoring_keeps [of "runs s0"] removeRecord_runs CreateDNSRecordSet_step [THEN runs_step])

lemma applyDNSChange_runs:
  assumes "runs s0 s" "applyDNSChange project zone dels adds s = (resp, s')"
  shows "runs s0 s'"
proof -
  have del: "runs s0 s \<Longrightarrow> runs s0 (snd (deletePending project zone rec s))" for rec s
    by (simp add: deletePending_def removeRecord_runs)
  obtain gone e1 s1 where run1: "runAll (deletePending project zone) dels s = (gone, e1, s1)"
    by (cases "runAll (deletePending project zone) dels s")
  have s1: "runs s0 s1" by (rule runAll_keeps [where P = "runs s0", OF del run1 assms(1)])
  obtain new e2 s2 where run2: "runAll (CreateDNSRecordSet project zone) adds s1 = (new, e2, s2)"
    by (cases "runAll (CreateDNSRecordSet project zone) adds s1")
  have "runs s0 s2" by (rule runAll_keeps [where P = "runs s0", OF CreateDNSRecordSet_step [THEN runs_step] run2 s1])
  with s1 assms(2) run1 run2 show ?thesis
    by (auto simp: applyDNSChange_def rollback_runs split: option.splits)
qed

lemma dnsChangeOnDb_runs:
  assumes "runs s0 s"
  shows "runs s0 (snd (dnsChangeOnDb c project zone r s))"
  using assms
  by (auto simp: dnsChangeOnDb_def Let_def split: option.split sum.split prod.split
      dest: applyDNSChange_runs)

end
