(* ===== verification/Correct_Dns.thy ===== *)
theory Correct_Dns
  imports H_Dns Correct_Cascade
begin

text \<open>
  What the Cloud DNS endpoints promise: a change applies in full or not at all, a recorded
  change can be read back in its own zone only, and a zone with record sets cannot be
  deleted.
\<close>

section \<open>Examples\<close>

text \<open>A zone with one record set, and two changes: the first fails at its second addition.\<close>

definition zoneDb :: db where
  "zoneDb = snd (CreateDNSZone env0 ''p'' [(''name'', JStr ''z'')] emptyDb)"

definition recDb :: db where
  "recDb = snd (CreateDNSRecordSet ''p'' ''z'' [(''name'', JStr ''a''), (''type'', JStr ''A'')] zoneDb)"

lemma recDb_inv: "repo_inv recDb"
  unfolding recDb_def zoneDb_def by (intro CreateDNSRecordSet_inv CreateDNSZone_inv repo_inv_empty)

lemma zoneDb_eval:
  "zoneDb = emptyDb(Dns_managed_zones :=
     [\<lparr>rowid = 1, rcols = [(C_name, ''z''), (C_project, ''p'')],
       rdata = [(''name'', JStr ''z''), (''project'', JStr ''p''), (''id'', reread (JInt 123)),
                (''creationTime'', JStr ''2024'')]\<rparr>])"
  by (simp add: zoneDb_def CreateDNSZone_def GetDNSZone_def sql_eval)

lemma recDb_eval:
  "recDb = zoneDb(Dns_record_sets :=
     [\<lparr>rowid = 1, rcols = [(C_name, ''a''), (C_project, ''p''), (C_managed_zone, ''z''), (C_type, ''A'')],
       rdata = [(''name'', JStr ''a''), (''type'', JStr ''A''), (''project'', JStr ''p''),
                (''managed_zone'', JStr ''z'')]\<rparr>])"
  by (simp add: recDb_def zoneDb_eval CreateDNSRecordSet_def GetDNSRecordSet_def dnsRecordData_def sql_eval)

lemmas dns_eval =
  CreateDNSChange_h_def dnsChangeOnDb_def requireDNSZone_def GetDNSZone_def decodeBody_def requestWith_def
  bodyFields_def arrayField_def toArr_def pendingDeletions_def pendingAdditions_def objectEntries_def
  List.map_filter_simps toMap_def keyGiven_def recordKey_def findRecord_def GetDNSRecordSet_def
  applyDNSChange_def deletePending_def removeRecord_rows CreateDNSRecordSet_def dnsRecordData_def
  rollback_def runIgnoring_def appWith_def NewApplication_def

definition keyJson :: "string \<Rightarrow> json" where
  "keyJson n = JObj [(''name'', JStr n), (''type'', JStr ''A'')]"

definition failingChange :: request where
  "failingChange = requestWith (Value (JObj
     [(''deletions'', JArr [keyJson ''a'']), (''additions'', JArr [keyJson ''b'', keyJson ''b''])]))"

definition goodChange :: request where
  "goodChange = requestWith (Value (JObj
     [(''deletions'', JArr [keyJson ''a'']), (''additions'', JArr [keyJson ''b''])]))"

lemma failingChange_status:
  "status (fst (CreateDNSChange_h clock0 ''p'' ''z'' failingChange (appWith recDb))) = Some 409"
  by (simp add: dns_eval failingChange_def keyJson_def recDb_eval zoneDb_eval sql_eval)

lemma goodChange_status:
  "status (fst (CreateDNSChange_h clock0 ''p'' ''z'' goodChange (appWith recDb))) = Some 200"
  by (simp add: dns_eval goodChange_def keyJson_def recDb_eval zoneDb_eval sql_eval)

lemma recDb_app: "app_ok (appWith recDb)" "rdb (repo (appWith recDb)) = recDb"
  by (simp_all add: appWith_ok recDb_inv) (simp add: appWith_def NewApplication_def)

section \<open>From the records of the zone to all records\<close>

lemma other_zone_records:
  assumes "otherRows project zone s' = otherRows project zone s" "\<not> (p = project \<and> z = zone)"
  shows "GetDNSRecordSet s' p z n t = GetDNSRecordSet s p z n t"
proof -
  let ?conds = "[(C_project, p), (C_managed_zone, z), (C_name, n), (C_type, t)]"
  let ?in = "matches [(C_project, project), (C_managed_zone, zone)]"
  have "filter (matches ?conds) (s0 Dns_record_sets)
      = filter (matches ?conds) (filter (\<lambda>r. \<not> ?in r) (s0 Dns_record_sets))" for s0
    using assms(2) by (auto simp: matches_def intro!: filter_cong)
  moreover have "filter (\<lambda>r. \<not> ?in r) (s' Dns_record_sets) = filter (\<lambda>r. \<not> ?in r) (s Dns_record_sets)"
    using fun_cong [OF assms(1), of Dns_record_sets] by (simp add: otherRows_def)
  ultimately have "filter (matches ?conds) (s' Dns_record_sets) = filter (matches ?conds) (s Dns_record_sets)"
    by metis
  then show ?thesis by (simp add: GetDNSRecordSet_def loadOne_def)
qed

lemma other_tables:
  "otherRows project zone s' = otherRows project zone s \<Longrightarrow> t \<noteq> Dns_record_sets \<Longrightarrow> s' t = s t"
  by (drule fun_cong [of _ _ t]) (simp add: otherRows_def)

lemma findRecord_get:
  "GetDNSRecordSet s project zone n t =
     (case findRecord project zone s (n, t) of None \<Rightarrow> Inl ErrNotFound | Some d \<Rightarrow> Inr d)"
  by (auto simp: findRecord_def GetDNSRecordSet_def split: sum.split dest: loadOne_NotFound [THEN iffD1])

lemma pendingDeletions_valid:
  assumes "pendingDeletions project zone s deletions = Inr dels"
  shows "\<forall>(k, d)\<in>set dels. validKey k \<and> d = findRecord project zone s k"
    and "fst ` set dels = recordKey ` set (objectEntries deletions)"
proof -
  from assms have dels: "list_all keyGiven (objectEntries deletions)"
    "dels = map (\<lambda>entry. (recordKey entry, findRecord project zone s (recordKey entry))) (objectEntries deletions)"
    by (auto simp: pendingDeletions_def split: if_splits)
  have "keyGiven entry \<Longrightarrow> validKey (recordKey entry)" for entry
    by (simp add: keyGiven_def validKey_def recordKey_def)
  with dels show "\<forall>(k, d)\<in>set dels. validKey k \<and> d = findRecord project zone s k"
    by (auto simp: list_all_iff)
  show "fst ` set dels = recordKey ` set (objectEntries deletions)"
    by (simp add: dels(2) image_image)
qed

lemma pendingDeletions_error: "pendingDeletions project zone s deletions = Inl resp \<Longrightarrow> status resp = Some 400"
  by (auto simp: pendingDeletions_def split: if_splits)

lemma pendingAdditions_error: "pendingAdditions c additions = Inl resp \<Longrightarrow> status resp = Some 400"
  by (auto simp: pendingAdditions_def split: if_splits)

lemma applyDNSChange_status: "applyDNSChange project zone dels adds s = (Some resp, s') \<Longrightarrow> status resp \<noteq> Some 200"
  by (auto simp: applyDNSChange_def split: prod.splits option.splits)

lemma requireDNSZone_None:
  "requireDNSZone project zone s = None \<longleftrightarrow> (\<exists>z. GetDNSZone s project zone = Inr z)"
  by (auto simp: requireDNSZone_def split: sum.split)

text \<open>The two outcomes of a change on the database.\<close>

lemma dnsChangeOnDb_failed:
  assumes inv: "repo_inv s" and run: "dnsChangeOnDb c project zone r s = ((resp, change), s')"
    and st: "status resp \<noteq> Some 200"
  shows "change = None \<and> otherRows project zone s' = otherRows project zone s \<and>
    findRecord project zone s' = findRecord project zone s"
proof (cases "requireDNSZone project zone s")
  case (Some resp)
  with run show ?thesis by (auto simp: dnsChangeOnDb_def)
next
  case None
  then have ok: "zonePresent project zone s" using inv by (simp add: requireDNSZone_None zonePresent_def)
  show ?thesis
  proof (cases "decodeBody r")
    case (Inl u)
    with run None show ?thesis by (auto simp: dnsChangeOnDb_def)
  next
    case (Inr body)
    let ?dels = "arrayField (bodyFields body) ''deletions''"
    let ?adds = "arrayField (bodyFields body) ''additions''"
    show ?thesis
    proof (cases "pendingDeletions project zone s ?dels")
      case (Inl err)
      with run None Inr show ?thesis by (auto simp: dnsChangeOnDb_def)
    next
      case dels: (Inr dels)
      show ?thesis
      proof (cases "pendingAdditions c ?adds")
        case (Inl err)
        with run None Inr dels show ?thesis by (auto simp: dnsChangeOnDb_def)
      next
        case adds: (Inr stamped)
        obtain res s1 where app: "applyDNSChange project zone dels (objectEntries stamped) s = (res, s1)"
          by (cases "applyDNSChange project zone dels (objectEntries stamped) s")
        with run None Inr dels adds st obtain err where "res = Some err" "s' = s1" "change = None"
          by (auto simp: dnsChangeOnDb_def Let_def split: option.splits)
        with applyDNSChange_fails [OF ok pendingDeletions_valid(1) [OF dels]] app show ?thesis by auto
      qed
    qed
  qed
qed

text \<open>C4 A Cloud DNS change is atomic: whenever the request is not answered with status 200,
whatever the deletions and additions were and wherever they failed, every record set of every
zone reads as before, every other table is unchanged, and no change is recorded.\<close>

theorem dns_change_atomic:
  assumes ok: "app_ok app" and run: "CreateDNSChange_h c project zone r app = (resp, app')"
    and failed: "status resp \<noteq> Some 200"
  shows "(\<forall>p z n t. GetDNSRecordSet (rdb (repo app')) p z n t = GetDNSRecordSet (rdb (repo app)) p z n t) \<and>
    (\<forall>t. t \<noteq> Dns_record_sets \<longrightarrow> rdb (repo app') t = rdb (repo app) t) \<and>
    dnsChanges app' = dnsChanges app"
proof -
  let ?s = "rdb (repo app)"
  obtain resp' change s' where db: "dnsChangeOnDb c project zone r ?s = ((resp', change), s')"
    by (metis prod.collapse)
  have inv: "repo_inv ?s" using ok by (simp add: app_ok_def repository_ok_def)
  from db run have "resp' = resp" by (simp add: CreateDNSChange_h_def Let_def)
  note f = dnsChangeOnDb_failed [OF inv db, unfolded this, OF failed]
  with db run have app': "rdb (repo app') = s'" "dnsChanges app' = dnsChanges app"
    by (auto simp: CreateDNSChange_h_def)
  have "GetDNSRecordSet s' p z n t = GetDNSRecordSet ?s p z n t" for p z n t
    using other_zone_records [of project zone s' ?s p z n t] f findRecord_get [of s' project zone n t]
      findRecord_get [of ?s project zone n t] by (cases "p = project \<and> z = zone") auto
  with app' other_tables f show ?thesis by auto
qed

theorem dns_change_atomic_witness:
  "\<exists>resp app'. CreateDNSChange_h clock0 ''p'' ''z'' failingChange (appWith recDb) = (resp, app') \<and>
     status resp = Some 409 \<and>
     GetDNSRecordSet (rdb (repo app')) ''p'' ''z'' ''a'' ''A'' = GetDNSRecordSet recDb ''p'' ''z'' ''a'' ''A'' \<and>
     GetDNSRecordSet (rdb (repo app')) ''p'' ''z'' ''b'' ''A'' = GetDNSRecordSet recDb ''p'' ''z'' ''b'' ''A''"
proof -
  obtain resp app' where run: "CreateDNSChange_h clock0 ''p'' ''z'' failingChange (appWith recDb) = (resp, app')"
    by (cases "CreateDNSChange_h clock0 ''p'' ''z'' failingChange (appWith recDb)")
  with failingChange_status have st: "status resp = Some 409" by simp
  with run dns_change_atomic [OF recDb_app(1) run] show ?thesis by (simp add: recDb_app(2))
qed

lemma dnsChangeOnDb_done:
  assumes inv: "repo_inv s" and run: "dnsChangeOnDb c project zone r s = ((resp, change), s')"
    and st: "status resp = Some 200"
  obtains body dels stamped where "decodeBody r = Inr body"
    "pendingDeletions project zone s (arrayField (bodyFields body) ''deletions'') = Inr dels"
    "stamped = stampAdditions c 0 (arrayField (bodyFields body) ''additions'')"
    "applyDNSChange project zone dels (objectEntries stamped) s = (None, s')"
    "change = Some (dnsChange c (map (assignedAddition project zone) stamped)
       (arrayField (bodyFields body) ''deletions''))"
    "resp = writeJSON 200 (JObj (the change))" "zonePresent project zone s"
proof -
  from run st have zone: "requireDNSZone project zone s = None"
    by (auto simp: dnsChangeOnDb_def requireDNSZone_def split: sum.splits option.splits)
  from run zone st obtain body where body: "decodeBody r = Inr body"
    by (cases "decodeBody r") (auto simp: dnsChangeOnDb_def)
  let ?dels = "arrayField (bodyFields body) ''deletions''"
  let ?adds = "arrayField (bodyFields body) ''additions''"
  from run zone body st obtain dels where dels: "pendingDeletions project zone s ?dels = Inr dels"
    by (cases "pendingDeletions project zone s ?dels") (auto simp: dnsChangeOnDb_def dest: pendingDeletions_error)
  from run zone body dels st obtain stamped where adds: "pendingAdditions c ?adds = Inr stamped"
    by (cases "pendingAdditions c ?adds") (auto simp: dnsChangeOnDb_def dest: pendingAdditions_error)
  from adds have stamped: "stamped = stampAdditions c 0 ?adds" by (auto simp: pendingAdditions_def split: if_splits)
  obtain res s1 where app: "applyDNSChange project zone dels (objectEntries stamped) s = (res, s1)"
    by (cases "applyDNSChange project zone dels (objectEntries stamped) s")
  with run zone body dels adds st have "res = None" "s' = s1"
    "change = Some (dnsChange c (map (assignedAddition project zone) stamped) ?dels)"
    "resp = writeJSON 200 (JObj (the change))"
    by (auto simp: dnsChangeOnDb_def Let_def dest: applyDNSChange_status split: option.splits)
  moreover from zone inv have "zonePresent project zone s" by (simp add: requireDNSZone_None zonePresent_def)
  ultimately show thesis using that body dels stamped app by blast
qed

text \<open>C5 The effect of a Cloud DNS change answered with 200: each addition is stored under its name
and type with the fields the server assigns, each deleted record that was not added again is
gone, every other record set of every zone and every other table is as before; and the change
that is returned can be read back under its id.\<close>

theorem dns_change_effect:
  assumes ok: "app_ok app" and run: "CreateDNSChange_h c project zone r app = (resp, app')"
    and success: "status resp = Some 200"
  shows "\<exists>body change.
    decodeBody r = Inr body \<and>
    (\<forall>n t. GetDNSRecordSet (rdb (repo app')) project zone n t =
       (case recordMap project zone (objectEntries (stampAdditions c 0 (arrayField (bodyFields body) ''additions''))) (n, t) of
          Some d \<Rightarrow> Inr d
        | None \<Rightarrow>
            if (n, t) \<in> recordKey ` set (objectEntries (arrayField (bodyFields body) ''deletions''))
            then Inl ErrNotFound
            else GetDNSRecordSet (rdb (repo app)) project zone n t)) \<and>
    (\<forall>p z n t. \<not> (p = project \<and> z = zone) \<longrightarrow>
       GetDNSRecordSet (rdb (repo app')) p z n t = GetDNSRecordSet (rdb (repo app)) p z n t) \<and>
    (\<forall>t. t \<noteq> Dns_record_sets \<longrightarrow> rdb (repo app') t = rdb (repo app) t) \<and>
    resp = writeJSON 200 (JObj change) \<and>
    GetDNSChange_h project zone (getString change ''id'') app' = writeJSON 200 (JObj change)"
proof -
  let ?s = "rdb (repo app)"
  obtain resp' ch s' where db: "dnsChangeOnDb c project zone r ?s = ((resp', ch), s')"
    by (metis prod.collapse)
  have inv: "repo_inv ?s" using ok by (simp add: app_ok_def repository_ok_def)
  from db run have resp': "resp' = resp" by (simp add: CreateDNSChange_h_def Let_def)
  obtain body dels stamped where d: "decodeBody r = Inr body"
    "pendingDeletions project zone ?s (arrayField (bodyFields body) ''deletions'') = Inr dels"
    "stamped = stampAdditions c 0 (arrayField (bodyFields body) ''additions'')"
    "applyDNSChange project zone dels (objectEntries stamped) ?s = (None, s')"
    "ch = Some (dnsChange c (map (assignedAddition project zone) stamped)
       (arrayField (bodyFields body) ''deletions''))"
    "resp = writeJSON 200 (JObj (the ch))" "zonePresent project zone ?s"
    by (rule dnsChangeOnDb_done [OF inv db, unfolded resp', OF success])
  define change where "change = the ch"
  note e = applyDNSChange_succeeds [OF d(7,4)]
  have ident: "getString change ''id'' \<noteq> []"
    by (simp add: change_def d(5) dnsChange_def Let_def getString_def jset_def)
  from db run d(5) have app': "app' = recordDNSChange project zone change (app\<lparr>repo := (repo app)\<lparr>rdb := s'\<rparr>\<rparr>)"
    by (auto simp: CreateDNSChange_h_def change_def)
  then have s': "rdb (repo app') = s'" using ident by (simp add: recordDNSChange_def Let_def)
  have "GetDNSRecordSet s' project zone n t =
      (case recordMap project zone (objectEntries stamped) (n, t) of
          Some d \<Rightarrow> Inr d
        | None \<Rightarrow>
            if (n, t) \<in> recordKey ` set (objectEntries (arrayField (bodyFields body) ''deletions''))
            then Inl ErrNotFound else GetDNSRecordSet ?s project zone n t)" for n t
    unfolding findRecord_get [of s'] findRecord_get [of ?s] pendingDeletions_valid(2) [OF d(2), symmetric]
    using e by (simp add: map_add_def split: option.split)
  moreover have "GetDNSRecordSet s' p z n t = GetDNSRecordSet ?s p z n t" if "\<not> (p = project \<and> z = zone)" for p z n t
    using other_zone_records [of project zone s' ?s p z n t] e that by blast
  moreover have "s' t = ?s t" if "t \<noteq> Dns_record_sets" for t
    using other_tables [of project zone s' ?s t] e that by blast
  moreover have "requireDNSZone project zone s' = None"
    using e by (simp add: requireDNSZone_None zonePresent_def)
  then have "GetDNSChange_h project zone (getString change ''id'') app' = writeJSON 200 (JObj change)"
    using ident s' by (simp add: GetDNSChange_h_def app' recordDNSChange_def Let_def lookupDNSChange_def)
  ultimately show ?thesis
    using d(1,3,6) s' by (intro exI [of _ body] exI [of _ change]) (simp add: change_def)
qed

theorem dns_change_effect_witness:
  "\<exists>resp app' d. CreateDNSChange_h clock0 ''p'' ''z'' goodChange (appWith recDb) = (resp, app') \<and>
     status resp = Some 200 \<and>
     GetDNSRecordSet (rdb (repo app')) ''p'' ''z'' ''a'' ''A'' = Inl ErrNotFound \<and>
     GetDNSRecordSet (rdb (repo app')) ''p'' ''z'' ''b'' ''A'' = Inr d"
proof -
  obtain resp app' where run: "CreateDNSChange_h clock0 ''p'' ''z'' goodChange (appWith recDb) = (resp, app')"
    by (cases "CreateDNSChange_h clock0 ''p'' ''z'' goodChange (appWith recDb)")
  with goodChange_status have st: "status resp = Some 200" by simp
  obtain body where body: "decodeBody goodChange = Inr body" and
    get: "GetDNSRecordSet (rdb (repo app')) ''p'' ''z'' n t =
       (case recordMap ''p'' ''z'' (objectEntries (stampAdditions clock0 0 (arrayField (bodyFields body) ''additions''))) (n, t) of
          Some d \<Rightarrow> Inr d
        | None \<Rightarrow>
            if (n, t) \<in> recordKey ` set (objectEntries (arrayField (bodyFields body) ''deletions''))
            then Inl ErrNotFound else GetDNSRecordSet recDb ''p'' ''z'' n t)" for n t
    using dns_change_effect [OF recDb_app(1) run st, unfolded recDb_app(2)] by blast
  have b: "bodyFields body = [(''deletions'', JArr [keyJson ''a'']), (''additions'', JArr [keyJson ''b''])]"
    using body by (auto simp: goodChange_def decodeBody_def requestWith_def bodyFields_def)
  show ?thesis
    using run st get [of "''a''" "''A''"] get [of "''b''" "''A''"]
    by (simp add: b arrayField_def toArr_def keyJson_def objectEntries_def List.map_filter_simps toMap_def
        recordMap_def recordKey_def jset_def getString_def)
qed

section \<open>Recorded changes\<close>

text \<open>C6 A recorded change is found under its own project, zone and id, and under no other; the
other recorded changes are as before. (Projects and zones are path segments, without
slashes.)\<close>

theorem dns_change_scoped:
  assumes "getString change ''id'' \<noteq> []" "CHR ''/'' \<notin> set p" "CHR ''/'' \<notin> set p'"
    and "CHR ''/'' \<notin> set z" "CHR ''/'' \<notin> set z'"
  shows "lookupDNSChange p' z' i (recordDNSChange p z change app) =
    (if p' = p \<and> z' = z \<and> i = getString change ''id'' then Some change else lookupDNSChange p' z' i app)"
  using assms dnsChangeKey_inject [of p z "getString change ''id''" p' z' i]
  by (auto simp: lookupDNSChange_def recordDNSChange_def Let_def)

theorem dns_change_scoped_witness:
  "lookupDNSChange ''p'' ''y'' ''1'' (recordDNSChange ''p'' ''z'' [(''id'', JStr ''1'')] (appWith emptyDb))
     = lookupDNSChange ''p'' ''y'' ''1'' (appWith emptyDb)"
  using dns_change_scoped [where change = "[(''id'', JStr ''1'')]" and p = "''p''" and p' = "''p''" and z = "''z''"
      and z' = "''y''" and i = "''1''" and app = "appWith emptyDb"]
  by (simp add: getString_def)

section \<open>Zones\<close>

text \<open>C7 Deleting a managed zone: ErrInUse while it has record sets, ErrNotFound when there is no
such zone, without any change; otherwise exactly the zone's row is removed.\<close>

theorem zone_delete:
  "DeleteDNSZone project name s =
     (if ListDNSRecordSets s project name \<noteq> [] then (Inl ErrInUse, s)
      else if GetDNSZone s project name = Inl ErrNotFound then (Inl ErrNotFound, s)
      else (Inr (), s(Dns_managed_zones :=
              filter (\<lambda>r. \<not> matches [(C_project, project), (C_name, name)] r) (s Dns_managed_zones))))"
proof -
  let ?recs = "filter (matches [(C_project, project), (C_managed_zone, name)]) (s Dns_record_sets)"
  have list: "ListDNSRecordSets s project name = [] \<longleftrightarrow> ?recs = []"
  proof -
    have "length (ListDNSRecordSets s project name) = length ?recs"
      by (simp add: ListDNSRecordSets_def loadMany_def sqlSelect_def)
    then show ?thesis by (metis length_0_conv)
  qed
  show ?thesis
  proof (cases "?recs = []")
    case False
    with list show ?thesis by (simp add: DeleteDNSZone_def)
  next
    case True
    have fk: "f \<in> set (foreignKeys (migrate c)) \<Longrightarrow> fkParent f = Dns_managed_zones \<Longrightarrow>
        fkCascade f \<and> fkParentCols f = [C_project, C_name]" for c f
      by (cases c) auto
    have child: "cascaded Dns_managed_zones [project, name] c r \<longleftrightarrow>
        c = Dns_record_sets \<and> matches [(C_project, project), (C_managed_zone, name)] r" for c r
      by (cases c) (auto simp: cascaded_def keyVals_eq)
    have none: "\<not> matches [(C_project, project), (C_managed_zone, name)] r" if "r \<in> set (s Dns_record_sets)" for r
      using True that by (simp add: filter_empty_conv)
    have eq: "(\<lambda>c. filter (\<lambda>r. \<not> (c = Dns_managed_zones \<and> matches [(C_project, project), (C_name, name)] r) \<and>
          \<not> cascaded Dns_managed_zones [project, name] c r) (s c))
        = s(Dns_managed_zones :=
              filter (\<lambda>r. \<not> matches [(C_project, project), (C_name, name)] r) (s Dns_managed_zones))"
      using none by (auto simp: fun_eq_iff child filter_id_conv)
    have "deleteWithResult Dns_managed_zones [(C_project, project), (C_name, name)] s =
        (if loadOne Dns_managed_zones [(C_project, project), (C_name, name)] s = Inl ErrNotFound
         then (Inl ErrNotFound, s)
         else (Inr (), s(Dns_managed_zones :=
              filter (\<lambda>r. \<not> matches [(C_project, project), (C_name, name)] r) (s Dns_managed_zones))))"
      unfolding eq [symmetric] by (rule cascade_delete [OF fk]) (auto simp: keyVals_eq matches_def)
    then show ?thesis
      using True list by (simp only: DeleteDNSZone_def GetDNSZone_def Let_def list.size less_irrefl if_False) simp
  qed
qed

end
