(* ===== verification/H_Secret.thy ===== *)
theory H_Secret
  imports App Repo_Secret
begin

text \<open>
  The Secret Manager handlers of \<^verbatim>\<open>src/handlers/secretmanager.go\<close>.
\<close>

section \<open>Secrets\<close>

definition CreateSecret_h :: "env \<Rightarrow> clock \<Rightarrow> string \<Rightarrow> request \<Rightarrow> db_handler" where
  "CreateSecret_h e c project r s =
     withBody r (\<lambda>body.
       let secretID = queryGet r ''secretId'';
           secretID = (if secretID = [] then getString (bodyFields body) ''secretId'' else secretID)
       in if secretID = [] then (missingField ''secretId'', s)
          else
            assignable body (\<lambda>body.
              let body = jset ''name'' (JStr (secretName project secretID)) body;
                  body = jset ''createTime'' (JStr (nowLocal c)) body;
                  (res, s') = CreateSecret e project body s
              in (respond writeCreateError res, s')) s) s"

definition ListSecrets_h :: "string \<Rightarrow> db_handler" where
  "ListSecrets_h project s =
     (writeJSON 200 (JObj [(''secrets'', JArr (map JObj (ListSecrets s project)))]), s)"

definition GetSecret_h :: "string \<Rightarrow> string \<Rightarrow> db_handler" where
  "GetSecret_h project secret s = (respond writeDomainError (GetSecret s project secret), s)"

definition DeleteSecret_h :: "string \<Rightarrow> string \<Rightarrow> db_handler" where
  "DeleteSecret_h project secret s =
     (case DeleteSecret project secret s of (res, s') \<Rightarrow> (respondUnit writeDomainError res, s'))"

definition UpdateSecret_h :: "string \<Rightarrow> string \<Rightarrow> request \<Rightarrow> db_handler" where
  "UpdateSecret_h project secret r s =
     withBody r (\<lambda>patch.
       case UpdateSecret project secret (bodyFields patch) s of
         (res, s') \<Rightarrow> (respond writeDomainError res, s')) s"

section \<open>Versions\<close>

definition CreateSecretVersion_h :: "env \<Rightarrow> clock \<Rightarrow> string \<Rightarrow> string \<Rightarrow> request \<Rightarrow> db_handler" where
  "CreateSecretVersion_h e c project secret r s =
     withBody r (\<lambda>body.
       case toMap (map_of (bodyFields body) ''payload'') of
         None \<Rightarrow> (missingField ''payload'', s)
       | Some payload \<Rightarrow>
           (case map_of payload ''data'' of
              Some (JStr _) \<Rightarrow>
                let body = jset ''state'' (JStr ''ENABLED'') (bodyFields body);
                    body = jset ''createTime'' (JStr (nowLocal c)) body;
                    (res, s') = CreateSecretVersion e project secret body s
                in (respond writeCreateError res, s')
            | _ \<Rightarrow> (missingField ''payload.data'', s))) s"

definition ListSecretVersions_h :: "string \<Rightarrow> string \<Rightarrow> db_handler" where
  "ListSecretVersions_h project secret s =
     (writeJSON 200 (JObj [(''versions'', JArr (map JObj (ListSecretVersions s project secret)))]), s)"

text \<open>The path of a version given as a string, as the URL has it.\<close>

definition versionPath :: "string \<Rightarrow> string \<Rightarrow> string \<Rightarrow> string" where
  "versionPath project secret version =
     ''projects/'' @ project @ ''/secrets/'' @ secret @ ''/versions/'' @ version"

definition lookupVersion :: "string \<Rightarrow> string \<Rightarrow> string \<Rightarrow> db \<Rightarrow> go_error + obj" where
  "lookupVersion project secret version s =
     (if version = ''latest'' then GetLatestSecretVersion s project secret
      else GetSecretVersion s (versionPath project secret version))"

definition GetSecretVersion_h :: "string \<Rightarrow> string \<Rightarrow> string \<Rightarrow> db_handler" where
  "GetSecretVersion_h project secret version s =
     (respond writeDomainError (lookupVersion project secret version s), s)"

definition accessResponse :: "obj \<Rightarrow> obj" where
  "accessResponse item =
     [(''name'', case map_of item ''name'' of None \<Rightarrow> JNull | Some v \<Rightarrow> v),
      (''payload'', JObj (case toMap (map_of item ''payload'') of
                            Some payload \<Rightarrow> payload | None \<Rightarrow> [(''data'', JStr [])]))]"

definition AccessSecretVersion_h :: "string \<Rightarrow> string \<Rightarrow> string \<Rightarrow> db_handler" where
  "AccessSecretVersion_h project secret version s =
     (case lookupVersion project secret version s of
        Inl err \<Rightarrow> (writeDomainError err, s)
      | Inr item \<Rightarrow> (writeJSON 200 (JObj (accessResponse item)), s))"

definition DestroySecretVersion_h :: "env \<Rightarrow> string \<Rightarrow> string \<Rightarrow> string \<Rightarrow> db_handler" where
  "DestroySecretVersion_h e project secret version s =
     (case DestroySecretVersion e (versionPath project secret version) s of
        (res, s') \<Rightarrow> (respond writeDomainError res, s'))"

definition setSecretVersionState_h :: "string \<Rightarrow> string \<Rightarrow> string \<Rightarrow> string \<Rightarrow> db_handler" where
  "setSecretVersionState_h state project secret version s =
     (case SetSecretVersionState (versionPath project secret version) state s of
        (res, s') \<Rightarrow> (respond writeDomainError res, s'))"

definition EnableSecretVersion_h :: "string \<Rightarrow> string \<Rightarrow> string \<Rightarrow> db_handler" where
  "EnableSecretVersion_h = setSecretVersionState_h ''ENABLED''"

definition DisableSecretVersion_h :: "string \<Rightarrow> string \<Rightarrow> string \<Rightarrow> db_handler" where
  "DisableSecretVersion_h = setSecretVersionState_h ''DISABLED''"

lemma Secret_handlers_runs [keeps_runs]:
  assumes "runs s0 s"
  shows "runs s0 (snd (CreateSecret_h e c project r s))"
    and "runs s0 (snd (DeleteSecret_h project secret s))"
    and "runs s0 (snd (UpdateSecret_h project secret r s))"
    and "runs s0 (snd (CreateSecretVersion_h e c project secret r s))"
    and "runs s0 (snd (DestroySecretVersion_h e project secret version s))"
    and "runs s0 (snd (setSecretVersionState_h state project secret version s))"
  using assms
  by (auto simp: CreateSecret_h_def DeleteSecret_h_def UpdateSecret_h_def CreateSecretVersion_h_def
      DestroySecretVersion_h_def setSecretVersionState_h_def withBody_def assignable_def Let_def
      split: prod.split sum.split option.split json.split
      dest!: arg_cong [where f = snd] intro: keeps_runs)

end
