(* ===== verification/Correct_Secret.thy ===== *)
theory Correct_Secret
  imports H_Secret Correct_Cascade
begin

text \<open>
  What the Secret Manager endpoints promise: a new version gets a name of its own and is
  the latest, its payload can be accessed, and a destroyed version stays destroyed.
\<close>

section \<open>Rows of a secret\<close>

abbreviation ofSecret :: "string \<Rightarrow> string \<Rightarrow> row \<Rightarrow> bool" where
  "ofSecret project secret \<equiv> matches [(C_project, project), (C_secret_name, secret)]"

lemma sort_rowids: "rowids_ok rs \<Longrightarrow> sort_key rowid rs = rs"
  unfolding rowids_ok_def by (rule sort_key_id_if_sorted) (simp add: strict_sorted_imp_sorted)

lemma rowids_filter: "rowids_ok rs \<Longrightarrow> rowids_ok (filter P rs)"
  unfolding rowids_ok_def sorted_wrt_map by (rule sorted_wrt_filter)

lemma latest_row:
  assumes "rowids_ok (s Secretmanager_versions)"
  shows "GetLatestSecretVersion s project secret =
    (case rev (filter (ofSecret project secret) (s Secretmanager_versions)) of
       [] \<Rightarrow> Inl ErrNotFound | r # _ \<Rightarrow> Inr (rdata r))"
  by (simp add: GetLatestSecretVersion_def sort_rowids rowids_filter assms)

text \<open>What a successful creation does to the table.\<close>

definition versionBody :: "env \<Rightarrow> string \<Rightarrow> string \<Rightarrow> obj \<Rightarrow> db \<Rightarrow> obj" where
  "versionBody e project secret data s =
     marshalData (setDefault ''createTime'' (nowRFC3339 e)
       (jset ''secret_name'' (JStr secret) (jset ''project'' (JStr project)
         (jset ''name'' (JStr (secretVersionName project secret (versionNumber s project secret))) data))))"

definition versionCols :: "string \<Rightarrow> string \<Rightarrow> db \<Rightarrow> (col \<times> string) list" where
  "versionCols project secret s =
     [(C_name, secretVersionName project secret (versionNumber s project secret)),
      (C_project, project), (C_secret_name, secret)]"

lemma version_created:
  assumes inv: "repo_inv s" and run: "CreateSecretVersion e project secret data s = (Inr d, s')"
  shows "sqlInsert Secretmanager_versions (versionCols project secret s) (versionBody e project secret data s) s = Inr s'"
    and "d = versionBody e project secret data s"
proof -
  from run obtain s1 where ins:
    "sqlInsert Secretmanager_versions (versionCols project secret s) (versionBody e project secret data s) s = Inr s1"
    "s' = s1" "GetSecretVersion s1 (secretVersionName project secret (versionNumber s project secret)) = Inr d"
    by (auto simp: CreateSecretVersion_def Let_def versionBody_def versionCols_def split: sum.splits)
  then show "sqlInsert Secretmanager_versions (versionCols project secret s) (versionBody e project secret data s) s = Inr s'"
    by simp
  have "GetSecretVersion s1 (secretVersionName project secret (versionNumber s project secret))
      = Inr (versionBody e project secret data s)"
    unfolding GetSecretVersion_def
    by (rule secretmanager_versions_tbl.load_insert [OF repo_invD(1) [OF inv] _ ins(1)])
      (simp_all add: agrees_def versionCols_def)
  with ins(3) show "d = versionBody e project secret data s" by simp
qed

lemma created_is_latest:
  assumes inv: "repo_inv s" and run: "CreateSecretVersion e project secret data s = (Inr d, s')"
  shows "GetLatestSecretVersion s' project secret = Inr d"
proof -
  note c = version_created [OF inv run]
  have inv': "repo_inv s'" using CreateSecretVersion_inv [OF inv, of e project secret data] run by simp
  have "ofSecret project secret (mkRow (versionCols project secret s) (versionBody e project secret data s)
      (s Secretmanager_versions))"
    unfolding matches_mkRow by (simp add: agrees_def versionCols_def)
  then show ?thesis
    unfolding latest_row [OF db_okD(2) [OF repo_invD(1) [OF inv']]]
    unfolding sqlInsert_Inr(1) [OF c(1)] c(2)
    by (simp del: matches_mkRow)
qed

text \<open>C23 Adding a version and accessing it: when the addition is answered with 200, the request
had a payload, and accessing the latest version of the secret then answers with the new
version's name and that payload (its numbers as JSON stores them); a lookup of the version
under its own number finds it too.\<close>

theorem secret_version_access:
  assumes inv: "repo_inv s" and run: "CreateSecretVersion_h e c project secret r s = (resp, s')"
    and success: "status resp = Some 200"
  shows "\<exists>body payload.
    decodeBody r = Inr body \<and> map_of (bodyFields body) ''payload'' = Some (JObj payload) \<and>
    AccessSecretVersion_h project secret ''latest'' s' =
      (writeJSON 200 (JObj
         [(''name'', JStr (secretVersionName project secret (versionNumber s project secret))),
          (''payload'', reread (JObj payload))]), s') \<and>
    GetSecretVersion_h project secret (natStr (versionNumber s project secret)) s' = (resp, s')"
proof -
  from run success obtain body where body: "decodeBody r = Inr body"
    by (cases "decodeBody r") (auto simp: CreateSecretVersion_h_def withBody_def)
  with run success obtain payload where payload: "map_of (bodyFields body) ''payload'' = Some (JObj payload)"
    by (auto simp: CreateSecretVersion_h_def withBody_def toMap_def split: option.splits json.splits)
  from run success body payload obtain v where dat: "map_of payload ''data'' = Some (JStr v)"
    by (auto simp: CreateSecretVersion_h_def withBody_def toMap_def split: option.splits json.splits)
  let ?data = "jset ''createTime'' (JStr (nowLocal c)) (jset ''state'' (JStr ''ENABLED'') (bodyFields body))"
  from run body payload dat have r: "resp = respond writeCreateError (fst (CreateSecretVersion e project secret ?data s))"
    "s' = snd (CreateSecretVersion e project secret ?data s)"
    by (auto simp: CreateSecretVersion_h_def withBody_def toMap_def Let_def split: prod.splits)
  with success obtain d where d: "CreateSecretVersion e project secret ?data s = (Inr d, s')"
    by (cases "CreateSecretVersion e project secret ?data s") (auto simp: respond_def split: sum.splits)
  note c = version_created [OF inv d]
  let ?n = "versionNumber s project secret"
  have "map_of d ''name'' = Some (JStr (secretVersionName project secret ?n))"
    "map_of d ''payload'' = Some (reread (JObj payload))"
    by (simp_all add: c(2) versionBody_def map_of_marshalData payload)
  then have access: "accessResponse d =
      [(''name'', JStr (secretVersionName project secret ?n)), (''payload'', reread (JObj payload))]"
    by (simp add: accessResponse_def toMap_def)
  have ok': "db_ok s'" using repo_invD(1) [OF CreateSecretVersion_inv [OF inv, of e project secret ?data]] d by simp
  have "GetSecretVersion s' (secretVersionName project secret ?n) = Inr d"
    unfolding GetSecretVersion_def c(2)
    by (rule secretmanager_versions_tbl.load_insert [OF repo_invD(1) [OF inv] _ c(1)])
      (simp_all add: agrees_def versionCols_def)
  moreover have "versionPath project secret (natStr ?n) = secretVersionName project secret ?n"
    by (simp add: versionPath_def secretVersionName_def)
  moreover have "natStr ?n \<noteq> ''latest''"
    using natStr_digits [of "CHR ''l''" ?n] by auto
  moreover have "resp = writeJSON 200 (JObj d)" using r(1) d by (simp add: respond_def)
  ultimately have "GetSecretVersion_h project secret (natStr ?n) s' = (resp, s')"
    by (simp add: GetSecretVersion_h_def lookupVersion_def respond_def)
  with body payload access created_is_latest [OF inv d] show ?thesis
    by (intro exI [of _ body] exI [of _ payload])
      (simp add: AccessSecretVersion_h_def lookupVersion_def)
qed

section \<open>Version numbers\<close>

text \<open>
  Projects and secrets are path segments: then the name of a version determines them, whatever
  the other versions are.
\<close>

lemma splitOn_versionName:
  "splitOn (CHR ''/'') (secretVersionName p n k) =
     ''projects'' # splitOn (CHR ''/'') p @ ''secrets'' # splitOn (CHR ''/'') n @ [''versions'', natStr k]"
proof -
  have cut: "splitOn c (a @ c # b) = splitOn c a @ splitOn c b" for c :: char and a b
    by (induction a) (auto split: list.split)
  have name: "secretVersionName p n k = ''projects'' @ CHR ''/'' # p @ CHR ''/'' # ''secrets'' @ CHR ''/'' #
      n @ CHR ''/'' # ''versions'' @ CHR ''/'' # natStr k"
    by (simp add: secretVersionName_def)
  show ?thesis
    unfolding name by (simp add: cut splitOn_none natStr_no_slash del: append_Cons)
qed

lemma secretVersionName_inject:
  assumes eq: "secretVersionName p n k = secretVersionName p' n' k'"
    and plain: "CHR ''/'' \<notin> set p" "CHR ''/'' \<notin> set n"
  shows "p = p' \<and> n = n' \<and> k = k'"
proof -
  let ?split = "splitOn (CHR ''/'')"
  have parts: "p # ''secrets'' # n # [''versions'', natStr k] =
      ?split p' @ ''secrets'' # ?split n' @ [''versions'', natStr k']"
    using arg_cong [OF eq, of ?split] plain by (simp add: splitOn_versionName splitOn_none)
  have "length (?split p') = 1 \<and> length (?split n') = 1"
  proof -
    have "length (?split p') \<noteq> 0" "length (?split n') \<noteq> 0" by simp_all
    moreover have "length (?split p') + length (?split n') = 2" using arg_cong [OF parts, of length] by simp
    ultimately show ?thesis by linarith
  qed
  then obtain a b where ab: "?split p' = [a]" "?split n' = [b]" by (auto simp: length_Suc_conv)
  with joinWith_splitOn [of "CHR ''/''" p'] joinWith_splitOn [of "CHR ''/''" n'] have "p' = a" "n' = b" by simp_all
  with parts ab show ?thesis by simp
qed

lemma version_rowid_less:
  assumes "r \<in> set (s Secretmanager_versions)" "ofSecret project secret r"
  shows "rowid r < versionNumber s project secret"
  unfolding versionNumber_def by (rule rowid_less_next) (use assms in simp)

text \<open>The number of the next version exceeds that of every existing one.\<close>

lemma version_number_less:
  assumes inv: "repo_inv s" and plain: "CHR ''/'' \<notin> set project" "CHR ''/'' \<notin> set secret"
    and r: "r \<in> set (s Secretmanager_versions)" "colOf r C_name = Some (secretVersionName project secret k)"
  shows "k < versionNumber s project secret"
proof -
  obtain p n j where pn: "colOf r C_project = Some p" "colOf r C_secret_name = Some n" "j \<le> rowid r"
    "colOf r C_name = Some (secretVersionName p n j)"
    using repo_inv_filed [OF inv r(1)]
    by (auto simp: filed_ok.simps list_ex_iff simp del: upt_Suc split: option.splits) (use less_Suc_eq_le in blast)
  from pn(4) r(2) have "secretVersionName project secret k = secretVersionName p n j" by simp
  from secretVersionName_inject [OF this plain] have "project = p" "secret = n" "k = j" by simp_all
  with version_rowid_less [of r s project secret] r(1) pn show ?thesis by (simp add: matches_def)
qed

text \<open>So the insertion of a version can fail only for want of the secret.\<close>

lemma version_insert:
  assumes inv: "repo_inv s" and plain: "CHR ''/'' \<notin> set project" "CHR ''/'' \<notin> set secret"
  shows "sqlInsert Secretmanager_versions (versionCols project secret s) d s =
    (if GetSecret s project secret = Inl ErrNotFound then Inl fkError
     else Inr (s(Secretmanager_versions := s Secretmanager_versions @
            [mkRow (versionCols project secret s) d (s Secretmanager_versions)])))"
proof -
  let ?r = "mkRow (versionCols project secret s) d (s Secretmanager_versions)"
  have clash: "\<not> keyClash Secretmanager_versions ?r (s Secretmanager_versions)"
    using version_number_less [OF inv plain, of _ "versionNumber s project secret"]
    by (auto simp: keyClash_def list_ex_iff keysOf_def sameKey_def keyVals_def versionCols_def split: option.splits)
  have fk: "fksHold s Secretmanager_versions ?r \<longleftrightarrow> GetSecret s project secret \<noteq> Inl ErrNotFound"
    by (auto simp: fksHold_def fkHolds_def list_ex_iff refersTo_def keyVals_def versionCols_def GetSecret_def
        loadOne_NotFound matches_def split: option.splits)
  have cols: "map_of (versionCols project secret s) C_name =
      Some (secretVersionName project secret (versionNumber s project secret))"
    "map_of (versionCols project secret s) C_project = Some project"
    "map_of (versionCols project secret s) C_secret_name = Some secret"
    by (simp_all add: versionCols_def)
  show ?thesis using clash fk cols by (simp add: sqlInsert_def Let_def)
qed

lemma CreateSecretVersion_eq:
  "CreateSecretVersion e project secret data s =
     (case sqlInsert Secretmanager_versions (versionCols project secret s) (versionBody e project secret data s) s of
        Inl err \<Rightarrow> (Inl (mapInsertError err), s)
      | Inr s' \<Rightarrow>
          (GetSecretVersion s' (secretVersionName project secret (versionNumber s project secret)), s'))"
  by (simp add: CreateSecretVersion_def Let_def versionCols_def versionBody_def)

text \<open>C24 Creating a secret version: for a secret that does not exist, ErrNotFound and no change.
For one that does, the creation succeeds; the version's number exceeds the number of every
existing version of the secret, so its name is new; and the other versions are as before.
(Projects and secrets are path segments.)\<close>

theorem secret_version_fresh:
  assumes inv: "repo_inv s"
    and plain: "CHR ''/'' \<notin> set project" "CHR ''/'' \<notin> set secret"
  shows "if GetSecret s project secret = Inl ErrNotFound
    then CreateSecretVersion e project secret data s = (Inl ErrNotFound, s)
    else \<exists>d s'. CreateSecretVersion e project secret data s = (Inr d, s') \<and>
      getString d ''name'' = secretVersionName project secret (versionNumber s project secret) \<and>
      (\<forall>k. (\<exists>v. GetSecretVersion s (secretVersionName project secret k) = Inr v) \<longrightarrow>
           k < versionNumber s project secret) \<and>
      (\<forall>m. GetSecretVersion s' m =
         (if m = getString d ''name'' then Inr d else GetSecretVersion s m))"
proof -
  let ?n = "versionNumber s project secret"
  let ?cs = "versionCols project secret s"
  let ?d = "versionBody e project secret data s"
  show ?thesis
  proof (cases "GetSecret s project secret = Inl ErrNotFound")
    case True
    then show ?thesis by (simp add: CreateSecretVersion_eq version_insert [OF inv plain])
  next
    case False
    then obtain s' where ins: "sqlInsert Secretmanager_versions ?cs ?d s = Inr s'"
      by (simp add: version_insert [OF inv plain])
    have get: "GetSecretVersion s' m =
        (if m = secretVersionName project secret ?n then Inr ?d else GetSecretVersion s m)" for m
      unfolding GetSecretVersion_def
      by (subst secretmanager_versions_tbl.load_insert_if [OF repo_invD(1) [OF inv] _ ins])
        (simp_all add: agrees_def versionCols_def)
    have run: "CreateSecretVersion e project secret data s = (Inr ?d, s')"
      using ins get by (simp add: CreateSecretVersion_eq)
    have name: "getString ?d ''name'' = secretVersionName project secret ?n"
      by (simp add: versionBody_def setDefault_def)
    have "k < ?n" if got: "GetSecretVersion s (secretVersionName project secret k) = Inr v" for k v
    proof -
      obtain r where "r \<in> set (s Secretmanager_versions)" "matches [(C_name, secretVersionName project secret k)] r"
        by (rule loadOne_Inr_row [OF got [unfolded GetSecretVersion_def]])
      then show ?thesis by (simp add: matches_def version_number_less [OF inv plain])
    qed
    then show ?thesis
      using False run name get by (intro if_not_P [THEN iffD2, OF False]) auto
  qed
qed

text \<open>A secret with a version, for the examples.\<close>

definition secretDb :: db where
  "secretDb = snd (CreateSecret env0 ''p'' [(''secretId'', JStr ''k'')] emptyDb)"

definition versionDb :: db where
  "versionDb = snd (CreateSecretVersion env0 ''p'' ''k'' [(''payload'', JObj [(''data'', JStr ''eA'')])] secretDb)"

lemma secretDb_inv: "repo_inv secretDb"
  unfolding secretDb_def by (rule CreateSecret_inv [OF repo_inv_empty])

lemma versionDb_inv: "repo_inv versionDb"
  unfolding versionDb_def by (rule CreateSecretVersion_inv [OF secretDb_inv])

definition versionRequest :: request where
  "versionRequest = requestWith (Value (JObj [(''payload'', JObj [(''data'', JStr ''eA'')])]))"

theorem secret_version_access_witness:
  "let (resp, s') = CreateSecretVersion_h env0 clock0 ''p'' ''k'' versionRequest secretDb
   in status resp = Some 200 \<and>
      AccessSecretVersion_h ''p'' ''k'' ''latest'' s' =
        (writeJSON 200 (JObj
           [(''name'', JStr (secretVersionName ''p'' ''k'' (versionNumber secretDb ''p'' ''k''))),
            (''payload'', reread (JObj [(''data'', JStr ''eA'')]))]), s')"
proof -
  obtain resp s' where run: "CreateSecretVersion_h env0 clock0 ''p'' ''k'' versionRequest secretDb = (resp, s')"
    by (rule prod.exhaust)
  have ok: "status resp = Some 200"
    using arg_cong [OF run, of "\<lambda>x. status (fst x)"]
    by (simp add: CreateSecretVersion_h_def versionRequest_def requestWith_def withBody_def decodeBody_def
        bodyFields_def toMap_def CreateSecretVersion_def versionNumber_def secretDb_def CreateSecret_def
        GetSecretVersion_def respond_def sql_eval)
  have "decodeBody versionRequest = Inr (Some [(''payload'', JObj [(''data'', JStr ''eA'')])])"
    by (simp add: versionRequest_def requestWith_def decodeBody_def)
  with secret_version_access [OF secretDb_inv run ok] show ?thesis
    by (simp add: run ok bodyFields_def)
qed

theorem secret_version_fresh_witness:
  "\<exists>d s'. CreateSecretVersion env0 ''p'' ''k'' [] secretDb = (Inr d, s') \<and>
     getString d ''name'' = secretVersionName ''p'' ''k'' (versionNumber secretDb ''p'' ''k'')"
proof -
  have "GetSecret secretDb ''p'' ''k'' \<noteq> Inl ErrNotFound"
    by (simp add: secretDb_def CreateSecret_def GetSecret_def sql_eval)
  with secret_version_fresh [where s = secretDb and e = env0 and project = "''p''" and secret = "''k''"
      and data = "[]", OF secretDb_inv]
  show ?thesis by auto
qed

text \<open>C25 Destroying a version: the error of the lookup when it does not exist; otherwise the version
is in state DESTROYED and has no payload, no request can enable or disable it again, access to
it shows an empty payload, and every other version is as before.\<close>

theorem secret_version_destroyed:
  assumes inv: "repo_inv s"
  shows "case GetSecretVersion s name of
     Inl err \<Rightarrow> DestroySecretVersion e name s = (Inl err, s)
   | Inr v \<Rightarrow> \<exists>d s'. DestroySecretVersion e name s = (Inr d, s') \<and>
       GetSecretVersion s' name = Inr (marshalData d) \<and>
       getString d ''state'' = ''DESTROYED'' \<and>
       map_of (accessResponse (marshalData d)) ''payload'' = Some (JObj [(''data'', JStr [])]) \<and>
       (\<forall>state. SetSecretVersionState name state s' = (Inl ErrTerminalState, s')) \<and>
       (\<forall>m. m = name \<or> GetSecretVersion s' m = GetSecretVersion s m)"
proof (cases "GetSecretVersion s name")
  case (Inl err)
  then show ?thesis by (simp add: DestroySecretVersion_def)
next
  case (Inr v)
  let ?d = "AList.delete ''payload'' (jset ''destroyTime'' (JStr (nowRFC3339 e)) (jset ''state'' (JStr ''DESTROYED'') v))"
  have fields: "map_of ?d ''payload'' = None" "map_of ?d ''state'' = Some (JStr ''DESTROYED'')"
    by (simp_all add: AList.delete_conv')
  obtain s' where upd: "sqlUpdate Secretmanager_versions [(C_name, name)] [] (marshalData ?d) s = Inr s'"
    by (rule update_body_Inr [OF repo_invD(1) [OF inv]])
  have got: "GetSecretVersion s' name = Inr (marshalData ?d)"
    using secretmanager_versions_tbl.load_update [OF repo_invD(1) [OF inv] _ upd] Inr
    by (simp add: GetSecretVersion_def keyFree_def)
  have "getString (marshalData ?d) ''state'' = ''DESTROYED''"
    by (simp add: getString_def map_of_marshalData fields)
  then have "SetSecretVersionState name state s' = (Inl ErrTerminalState, s')" for state
    by (simp add: SetSecretVersionState_def got)
  moreover have "m = name \<or> GetSecretVersion s' m = GetSecretVersion s m" for m
    unfolding GetSecretVersion_def
    using load_update_other [OF upd, of "[(C_name, m)]"] by (auto simp: matches_def colOf_setRow)
  moreover have "DestroySecretVersion e name s = (Inr ?d, s')"
    using Inr upd by (simp add: DestroySecretVersion_def Let_def)
  moreover have "map_of (accessResponse (marshalData ?d)) ''payload'' = Some (JObj [(''data'', JStr [])])"
    by (simp add: accessResponse_def map_of_marshalData fields toMap_def)
  ultimately show ?thesis using Inr got fields by (simp add: getString_def)
qed

theorem secret_version_destroyed_witness:
  "\<exists>v d s'. GetSecretVersion versionDb (secretVersionName ''p'' ''k'' 1) = Inr v \<and>
     DestroySecretVersion env0 (secretVersionName ''p'' ''k'' 1) versionDb = (Inr d, s') \<and>
     SetSecretVersionState (secretVersionName ''p'' ''k'' 1) ''ENABLED'' s' = (Inl ErrTerminalState, s')"
proof -
  have "\<exists>v. GetSecretVersion versionDb (secretVersionName ''p'' ''k'' 1) = Inr v"
    by (simp add: versionDb_def CreateSecretVersion_def versionNumber_def secretDb_def CreateSecret_def
        GetSecretVersion_def secretVersionName_def sql_eval)
  then obtain v where v: "GetSecretVersion versionDb (secretVersionName ''p'' ''k'' 1) = Inr v" ..
  with secret_version_destroyed [where s = versionDb and name = "secretVersionName ''p'' ''k'' 1" and e = env0,
      OF versionDb_inv]
  show ?thesis by auto
qed

end
