(* ===== verification/H_Pubsub.thy ===== *)
theory H_Pubsub
  imports App Repo_Pubsub
begin

text \<open>
  The Pub/Sub handlers of \<^verbatim>\<open>src/handlers/pubsub.go\<close>. The names of a topic and of a
  subscription come from the path.
\<close>

definition CreateTopic_h :: "string \<Rightarrow> string \<Rightarrow> request \<Rightarrow> db_handler" where
  "CreateTopic_h project topic r s =
     withBody r (\<lambda>body. assignable body (\<lambda>body.
       let body = jset ''name'' (JStr (topicPath project topic)) body;
           (res, s') = CreateTopic project body s
       in (respond writeCreateError res, s')) s) s"

definition ListTopics_h :: "string \<Rightarrow> db_handler" where
  "ListTopics_h project s =
     (writeJSON 200 (JObj [(''topics'', JArr (map JObj (ListTopics s project)))]), s)"

definition GetTopic_h :: "string \<Rightarrow> string \<Rightarrow> db_handler" where
  "GetTopic_h project topic s = (respond writeDomainError (GetTopic s project topic), s)"

definition DeleteTopic_h :: "string \<Rightarrow> string \<Rightarrow> db_handler" where
  "DeleteTopic_h project topic s =
     (case DeleteTopic project topic s of (res, s') \<Rightarrow> (respondUnit writeDomainError res, s'))"

definition CreateSubscription_h :: "string \<Rightarrow> string \<Rightarrow> request \<Rightarrow> db_handler" where
  "CreateSubscription_h project subscription r s =
     withBody r (\<lambda>body. assignable body (\<lambda>body.
       let body = jset ''name'' (JStr (subscriptionPath project subscription)) body;
           (res, s') = CreateSubscription project body s
       in (respond writeCreateError res, s')) s) s"

definition ListSubscriptions_h :: "string \<Rightarrow> db_handler" where
  "ListSubscriptions_h project s =
     (writeJSON 200 (JObj [(''subscriptions'', JArr (map JObj (ListSubscriptions s project)))]), s)"

definition GetSubscription_h :: "string \<Rightarrow> string \<Rightarrow> db_handler" where
  "GetSubscription_h project subscription s =
     (respond writeDomainError (GetSubscription s project subscription), s)"

text \<open>The patch is the nested \<^verbatim>\<open>subscription\<close> object when there is one.\<close>

definition nestedPatch :: "string \<Rightarrow> obj \<Rightarrow> obj" where
  "nestedPatch k body = (case toMap (map_of body k) of Some nested \<Rightarrow> nested | None \<Rightarrow> body)"

definition UpdateSubscription_h :: "string \<Rightarrow> string \<Rightarrow> request \<Rightarrow> db_handler" where
  "UpdateSubscription_h project subscription r s =
     withBody r (\<lambda>body.
       case UpdateSubscription project subscription (nestedPatch ''subscription'' (bodyFields body)) s of
         (res, s') \<Rightarrow> (respond writeDomainError res, s')) s"

definition DeleteSubscription_h :: "string \<Rightarrow> string \<Rightarrow> db_handler" where
  "DeleteSubscription_h project subscription s =
     (case DeleteSubscription project subscription s of
        (res, s') \<Rightarrow> (respondUnit writeDomainError res, s'))"

lemma Pubsub_handlers_runs [keeps_runs]:
  assumes "runs s0 s"
  shows "runs s0 (snd (CreateTopic_h project topic r s))"
    and "runs s0 (snd (DeleteTopic_h project topic s))"
    and "runs s0 (snd (UpdateSubscription_h project subscription r s))"
    and "runs s0 (snd (DeleteSubscription_h project subscription s))"
  using assms
  by (auto simp: CreateTopic_h_def DeleteTopic_h_def UpdateSubscription_h_def
      DeleteSubscription_h_def withBody_def assignable_def Let_def
      split: prod.split sum.split option.split
      dest!: arg_cong [where f = snd] intro: keeps_runs)

text \<open>
  The name in the path is a segment; when it is blank, what the trimming of the path leaves
  ends in \<^verbatim>\<open>subscriptions\<close>.
\<close>

lemma subscriptionPath_short:
  assumes "CHR ''/'' \<notin> set n"
  shows "shortName_ok (extractNameFromSelfLink (subscriptionPath project n))"
proof -
  have path: "subscriptionPath project n = ((''projects/'' @ project) @ CHR ''/'' # ''subscriptions'') @ CHR ''/'' # n"
    by (simp add: subscriptionPath_def)
  show ?thesis
    unfolding path by (rule extract_segment [OF assms]) (simp_all add: shortName_ok_def isSpace_def)
qed

lemma CreateSubscription_h_runs [keeps_runs]:
  assumes "runs s0 s" "CHR ''/'' \<notin> set subscription"
  shows "runs s0 (snd (CreateSubscription_h project subscription r s))"
  using assms(1) CreateSubscription_step [THEN runs_step]
  by (auto simp: CreateSubscription_h_def withBody_def assignable_def Let_def subscriptionPath_short [OF assms(2)]
      split: prod.split sum.split option.split dest!: arg_cong [where f = snd])

text \<open>The body null drops the connection: creating a topic with it panics, and stores nothing.\<close>

lemma null_body_aborts:
  "CreateTopic_h project topic (requestWith (Value JNull)) s = (Aborted, s)"
  by (simp add: CreateTopic_h_def withBody_def assignable_def decodeBody_def requestWith_def)

end
