(* ===== verification/Correct_Pubsub.thy ===== *)
theory Correct_Pubsub
  imports H_Pubsub Correct_Cascade
begin

text \<open>
  What the Pub/Sub endpoints promise: deleting a topic detaches exactly the subscriptions bound to
  it, for each is filed under the name its body reports; and where a detached subscription ends
  up after an update.
\<close>

section \<open>Deleting a topic\<close>

text \<open>What deleting a topic makes of a row of the subscriptions.\<close>

definition detachedRow :: "row \<Rightarrow> row" where
  "detachedRow r = setRow [(C_topic_name, deletedTopic)]
     (marshalData (jset ''topic'' (JStr deletedTopic) (rdata r))) r"

lemma colOf_detachedRow:
  "colOf (detachedRow r) c = (if c = C_topic_name then Some deletedTopic else colOf r c)"
  by (simp add: detachedRow_def colOf_setRow)

lemma rowid_detachedRow [simp]: "rowid (detachedRow r) = rowid r"
  by (simp add: detachedRow_def setRow_def)

lemma row_of_rowid:
  assumes "db_ok s" "r \<in> set (s t)" "r' \<in> set (s t)" "rowid r = rowid r'"
  shows "r = r'"
proof -
  have "distinct (map rowid (s t))"
    using db_okD(2) [OF assms(1), of t] unfolding rowids_ok_def by (simp add: strict_sorted_iff)
  with assms(2-4) show ?thesis by (auto simp: distinct_map inj_on_def)
qed

lemma detach_rows:
  assumes "set rs \<subseteq> set (s Pubsub_subscriptions)" "distinct (map rowid rs)"
    and "repo_inv s" "\<forall>r\<in>set rs. colOf r C_project = Some project"
  shows "detachSubscriptions project (map rdata rs) s =
    (Inr (), s(Pubsub_subscriptions :=
       map (\<lambda>r. if rowid r \<in> rowid ` set rs then detachedRow r else r) (s Pubsub_subscriptions)))"
  using assms
proof (induction rs arbitrary: s)
  case Nil
  then show ?case by simp
next
  case (Cons r rs)
  let ?sub = "jset ''topic'' (JStr deletedTopic) (rdata r)"
  let ?conds = "[(C_project, project), (C_name, subscriptionShortName (rdata r))]"
  have row: "r \<in> set (s Pubsub_subscriptions)" using Cons.prems(1) by simp
  note name = subscription_name [OF Cons.prems(3) this]
  have row: "r \<in> set (s Pubsub_subscriptions)" "matches ?conds r"
    using row name Cons.prems(4) by (simp_all add: matches_def)
  have only: "matches ?conds r' \<longleftrightarrow> rowid r' = rowid r" if "r' \<in> set (s Pubsub_subscriptions)" for r'
  proof
    assume "matches ?conds r'"
    then have "r' = r"
      by (rule pubsub_subscriptions_tbl.matches_unique [OF repo_invD(1) [OF Cons.prems(3)], rotated 2])
        (use that row in simp_all)
    then show "rowid r' = rowid r" by simp
  next
    assume "rowid r' = rowid r"
    then have "r' = r" by (rule row_of_rowid [OF repo_invD(1) [OF Cons.prems(3)] that row(1)])
    with row(2) show "matches ?conds r'" by simp
  qed
  define s1 where "s1 = s(Pubsub_subscriptions :=
    map (\<lambda>r'. if rowid r' = rowid r then detachedRow r' else r') (s Pubsub_subscriptions))"
  have "sqlUpdate Pubsub_subscriptions ?conds [(C_topic_name, deletedTopic)] (marshalData ?sub) s = Inr s1"
  proof -
    have "r' = r" if "r' \<in> set (s Pubsub_subscriptions)" "rowid r' = rowid r" for r'
      by (rule row_of_rowid [OF repo_invD(1) [OF Cons.prems(3)] that(1) row(1) that(2)])
    then have "map (\<lambda>r'. if matches ?conds r' then setRow [(C_topic_name, deletedTopic)] (marshalData ?sub) r' else r')
        (s Pubsub_subscriptions)
      = map (\<lambda>r'. if rowid r' = rowid r then detachedRow r' else r') (s Pubsub_subscriptions)"
      by (intro map_cong refl if_cong only) (auto simp: detachedRow_def)
    moreover have "sqlUpdate Pubsub_subscriptions ?conds [(C_topic_name, deletedTopic)] (marshalData ?sub) s =
      Inr (s(Pubsub_subscriptions := map (\<lambda>r'. if matches ?conds r'
        then setRow [(C_topic_name, deletedTopic)] (marshalData ?sub) r' else r') (s Pubsub_subscriptions)))"
      by (simp add: sqlUpdate_def list_ex_iff fksHold_def)
    ultimately show ?thesis by (simp only: s1_def)
  qed
  moreover have "map_of ?sub ''project'' = Some (JStr project)"
    using repo_inv_mirror [OF Cons.prems(3) row(1), of "''project''" C_project] Cons.prems(4) by simp
  ultimately have upd: "sqlUpdate Pubsub_subscriptions ?conds [(C_topic_name, deletedTopic)] (marshalData ?sub) s = Inr s1"
    and inv1: "repo_inv s1" using subscription_update_inv [OF Cons.prems(3)] name(1) by simp_all
  have rest: "r' \<in> set (s1 Pubsub_subscriptions)" if "r' \<in> set rs" for r'
  proof -
    from that Cons.prems(2) have "rowid r' \<noteq> rowid r" by (auto simp: image_iff)
    moreover from that Cons.prems(1) have "r' \<in> set (s Pubsub_subscriptions)" by auto
    ultimately show ?thesis by (auto simp: s1_def image_iff intro: bexI [of _ r'])
  qed
  have "detachSubscriptions project (map rdata rs) s1 =
    (Inr (), s1(Pubsub_subscriptions :=
       map (\<lambda>r. if rowid r \<in> rowid ` set rs then detachedRow r else r) (s1 Pubsub_subscriptions)))"
    by (rule Cons.IH) (use Cons.prems inv1 rest in auto)
  moreover have "map (\<lambda>r. if rowid r \<in> rowid ` set rs then detachedRow r else r) (s1 Pubsub_subscriptions)
      = map (\<lambda>r'. if rowid r' \<in> rowid ` set (r # rs) then detachedRow r' else r') (s Pubsub_subscriptions)"
    using Cons.prems(2) by (auto simp: s1_def)
  ultimately show ?case using upd by (simp add: Let_def) (simp add: s1_def fun_eq_iff)
qed

lemma topic_no_child: "f \<in> set (foreignKeys (migrate c)) \<Longrightarrow> fkParent f \<noteq> Pubsub_topics"
  by (cases c) auto

lemma detach_bound:
  assumes inv: "repo_inv s"
  shows "detachSubscriptions project
      (loadMany Pubsub_subscriptions [(C_project, project), (C_topic_name, name)] [] s) s =
    (Inr (), s(Pubsub_subscriptions :=
       map (\<lambda>r. if matches [(C_project, project), (C_topic_name, name)] r then detachedRow r else r)
         (s Pubsub_subscriptions)))"
proof -
  let ?conds = "[(C_project, project), (C_topic_name, name)]"
  let ?rs = "sqlSelect Pubsub_subscriptions ?conds [] s"
  have rows: "set ?rs = {r \<in> set (s Pubsub_subscriptions). matches ?conds r}" by (auto simp: sqlSelect_def)
  have "distinct (map rowid (s Pubsub_subscriptions))"
    using db_okD(2) [OF repo_invD(1) [OF inv], of Pubsub_subscriptions]
    unfolding rowids_ok_def by (simp add: strict_sorted_iff)
  then have dist: "distinct (map rowid ?rs)"
    by (auto simp: sqlSelect_def distinct_map inj_on_def)
  have bound: "\<forall>r\<in>set ?rs. colOf r C_project = Some project"
    by (simp add: rows matches_def)
  have "(if rowid r \<in> rowid ` set ?rs then detachedRow r else r) = (if matches ?conds r then detachedRow r else r)"
    if "r \<in> set (s Pubsub_subscriptions)" for r
    using that row_of_rowid [OF repo_invD(1) [OF inv] that] unfolding rows by auto
  then have "map (\<lambda>r. if rowid r \<in> rowid ` set ?rs then detachedRow r else r) (s Pubsub_subscriptions)
      = map (\<lambda>r. if matches ?conds r then detachedRow r else r) (s Pubsub_subscriptions)"
    by (rule map_cong [OF refl])
  moreover have "set ?rs \<subseteq> set (s Pubsub_subscriptions)" by (auto simp: rows)
  ultimately show ?thesis
    using detach_rows [OF _ dist inv bound] by (simp only: loadMany_def)
qed

text \<open>The whole deletion, as a change of the two tables.\<close>

lemma DeleteTopic_eq:
  assumes inv: "repo_inv s"
  shows "DeleteTopic project name s =
    (let s1 = s(Pubsub_subscriptions :=
           map (\<lambda>r. if matches [(C_project, project), (C_topic_name, name)] r then detachedRow r else r)
             (s Pubsub_subscriptions))
     in if GetTopic s project name = Inl ErrNotFound then (Inl ErrNotFound, s1)
        else (Inr (), s1(Pubsub_topics :=
               filter (\<lambda>r. \<not> matches [(C_project, project), (C_name, name)] r) (s Pubsub_topics))))"
  unfolding DeleteTopic_def Let_def detach_bound [OF inv] prod.case sum.case
  by (subst childless_delete) (auto simp: GetTopic_def loadOne_def dest: topic_no_child)

text \<open>C22 Deleting a topic: ErrNotFound when the project has no such topic, success otherwise, and
no other outcome. The topic is gone; exactly the project's subscriptions bound to it are
detached, in the key column and in their body, and none is deleted; everything else is as
before.\<close>

theorem topic_delete:
  assumes inv: "repo_inv s"
  shows "\<exists>s'. DeleteTopic project name s =
      (if GetTopic s project name = Inl ErrNotFound then Inl ErrNotFound else Inr (), s') \<and>
    (\<forall>p n. GetTopic s' p n = (if p = project \<and> n = name then Inl ErrNotFound else GetTopic s p n)) \<and>
    s' Pubsub_subscriptions =
      map (\<lambda>r. if matches [(C_project, project), (C_topic_name, name)] r then detachedRow r else r)
        (s Pubsub_subscriptions) \<and>
    (\<forall>t. t \<in> {Pubsub_topics, Pubsub_subscriptions} \<or> s' t = s t)"
proof -
  let ?s' = "snd (DeleteTopic project name s)"
  have topics: "?s' Pubsub_topics =
      filter (\<lambda>r. \<not> matches [(C_project, project), (C_name, name)] r) (s Pubsub_topics)"
    by (auto simp: DeleteTopic_eq [OF inv] Let_def GetTopic_def loadOne_NotFound filter_id_conv)
  have "GetTopic ?s' p n = (if p = project \<and> n = name then Inl ErrNotFound else GetTopic s p n)" for p n
    unfolding GetTopic_def by (rule load_filter_conds, rule topics) auto
  then show ?thesis by (auto simp: DeleteTopic_eq [OF inv] Let_def)
qed

text \<open>A topic with a subscription, for the examples.\<close>

definition topicDb :: db where
  "topicDb = snd (CreateTopic ''p'' [(''name'', JStr ''t'')] emptyDb)"

definition subDb :: db where
  "subDb = snd (CreateSubscription ''p'' [(''name'', JStr ''u''), (''topic'', JStr ''t'')] topicDb)"

lemmas link_eval =
  extractNameFromSelfLink_def trimSpace_def trimWhile_def isSpace_def trimSuffix_def hasPrefix_def

lemma subDb_inv: "repo_inv subDb"
  unfolding subDb_def topicDb_def
  by (intro CreateSubscription_inv CreateTopic_inv repo_inv_empty)
    (simp add: shortName_ok_def getString_def link_eval)

lemma subDb_eval:
  "subDb = emptyDb(
     Pubsub_topics := [\<lparr>rowid = 1, rcols = [(C_name, ''t''), (C_project, ''p'')],
       rdata = [(''name'', JStr ''projects/p/topics/t''), (''project'', JStr ''p'')]\<rparr>],
     Pubsub_subscriptions := [\<lparr>rowid = 1, rcols = [(C_name, ''u''), (C_project, ''p''), (C_topic_name, ''t'')],
       rdata = [(''name'', JStr ''projects/p/subscriptions/u''), (''topic'', JStr ''t''),
                (''project'', JStr ''p''), (''topic_name'', JStr ''t'')]\<rparr>])"
  by (simp add: subDb_def topicDb_def CreateTopic_def CreateSubscription_def GetTopic_def GetSubscription_def
      resolveSameProjectName_def topicPath_def subscriptionPath_def link_eval sql_eval)

theorem topic_delete_witness:
  "\<exists>s'. DeleteTopic ''p'' ''t'' subDb = (Inr (), s') \<and> GetTopic s' ''p'' ''t'' = Inl ErrNotFound \<and>
     length (s' Pubsub_subscriptions) = 1"
proof -
  have "GetTopic subDb ''p'' ''t'' \<noteq> Inl ErrNotFound"
    by (simp add: subDb_eval GetTopic_def sql_eval)
  moreover have "length (subDb Pubsub_subscriptions) = 1" by (simp add: subDb_eval)
  ultimately show ?thesis
    using topic_delete [OF subDb_inv, where project = "''p''" and name = "''t''"] by auto
qed

section \<open>Updating a detached subscription\<close>

text \<open>The topic that the table binds a subscription to.\<close>

definition boundTo :: "db \<Rightarrow> string \<Rightarrow> string \<Rightarrow> string option" where
  "boundTo s project name =
     (case filter (matches [(C_project, project), (C_name, name)]) (s Pubsub_subscriptions) of
        [] \<Rightarrow> None | r # _ \<Rightarrow> colOf r C_topic_name)"

lemma boundTo_row:
  "repo_inv s \<Longrightarrow> r \<in> set (s Pubsub_subscriptions) \<Longrightarrow> matches [(C_project, project), (C_name, name)] r \<Longrightarrow>
   boundTo s project name = colOf r C_topic_name"
  unfolding boundTo_def
  by (subst pubsub_subscriptions_tbl.filter_row [OF repo_invD(1)]) simp_all

lemma boundTo_Some:
  assumes "boundTo s project name = Some topic"
  obtains r where "r \<in> set (s Pubsub_subscriptions)" "matches [(C_project, project), (C_name, name)] r"
    "colOf r C_topic_name = Some topic"
proof -
  obtain r rs where f: "filter (matches [(C_project, project), (C_name, name)]) (s Pubsub_subscriptions) = r # rs"
    and "colOf r C_topic_name = Some topic"
    using assms by (auto simp: boundTo_def split: list.splits)
  moreover have "r \<in> set (s Pubsub_subscriptions)" "matches [(C_project, project), (C_name, name)] r"
    using arg_cong [OF f, of set] by auto
  ultimately show thesis using that by blast
qed

text \<open>What deleting a topic leaves of a subscription that is bound to it.\<close>

lemma detached_by_delete:
  assumes inv: "repo_inv s" and r: "r \<in> set (s Pubsub_subscriptions)"
    and cols: "matches [(C_project, project), (C_name, sub)] r" "colOf r C_topic_name = Some topic"
    and del: "DeleteTopic project topic s = (Inr (), s1)"
  shows "detachedRow r \<in> set (s1 Pubsub_subscriptions)"
    and "matches [(C_project, project), (C_name, sub)] (detachedRow r)"
    and "GetTopic s1 project topic = Inl ErrNotFound"
proof -
  have present: "GetTopic s project topic \<noteq> Inl ErrNotFound"
    using del by (auto simp: DeleteTopic_eq [OF inv] Let_def)
  have s1: "s1 = snd (DeleteTopic project topic s)" by (simp add: del)
  have "matches [(C_project, project), (C_topic_name, topic)] r" using cols by (simp add: matches_def)
  then show "detachedRow r \<in> set (s1 Pubsub_subscriptions)"
    using r present by (auto simp: s1 DeleteTopic_eq [OF inv] Let_def image_iff intro!: bexI [of _ r])
  show "matches [(C_project, project), (C_name, sub)] (detachedRow r)"
    using cols(1) by (simp add: matches_def colOf_detachedRow)
  show "GetTopic s1 project topic = Inl ErrNotFound"
    using present by (simp add: s1 DeleteTopic_eq [OF inv] Let_def GetTopic_def loadOne_NotFound)
qed

text \<open>C36 A detached subscription does not stay detached. Whatever subscription is bound to a topic
(not the name reserved for deleted ones), once the topic has been deleted the table and the body of
the subscription agree that it is detached; any patch of the subscription, even an empty one,
succeeds and binds the row to the deleted topic's name again, while the body that is returned still
says that it is detached.\<close>

theorem deleted_topic_rebound:
  assumes inv: "repo_inv s" and bound: "boundTo s project sub = Some topic"
    and topic: "topic \<notin> {[], deletedTopic}" "GetTopic s project topic \<noteq> Inl ErrNotFound"
  shows "\<exists>s1 d1 d s2. DeleteTopic project topic s = (Inr (), s1) \<and>
    boundTo s1 project sub = Some deletedTopic \<and>
    GetSubscription s1 project sub = Inr d1 \<and> getString d1 ''topic'' = deletedTopic \<and>
    UpdateSubscription project sub patch s1 = (Inr d, s2) \<and> GetTopic s2 project topic = Inl ErrNotFound \<and>
    boundTo s2 project sub = Some topic \<and> getString d ''topic'' = deletedTopic"
proof -
  let ?conds = "[(C_project, project), (C_name, sub)]"
  obtain r where r: "r \<in> set (s Pubsub_subscriptions)" "matches ?conds r" "colOf r C_topic_name = Some topic"
    by (rule boundTo_Some [OF bound])
  define s1 where "s1 = snd (DeleteTopic project topic s)"
  have del: "DeleteTopic project topic s = (Inr (), s1)"
    using topic(2) by (simp add: s1_def DeleteTopic_eq [OF inv] Let_def)
  have inv1: "repo_inv s1" unfolding s1_def by (rule DeleteTopic_inv [OF inv])
  let ?r1 = "detachedRow r"
  note r1 = detached_by_delete [OF inv r del]
  have cur: "GetSubscription s1 project sub = Inr (rdata ?r1)"
    unfolding GetSubscription_def
    by (rule pubsub_subscriptions_tbl.load_row [OF repo_invD(1) [OF inv1] _ r1(1,2)]) simp
  have body: "rdata ?r1 = marshalData (jset ''topic'' (JStr deletedTopic) (rdata r))"
    by (simp add: detachedRow_def setRow_def)
  have "map_of (rdata r) ''topic_name'' = Some (JStr topic)"
    using repo_inv_filed [OF inv r(1)] r(3) topic(1) by simp
  then have name: "boundTopicName (rdata ?r1) = topic"
    using topic(1) by (simp add: boundTopicName_def body Let_def) (simp add: getString_def)
  have detached: "getString (rdata ?r1) ''topic'' = deletedTopic" "deletedTopic \<noteq> []"
    by (simp_all add: body) (simp add: deletedTopic_def)
  let ?d = "jset ''topic_name'' (JStr topic) (mergeSubscription project (rdata ?r1) patch)"
  obtain s2 where upd: "sqlUpdate Pubsub_subscriptions ?conds [(C_topic_name, topic)] (marshalData ?d) s1 = Inr s2"
    by (auto simp: sqlUpdate_def list_ex_iff fksHold_def)
  have run: "UpdateSubscription project sub patch s1 = (Inr ?d, s2)"
    using cur name topic(1) upd by (simp add: UpdateSubscription_def Let_def)
  have inv2: "repo_inv s2" using UpdateSubscription_inv [OF inv1, of project sub patch] run by simp
  have "setRow [(C_topic_name, topic)] (marshalData ?d) ?r1 \<in> set (s2 Pubsub_subscriptions)"
    using r1 by (auto simp: sqlUpdate_Inr(1) [OF upd] updRow_def image_iff intro!: bexI [of _ ?r1])
  from boundTo_row [OF inv2 this, of project sub] have again: "boundTo s2 project sub = Some topic"
    using r1(2) by (simp add: matches_def colOf_setRow)
  have gone: "GetTopic s2 project topic = Inl ErrNotFound"
    using r1(3) by (simp add: GetTopic_def loadOne_def sqlUpdate_Inr(1) [OF upd])
  have "boundTo s1 project sub = Some deletedTopic"
    using boundTo_row [OF inv1 r1(1,2)] by (simp add: colOf_detachedRow)
  moreover have "getString ?d ''topic'' = deletedTopic"
    using detached by (simp add: mergeSubscription_def Let_def)
  ultimately show ?thesis using del cur detached(1) run gone again by blast
qed

theorem deleted_topic_rebound_witness:
  "\<exists>s1 d s2. DeleteTopic ''p'' ''t'' subDb = (Inr (), s1) \<and> UpdateSubscription ''p'' ''u'' [] s1 = (Inr d, s2) \<and>
     GetTopic s2 ''p'' ''t'' = Inl ErrNotFound \<and> boundTo s2 ''p'' ''u'' = Some ''t''"
proof -
  have "boundTo subDb ''p'' ''u'' = Some ''t''"
    by (simp add: boundTo_def subDb_eval matches_def colOf_def)
  moreover have "''t'' \<notin> {[], deletedTopic}" by (simp add: deletedTopic_def)
  moreover have "GetTopic subDb ''p'' ''t'' \<noteq> Inl ErrNotFound"
    by (simp add: subDb_eval GetTopic_def sql_eval)
  ultimately show ?thesis
    using deleted_topic_rebound [OF subDb_inv, where patch = "[]"] by blast
qed

end
