(* ===== verification/H_Iam.thy ===== *)
theory H_Iam
  imports App Repo_Iam Change_Loop
begin

text \<open>
  The IAM handlers of \<^verbatim>\<open>src/handlers/iam.go\<close> (service accounts, their keys and their
  policies, which are kept in memory) and of \<^verbatim>\<open>src/handlers/iam_bindings.go\<close> (the policy
  of a project, which is kept as rows of \<^verbatim>\<open>iam_bindings\<close>).
\<close>

section \<open>Service accounts\<close>

definition serviceAccountData :: "clock \<Rightarrow> string \<Rightarrow> string \<Rightarrow> obj \<Rightarrow> obj" where
  "serviceAccountData c project accountID saData =
     (let email = accountID @ ''@'' @ project @ ''.iam.gserviceaccount.com'';
          uniqueID = handlerNumericID c;
          data =
            [(''accountId'', JStr accountID),
             (''email'', JStr email),
             (''uniqueId'', JStr uniqueID),
             (''name'', JStr (''projects/'' @ project @ ''/serviceAccounts/'' @ email)),
             (''projectId'', JStr project),
             (''oauth2ClientId'', JStr uniqueID),
             (''disabled'', JBool False),
             (''etag'', JStr ''BwSAEtag='')];
          displayName = getString saData ''displayName'';
          data = (if displayName \<noteq> [] then jset ''displayName'' (JStr displayName) data else data)
      in case map_of saData ''description'' of
           Some (JStr description) \<Rightarrow> jset ''description'' (JStr description) data
         | _ \<Rightarrow> data)"

definition CreateServiceAccount_h :: "env \<Rightarrow> clock \<Rightarrow> string \<Rightarrow> request \<Rightarrow> db_handler" where
  "CreateServiceAccount_h e c project r s =
     withBody r (\<lambda>body.
       let accountID = getString (bodyFields body) ''accountId'' in
       if accountID = [] then (missingField ''accountId'', s)
       else
         let saData = bodyFields (toMap (map_of (bodyFields body) ''serviceAccount''));
             (res, s') = CreateServiceAccount e project (serviceAccountData c project accountID saData) s
         in (respond writeCreateError res, s')) s"

definition GetServiceAccount_h :: "string \<Rightarrow> string \<Rightarrow> db_handler" where
  "GetServiceAccount_h project email s = (respond writeDomainError (GetServiceAccount s project email), s)"

definition ListServiceAccounts_h :: "string \<Rightarrow> db_handler" where
  "ListServiceAccounts_h project s =
     (writeJSON 200 (JObj [(''accounts'', JArr (map JObj (ListServiceAccounts s project)))]), s)"

definition DeleteServiceAccount_h :: "string \<Rightarrow> string \<Rightarrow> db_handler" where
  "DeleteServiceAccount_h project email s =
     (case DeleteServiceAccount project email s of (res, s') \<Rightarrow> (respondUnit writeDomainError res, s'))"

definition UpdateServiceAccount_h :: "string \<Rightarrow> string \<Rightarrow> request \<Rightarrow> db_handler" where
  "UpdateServiceAccount_h project email r s =
     withBody r (\<lambda>body.
       let patch = (case toMap (map_of (bodyFields body) ''serviceAccount'') of
                      Some nested \<Rightarrow> nested | None \<Rightarrow> bodyFields body);
           (res, s') = UpdateServiceAccount project email patch s
       in (respond writeDomainError res, s')) s"

section \<open>The policy of a service account\<close>

definition saIamKey :: "string \<Rightarrow> string \<Rightarrow> string" where
  "saIamKey project email = project @ ''/'' @ email"

definition GetServiceAccountIamPolicy_h :: "string \<Rightarrow> string \<Rightarrow> application \<Rightarrow> response" where
  "GetServiceAccountIamPolicy_h project email app =
     (case saIamStor app (saIamKey project email) of
        None \<Rightarrow> writeJSON 200 (JObj
          [(''version'', JInt 1), (''bindings'', JArr []), (''auditConfigs'', JArr []),
           (''etag'', JStr ''BwSAInitial='')])
      | Some stored \<Rightarrow> writeJSON 200 (JObj stored))"

definition filledPolicy :: "clock \<Rightarrow> obj \<Rightarrow> obj" where
  "filledPolicy c policy =
     (let policy = setMissing ''bindings'' (JArr []) policy;
          policy = setMissing ''auditConfigs'' (JArr []) policy;
          policy = setMissing ''version'' (JNum 1) policy
      in jset ''etag'' (JStr (''BwSAEtag-'' @ natStr (unixNano c) @ ''='')) policy)"

definition SetServiceAccountIamPolicy_h ::
  "clock \<Rightarrow> string \<Rightarrow> string \<Rightarrow> request \<Rightarrow> application \<Rightarrow> response \<times> application" where
  "SetServiceAccountIamPolicy_h c project email r app =
     withBody r (\<lambda>body.
       let policy = filledPolicy c (bodyFields (toMap (map_of (bodyFields body) ''policy'')))
       in (writeJSON 200 (JObj policy),
           app\<lparr>saIamStor := (saIamStor app)(saIamKey project email := Some policy)\<rparr>)) app"

section \<open>Keys\<close>

text \<open>
  \<^verbatim>\<open>json.Marshal\<close> of a string (with its escapes for HTML), of a map of strings (keys in
  order), and the standard base64 encoding.
\<close>

definition hexDigit :: "nat \<Rightarrow> char" where
  "hexDigit n = (if n < 10 then char_of (48 + n) else char_of (87 + n))"

definition jsonEscape :: "char \<Rightarrow> string" where
  "jsonEscape c =
     (let n = (of_char c :: nat) in
      if n = 0x22 \<or> n = 0x5C then [CHR 0x5C, c]
      else if n = 0x08 then [CHR 0x5C, CHR ''b'']
      else if n = 0x0C then [CHR 0x5C, CHR ''f'']
      else if n = 0x0A then [CHR 0x5C, CHR ''n'']
      else if n = 0x0D then [CHR 0x5C, CHR ''r'']
      else if n = 0x09 then [CHR 0x5C, CHR ''t'']
      else if n < 0x20 \<or> n = 0x3C \<or> n = 0x3E \<or> n = 0x26
        then [CHR 0x5C] @ ''u00'' @ [hexDigit (n div 16), hexDigit (n mod 16)]
      else [c])"

definition jsonString :: "string \<Rightarrow> string" where
  "jsonString s = [CHR 0x22] @ concat (map jsonEscape s) @ [CHR 0x22]"

definition jsonObject :: "(string \<times> string) list \<Rightarrow> string" where
  "jsonObject kvs = ''{'' @ joinWith '','' (map (\<lambda>(k, v). jsonString k @ '':'' @ jsonString v) kvs) @ ''}''"

definition base64Char :: "nat \<Rightarrow> char" where
  "base64Char n =
     (if n < 26 then char_of (65 + n) else if n < 52 then char_of (71 + n)
      else if n < 62 then char_of (n - 4) else if n = 62 then CHR ''+'' else CHR ''/'')"

fun base64 :: "string \<Rightarrow> string" where
  "base64 [] = []"
| "base64 [a] =
     (let n = of_char a * 16 in [base64Char (n div 64), base64Char (n mod 64), CHR ''='', CHR ''=''])"
| "base64 [a, b] =
     (let n = (of_char a * 256 + of_char b) * 4
      in [base64Char (n div 4096), base64Char (n div 64 mod 64), base64Char (n mod 64), CHR ''=''])"
| "base64 (a # b # d # rest) =
     (let n = (of_char a * 256 + of_char b) * 256 + of_char d
      in base64Char (n div 262144) # base64Char (n div 4096 mod 64) #
         base64Char (n div 64 mod 64) # base64Char (n mod 64) # base64 rest)"

definition saKeyName :: "string \<Rightarrow> string \<Rightarrow> string \<Rightarrow> string" where
  "saKeyName project email keyID =
     ''projects/'' @ project @ ''/serviceAccounts/'' @ email @ ''/keys/'' @ keyID"

definition saKeyData :: "clock \<Rightarrow> string \<Rightarrow> string \<Rightarrow> obj \<Rightarrow> obj" where
  "saKeyData c project email body =
     (let keyAlgorithm = getString body ''keyAlgorithm'';
          keyAlgorithm = (if keyAlgorithm = [] then ''KEY_ALG_RSA_2048'' else keyAlgorithm);
          privateKeyType = getString body ''privateKeyType'';
          privateKeyType = (if privateKeyType = [] then ''TYPE_GOOGLE_CREDENTIALS_FILE'' else privateKeyType);
          keyID = uuid c;
          fakeKeyJSON = jsonObject
            [(''client_email'', email), (''private_key_id'', keyID),
             (''project_id'', project), (''type'', ''service_account'')]
      in [(''name'', JStr (saKeyName project email keyID)),
          (''keyType'', JStr ''USER_MANAGED''),
          (''keyAlgorithm'', JStr keyAlgorithm),
          (''keyOrigin'', JStr ''GOOGLE_PROVIDED''),
          (''privateKeyType'', JStr privateKeyType),
          (''privateKeyData'', JStr (base64 fakeKeyJSON)),
          (''validAfterTime'', JStr (nowLocal c)),
          (''validBeforeTime'', JStr (inTenYears c))])"

text \<open>A body that cannot be decoded counts as empty.\<close>

definition CreateSAKey_h :: "env \<Rightarrow> clock \<Rightarrow> string \<Rightarrow> string \<Rightarrow> request \<Rightarrow> db_handler" where
  "CreateSAKey_h e c project email r s =
     (let body = (case decodeBody r of Inl _ \<Rightarrow> [] | Inr m \<Rightarrow> bodyFields m);
          (res, s') = CreateSAKey e project email (saKeyData c project email body) s
      in (respond writeCreateError res, s'))"

definition GetSAKey_h :: "string \<Rightarrow> string \<Rightarrow> string \<Rightarrow> db_handler" where
  "GetSAKey_h project email keyID s =
     (respond writeDomainError (GetSAKey s (saKeyName project email keyID)), s)"

definition ListSAKeys_h :: "string \<Rightarrow> string \<Rightarrow> db_handler" where
  "ListSAKeys_h project email s =
     (case GetServiceAccount s project email of
        Inl err \<Rightarrow> (writeDomainError err, s)
      | Inr _ \<Rightarrow> (writeJSON 200 (JObj [(''keys'', JArr (map JObj (ListSAKeys s email)))]), s))"

definition DeleteSAKey_h :: "string \<Rightarrow> string \<Rightarrow> string \<Rightarrow> db_handler" where
  "DeleteSAKey_h project email keyID s =
     (case DeleteSAKey (saKeyName project email keyID) s of
        (res, s') \<Rightarrow> (respondUnit writeDomainError res, s'))"

section \<open>The policy of a project\<close>

text \<open>The roles of the current bindings; empty ones are skipped.\<close>

definition currentRoles :: "string \<Rightarrow> db \<Rightarrow> string list" where
  "currentRoles project s =
     filter (\<lambda>role. role \<noteq> [])
       (map (\<lambda>b. getString b ''role'') (objectEntries (arrayField (GetIAMPolicy s project) ''bindings'')))"

text \<open>The members of a requested binding: its non-empty strings.\<close>

definition memberStrings :: "obj \<Rightarrow> string list" where
  "memberStrings binding =
     List.map_filter (\<lambda>m. case m of JStr x \<Rightarrow> if x = [] then None else Some x | _ \<Rightarrow> None)
       (arrayField binding ''members'')"

definition requestedBindings :: "json list \<Rightarrow> (string \<times> string list) list" where
  "requestedBindings rawBindings =
     filter (\<lambda>(role, members). role \<noteq> [])
       (map (\<lambda>b. (getString b ''role'', memberStrings b)) (objectEntries rawBindings))"

definition padIAMPolicy :: "obj \<Rightarrow> obj" where
  "padIAMPolicy policy = setMissing ''auditConfigs'' (JArr []) policy"

definition setBinding :: "string \<Rightarrow> string \<times> string list \<Rightarrow> db \<Rightarrow> unit result" where
  "setBinding project binding s = SetIAMBinding project (fst binding) (snd binding) s"

definition SetIAMPolicy_h :: "string \<Rightarrow> request \<Rightarrow> db_handler" where
  "SetIAMPolicy_h project r s =
     withBody r (\<lambda>body.
       case toMap (map_of (bodyFields body) ''policy'') of
         None \<Rightarrow> (missingField ''policy'', s)
       | Some policy \<Rightarrow>
           (case runAll (setBinding project) (map (\<lambda>role. (role, [])) (currentRoles project s)) s of
              (_, Some err, s1) \<Rightarrow> (writeDomainError err, s1)
            | (_, None, s1) \<Rightarrow>
                (case runAll (setBinding project) (requestedBindings (arrayField policy ''bindings'')) s1 of
                   (_, Some err, s2) \<Rightarrow> (writeDomainError err, s2)
                 | (_, None, s2) \<Rightarrow>
                     (writeJSON 200 (JObj (padIAMPolicy (GetIAMPolicy s2 project))), s2)))) s"

definition GetIAMPolicy_h :: "string \<Rightarrow> db_handler" where
  "GetIAMPolicy_h project s = (writeJSON 200 (JObj (padIAMPolicy (GetIAMPolicy s project))), s)"

section \<open>The handlers act by repository operations\<close>

lemma setBinding_runs: "runs s0 s \<Longrightarrow> runs s0 (snd (setBinding project b s))"
  by (simp add: setBinding_def keeps_runs)

lemma setBindings_runs:
  "runAll (setBinding project) bs s = (completed, e, s') \<Longrightarrow> runs s0 s \<Longrightarrow> runs s0 s'"
  by (rule runAll_keeps [of "runs s0", OF setBinding_runs])

lemma SetIAMPolicy_h_runs [keeps_runs]:
  assumes "runs s0 s"
  shows "runs s0 (snd (SetIAMPolicy_h project r s))"
  using assms
  by (auto simp: SetIAMPolicy_h_def withBody_def split: sum.split option.split prod.split
      dest!: setBindings_runs)

lemma Iam_handlers_runs [keeps_runs]:
  assumes "runs s0 s"
  shows "runs s0 (snd (CreateServiceAccount_h e c project r s))"
    and "runs s0 (snd (DeleteServiceAccount_h project email s))"
    and "runs s0 (snd (UpdateServiceAccount_h project email r s))"
    and "runs s0 (snd (CreateSAKey_h e c project email r s))"
    and "runs s0 (snd (DeleteSAKey_h project email keyID s))"
  using assms
  by (auto simp: CreateServiceAccount_h_def DeleteServiceAccount_h_def UpdateServiceAccount_h_def
      CreateSAKey_h_def DeleteSAKey_h_def withBody_def Let_def
      split: prod.split sum.split option.split
      dest!: arg_cong [where f = snd] intro: keeps_runs)

end
