(* ===== verification/Correct_Iam.thy ===== *)
theory Correct_Iam
  imports H_Iam Correct_Cascade
begin

text \<open>
  IAM policies of a project as a set of grants (project, role, member). \<open>grants\<close> reads the
  set off the rows; the lemmas state what each operation does to it, and the properties are
  about the answers of \<^verbatim>\<open>SetIAMBinding\<close>, \<^verbatim>\<open>SetIAMPolicy\<close> and \<^verbatim>\<open>GetIAMPolicy\<close>.
\<close>

section \<open>Grants\<close>

definition grants :: "db \<Rightarrow> string \<Rightarrow> string \<Rightarrow> string \<Rightarrow> bool" where
  "grants s p r m \<longleftrightarrow> list_ex (matches [(C_project, p), (C_role, r), (C_member, m)]) (s Iam_bindings)"

text \<open>The members that \<^verbatim>\<open>SetIAMBinding\<close> does not skip.\<close>

definition named :: "string list \<Rightarrow> string list" where
  "named members = filter (\<lambda>m. trimSpace m \<noteq> []) members"

lemma named_simps [simp]:
  "named [] = []" "named (m # ms) = (if trimSpace m = [] then named ms else m # named ms)"
  by (simp_all add: named_def)

lemma insert_binding:
  "sqlInsert Iam_bindings [(C_project, p), (C_role, r), (C_member, m)] d s =
     (if grants s p r m then Inl (uniqueError Iam_bindings)
      else Inr (s(Iam_bindings := s Iam_bindings @
             [mkRow [(C_project, p), (C_role, r), (C_member, m)] d (s Iam_bindings)])))"
proof -
  let ?cs = "[(C_project, p), (C_role, r), (C_member, m)]"
  have "sameKey [C_project, C_role, C_member] (mkRow ?cs d rs) row \<longleftrightarrow> matches ?cs row" for rs row
    by (auto simp: sameKey_def keyVals_def matches_def split: option.splits)
  then have "keyClash Iam_bindings (mkRow ?cs d rs) (s Iam_bindings) \<longleftrightarrow> grants s p r m" for rs
    by (simp add: keyClash_def keysOf_def grants_def list_ex_iff)
  then show ?thesis by (simp add: sqlInsert_def Let_def fksHold_def)
qed

lemma grants_append:
  "s' Iam_bindings = s Iam_bindings @ [mkRow [(C_project, p), (C_role, r), (C_member, m)] d rs] \<Longrightarrow>
   grants s' p' r' m' \<longleftrightarrow> grants s p' r' m' \<or> p' = p \<and> r' = r \<and> m' = m"
  by (auto simp: grants_def agrees_def)

lemma insertMembers_grants:
  "case insertMembers p r ms s of
     Inl err \<Rightarrow> err = ErrAlreadyExists \<and> \<not> (distinct (named ms) \<and> (\<forall>m\<in>set (named ms). \<not> grants s p r m))
   | Inr s' \<Rightarrow> distinct (named ms) \<and> (\<forall>m\<in>set (named ms). \<not> grants s p r m) \<and>
       (\<forall>p' r' m'. grants s' p' r' m' \<longleftrightarrow> grants s p' r' m' \<or> p' = p \<and> r' = r \<and> m' \<in> set (named ms)) \<and>
       s'(Iam_bindings := []) = s(Iam_bindings := [])"
proof (induction ms arbitrary: s)
  case Nil
  then show ?case by simp
next
  case (Cons m ms)
  show ?case
  proof (cases "trimSpace m = []")
    case True
    with Cons.IH [of s] show ?thesis by (simp split: sum.splits)
  next
    case False
    show ?thesis
    proof (cases "grants s p r m")
      case True
      with False show ?thesis by (simp add: insert_binding)
    next
      case fresh: False
      define s1 where "s1 = s(Iam_bindings := s Iam_bindings @
        [mkRow [(C_project, p), (C_role, r), (C_member, m)]
           (marshalData [(''role'', JStr r), (''member'', JStr m)]) (s Iam_bindings)])"
      have g: "grants s1 p' r' m' \<longleftrightarrow> grants s p' r' m' \<or> p' = p \<and> r' = r \<and> m' = m" for p' r' m'
        by (rule grants_append) (simp add: s1_def)
      have step: "insertMembers p r (m # ms) s = insertMembers p r ms s1"
        using False fresh by (simp add: insert_binding s1_def)
      have rest: "s1(Iam_bindings := []) = s(Iam_bindings := [])" by (simp add: s1_def)
      show ?thesis
        using Cons.IH [of s1] False fresh rest unfolding step
        by (auto simp: g split: sum.splits)
    qed
  qed
qed

lemma bindings_childless: "f \<in> set (foreignKeys (migrate c)) \<Longrightarrow> fkParent f \<noteq> Iam_bindings"
  by (cases c) auto

text \<open>Setting a binding: all or nothing.\<close>

lemma SetIAMBinding_grants:
  assumes "r \<noteq> []"
  shows "case SetIAMBinding p r ms s of
     (Inl err, s') \<Rightarrow> err = ErrAlreadyExists \<and> s' = s \<and> \<not> distinct (named ms)
   | (Inr _, s') \<Rightarrow> distinct (named ms) \<and>
       (\<forall>p' r' m'. grants s' p' r' m' \<longleftrightarrow>
          (if p' = p \<and> r' = r then m' \<in> set (named ms) else grants s p' r' m')) \<and>
       s'(Iam_bindings := []) = s(Iam_bindings := [])"
proof -
  let ?conds = "[(C_project, p), (C_role, r)]"
  define tx where "tx = s(Iam_bindings := filter (\<lambda>row. \<not> matches ?conds row) (s Iam_bindings))"
  have del: "\<exists>n. sqlDelete Iam_bindings ?conds s = Inr (tx, n)"
    unfolding tx_def using sqlDelete_childless [where t = Iam_bindings] bindings_childless by blast
  have g: "grants tx p' r' m' \<longleftrightarrow> grants s p' r' m' \<and> \<not> (p' = p \<and> r' = r)" for p' r' m'
    by (auto simp: grants_def tx_def list_ex_iff matches_def)
  have "tx(Iam_bindings := []) = s(Iam_bindings := [])" by (simp add: tx_def)
  then show ?thesis
    using insertMembers_grants [where p = p and r = r and ms = ms and s = tx] assms del
    by (auto simp: SetIAMBinding_def g split: sum.splits)
qed

section \<open>Reading bindings\<close>

lemma binding_row:
  assumes "repo_inv s" "row \<in> set (s Iam_bindings)"
  shows "colOf row C_role = Some (getString (rdata row) ''role'')"
    and "colOf row C_member = Some (getString (rdata row) ''member'')"
proof -
  have nn: "colOf row C_role \<noteq> None" "colOf row C_member \<noteq> None"
    using db_okD(3) [OF repo_invD(1) [OF assms(1)], of Iam_bindings] assms(2) by (auto simp: nulls_ok_def)
  show "colOf row C_role = Some (getString (rdata row) ''role'')"
    using nn repo_inv_mirror [OF assms, of "''role''" C_role] by (auto simp: getString_def)
  show "colOf row C_member = Some (getString (rdata row) ''member'')"
    using nn repo_inv_mirror [OF assms, of "''member''" C_member] by (auto simp: getString_def)
qed

definition boundMembers :: "db \<Rightarrow> string \<Rightarrow> string \<Rightarrow> string list" where
  "boundMembers s p r = map (\<lambda>d. getString d ''member'') (GetIAMBinding s p r)"

lemma boundMembers_grants:
  assumes "repo_inv s"
  shows "m \<in> set (boundMembers s p r) \<longleftrightarrow> grants s p r m"
proof -
  have "m \<in> set (boundMembers s p r) \<longleftrightarrow>
      (\<exists>row\<in>set (s Iam_bindings). matches [(C_project, p), (C_role, r)] row \<and> getString (rdata row) ''member'' = m)"
    by (auto simp: boundMembers_def GetIAMBinding_def set_loadMany)
  also have "\<dots> \<longleftrightarrow> grants s p r m"
    using binding_row [OF assms] by (auto simp: grants_def list_ex_iff matches_def)
  finally show ?thesis .
qed

text \<open>The pairs of role and member that \<^verbatim>\<open>GetIAMPolicy\<close> groups.\<close>

definition itemPairs :: "obj list \<Rightarrow> (string \<times> string) list" where
  "itemPairs items = filter (\<lambda>(r, m). r \<noteq> [] \<and> m \<noteq> [])
     (map (\<lambda>d. (getString d ''role'', getString d ''member'')) items)"

lemma groupByRole_distinct:
  "distinct (map fst byRole) \<Longrightarrow> distinct (map fst (groupByRole items byRole))"
  by (induction items byRole rule: groupByRole.induct) (simp_all add: Let_def addToRole_def distinct_update)

definition listed :: "(string \<times> string list) list \<Rightarrow> string \<Rightarrow> string \<Rightarrow> bool" where
  "listed byRole r m \<longleftrightarrow> (case map_of byRole r of None \<Rightarrow> False | Some ms \<Rightarrow> m \<in> set ms)"

lemma listed_add: "listed (addToRole r0 m0 byRole) r m \<longleftrightarrow> listed byRole r m \<or> r = r0 \<and> m = m0"
  by (auto simp: listed_def addToRole_def split: option.splits)

lemma itemPairs_Cons:
  "set (itemPairs (item # items)) =
     (if getString item ''role'' = [] \<or> getString item ''member'' = [] then set (itemPairs items)
      else insert (getString item ''role'', getString item ''member'') (set (itemPairs items)))"
  by (simp add: itemPairs_def)

lemma groupByRole_member:
  "listed (groupByRole items byRole) r m \<longleftrightarrow> listed byRole r m \<or> (r, m) \<in> set (itemPairs items)"
proof (induction items byRole rule: groupByRole.induct)
  case (1 byRole)
  then show ?case by (simp add: itemPairs_def)
next
  case (2 item items byRole)
  show ?case
  proof (cases "getString item ''role'' = [] \<or> getString item ''member'' = []")
    case True
    then show ?thesis using 2(1) [OF refl refl True] unfolding itemPairs_Cons by (simp add: Let_def)
  next
    case False
    have "listed (groupByRole (item # items) byRole) r m \<longleftrightarrow>
        listed (groupByRole items (addToRole (getString item ''role'') (getString item ''member'') byRole)) r m"
      using False by (simp add: Let_def)
    then show ?thesis using 2(2) [OF refl refl False] False unfolding itemPairs_Cons listed_add by auto
  qed
qed

text \<open>No grant has an empty role or member.\<close>

definition grants_named :: "db \<Rightarrow> bool" where
  "grants_named s \<longleftrightarrow> (\<forall>p r m. grants s p r m \<longrightarrow> r \<noteq> [] \<and> m \<noteq> [])"

lemma repo_inv_grants_named: "repo_inv s \<Longrightarrow> grants_named s"
  by (auto simp: grants_named_def grants_def list_ex_iff matches_def dest: repo_inv_filed)

lemma itemPairs_grants:
  assumes "repo_inv s"
  shows "(r, m) \<in> set (itemPairs (ListIAMBindings s p)) \<longleftrightarrow> grants s p r m"
proof -
  have "(r, m) \<in> set (itemPairs (ListIAMBindings s p)) \<longleftrightarrow> r \<noteq> [] \<and> m \<noteq> [] \<and>
      (\<exists>row\<in>set (s Iam_bindings). matches [(C_project, p)] row \<and>
         getString (rdata row) ''role'' = r \<and> getString (rdata row) ''member'' = m)"
    by (auto simp: itemPairs_def ListIAMBindings_def set_loadMany)
  also have "\<dots> \<longleftrightarrow> r \<noteq> [] \<and> m \<noteq> [] \<and> grants s p r m"
    using binding_row [OF assms] by (auto simp: grants_def list_ex_iff matches_def)
  finally show ?thesis using repo_inv_grants_named [OF assms] by (auto simp: grants_named_def)
qed

section \<open>Policies\<close>

lemma listed_iff: "listed byRole r m \<longleftrightarrow> (\<exists>ms. map_of byRole r = Some ms \<and> m \<in> set ms)"
  by (simp add: listed_def split: option.split)

lemma policy_bindings:
  "objectEntries (arrayField (GetIAMPolicy s p) ''bindings'') =
     map (\<lambda>(r, ms). [(''role'', JStr r), (''members'', JArr (map JStr ms))]) (groupByRole (ListIAMBindings s p) [])"
proof -
  have "objectEntries (map (\<lambda>(r, ms). JObj [(''role'', JStr r), (''members'', JArr (map JStr ms))]) g) =
      map (\<lambda>(r, ms). [(''role'', JStr r), (''members'', JArr (map JStr ms))]) g" for g :: "(string \<times> string list) list"
    unfolding objectEntries_def by (induction g) (auto simp: List.map_filter_simps toMap_def)
  then show ?thesis by (simp add: arrayField_def toArr_def GetIAMPolicy_def)
qed

lemma currentRoles_eq:
  "currentRoles p s = filter (\<lambda>r. r \<noteq> []) (map fst (groupByRole (ListIAMBindings s p) []))"
proof -
  have "map (\<lambda>b. getString b ''role'') (map (\<lambda>(r, ms). [(''role'', JStr r), (''members'', JArr (map JStr ms))]) g) =
      map fst g" for g :: "(string \<times> string list) list"
    by (induction g) (auto simp: getString_def)
  then show ?thesis by (simp only: currentRoles_def policy_bindings)
qed

lemma currentRoles_cover:
  assumes "repo_inv s" "grants s p r m"
  shows "r \<in> set (currentRoles p s)"
proof -
  have "listed (groupByRole (ListIAMBindings s p) []) r m"
    using itemPairs_grants [OF assms(1)] assms(2) by (simp add: groupByRole_member)
  then obtain ms where "map_of (groupByRole (ListIAMBindings s p) []) r = Some ms" by (auto simp: listed_iff)
  then have "r \<in> fst ` set (groupByRole (ListIAMBindings s p) [])" by (force dest: map_of_SomeD)
  moreover have "r \<noteq> []" using repo_inv_grants_named [OF assms(1)] assms(2) by (auto simp: grants_named_def)
  ultimately show ?thesis by (simp add: currentRoles_eq)
qed

text \<open>The grants after a run of \<open>SetIAMBinding\<close> over a list of bindings.\<close>

lemma setBindings_grants:
  assumes "runAll (setBinding project) bs s = (completed, None, s')" "\<forall>b\<in>set bs. fst b \<noteq> []"
  shows "(\<forall>p r m. grants s' p r m \<longleftrightarrow>
           (if p = project
            then (case map_of (rev bs) r of Some ms \<Rightarrow> m \<in> set (named ms) | None \<Rightarrow> grants s p r m)
            else grants s p r m)) \<and>
         s'(Iam_bindings := []) = s(Iam_bindings := [])"
  using assms
proof (induction bs arbitrary: s completed)
  case Nil
  then show ?case by simp
next
  case (Cons b bs)
  obtain r0 ms0 where b: "b = (r0, ms0)" by (cases b)
  have sb: "setBinding project b s = SetIAMBinding project r0 ms0 s" by (simp add: setBinding_def b)
  obtain s1 c1 where step: "SetIAMBinding project r0 ms0 s = (Inr (), s1)"
    and rest: "runAll (setBinding project) bs s1 = (c1, None, s')"
    using Cons.prems(1) by (auto simp: sb split: sum.splits prod.splits)
  have "r0 \<noteq> []" using Cons.prems(2) by (simp add: b)
  from SetIAMBinding_grants [where r = r0 and p = project and ms = ms0 and s = s, OF this] step have g: "grants s1 p r m \<longleftrightarrow> (if p = project \<and> r = r0 then m \<in> set (named ms0) else grants s p r m)"
    and f: "s1(Iam_bindings := []) = s(Iam_bindings := [])" for p r m by auto
  have "\<forall>b\<in>set bs. fst b \<noteq> []" using Cons.prems(2) by simp
  from Cons.IH [OF rest this] show ?case
    unfolding g f by (auto simp: b map_add_def split: option.splits)
qed

text \<open>A run fails only at a binding that repeats a member.\<close>

lemma setBinding_outcome:
  assumes "fst b \<noteq> []"
  shows "distinct (named (snd b)) \<Longrightarrow> \<exists>s'. setBinding project b s = (Inr (), s')"
    and "\<not> distinct (named (snd b)) \<Longrightarrow> setBinding project b s = (Inl ErrAlreadyExists, s)"
  using SetIAMBinding_grants [OF assms, where p = project and ms = "snd b" and s = s]
  by (cases "SetIAMBinding project (fst b) (snd b) s"; auto simp: setBinding_def split: sum.splits)+

lemma setBindings_complete:
  "\<forall>b\<in>set bs. fst b \<noteq> [] \<and> distinct (named (snd b)) \<Longrightarrow>
   \<exists>s'. runAll (setBinding project) bs s = (bs, None, s')"
proof (induction bs arbitrary: s)
  case (Cons b bs)
  from Cons.prems obtain s1 where step: "setBinding project b s = (Inr (), s1)"
    using setBinding_outcome(1) [of b project s] by auto
  from Cons obtain s' where "runAll (setBinding project) bs s1 = (bs, None, s')" by fastforce
  with step show ?case by simp
qed simp

text \<open>The first half of a replacement takes the project's grants away.\<close>

lemma cleared:
  assumes inv: "repo_inv s"
  obtains c s1 where "runAll (setBinding project) (map (\<lambda>r. (r, [])) (currentRoles project s)) s = (c, None, s1)"
    and "\<And>p role m. grants s1 p role m \<longleftrightarrow> p \<noteq> project \<and> grants s p role m"
    and "s1(Iam_bindings := []) = s(Iam_bindings := [])"
proof -
  let ?clear = "map (\<lambda>r. (r, [] :: string list)) (currentRoles project s)"
  have roles: "\<forall>r\<in>set (currentRoles project s). r \<noteq> []" by (simp add: currentRoles_def)
  obtain s1 where clear: "runAll (setBinding project) ?clear s = (?clear, None, s1)"
    using setBindings_complete [of ?clear project s] roles by auto
  have "map_of (rev (map (\<lambda>r. (r, [])) rs)) x = (if x \<in> set rs then Some ([] :: string list) else None)"
    for rs and x :: string
    by (induction rs) (auto simp: map_add_def split: option.splits)
  then have "grants s1 p role m \<longleftrightarrow> p \<noteq> project \<and> grants s p role m" for p role m
    using setBindings_grants [OF clear] roles currentRoles_cover [OF inv] by auto
  moreover have "s1(Iam_bindings := []) = s(Iam_bindings := [])"
    using setBindings_grants [OF clear] roles by auto
  ultimately show thesis using that [OF clear] by blast
qed

text \<open>The second half grants what a list of bindings says, the last one of a role counting.\<close>

lemma replaced:
  assumes clear: "\<And>p role m. grants s1 p role m \<longleftrightarrow> p \<noteq> project \<and> grants s p role m"
      "s1(Iam_bindings := []) = s(Iam_bindings := [])"
    and set: "runAll (setBinding project) bs s1 = (c, None, s2)" "\<forall>b\<in>set bs. fst b \<noteq> []"
  shows "grants s2 p role m \<longleftrightarrow>
      (if p = project then (case map_of (rev bs) role of Some ms \<Rightarrow> m \<in> set (named ms) | None \<Rightarrow> False)
       else grants s p role m)"
    and "t = Iam_bindings \<or> s2 t = s t"
proof -
  show "grants s2 p role m \<longleftrightarrow>
      (if p = project then (case map_of (rev bs) role of Some ms \<Rightarrow> m \<in> set (named ms) | None \<Rightarrow> False)
       else grants s p role m)"
    using setBindings_grants [OF set] clear(1) by (simp split: option.split)
  have "s2(Iam_bindings := []) = s(Iam_bindings := [])"
    using setBindings_grants [OF set] clear(2) by simp
  from fun_cong [OF this, of t] show "t = Iam_bindings \<or> s2 t = s t" by (auto split: if_splits)
qed

lemma requested_named: "\<forall>b\<in>set (requestedBindings raw). fst b \<noteq> []"
  by (auto simp: requestedBindings_def)

section \<open>Properties\<close>

text \<open>Setting the members of a role is all or nothing: with two equal members it fails with
ErrAlreadyExists and changes nothing; otherwise it succeeds, the role's members read back as
exactly the given ones that are not blank, and every other role, project and table is as
before.\<close>

theorem iam_binding_set:
  assumes inv: "repo_inv s" and role: "role \<noteq> []"
  shows "case SetIAMBinding project role members s of
     (Inl err, s') \<Rightarrow> err = ErrAlreadyExists \<and> s' = s \<and> \<not> distinct (named members)
   | (Inr _, s') \<Rightarrow> distinct (named members) \<and>
       (\<forall>p r. set (boundMembers s' p r) =
          (if p = project \<and> r = role then set (named members) else set (boundMembers s p r))) \<and>
       (\<forall>t. t = Iam_bindings \<or> s' t = s t)"
proof -
  obtain res s' where run: "SetIAMBinding project role members s = (res, s')" by fastforce
  have inv': "repo_inv s'" using SetIAMBinding_inv [OF inv, of project role members] run by simp
  note spec = SetIAMBinding_grants [OF role, where p = project and ms = members and s = s, unfolded run]
  show ?thesis
  proof (cases res)
    case (Inl err)
    with spec run show ?thesis by simp
  next
    case (Inr u)
    with spec have d: "distinct (named members)"
      and g: "grants s' p r m \<longleftrightarrow>
        (if p = project \<and> r = role then m \<in> set (named members) else grants s p r m)"
      and f: "s'(Iam_bindings := []) = s(Iam_bindings := [])" for p r m by auto
    have "set (boundMembers s' p r) =
        (if p = project \<and> r = role then set (named members) else set (boundMembers s p r))" for p r
      by (rule set_eqI) (simp add: boundMembers_grants [OF inv'] boundMembers_grants [OF inv] g)
    moreover have "t = Iam_bindings \<or> s' t = s t" for t
      using fun_cong [OF f, of t] by (auto split: if_splits)
    ultimately show ?thesis using Inr run d by simp
  qed
qed

text \<open>Two roles of a project, for the examples.\<close>

definition bindingDb :: db where
  "bindingDb = snd (SetIAMBinding ''p'' ''viewer'' [''a'', ''b''] emptyDb)"

lemma bindingDb_inv: "repo_inv bindingDb"
  unfolding bindingDb_def by (rule SetIAMBinding_inv [OF repo_inv_empty])

lemmas binding_run =
  SetIAMBinding_def sqlDelete_childless [OF bindings_childless] insert_binding grants_def
  trimSpace_def trimWhile_def isSpace_def marshalData_def

lemma bindingDb_eval:
  "bindingDb = emptyDb(Iam_bindings :=
     [\<lparr>rowid = 1, rcols = [(C_project, ''p''), (C_role, ''viewer''), (C_member, ''a'')],
       rdata = [(''role'', JStr ''viewer''), (''member'', JStr ''a'')]\<rparr>,
      \<lparr>rowid = 2, rcols = [(C_project, ''p''), (C_role, ''viewer''), (C_member, ''b'')],
       rdata = [(''role'', JStr ''viewer''), (''member'', JStr ''b'')]\<rparr>])"
  by (simp add: bindingDb_def binding_run emptyDb_def mkRow_def nextRowid_def matches_def colOf_def numeral_2_eq_2)

theorem iam_binding_set_witness:
  "\<exists>s'. SetIAMBinding ''p'' ''viewer'' [''c''] bindingDb = (Inr (), s') \<and>
     set (boundMembers s' ''p'' ''viewer'') = {''c''}"
  using iam_binding_set [OF bindingDb_inv, where project = "''p''" and role = "''viewer''" and members = "[''c'']"]
  by (auto simp: trimSpace_def trimWhile_def isSpace_def split: prod.splits sum.splits)

text \<open>C26 Replacing the policy of a project: when it is answered with 200, the request had a policy,
and afterwards each role is granted to exactly the members that the last binding for it in
the request names (and to nobody when there is none), whatever was granted before; the other
projects and tables are as before, and the answer is what reading the policy gives.\<close>

theorem iam_policy_set:
  assumes inv: "repo_inv s"
    and run: "SetIAMPolicy_h project r s = (resp, s')" and success: "status resp = Some 200"
  shows "\<exists>body policy. decodeBody r = Inr body \<and> map_of (bodyFields body) ''policy'' = Some (JObj policy) \<and>
    (\<forall>p role m. grants s' p role m \<longleftrightarrow>
       (if p = project
        then (case map_of (rev (requestedBindings (arrayField policy ''bindings''))) role of
                Some ms \<Rightarrow> m \<in> set (named ms) | None \<Rightarrow> False)
        else grants s p role m)) \<and>
    (\<forall>t. t = Iam_bindings \<or> s' t = s t) \<and>
    GetIAMPolicy_h project s' = (resp, s')"
proof -
  from run success obtain body where body: "decodeBody r = Inr body"
    by (cases "decodeBody r") (auto simp: SetIAMPolicy_h_def withBody_def)
  with run success obtain policy where policy: "map_of (bodyFields body) ''policy'' = Some (JObj policy)"
    by (auto simp: SetIAMPolicy_h_def withBody_def toMap_def split: option.splits json.splits)
  obtain c1 s1 where clear: "runAll (setBinding project) (map (\<lambda>r. (r, [])) (currentRoles project s)) s = (c1, None, s1)"
    and clear': "\<And>p role m. grants s1 p role m \<longleftrightarrow> p \<noteq> project \<and> grants s p role m"
      "s1(Iam_bindings := []) = s(Iam_bindings := [])"
    by (rule cleared [OF inv, where project = project]) blast
  let ?bs = "requestedBindings (arrayField policy ''bindings'')"
  obtain c2 e2 s2 where set: "runAll (setBinding project) ?bs s1 = (c2, e2, s2)" by (metis prod.exhaust)
  have step: "SetIAMPolicy_h project r s = (case e2 of Some err \<Rightarrow> (writeDomainError err, s2)
      | None \<Rightarrow> (writeJSON 200 (JObj (padIAMPolicy (GetIAMPolicy s2 project))), s2))"
    by (simp add: SetIAMPolicy_h_def withBody_def body policy toMap_def clear set split: option.split)
  have e2: "e2 = None" using run success unfolding step by (auto split: option.splits)
  with run have s': "s' = s2" "resp = writeJSON 200 (JObj (padIAMPolicy (GetIAMPolicy s' project)))"
    unfolding step by auto
  note final = replaced [OF clear' set [unfolded e2] requested_named]
  show ?thesis
    using body policy final by (auto simp: GetIAMPolicy_h_def s')
qed

definition policyRequest :: "(string \<times> string list) list \<Rightarrow> request" where
  "policyRequest bs = requestWith (Value (JObj [(''policy'', JObj
     [(''bindings'', JArr (map (\<lambda>(r, ms).
         JObj [(''role'', JStr r), (''members'', JArr (map JStr ms))]) bs))])]))"

lemma bindingDb_roles: "currentRoles ''p'' bindingDb = [''viewer'']"
  by (simp add: currentRoles_eq ListIAMBindings_def loadMany_def sqlSelect_def bindingDb_eval orderKey_def
      colOf_def matches_def Let_def getString_def addToRole_def)

lemma bindingDb_cleared:
  "setBinding ''p'' (''viewer'', []) bindingDb = (Inr (), emptyDb)"
  by (simp add: setBinding_def binding_run bindingDb_eval emptyDb_def matches_def colOf_def fun_eq_iff)

lemma policy_example:
  "SetIAMPolicy_h ''p'' (policyRequest bs) bindingDb =
     (case runAll (setBinding ''p'') (requestedBindings (map (\<lambda>(r, ms).
         JObj [(''role'', JStr r), (''members'', JArr (map JStr ms))]) bs)) emptyDb of
        (_, Some err, s) \<Rightarrow> (writeDomainError err, s)
      | (_, None, s) \<Rightarrow> (writeJSON 200 (JObj (padIAMPolicy (GetIAMPolicy s ''p''))), s))"
  by (simp add: SetIAMPolicy_h_def policyRequest_def requestWith_def withBody_def decodeBody_def bodyFields_def
      toMap_def bindingDb_roles bindingDb_cleared arrayField_def toArr_def)

lemmas policy_run =
  requestedBindings_def objectEntries_def memberStrings_def List.map_filter_simps toMap_def arrayField_def
  toArr_def getString_def

theorem iam_policy_set_witness:
  "\<exists>resp s'. SetIAMPolicy_h ''p'' (policyRequest [(''editor'', [''c''])]) bindingDb = (resp, s') \<and>
     status resp = Some 200 \<and> \<not> grants s' ''p'' ''viewer'' ''a''"
proof -
  obtain resp s' where run: "SetIAMPolicy_h ''p'' (policyRequest [(''editor'', [''c''])]) bindingDb = (resp, s')"
    by (metis prod.exhaust)
  have ok: "status resp = Some 200"
    using arg_cong [OF run, of "\<lambda>x. status (fst x)"]
    by (simp add: policy_example policy_run) (simp add: setBinding_def binding_run emptyDb_def)
  from iam_policy_set [OF bindingDb_inv run ok] obtain policy where
    policy: "decodeBody (policyRequest [(''editor'', [''c''])]) = Inr (Some [(''policy'', JObj policy)])"
    and g: "\<not> grants s' ''p'' ''viewer'' ''a'' \<or>
      map_of (rev (requestedBindings (arrayField policy ''bindings''))) ''viewer'' \<noteq> None"
    by (auto simp: policyRequest_def requestWith_def decodeBody_def bodyFields_def split: option.splits)
  have "map_of (rev (requestedBindings (arrayField policy ''bindings''))) ''viewer'' = None"
    using policy by (auto simp: policyRequest_def requestWith_def decodeBody_def policy_run)
  with g run ok show ?thesis by auto
qed

text \<open>C37 A replacement that is refused still takes the previous policy away. When a binding of the
request names a member twice, the answer is 500; the project then has exactly the grants of the
bindings that the request lists before that one (each role those of its last such binding), and
none of those it had; the other projects and tables are as before.\<close>

theorem iam_policy_wiped:
  assumes inv: "repo_inv s"
    and body: "decodeBody r = Inr body" "map_of (bodyFields body) ''policy'' = Some (JObj policy)"
    and bs: "requestedBindings (arrayField policy ''bindings'') = pre @ (role0, members) # post"
    and pre: "\<forall>b\<in>set pre. distinct (named (snd b))" and dup: "\<not> distinct (named members)"
  shows "\<exists>resp s'. SetIAMPolicy_h project r s = (resp, s') \<and> status resp = Some 500 \<and>
    (\<forall>p role m. grants s' p role m \<longleftrightarrow>
       (if p = project
        then (case map_of (rev pre) role of Some ms \<Rightarrow> m \<in> set (named ms) | None \<Rightarrow> False)
        else grants s p role m)) \<and>
    (\<forall>t. t = Iam_bindings \<or> s' t = s t)"
proof -
  obtain c1 s1 where clear: "runAll (setBinding project) (map (\<lambda>r. (r, [])) (currentRoles project s)) s = (c1, None, s1)"
    and clear': "\<And>p role m. grants s1 p role m \<longleftrightarrow> p \<noteq> project \<and> grants s p role m"
      "s1(Iam_bindings := []) = s(Iam_bindings := [])"
    by (rule cleared [OF inv, where project = project]) blast
  have named: "\<forall>b\<in>set pre. fst b \<noteq> []" "role0 \<noteq> []"
    using requested_named [of "arrayField policy ''bindings''"] by (auto simp: bs)
  obtain s2 where set: "runAll (setBinding project) pre s1 = (pre, None, s2)"
    using setBindings_complete [of pre project s1] named(1) pre by auto
  have "setBinding project (role0, members) s2 = (Inl ErrAlreadyExists, s2)"
    using setBinding_outcome(2) [of "(role0, members)" project s2] named(2) dup by simp
  from runAll_stops [OF set this, of post]
  have "SetIAMPolicy_h project r s = (writeDomainError ErrAlreadyExists, s2)"
    by (simp add: SetIAMPolicy_h_def withBody_def body toMap_def clear bs)
  then show ?thesis using replaced [OF clear' set named(1)] by auto
qed

theorem iam_policy_wiped_witness:
  "grants bindingDb ''p'' ''viewer'' ''a'' \<and>
   (\<exists>resp s'. SetIAMPolicy_h ''p'' (policyRequest [(''viewer'', [''a'', ''a''])]) bindingDb = (resp, s') \<and>
      status resp = Some 500 \<and> \<not> grants s' ''p'' ''viewer'' ''a'')"
proof
  show "grants bindingDb ''p'' ''viewer'' ''a''"
    by (simp add: grants_def bindingDb_eval matches_def colOf_def)
  let ?b = "JObj [(''role'', JStr ''viewer''), (''members'', JArr [JStr ''a'', JStr ''a''])]"
  let ?policy = "[(''bindings'', JArr [?b])]"
  have "decodeBody (policyRequest [(''viewer'', [''a'', ''a''])]) = Inr (Some [(''policy'', JObj ?policy)])"
    "map_of (bodyFields (Some [(''policy'', JObj ?policy)])) ''policy'' = Some (JObj ?policy)"
    by (simp_all add: policyRequest_def requestWith_def decodeBody_def bodyFields_def)
  moreover have "requestedBindings (arrayField ?policy ''bindings'') = [] @ (''viewer'', [''a'', ''a'']) # []"
    by (simp add: policy_run)
  moreover have "\<not> distinct (named [''a'', ''a''])"
    by (simp add: trimSpace_def trimWhile_def isSpace_def)
  ultimately show "\<exists>resp s'. SetIAMPolicy_h ''p'' (policyRequest [(''viewer'', [''a'', ''a''])]) bindingDb = (resp, s') \<and>
      status resp = Some 500 \<and> \<not> grants s' ''p'' ''viewer'' ''a''"
    using iam_policy_wiped [OF bindingDb_inv, where project = "''p''" and pre = "[]" and post = "[]"] by fastforce
qed

text \<open>An e-mail belongs to one account at most, in one project.\<close>

interpretation iam_emails: keyed_table Iam_service_accounts "[C_email]"
  by unfold_locales (simp add: keysOf_def)

text \<open>C38 A key of a service account can be created under the path of any other project: whatever the
account, the project and the request, provided that the key's name is new, the creation is
answered with 200 and the key reads back under that project, although the project has no such
account. (The key's foreign key has the e-mail only.)\<close>

theorem sa_key_foreign_project:
  assumes inv: "repo_inv s" and owned: "GetServiceAccount s owner email = Inr account" "project \<noteq> owner"
    and fresh: "GetSAKey s (saKeyName project email (uuid c)) = Inl ErrNotFound"
  shows "\<exists>d s'. CreateSAKey_h e c project email r s = (writeJSON 200 (JObj d), s') \<and>
    GetSAKey_h project email (uuid c) s' = (writeJSON 200 (JObj d), s') \<and>
    getString d ''project'' = project \<and> getString d ''serviceAccountEmail'' = email \<and>
    GetServiceAccount s' project email = Inl ErrNotFound"
proof -
  let ?n = "saKeyName project email (uuid c)"
  let ?cs = "[(C_name, ?n), (C_project, project), (C_service_account_email, email)]"
  let ?data = "saKeyData c project email (case decodeBody r of Inl _ \<Rightarrow> [] | Inr m \<Rightarrow> bodyFields m)"
  let ?d = "marshalData (setDefault ''validAfterTime'' (nowRFC3339 e) (jset ''serviceAccountEmail'' (JStr email)
    (jset ''project'' (JStr project) (jset ''name'' (JStr ?n) ?data))))"
  obtain acc where acc: "acc \<in> set (s Iam_service_accounts)" "matches [(C_project, owner), (C_email, email)] acc"
    by (rule loadOne_Inr_row [OF owned(1) [unfolded GetServiceAccount_def]])
  have foreign: "GetServiceAccount s project email = Inl ErrNotFound"
  proof -
    have "\<not> matches [(C_project, project), (C_email, email)] q" if q: "q \<in> set (s Iam_service_accounts)" for q
    proof
      assume "matches [(C_project, project), (C_email, email)] q"
      then have "q = acc"
        using iam_emails.matches_unique [OF repo_invD(1) [OF inv] _ q _ acc(1), of "[(C_email, email)]"] acc(2)
        by (simp add: matches_def)
      with acc(2) \<open>matches _ q\<close> owned(2) show False by (simp add: matches_def)
    qed
    then show ?thesis by (simp add: GetServiceAccount_def loadOne_NotFound)
  qed
  have "\<forall>q\<in>set (s Iam_sa_keys). \<not> matches [(C_name, ?n)] q"
    using fresh by (simp add: GetSAKey_def loadOne_NotFound)
  then have "\<not> keyClash Iam_sa_keys (mkRow ?cs ?d (s Iam_sa_keys)) (s Iam_sa_keys)"
    by (auto simp: keyClash_def list_ex_iff keysOf_def sameKey_def keyVals_def matches_def split: option.splits)
  moreover have "fksHold s Iam_sa_keys (mkRow ?cs ?d (s Iam_sa_keys))"
    using acc by (auto simp: fksHold_def fkHolds_def list_ex_iff refersTo_def keyVals_def matches_def intro!: bexI [of _ acc])
  ultimately obtain s' where ins: "sqlInsert Iam_sa_keys ?cs ?d s = Inr s'"
    by (auto simp: sqlInsert_def Let_def)
  have get: "GetSAKey s' ?n = Inr ?d"
    unfolding GetSAKey_def
    by (rule iam_sa_keys_tbl.load_insert [OF repo_invD(1) [OF inv] _ ins]) (simp_all add: agrees_def)
  have "getString ?data ''name'' = ?n" "?n \<noteq> []" by (simp_all add: saKeyData_def Let_def saKeyName_def) (simp add: getString_def)
  with ins get have "CreateSAKey_h e c project email r s = (writeJSON 200 (JObj ?d), s')"
    by (simp add: CreateSAKey_h_def CreateSAKey_def Let_def respond_def)
  moreover have "GetServiceAccount s' project email = Inl ErrNotFound"
    using foreign sqlInsert_Inr(1) [OF ins] by (simp add: GetServiceAccount_def loadOne_def)
  ultimately show ?thesis
    using get by (auto simp: GetSAKey_h_def respond_def setDefault_def)
qed

theorem sa_key_foreign_project_witness:
  "\<exists>d s'. CreateSAKey_h env0 clock0 ''q'' saMail (requestWith EmptyBody) accountDb = (writeJSON 200 (JObj d), s') \<and>
     getString d ''project'' = ''q'' \<and> GetServiceAccount s' ''q'' saMail = Inl ErrNotFound"
proof -
  have "accountDb Iam_sa_keys = []"
    by (simp add: accountDb_def CreateServiceAccount_def GetServiceAccount_def saEmail_def sql_eval)
  then have "GetSAKey accountDb n = Inl ErrNotFound" for n by (simp add: GetSAKey_def loadOne_NotFound)
  moreover have "\<exists>a. GetServiceAccount accountDb ''p'' saMail = Inr a"
    by (simp add: accountDb_def CreateServiceAccount_def GetServiceAccount_def saEmail_def saMail_def sql_eval)
  ultimately show ?thesis
    using sa_key_foreign_project [OF accountDb_inv, of "''p''" saMail _ "''q''" clock0 env0 "requestWith EmptyBody"]
    by fastforce
qed

text \<open>C27 The IAM policy of a service account round-trips: after it has been set with 200, reading it
answers exactly as the setting did, and the policy keeps the given bindings (or an empty list
when none were given). Setting it leaves the database and the KMS policies alone.\<close>

theorem resource_policy_roundtrip:
  assumes "SetServiceAccountIamPolicy_h c project email r app = (resp, app')" "status resp = Some 200"
  shows "GetServiceAccountIamPolicy_h project email app' = resp \<and>
    repo app' = repo app \<and> kmsIamStor app' = kmsIamStor app \<and>
    (\<exists>body policy. decodeBody r = Inr body \<and> resp = Response 200 (JObj policy) \<and>
       map_of policy ''bindings'' =
         (case map_of (bodyFields (toMap (map_of (bodyFields body) ''policy''))) ''bindings'' of
            None \<Rightarrow> Some (JArr []) | Some v \<Rightarrow> Some v))"
proof -
  from assms obtain body where body: "decodeBody r = Inr body"
    by (cases "decodeBody r") (auto simp: SetServiceAccountIamPolicy_h_def withBody_def)
  let ?policy = "filledPolicy c (bodyFields (toMap (map_of (bodyFields body) ''policy'')))"
  have run: "resp = writeJSON 200 (JObj ?policy)"
    "app' = app\<lparr>saIamStor := (saIamStor app)(saIamKey project email := Some ?policy)\<rparr>"
    using assms(1) by (auto simp: SetServiceAccountIamPolicy_h_def withBody_def body Let_def)
  have "map_of (filledPolicy c p) ''bindings'' =
      (case map_of p ''bindings'' of None \<Rightarrow> Some (JArr []) | Some v \<Rightarrow> Some v)" for p
    by (simp add: filledPolicy_def Let_def setMissing_def hasField_def split: option.split)
  then show ?thesis
    using run by (simp add: GetServiceAccountIamPolicy_h_def body writeJSON_def)
qed

theorem resource_policy_roundtrip_witness:
  "\<exists>resp app'. SetServiceAccountIamPolicy_h clock0 ''p'' saMail (policyRequest []) (appWith accountDb) = (resp, app') \<and>
     status resp = Some 200 \<and> GetServiceAccountIamPolicy_h ''p'' saMail app' = resp"
proof -
  obtain resp app' where run:
    "SetServiceAccountIamPolicy_h clock0 ''p'' saMail (policyRequest []) (appWith accountDb) = (resp, app')"
    by (metis prod.exhaust)
  have "status resp = Some 200"
    using arg_cong [OF run, of "\<lambda>x. status (fst x)"]
    by (simp add: SetServiceAccountIamPolicy_h_def policyRequest_def requestWith_def withBody_def decodeBody_def Let_def)
  with resource_policy_roundtrip [OF run] run show ?thesis by blast
qed

end
