(* ===== verification/H_Operations.thy ===== *)
theory H_Operations
  imports App Repo_Compute
begin

text \<open>
  What the Compute Engine handlers share: the operation that every change returns
  (\<^verbatim>\<open>newOperation\<close> of \<^verbatim>\<open>src/handlers/compute.go\<close>, which also stores it), and the shapes
  in which a creation, a patch, a deletion and a listing are answered. The operation draws
  its own values from the clock and the random sources (\<open>co\<close>, \<open>eo\<close>), beside those of the
  handler (\<open>c\<close>, \<open>e\<close>).
\<close>

section \<open>Operations\<close>

text \<open>
  The fields that \<^verbatim>\<open>StoreOperation\<close> assigns to the operation it is given; the caller's map
  is the same one, so the answer shows them whether or not the statement succeeds.
\<close>

definition storedOperation :: "env \<Rightarrow> string \<Rightarrow> string \<Rightarrow> obj \<Rightarrow> obj" where
  "storedOperation e project name op =
     setDefault ''insertTime'' (nowRFC3339 e)
       (setDefault ''id'' (numericID e)
         (jset ''project'' (JStr project)
           (jset ''name'' (JStr (if name = [] then newID e else name)) op)))"

lemma StoreOperation_data:
  "StoreOperation e project zone region name op s = (Inr d, s') \<Longrightarrow> d = storedOperation e project name op"
  by (auto simp: StoreOperation_def storedOperation_def Let_def split: if_splits sum.splits)

definition operationLink :: "string \<Rightarrow> string \<Rightarrow> string \<Rightarrow> string \<Rightarrow> string \<Rightarrow> string" where
  "operationLink h project zone region name =
     (if zone \<noteq> [] then
        selfLink h [''compute'', ''v1'', ''projects'', project, ''zones'', zone, ''operations'', name]
      else if region \<noteq> [] then
        selfLink h [''compute'', ''v1'', ''projects'', project, ''regions'', region, ''operations'', name]
      else selfLink h [''compute'', ''v1'', ''projects'', project, ''global'', ''operations'', name])"

definition operationName :: "clock \<Rightarrow> string" where
  "operationName co = ''operation-'' @ uuid co"

definition operationBody ::
  "clock \<Rightarrow> string \<Rightarrow> string \<Rightarrow> string \<Rightarrow> string \<Rightarrow> string \<Rightarrow> string \<Rightarrow> obj" where
  "operationBody co h project zone region targetLink opType =
     (let op =
        [(''kind'', JStr ''compute#operation''),
         (''id'', JStr (handlerNumericID co)),
         (''name'', JStr (operationName co)),
         (''status'', JStr ''DONE''),
         (''targetLink'', JStr targetLink),
         (''operationType'', JStr opType),
         (''progress'', JNum 100),
         (''startTime'', JStr (nowLocal co)),
         (''endTime'', JStr (nowLocal co)),
         (''selfLink'', JStr (operationLink h project zone region (operationName co)))];
          op = (if zone \<noteq> [] then jset ''zone'' (JStr (zoneSelfLink h project zone)) op else op)
      in if region \<noteq> [] then jset ''region'' (JStr (regionSelfLink h project region)) op else op)"

text \<open>A failure to store the operation is logged and otherwise ignored.\<close>

definition newOperation ::
  "clock \<Rightarrow> env \<Rightarrow> string \<Rightarrow> string \<Rightarrow> string \<Rightarrow> string \<Rightarrow> string \<Rightarrow> string \<Rightarrow> db \<Rightarrow> obj \<times> db" where
  "newOperation co eo h project zone region targetLink opType s =
     (let name = operationName co;
          op = operationBody co h project zone region targetLink opType
      in (storedOperation eo project name op, snd (StoreOperation eo project zone region name op s)))"

lemma newOperation_runs [keeps_runs]:
  "runs s0 s \<Longrightarrow> runs s0 (snd (newOperation co eo h project zone region targetLink opType s))"
  by (simp add: newOperation_def Let_def keeps_runs)

lemma operationName_not_Nil [simp]: "operationName co \<noteq> []"
  by (simp add: operationName_def)

section \<open>Answers\<close>

text \<open>A body that must name the resource. A nil map has no name, so it is refused as well.\<close>

definition withNamedBody ::
  "request \<Rightarrow> (string \<Rightarrow> obj \<Rightarrow> response \<times> 's) \<Rightarrow> 's \<Rightarrow> response \<times> 's" where
  "withNamedBody r k s =
     withBody r (\<lambda>body.
       let name = getString (bodyFields body) ''name'' in
       if name = [] then (missingField ''name'', s) else k name (bodyFields body)) s"

text \<open>
  The operation about the item that the repository returned, or the error it returned.
\<close>

definition respondOperation ::
  "(go_error \<Rightarrow> response) \<Rightarrow> (obj \<Rightarrow> db \<Rightarrow> obj \<times> db) \<Rightarrow> obj result \<Rightarrow> response \<times> db" where
  "respondOperation onError operation res =
     (case res of
        (Inl err, s) \<Rightarrow> (onError err, s)
      | (Inr item, s) \<Rightarrow> (case operation item s of (op, s') \<Rightarrow> (writeJSON 200 (JObj op), s')))"

text \<open>A deletion reads the item first, for the link of the operation.\<close>

definition deleteFound ::
  "(go_error + obj) \<Rightarrow> (db \<Rightarrow> unit result) \<Rightarrow> (obj \<Rightarrow> db \<Rightarrow> obj \<times> db) \<Rightarrow> db_handler" where
  "deleteFound found del operation s =
     (case found of
        Inl err \<Rightarrow> (writeDomainError err, s)
      | Inr item \<Rightarrow>
          (case del s of
             (Inl err, s') \<Rightarrow> (writeDomainError err, s')
           | (Inr _, s') \<Rightarrow> (case operation item s' of (op, s'') \<Rightarrow> (writeJSON 200 (JObj op), s''))))"

definition itemsList :: "string \<Rightarrow> obj list \<Rightarrow> response" where
  "itemsList kind items =
     writeJSON 200 (JObj ((''kind'', JStr kind) #
       (if items \<noteq> [] then [(''items'', JArr (map JObj items))] else [])))"

definition linkedList :: "string \<Rightarrow> string \<Rightarrow> obj list \<Rightarrow> response" where
  "linkedList kind link items =
     writeJSON 200 (JObj ((''kind'', JStr kind) # (''selfLink'', JStr link) #
       (if items \<noteq> [] then [(''items'', JArr (map JObj items))] else [])))"

text \<open>These shapes act by repository operations when their parts do.\<close>

lemma withBody_runs:
  "runs s0 s \<Longrightarrow> (\<And>m. runs s0 (snd (k m))) \<Longrightarrow> runs s0 (snd (withBody r k s))"
  by (simp add: withBody_def split: sum.split)

lemma assignable_runs:
  "runs s0 s \<Longrightarrow> (\<And>d. runs s0 (snd (k d))) \<Longrightarrow> runs s0 (snd (assignable m k s))"
  by (simp add: assignable_def split: option.split)

lemma withNamedBody_runs:
  "runs s0 s \<Longrightarrow> (\<And>name body. runs s0 (snd (k name body))) \<Longrightarrow> runs s0 (snd (withNamedBody r k s))"
  unfolding withNamedBody_def by (rule withBody_runs) (simp_all add: Let_def)

lemma respondOperation_runs:
  assumes "runs s0 (snd res)" "\<And>item s. runs s0 s \<Longrightarrow> runs s0 (snd (operation item s))"
  shows "runs s0 (snd (respondOperation onError operation res))"
  using assms(1) assms(2) [of "snd res"]
  by (auto simp: respondOperation_def split: prod.split sum.split dest!: arg_cong [where f = snd])

lemma deleteFound_runs:
  assumes "runs s0 s" "\<And>s. runs s0 s \<Longrightarrow> runs s0 (snd (del s))"
    and "\<And>item s. runs s0 s \<Longrightarrow> runs s0 (snd (operation item s))"
  shows "runs s0 (snd (deleteFound found del operation s))"
  using assms(1) assms(2) [of s] assms(3) [of "snd (del s)"]
  by (auto simp: deleteFound_def split: prod.split sum.split dest!: arg_cong [where f = snd])

lemmas shapes_runs = withBody_runs assignable_runs withNamedBody_runs respondOperation_runs deleteFound_runs

text \<open>The operation can be read back by its name.\<close>

lemma newOperation_stored:
  assumes inv: "repo_inv s"
    and run: "newOperation co eo h project zone region targetLink opType s = (op, s')"
  shows "GetOperation s' p n =
      (if p = project \<and> n = operationName co then Inr (marshalData op) else GetOperation s p n)"
    and "t \<noteq> Operations \<Longrightarrow> s' t = s t"
    and "op = storedOperation eo project (operationName co) (operationBody co h project zone region targetLink opType)"
proof -
  let ?b = "operationBody co h project zone region targetLink opType"
  obtain d s1 where st: "StoreOperation eo project zone region (operationName co) ?b s = (Inr d, s1)"
    and up: "\<forall>p n. GetOperation s1 p n =
       (if p = project \<and> n = operationName co then Inr (marshalData d) else GetOperation s p n)"
    and fr: "\<forall>t. t \<noteq> Operations \<longrightarrow> s1 t = s t"
    using StoreOperation_upsert [OF inv operationName_not_Nil, of eo project zone region co ?b] by blast
  have "d = storedOperation eo project (operationName co) ?b" by (rule StoreOperation_data [OF st])
  with run st have "s1 = s'" "op = d" by (simp_all add: newOperation_def Let_def)
  with up fr \<open>d = _\<close> show "GetOperation s' p n =
      (if p = project \<and> n = operationName co then Inr (marshalData op) else GetOperation s p n)"
    "t \<noteq> Operations \<Longrightarrow> s' t = s t" "op = storedOperation eo project (operationName co) ?b" by simp_all
qed

end
