(* ===== verification/H_Network.thy ===== *)
theory H_Network
  imports H_Operations Repo_Network
begin

text \<open>
  The handlers of networks, subnetworks and firewalls of \<^verbatim>\<open>src/handlers/network.go\<close>.
\<close>

section \<open>Networks\<close>

definition CreateNetwork_h :: "env \<Rightarrow> clock \<Rightarrow> env \<Rightarrow> clock \<Rightarrow> string \<Rightarrow> request \<Rightarrow> db_handler" where
  "CreateNetwork_h e c eo co project r s =
     withNamedBody r (\<lambda>name body.
       let body = jset ''kind'' (JStr ''compute#network'') body;
           body = setMissing ''autoCreateSubnetworks'' (JBool True) body;
           body = jset ''selfLink'' (JStr (selfLink (host r)
             [''compute'', ''v1'', ''projects'', project, ''global'', ''networks'', name])) body;
           body = jset ''creationTimestamp'' (JStr (nowLocal c)) body
       in respondOperation writeCreateError
            (\<lambda>created. newOperation co eo (host r) project [] [] (getString created ''selfLink'') ''insert'')
            (CreateNetwork e project body s)) s"

definition GetNetwork_h :: "string \<Rightarrow> string \<Rightarrow> db_handler" where
  "GetNetwork_h project name s = (respond writeDomainError (GetNetwork s project name), s)"

definition ListNetworks_h :: "string \<Rightarrow> request \<Rightarrow> db_handler" where
  "ListNetworks_h project r s =
     (linkedList ''compute#networkList''
        (selfLink (host r) [''compute'', ''v1'', ''projects'', project, ''global'', ''networks''])
        (ListNetworks s project), s)"

definition UpdateNetwork_h :: "env \<Rightarrow> clock \<Rightarrow> string \<Rightarrow> string \<Rightarrow> request \<Rightarrow> db_handler" where
  "UpdateNetwork_h eo co project name r s =
     withBody r (\<lambda>patch.
       respondOperation writeDomainError
         (\<lambda>updated. newOperation co eo (host r) project [] [] (getString updated ''selfLink'') ''patch'')
         (UpdateNetwork project name (bodyFields patch) s)) s"

definition DeleteNetwork_h :: "env \<Rightarrow> clock \<Rightarrow> string \<Rightarrow> string \<Rightarrow> request \<Rightarrow> db_handler" where
  "DeleteNetwork_h eo co project name r s =
     deleteFound (GetNetwork s project name) (DeleteNetwork project name)
       (\<lambda>item. newOperation co eo (host r) project [] [] (getString item ''selfLink'') ''delete'') s"

section \<open>Subnetworks\<close>

definition CreateSubnetwork_h :: "env \<Rightarrow> clock \<Rightarrow> env \<Rightarrow> clock \<Rightarrow> string \<Rightarrow> string \<Rightarrow> request \<Rightarrow> db_handler" where
  "CreateSubnetwork_h e c eo co project region r s =
     withNamedBody r (\<lambda>name body.
       let body = jset ''kind'' (JStr ''compute#subnetwork'') body;
           body = jset ''gatewayAddress'' (JStr ''10.0.0.1'') body;
           body = jset ''fingerprint'' (JStr (randomHex c)) body;
           body = jset ''selfLink'' (JStr (selfLink (host r)
             [''compute'', ''v1'', ''projects'', project, ''regions'', region, ''subnetworks'', name])) body;
           body = jset ''region'' (JStr (regionSelfLink (host r) project region)) body;
           body = jset ''creationTimestamp'' (JStr (nowLocal c)) body
       in respondOperation writeCreateError
            (\<lambda>created. newOperation co eo (host r) project [] region (getString created ''selfLink'') ''insert'')
            (CreateSubnetwork e project region body s)) s"

definition GetSubnetwork_h :: "string \<Rightarrow> string \<Rightarrow> string \<Rightarrow> db_handler" where
  "GetSubnetwork_h project region name s = (respond writeDomainError (GetSubnetwork s project region name), s)"

definition ListSubnetworks_h :: "string \<Rightarrow> string \<Rightarrow> request \<Rightarrow> db_handler" where
  "ListSubnetworks_h project region r s =
     (linkedList ''compute#subnetworkList''
        (selfLink (host r) [''compute'', ''v1'', ''projects'', project, ''regions'', region, ''subnetworks''])
        (ListSubnetworks s project region), s)"

definition UpdateSubnetwork_h :: "env \<Rightarrow> clock \<Rightarrow> string \<Rightarrow> string \<Rightarrow> string \<Rightarrow> request \<Rightarrow> db_handler" where
  "UpdateSubnetwork_h eo co project region name r s =
     withBody r (\<lambda>patch.
       respondOperation writeDomainError
         (\<lambda>updated. newOperation co eo (host r) project [] region (getString updated ''selfLink'') ''patch'')
         (UpdateSubnetwork project region name (bodyFields patch) s)) s"

definition DeleteSubnetwork_h :: "env \<Rightarrow> clock \<Rightarrow> string \<Rightarrow> string \<Rightarrow> string \<Rightarrow> request \<Rightarrow> db_handler" where
  "DeleteSubnetwork_h eo co project region name r s =
     deleteFound (GetSubnetwork s project region name) (DeleteSubnetwork project region name)
       (\<lambda>item. newOperation co eo (host r) project [] region (getString item ''selfLink'') ''delete'') s"

section \<open>Firewalls\<close>

definition CreateFirewall_h :: "env \<Rightarrow> clock \<Rightarrow> env \<Rightarrow> clock \<Rightarrow> string \<Rightarrow> request \<Rightarrow> db_handler" where
  "CreateFirewall_h e c eo co project r s =
     withNamedBody r (\<lambda>name body.
       let body = jset ''kind'' (JStr ''compute#firewall'') body;
           body = setMissing ''direction'' (JStr ''INGRESS'') body;
           body = jset ''selfLink'' (JStr (selfLink (host r)
             [''compute'', ''v1'', ''projects'', project, ''global'', ''firewalls'', name])) body;
           body = jset ''creationTimestamp'' (JStr (nowLocal c)) body
       in respondOperation writeCreateError
            (\<lambda>created. newOperation co eo (host r) project [] [] (getString created ''selfLink'') ''insert'')
            (CreateFirewall e project body s)) s"

definition GetFirewall_h :: "string \<Rightarrow> string \<Rightarrow> db_handler" where
  "GetFirewall_h project name s = (respond writeDomainError (GetFirewall s project name), s)"

definition ListFirewalls_h :: "string \<Rightarrow> request \<Rightarrow> db_handler" where
  "ListFirewalls_h project r s =
     (linkedList ''compute#firewallList''
        (selfLink (host r) [''compute'', ''v1'', ''projects'', project, ''global'', ''firewalls''])
        (ListFirewalls s project), s)"

definition UpdateFirewall_h :: "env \<Rightarrow> clock \<Rightarrow> string \<Rightarrow> string \<Rightarrow> request \<Rightarrow> db_handler" where
  "UpdateFirewall_h eo co project name r s =
     withBody r (\<lambda>patch.
       respondOperation writeDomainError
         (\<lambda>updated. newOperation co eo (host r) project [] [] (getString updated ''selfLink'') ''patch'')
         (UpdateFirewall project name (bodyFields patch) s)) s"

definition DeleteFirewall_h :: "env \<Rightarrow> clock \<Rightarrow> string \<Rightarrow> string \<Rightarrow> request \<Rightarrow> db_handler" where
  "DeleteFirewall_h eo co project name r s =
     deleteFound (GetFirewall s project name) (DeleteFirewall project name)
       (\<lambda>item. newOperation co eo (host r) project [] [] (getString item ''selfLink'') ''delete'') s"

section \<open>The handlers act by repository operations\<close>

lemma Network_handlers_runs [keeps_runs]:
  assumes "runs s0 s"
  shows "runs s0 (snd (CreateNetwork_h e c eo co project r s))"
    and "runs s0 (snd (UpdateNetwork_h eo co project name r s))"
    and "runs s0 (snd (DeleteNetwork_h eo co project name r s))"
    and "runs s0 (snd (CreateSubnetwork_h e c eo co project region r s))"
    and "runs s0 (snd (UpdateSubnetwork_h eo co project region name r s))"
    and "runs s0 (snd (DeleteSubnetwork_h eo co project region name r s))"
    and "runs s0 (snd (CreateFirewall_h e c eo co project r s))"
    and "runs s0 (snd (UpdateFirewall_h eo co project name r s))"
    and "runs s0 (snd (DeleteFirewall_h eo co project name r s))"
  unfolding CreateNetwork_h_def UpdateNetwork_h_def DeleteNetwork_h_def CreateSubnetwork_h_def
    UpdateSubnetwork_h_def DeleteSubnetwork_h_def CreateFirewall_h_def UpdateFirewall_h_def
    DeleteFirewall_h_def Let_def
  by (intro shapes_runs keeps_runs assms; assumption)+

end
