(* ===== verification/H_Router.thy ===== *)
theory H_Router
  imports H_Operations Repo_Network
begin

text \<open>
  The handlers of routers and of their NAT gateways of \<^verbatim>\<open>src/handlers/router.go\<close>.
\<close>

section \<open>Routers\<close>

definition defaultAsn :: json where
  "defaultAsn = JNum 64514"

definition defaultBgp :: "obj \<Rightarrow> obj" where
  "defaultBgp body =
     (let body = setMissing ''bgp'' (JObj [(''asn'', defaultAsn)]) body
      in case toMap (map_of body ''bgp'') of
           None \<Rightarrow> body
         | Some bgp \<Rightarrow> jset ''bgp'' (JObj (setMissing ''asn'' defaultAsn bgp)) body)"

definition CreateRouter_h :: "env \<Rightarrow> clock \<Rightarrow> env \<Rightarrow> clock \<Rightarrow> string \<Rightarrow> string \<Rightarrow> request \<Rightarrow> db_handler" where
  "CreateRouter_h e c eo co project region r s =
     withNamedBody r (\<lambda>name body.
       let body = jset ''kind'' (JStr ''compute#router'') body;
           body = jset ''selfLink'' (JStr (selfLink (host r)
             [''compute'', ''v1'', ''projects'', project, ''regions'', region, ''routers'', name])) body;
           body = jset ''region'' (JStr (regionSelfLink (host r) project region)) body;
           body = jset ''creationTimestamp'' (JStr (nowLocal c)) body;
           body = defaultBgp body
       in respondOperation writeCreateError
            (\<lambda>created. newOperation co eo (host r) project [] region (getString created ''selfLink'') ''insert'')
            (CreateRouter e project region body s)) s"

definition GetRouter_h :: "string \<Rightarrow> string \<Rightarrow> string \<Rightarrow> db_handler" where
  "GetRouter_h project region name s = (respond writeDomainError (GetRouter s project region name), s)"

definition ListRouters_h :: "string \<Rightarrow> string \<Rightarrow> request \<Rightarrow> db_handler" where
  "ListRouters_h project region r s =
     (linkedList ''compute#routerList''
        (selfLink (host r) [''compute'', ''v1'', ''projects'', project, ''regions'', region, ''routers''])
        (ListRouters s project region), s)"

definition UpdateRouter_h :: "env \<Rightarrow> clock \<Rightarrow> string \<Rightarrow> string \<Rightarrow> string \<Rightarrow> request \<Rightarrow> db_handler" where
  "UpdateRouter_h eo co project region name r s =
     withBody r (\<lambda>patch.
       respondOperation writeDomainError
         (\<lambda>updated. newOperation co eo (host r) project [] region (getString updated ''selfLink'') ''patch'')
         (UpdateRouter project region name (bodyFields patch) s)) s"

definition DeleteRouter_h :: "env \<Rightarrow> clock \<Rightarrow> string \<Rightarrow> string \<Rightarrow> string \<Rightarrow> request \<Rightarrow> db_handler" where
  "DeleteRouter_h eo co project region name r s =
     deleteFound (GetRouter s project region name) (DeleteRouter project region name)
       (\<lambda>item. newOperation co eo (host r) project [] region (getString item ''selfLink'') ''delete'') s"

section \<open>NAT gateways\<close>

definition defaultSourceRanges :: "obj \<Rightarrow> obj" where
  "defaultSourceRanges body =
     setMissing ''sourceSubnetworkIpRangesToNat'' (JStr ''ALL_SUBNETWORKS_ALL_IP_RANGES'') body"

definition CreateRouterNAT_h ::
  "env \<Rightarrow> env \<Rightarrow> clock \<Rightarrow> string \<Rightarrow> string \<Rightarrow> string \<Rightarrow> request \<Rightarrow> db_handler" where
  "CreateRouterNAT_h e eo co project region routerName r s =
     withNamedBody r (\<lambda>name body.
       let body = defaultSourceRanges body;
           body = jset ''selfLink'' (JStr (selfLink (host r)
             [''compute'', ''v1'', ''projects'', project, ''regions'', region, ''routers'', routerName,
              ''nats'', name])) body
       in respondOperation writeCreateError
            (\<lambda>created. newOperation co eo (host r) project [] region (getString created ''selfLink'') ''insert'')
            (CreateRouterNAT e project region routerName body s)) s"

definition ListRouterNATs_h :: "string \<Rightarrow> string \<Rightarrow> string \<Rightarrow> db_handler" where
  "ListRouterNATs_h project region routerName s =
     (writeJSON 200 (JObj
        [(''items'', JArr (map JObj (ListRouterNATs s project region routerName)))]), s)"

definition GetRouterNAT_h :: "string \<Rightarrow> string \<Rightarrow> string \<Rightarrow> string \<Rightarrow> db_handler" where
  "GetRouterNAT_h project region routerName name s =
     (respond writeDomainError (GetRouterNAT s project region routerName name), s)"

text \<open>The patch is assigned to, so the body \<^verbatim>\<open>null\<close> aborts the handler.\<close>

definition UpdateRouterNAT_h ::
  "env \<Rightarrow> clock \<Rightarrow> string \<Rightarrow> string \<Rightarrow> string \<Rightarrow> string \<Rightarrow> request \<Rightarrow> db_handler" where
  "UpdateRouterNAT_h eo co project region routerName name r s =
     withBody r (\<lambda>patch. assignable patch (\<lambda>patch.
       respondOperation writeDomainError
         (\<lambda>updated. newOperation co eo (host r) project [] region (getString updated ''selfLink'') ''patch'')
         (UpdateRouterNAT project region routerName name (defaultSourceRanges patch) s)) s) s"

definition DeleteRouterNAT_h ::
  "env \<Rightarrow> clock \<Rightarrow> string \<Rightarrow> string \<Rightarrow> string \<Rightarrow> string \<Rightarrow> request \<Rightarrow> db_handler" where
  "DeleteRouterNAT_h eo co project region routerName name r s =
     deleteFound (GetRouterNAT s project region routerName name) (DeleteRouterNAT project region routerName name)
       (\<lambda>item. newOperation co eo (host r) project [] region (getString item ''selfLink'') ''delete'') s"

section \<open>The handlers act by repository operations\<close>

lemma Router_handlers_runs [keeps_runs]:
  assumes "runs s0 s"
  shows "runs s0 (snd (CreateRouter_h e c eo co project region r s))"
    and "runs s0 (snd (UpdateRouter_h eo co project region name r s))"
    and "runs s0 (snd (DeleteRouter_h eo co project region name r s))"
    and "runs s0 (snd (CreateRouterNAT_h e eo co project region routerName r s))"
    and "runs s0 (snd (UpdateRouterNAT_h eo co project region routerName name r s))"
    and "runs s0 (snd (DeleteRouterNAT_h eo co project region routerName name r s))"
  unfolding CreateRouter_h_def UpdateRouter_h_def DeleteRouter_h_def
    CreateRouterNAT_h_def UpdateRouterNAT_h_def DeleteRouterNAT_h_def Let_def
  by (intro shapes_runs keeps_runs assms; assumption)+

end
