(* ===== verification/H_Compute.thy ===== *)
theory H_Compute
  imports H_Operations
begin

text \<open>
  The Compute Engine handlers of \<^verbatim>\<open>src/handlers/compute.go\<close>: instances, disks, regional
  addresses, the three readers of operations and the static descriptors of zones and images.
\<close>

section \<open>Defaults of an instance\<close>

text \<open>The entries of an array that are objects get defaults that may depend on their index.\<close>

fun defaultEntries :: "(nat \<Rightarrow> (string \<times> json) list) \<Rightarrow> nat \<Rightarrow> json list \<Rightarrow> json list" where
  "defaultEntries defaults i [] = []"
| "defaultEntries defaults i (v # vs) =
     (case toMap (Some v) of
        None \<Rightarrow> v
      | Some m \<Rightarrow> JObj (setAllMissing (defaults i) m)) # defaultEntries defaults (Suc i) vs"

definition defaultArray :: "string \<Rightarrow> (nat \<Rightarrow> (string \<times> json) list) \<Rightarrow> obj \<Rightarrow> obj" where
  "defaultArray k defaults body =
     (case toArr (map_of body k) of
        None \<Rightarrow> body
      | Some xs \<Rightarrow> jset k (JArr (defaultEntries defaults 0 xs)) body)"

definition instanceDefaults :: "clock \<Rightarrow> (string \<times> json) list" where
  "instanceDefaults c =
     [(''id'', JStr (handlerNumericID c)),
      (''fingerprint'', JStr ''abcd1234efgh''),
      (''cpuPlatform'', JStr ''Intel Broadwell''),
      (''canIpForward'', JBool False),
      (''deletionProtection'', JBool False),
      (''startRestricted'', JBool False),
      (''labelFingerprint'', JStr ''labelfp1234''),
      (''labels'', JObj []),
      (''params'', JObj [])]"

definition metadataDefaults :: "(string \<times> json) list" where
  "metadataDefaults =
     [(''fingerprint'', JStr ''metafp1234''), (''items'', JArr []), (''kind'', JStr ''compute#metadata'')]"

definition tagsDefaults :: "(string \<times> json) list" where
  "tagsDefaults = [(''fingerprint'', JStr ''tagsfp1234''), (''items'', JArr [])]"

definition schedulingDefaults :: "(string \<times> json) list" where
  "schedulingDefaults =
     [(''automaticRestart'', JBool True), (''onHostMaintenance'', JStr ''MIGRATE''),
      (''preemptible'', JBool False), (''provisioningModel'', JStr ''STANDARD'')]"

definition shieldedInstance :: obj where
  "shieldedInstance =
     [(''enableSecureBoot'', JBool False), (''enableVtpm'', JBool True),
      (''enableIntegrityMonitoring'', JBool True)]"

definition nicDefaults :: "nat \<Rightarrow> (string \<times> json) list" where
  "nicDefaults i =
     [(''fingerprint'', JStr (''nic'' @ natStr i @ ''fp'')),
      (''kind'', JStr ''compute#networkInterface''),
      (''name'', JStr (''nic'' @ natStr i)),
      (''stackType'', JStr ''IPV4_ONLY'')]"

definition diskDefaults :: "nat \<Rightarrow> (string \<times> json) list" where
  "diskDefaults i =
     [(''kind'', JStr ''compute#attachedDisk''), (''mode'', JStr ''READ_WRITE''),
      (''interface'', JStr ''SCSI''), (''type'', JStr ''PERSISTENT'')] @
     (if i = 0 then [(''boot'', JBool True)] else [])"

definition populateComputeInstanceDefaults :: "clock \<Rightarrow> obj \<Rightarrow> obj" where
  "populateComputeInstanceDefaults c body =
     (let body = setAllMissing (instanceDefaults c) body;
          body = defaultSub ''metadata'' metadataDefaults body;
          body = defaultSub ''tags'' tagsDefaults body;
          body = defaultSub ''scheduling'' schedulingDefaults body;
          body = setUnlessMap ''shieldedInstanceConfig'' shieldedInstance body;
          body = defaultArray ''networkInterfaces'' nicDefaults body
      in defaultArray ''disks'' diskDefaults body)"

section \<open>Instances and disks\<close>

definition CreateInstance_h :: "env \<Rightarrow> clock \<Rightarrow> env \<Rightarrow> clock \<Rightarrow> string \<Rightarrow> string \<Rightarrow> request \<Rightarrow> db_handler" where
  "CreateInstance_h e c eo co project zone r s =
     withNamedBody r (\<lambda>name body.
       let body = jset ''kind'' (JStr ''compute#instance'') body;
           body = jset ''selfLink'' (JStr (selfLink (host r)
             [''compute'', ''v1'', ''projects'', project, ''zones'', zone, ''instances'', name])) body;
           body = jset ''status'' (JStr ''RUNNING'') body;
           body = jset ''creationTimestamp'' (JStr (nowLocal c)) body;
           body = jset ''zone'' (JStr (zoneSelfLink (host r) project zone)) body;
           body = populateComputeInstanceDefaults c body
       in respondOperation writeCreateError
            (\<lambda>created. newOperation co eo (host r) project zone [] (getString created ''selfLink'') ''insert'')
            (CreateInstance e project zone body s)) s"

definition GetInstance_h :: "string \<Rightarrow> string \<Rightarrow> string \<Rightarrow> db_handler" where
  "GetInstance_h project zone name s = (respond writeDomainError (GetInstance s project zone name), s)"

definition ListInstances_h :: "string \<Rightarrow> string \<Rightarrow> request \<Rightarrow> db_handler" where
  "ListInstances_h project zone r s =
     (linkedList ''compute#instanceList''
        (selfLink (host r) [''compute'', ''v1'', ''projects'', project, ''zones'', zone, ''instances''])
        (ListInstances s project zone), s)"

definition DeleteInstance_h :: "env \<Rightarrow> clock \<Rightarrow> string \<Rightarrow> string \<Rightarrow> string \<Rightarrow> request \<Rightarrow> db_handler" where
  "DeleteInstance_h eo co project zone name r s =
     deleteFound (GetInstance s project zone name) (DeleteInstance project zone name)
       (\<lambda>item. newOperation co eo (host r) project zone [] (getString item ''selfLink'') ''delete'') s"

definition CreateDisk_h :: "env \<Rightarrow> clock \<Rightarrow> env \<Rightarrow> clock \<Rightarrow> string \<Rightarrow> string \<Rightarrow> request \<Rightarrow> db_handler" where
  "CreateDisk_h e c eo co project zone r s =
     withNamedBody r (\<lambda>name body.
       let body = jset ''kind'' (JStr ''compute#disk'') body;
           body = jset ''selfLink'' (JStr (selfLink (host r)
             [''compute'', ''v1'', ''projects'', project, ''zones'', zone, ''disks'', name])) body;
           body = jset ''status'' (JStr ''READY'') body;
           body = jset ''creationTimestamp'' (JStr (nowLocal c)) body;
           body = jset ''zone'' (JStr (zoneSelfLink (host r) project zone)) body
       in respondOperation writeCreateError
            (\<lambda>created. newOperation co eo (host r) project zone [] (getString created ''selfLink'') ''insert'')
            (CreateDisk e project zone body s)) s"

definition GetDisk_h :: "string \<Rightarrow> string \<Rightarrow> string \<Rightarrow> db_handler" where
  "GetDisk_h project zone name s = (respond writeDomainError (GetDisk s project zone name), s)"

definition ListDisks_h :: "string \<Rightarrow> string \<Rightarrow> request \<Rightarrow> db_handler" where
  "ListDisks_h project zone r s =
     (linkedList ''compute#diskList''
        (selfLink (host r) [''compute'', ''v1'', ''projects'', project, ''zones'', zone, ''disks''])
        (ListDisks s project zone), s)"

definition DeleteDisk_h :: "env \<Rightarrow> clock \<Rightarrow> string \<Rightarrow> string \<Rightarrow> string \<Rightarrow> request \<Rightarrow> db_handler" where
  "DeleteDisk_h eo co project zone name r s =
     deleteFound (GetDisk s project zone name) (DeleteDisk project zone name)
       (\<lambda>item. newOperation co eo (host r) project zone [] (getString item ''selfLink'') ''delete'') s"

section \<open>Addresses\<close>

definition randomIPv4Octet :: "clock \<Rightarrow> nat \<Rightarrow> nat" where
  "randomIPv4Octet c i = drawn c i mod 256"

definition randomAddress :: "string \<Rightarrow> clock \<Rightarrow> string" where
  "randomAddress net c =
     net @ ''.'' @ natStr (randomIPv4Octet c 0) @ ''.'' @ natStr (randomIPv4Octet c 1) @ ''.'' @
       natStr (randomIPv4Octet c 2)"

definition CreateAddress_h :: "env \<Rightarrow> clock \<Rightarrow> env \<Rightarrow> clock \<Rightarrow> string \<Rightarrow> string \<Rightarrow> request \<Rightarrow> db_handler" where
  "CreateAddress_h e c eo co project region r s =
     withNamedBody r (\<lambda>name body.
       let body = jset ''kind'' (JStr ''compute#address'') body;
           body = jset ''selfLink'' (JStr (selfLink (host r)
             [''compute'', ''v1'', ''projects'', project, ''regions'', region, ''addresses'', name])) body;
           body = jset ''status'' (JStr ''RESERVED'') body;
           body = jset ''creationTimestamp'' (JStr (nowLocal c)) body;
           body = jset ''region'' (JStr (regionSelfLink (host r) project region)) body;
           body = setMissing ''address'' (JStr (randomAddress ''34'' c)) body
       in respondOperation writeCreateError
            (\<lambda>created. newOperation co eo (host r) project [] region (getString created ''selfLink'') ''insert'')
            (CreateAddress e project region body s)) s"

definition GetAddress_h :: "string \<Rightarrow> string \<Rightarrow> string \<Rightarrow> db_handler" where
  "GetAddress_h project region name s = (respond writeDomainError (GetAddress s project region name), s)"

definition ListAddresses_h :: "string \<Rightarrow> string \<Rightarrow> request \<Rightarrow> db_handler" where
  "ListAddresses_h project region r s =
     (linkedList ''compute#addressList''
        (selfLink (host r) [''compute'', ''v1'', ''projects'', project, ''regions'', region, ''addresses''])
        (ListAddresses s project region), s)"

definition DeleteAddress_h :: "env \<Rightarrow> clock \<Rightarrow> string \<Rightarrow> string \<Rightarrow> string \<Rightarrow> request \<Rightarrow> db_handler" where
  "DeleteAddress_h eo co project region name r s =
     deleteFound (GetAddress s project region name) (DeleteAddress project region name)
       (\<lambda>item. newOperation co eo (host r) project [] region (getString item ''selfLink'') ''delete'') s"

section \<open>Reading operations\<close>

definition notFoundResponse :: response where
  "notFoundResponse = writeGCPError 404 ''The resource was not found'' ''notFound''"

definition GetZoneOperation_h :: "string \<Rightarrow> string \<Rightarrow> string \<Rightarrow> request \<Rightarrow> db_handler" where
  "GetZoneOperation_h project zone name r s =
     (case GetOperation s project name of
        Inl err \<Rightarrow> (writeDomainError err, s)
      | Inr op \<Rightarrow>
          if getString op ''zone'' \<noteq> [] \<and> getString op ''zone'' \<noteq> zone \<and>
             getString op ''zone'' \<noteq> zoneSelfLink (host r) project zone
          then (notFoundResponse, s)
          else (writeJSON 200 (JObj op), s))"

definition GetRegionOperation_h :: "string \<Rightarrow> string \<Rightarrow> string \<Rightarrow> request \<Rightarrow> db_handler" where
  "GetRegionOperation_h project region name r s =
     (case GetOperation s project name of
        Inl err \<Rightarrow> (writeDomainError err, s)
      | Inr op \<Rightarrow>
          if getString op ''region'' \<noteq> [] \<and> getString op ''region'' \<noteq> region \<and>
             getString op ''region'' \<noteq> regionSelfLink (host r) project region
          then (notFoundResponse, s)
          else (writeJSON 200 (JObj op), s))"

definition GetGlobalOperation_h :: "string \<Rightarrow> string \<Rightarrow> db_handler" where
  "GetGlobalOperation_h project name s = (respond writeDomainError (GetOperation s project name), s)"

section \<open>Static descriptors\<close>

definition GetZone_h :: "string \<Rightarrow> string \<Rightarrow> db_handler" where
  "GetZone_h project zone s =
     (writeJSON 200 (JObj
        [(''kind'', JStr ''compute#zone''),
         (''name'', JStr zone),
         (''region'', JStr (''projects/'' @ project @ ''/regions/'' @ regionFromZone_h zone)),
         (''status'', JStr ''UP''),
         (''selfLink'', JStr (''projects/'' @ project @ ''/zones/'' @ zone))]), s)"

definition staticImageDescriptor :: "string \<Rightarrow> string \<Rightarrow> obj" where
  "staticImageDescriptor project img =
     [(''kind'', JStr ''compute#image''),
      (''name'', JStr img),
      (''status'', JStr ''READY''),
      (''selfLink'', JStr (''projects/'' @ project @ ''/global/images/'' @ img)),
      (''diskSizeGb'', JStr ''10''),
      (''sourceType'', JStr ''RAW''),
      (''creationTimestamp'', JStr ''2025-01-01T00:00:00Z'')]"

definition GetGlobalImage_h :: "string \<Rightarrow> string \<Rightarrow> db_handler" where
  "GetGlobalImage_h project img s = (writeJSON 200 (JObj (staticImageDescriptor project img)), s)"

definition GetGlobalImageFromFamily_h :: "string \<Rightarrow> string \<Rightarrow> db_handler" where
  "GetGlobalImageFromFamily_h project family s =
     (writeJSON 200 (JObj (staticImageDescriptor project (family @ ''-latest''))), s)"

section \<open>The handlers act by repository operations\<close>

lemma Compute_handlers_runs [keeps_runs]:
  assumes "runs s0 s"
  shows "runs s0 (snd (CreateInstance_h e c eo co project zone r s))"
    and "runs s0 (snd (DeleteInstance_h eo co project zone name r s))"
    and "runs s0 (snd (CreateDisk_h e c eo co project zone r s))"
    and "runs s0 (snd (DeleteDisk_h eo co project zone name r s))"
    and "runs s0 (snd (CreateAddress_h e c eo co project region r s))"
    and "runs s0 (snd (DeleteAddress_h eo co project region name r s))"
  unfolding CreateInstance_h_def DeleteInstance_h_def CreateDisk_h_def DeleteDisk_h_def
    CreateAddress_h_def DeleteAddress_h_def Let_def
  by (intro shapes_runs keeps_runs assms; assumption)+

section \<open>Facts about defaults\<close>

lemma map_of_defaultArray:
  "map_of (defaultArray k defaults body) k' =
     (if k' = k then
        (case toArr (map_of body k) of
           None \<Rightarrow> map_of body k
         | Some xs \<Rightarrow> Some (JArr (defaultEntries defaults 0 xs)))
      else map_of body k')"
  by (simp add: defaultArray_def split: option.split)

end
