(* ===== verification/Net_Ip.thy ===== *)
theory Net_Ip
  imports Go_Strings
begin

text \<open>
  \<^verbatim>\<open>net.ParseIP(s) != nil\<close> of Go's standard library, which \<^verbatim>\<open>src/handlers/loadbalancer.go\<close>
  uses to tell a literal address from a reference: four decimal octets without leading zeros,
  or up to eight groups of at most four hexadecimal digits with at most one \<^verbatim>\<open>::\<close>, the last
  two of which may be written as an IPv4 address. A zone (\<^verbatim>\<open>%eth0\<close>) is refused.
\<close>

section \<open>IPv4\<close>

definition isDigit :: "char \<Rightarrow> bool" where
  "isDigit c \<longleftrightarrow> CHR ''0'' \<le> c \<and> c \<le> CHR ''9''"

definition isOctet :: "string \<Rightarrow> bool" where
  "isOctet p \<longleftrightarrow> p \<noteq> [] \<and> list_all isDigit p \<and> (length p = 1 \<or> hd p \<noteq> CHR ''0'') \<and>
     length p \<le> 3 \<and> strNat p 0 \<le> 255"

definition parsesIPv4 :: "string \<Rightarrow> bool" where
  "parsesIPv4 s \<longleftrightarrow>
     (let parts = splitOn (CHR ''.'') s in length parts = 4 \<and> list_all isOctet parts)"

section \<open>IPv6\<close>

definition isHexDigit :: "char \<Rightarrow> bool" where
  "isHexDigit c \<longleftrightarrow>
     isDigit c \<or> (CHR ''a'' \<le> c \<and> c \<le> CHR ''f'') \<or> (CHR ''A'' \<le> c \<and> c \<le> CHR ''F'')"

text \<open>
  The loop over the groups: \<open>left\<close> is how many groups are still free and \<open>ellipsis\<close> whether
  \<^verbatim>\<open>::\<close> has been seen. At the end of the text the free groups are those that \<^verbatim>\<open>::\<close> stands
  for, at least one.
\<close>

definition groupsEnd :: "nat \<Rightarrow> bool \<Rightarrow> bool" where
  "groupsEnd left ellipsis \<longleftrightarrow> (ellipsis \<longleftrightarrow> left \<noteq> 0)"

fun parsesGroups :: "nat \<Rightarrow> bool \<Rightarrow> string \<Rightarrow> bool" where
  "parsesGroups 0 ellipsis s \<longleftrightarrow> s = [] \<and> \<not> ellipsis"
| "parsesGroups (Suc left) ellipsis s \<longleftrightarrow>
     (let off = length (takeWhile isHexDigit s) in
      1 \<le> off \<and> off \<le> 4 \<and>
      (case drop off s of
         [] \<Rightarrow> groupsEnd left ellipsis
       | c # more \<Rightarrow>
           if c = CHR ''.'' then
             (ellipsis \<or> left = 1) \<and> 1 \<le> left \<and> parsesIPv4 s \<and> groupsEnd (left - 1) ellipsis
           else
             c = CHR '':'' \<and>
             (case more of
                [] \<Rightarrow> False
              | c' # more' \<Rightarrow>
                  if c' = CHR '':'' then
                    \<not> ellipsis \<and> (if more' = [] then groupsEnd left True else parsesGroups left True more')
                  else parsesGroups left ellipsis more)))"

definition parsesIPv6 :: "string \<Rightarrow> bool" where
  "parsesIPv6 s \<longleftrightarrow>
     (if hasPrefix s ''::'' then drop 2 s = [] \<or> parsesGroups 8 True (drop 2 s)
      else parsesGroups 8 False s)"

section \<open>ParseIP\<close>

definition parsesIP :: "string \<Rightarrow> bool" where
  "parsesIP s \<longleftrightarrow>
     CHR ''%'' \<notin> set s \<and>
     (case dropWhile (\<lambda>c. c \<noteq> CHR ''.'' \<and> c \<noteq> CHR '':'') s of
        [] \<Rightarrow> False
      | c # _ \<Rightarrow> if c = CHR ''.'' then parsesIPv4 s else parsesIPv6 s)"

section \<open>Facts\<close>

text \<open>A text with neither a dot nor a colon is not an address.\<close>

lemma parsesIP_needs_dot_or_colon:
  "CHR ''.'' \<notin> set s \<Longrightarrow> CHR '':'' \<notin> set s \<Longrightarrow> \<not> parsesIP s"
proof -
  assume "CHR ''.'' \<notin> set s" "CHR '':'' \<notin> set s"
  then have "dropWhile (\<lambda>c. c \<noteq> CHR ''.'' \<and> c \<noteq> CHR '':'') s = []"
    unfolding dropWhile_eq_Nil_conv by blast
  then show ?thesis unfolding parsesIP_def by (simp only: list.case simp_thms)
qed

text \<open>The decimal printing of a byte is an octet, and four of them make an address.\<close>

lemma natStr_octet:
  assumes "n < 256"
  shows "isOctet (natStr n)"
proof -
  have dig: "list_all isDigit (natStr n)"
    using natStr_digits [of _ n]
    by (fastforce simp: list_all_iff isDigit_def less_eq_char_def)
  have ne: "natStr n \<noteq> []" by (subst natStr.simps) simp
  have "length (natStr n) = 1 \<or> hd (natStr n) \<noteq> CHR ''0''" and "length (natStr n) \<le> 3"
  proof -
    consider "n < 10" | "10 \<le> n" "n < 100" | "100 \<le> n" by linarith
    then show "length (natStr n) = 1 \<or> hd (natStr n) \<noteq> CHR ''0''"
    proof cases
      case 1 then show ?thesis by (subst (1 2) natStr.simps) simp
    next
      case 2
      then have "natStr n = [digit (n div 10), digit (n mod 10)]"
        by (subst natStr.simps, subst natStr.simps) auto
      moreover have "n div 10 \<in> {1..9}" using 2 by auto
      ultimately show ?thesis using digit_value [of "n div 10"] by auto
    next
      case 3
      then have "natStr n = [digit (n div 10 div 10), digit (n div 10 mod 10), digit (n mod 10)]"
        using assms by (subst natStr.simps, subst natStr.simps, subst natStr.simps) auto
      moreover have "n div 10 div 10 \<in> {1..9}" using 3 assms by auto
      ultimately show ?thesis using digit_value [of "n div 10 div 10"] by auto
    qed
    show "length (natStr n) \<le> 3"
      using assms by (subst natStr.simps, subst natStr.simps, subst natStr.simps) auto
  qed
  with dig ne assms show ?thesis by (simp add: isOctet_def strNat_natStr)
qed

lemma natStr_not_dot: "c \<in> set (natStr n) \<Longrightarrow> c \<noteq> CHR ''.'' \<and> c \<noteq> CHR '':'' \<and> c \<noteq> CHR ''%''"
  using natStr_digits [of c n] by auto

lemma dotted_parses:
  assumes "a < 256" "b < 256" "c < 256" "d < 256"
  shows "parsesIP (natStr a @ ''.'' @ natStr b @ ''.'' @ natStr c @ ''.'' @ natStr d)"
    (is "parsesIP ?s")
proof -
  have nd: "CHR ''.'' \<notin> set (natStr n)" "CHR ''%'' \<notin> set (natStr n)" for n
    using natStr_not_dot by blast+
  have "splitOn (CHR ''.'') ?s = [natStr a, natStr b, natStr c, natStr d]"
    using nd by (simp add: splitOn_append splitOn_none)
  then have "parsesIPv4 ?s" using natStr_octet assms by (simp add: parsesIPv4_def)
  moreover have "dropWhile (\<lambda>c. c \<noteq> CHR ''.'' \<and> c \<noteq> CHR '':'') ?s
      = ''.'' @ natStr b @ ''.'' @ natStr c @ ''.'' @ natStr d"
    using natStr_not_dot by (subst dropWhile_append2) auto
  ultimately show ?thesis using nd by (simp add: parsesIP_def)
qed

end
