(* ===== verification/H_LoadBalancer.thy ===== *)
theory H_LoadBalancer
  imports H_Compute Repo_LoadBalancer Repo_Network Net_Ip
begin

text \<open>
  The load balancing handlers of \<^verbatim>\<open>src/handlers/loadbalancer.go\<close>: the checks of references
  between resources, the seven kinds of resource and \<^verbatim>\<open>setLabels\<close>. A check yields the
  refusal that the handler writes, or nothing.
\<close>

section \<open>Checks of references\<close>

text \<open>
  \<^verbatim>\<open>%q\<close>: Go's quoting. The strings come from decoded JSON, so bytes from 128 on belong to
  UTF-8 sequences; they are kept as they are, which is what \<^verbatim>\<open>%q\<close> does for printable ones.
\<close>

definition lowerHex :: "nat \<Rightarrow> char" where
  "lowerHex n = (if n < 10 then digit n else char_of (87 + n))"

definition quoteChar :: "char \<Rightarrow> string" where
  "quoteChar c =
     (let n = of_char c :: nat in
      if n = 34 \<or> n = 92 then [CHR 0x5C, c]
      else if n = 7 then [CHR 0x5C, CHR ''a'']
      else if n = 8 then [CHR 0x5C, CHR ''b'']
      else if n = 12 then [CHR 0x5C, CHR ''f'']
      else if n = 10 then [CHR 0x5C, CHR ''n'']
      else if n = 13 then [CHR 0x5C, CHR ''r'']
      else if n = 9 then [CHR 0x5C, CHR ''t'']
      else if n = 11 then [CHR 0x5C, CHR ''v'']
      else if n < 32 \<or> n = 127 then [CHR 0x5C, CHR ''x'', lowerHex (n div 16), lowerHex (n mod 16)]
      else [c])"

definition quoted :: "string \<Rightarrow> string" where
  "quoted s = [CHR 0x22] @ concat (map quoteChar s) @ [CHR 0x22]"

definition invalidReference :: "string \<Rightarrow> string \<Rightarrow> response" where
  "invalidReference field ref =
     writeGCPError 400 (''Invalid '' @ field @ '' reference '' @ quoted ref) ''invalid''"

type_synonym getter = "string \<Rightarrow> string \<Rightarrow> go_error + obj"

definition checkFound :: "(go_error + obj) \<Rightarrow> response option" where
  "checkFound found = (case found of Inl err \<Rightarrow> Some (writeDomainError err) | Inr _ \<Rightarrow> None)"

definition validateScalarFK ::
  "obj \<Rightarrow> string \<Rightarrow> string \<Rightarrow> string \<Rightarrow> getter \<Rightarrow> response option" where
  "validateScalarFK body field project collection get =
     (let ref = getString body field in
      if ref = [] then None
      else
        case computeRefName ref project collection of
          None \<Rightarrow> Some (invalidReference field ref)
        | Some target \<Rightarrow> checkFound (get project target))"

text \<open>The entries that are not strings, or empty, are passed over.\<close>

definition refString :: "json \<Rightarrow> string" where
  "refString v = (case v of JStr s \<Rightarrow> s | _ \<Rightarrow> [])"

fun validateRefs ::
  "string \<Rightarrow> string \<Rightarrow> string \<Rightarrow> getter \<Rightarrow> json list \<Rightarrow> response option" where
  "validateRefs field project collection get [] = None"
| "validateRefs field project collection get (raw # refs) =
     (if refString raw = [] then validateRefs field project collection get refs
      else
        case computeRefName (refString raw) project collection of
          None \<Rightarrow> Some (invalidReference field (refString raw))
        | Some target \<Rightarrow>
            (case checkFound (get project target) of
               Some resp \<Rightarrow> Some resp
             | None \<Rightarrow> validateRefs field project collection get refs))"

definition validateListFK ::
  "obj \<Rightarrow> string \<Rightarrow> string \<Rightarrow> string \<Rightarrow> getter \<Rightarrow> response option" where
  "validateListFK body field project collection get =
     (case toArr (map_of body field) of
        None \<Rightarrow> None
      | Some refs \<Rightarrow> validateRefs field project collection get refs)"

definition validateForwardingRuleIPAddress :: "obj \<Rightarrow> string \<Rightarrow> db \<Rightarrow> response option" where
  "validateForwardingRuleIPAddress body project s =
     (let ref = getString body ''IPAddress'' in
      if ref = [] then None
      else if parsesIP ref then None
      else
        case computeRefName ref project ''addresses'' of
          None \<Rightarrow> Some (invalidReference ''IPAddress'' ref)
        | Some name \<Rightarrow> checkFound (GetGlobalAddress s project name))"

definition validateForwardingRuleTarget :: "obj \<Rightarrow> string \<Rightarrow> db \<Rightarrow> response option" where
  "validateForwardingRuleTarget body project s =
     (let ref = getString body ''target'' in
      if ref = [] then None
      else
        case computeRefName ref project ''targetHttpsProxies'' of
          Some name \<Rightarrow> checkFound (GetTargetHTTPSProxy s project name)
        | None \<Rightarrow>
            Some (writeGCPError 400
              (''Invalid target reference '' @ quoted ref @
               '' (only same-project targetHttpsProxies are supported)'') ''invalid''))"

text \<open>The handler goes on when no check refuses; the first refusal is the answer.\<close>

fun ifValid :: "response option list \<Rightarrow> response \<times> 's \<Rightarrow> 's \<Rightarrow> response \<times> 's" where
  "ifValid [] next s = next"
| "ifValid (chk # checks) next s = (case chk of Some resp \<Rightarrow> (resp, s) | None \<Rightarrow> ifValid checks next s)"

lemma ifValid_runs [intro]:
  "runs s0 s \<Longrightarrow> runs s0 (snd next) \<Longrightarrow> runs s0 (snd (ifValid checks next s))"
  by (induction checks) (auto split: option.split)

definition globalResourceLink :: "string \<Rightarrow> string \<Rightarrow> string \<Rightarrow> string \<Rightarrow> string" where
  "globalResourceLink h project collection name =
     selfLink h [''compute'', ''v1'', ''projects'', project, ''global'', collection, name]"


section \<open>Global addresses\<close>

definition CreateGlobalAddress_h :: "env \<Rightarrow> clock \<Rightarrow> env \<Rightarrow> clock \<Rightarrow> string \<Rightarrow> request \<Rightarrow> db_handler" where
  "CreateGlobalAddress_h e c eo co project r s =
     withNamedBody r (\<lambda>name body.
       let body = jset ''kind'' (JStr ''compute#address'') body;
           body = jset ''selfLink'' (JStr (globalResourceLink (host r) project ''addresses'' name)) body;
           body = jset ''creationTimestamp'' (JStr (nowLocal c)) body;
           body = setMissing ''address'' (JStr (randomAddress ''34'' c)) body
       in respondOperation writeCreateError
              (\<lambda>created. newOperation co eo (host r) project [] [] (getString created ''selfLink'') ''insert'')
              (CreateGlobalAddress e project body s)) s"

definition ListGlobalAddresses_h :: "string \<Rightarrow> db_handler" where
  "ListGlobalAddresses_h project s = (itemsList ''compute#addressList'' (ListGlobalAddresses s project), s)"

definition GetGlobalAddress_h :: "string \<Rightarrow> string \<Rightarrow> db_handler" where
  "GetGlobalAddress_h project name s = (respond writeDomainError (GetGlobalAddress s project name), s)"

definition DeleteGlobalAddress_h :: "env \<Rightarrow> clock \<Rightarrow> string \<Rightarrow> string \<Rightarrow> request \<Rightarrow> db_handler" where
  "DeleteGlobalAddress_h eo co project name r s =
     deleteFound (GetGlobalAddress s project name) (DeleteGlobalAddress project name)
       (\<lambda>item. newOperation co eo (host r) project [] [] (getString item ''selfLink'') ''delete'') s"

section \<open>Health checks\<close>

definition CreateHealthCheck_h :: "env \<Rightarrow> clock \<Rightarrow> env \<Rightarrow> clock \<Rightarrow> string \<Rightarrow> request \<Rightarrow> db_handler" where
  "CreateHealthCheck_h e c eo co project r s =
     withNamedBody r (\<lambda>name body.
       let body = jset ''kind'' (JStr ''compute#healthCheck'') body;
           body = jset ''selfLink'' (JStr (globalResourceLink (host r) project ''healthChecks'' name)) body;
           body = jset ''creationTimestamp'' (JStr (nowLocal c)) body;
           body = setMissing ''checkIntervalSec'' (JNum 5) body;
           body = setMissing ''timeoutSec'' (JNum 5) body;
           body = setMissing ''unhealthyThreshold'' (JNum 2) body;
           body = setMissing ''healthyThreshold'' (JNum 2) body
       in respondOperation writeCreateError
              (\<lambda>created. newOperation co eo (host r) project [] [] (getString created ''selfLink'') ''insert'')
              (CreateHealthCheck e project body s)) s"

definition ListHealthChecks_h :: "string \<Rightarrow> db_handler" where
  "ListHealthChecks_h project s = (itemsList ''compute#healthCheckList'' (ListHealthChecks s project), s)"

definition GetHealthCheck_h :: "string \<Rightarrow> string \<Rightarrow> db_handler" where
  "GetHealthCheck_h project name s = (respond writeDomainError (GetHealthCheck s project name), s)"

definition UpdateHealthCheck_h :: "env \<Rightarrow> clock \<Rightarrow> string \<Rightarrow> string \<Rightarrow> request \<Rightarrow> db_handler" where
  "UpdateHealthCheck_h eo co project name r s =
     withBody r (\<lambda>body.
       let patch = bodyFields body in
       respondOperation writeDomainError
         (\<lambda>updated. newOperation co eo (host r) project [] [] (getString updated ''selfLink'') ''patch'')
         (UpdateHealthCheck project name patch s)) s"

definition DeleteHealthCheck_h :: "env \<Rightarrow> clock \<Rightarrow> string \<Rightarrow> string \<Rightarrow> request \<Rightarrow> db_handler" where
  "DeleteHealthCheck_h eo co project name r s =
     deleteFound (GetHealthCheck s project name) (DeleteHealthCheck project name)
       (\<lambda>item. newOperation co eo (host r) project [] [] (getString item ''selfLink'') ''delete'') s"

section \<open>Backend services\<close>

definition CreateBackendService_h :: "env \<Rightarrow> clock \<Rightarrow> env \<Rightarrow> clock \<Rightarrow> string \<Rightarrow> request \<Rightarrow> db_handler" where
  "CreateBackendService_h e c eo co project r s =
     withNamedBody r (\<lambda>name body.
       let body = jset ''kind'' (JStr ''compute#backendService'') body;
           body = jset ''selfLink'' (JStr (globalResourceLink (host r) project ''backendServices'' name)) body;
           body = jset ''creationTimestamp'' (JStr (nowLocal c)) body;
           body = setMissing ''protocol'' (JStr ''HTTP'') body;
           body = setMissing ''loadBalancingScheme'' (JStr ''EXTERNAL'') body
       in ifValid [validateListFK body ''healthChecks'' project ''healthChecks'' (GetHealthCheck s)]
            (respondOperation writeCreateError
              (\<lambda>created. newOperation co eo (host r) project [] [] (getString created ''selfLink'') ''insert'')
              (CreateBackendService e project body s)) s) s"

definition ListBackendServices_h :: "string \<Rightarrow> db_handler" where
  "ListBackendServices_h project s = (itemsList ''compute#backendServiceList'' (ListBackendServices s project), s)"

definition GetBackendService_h :: "string \<Rightarrow> string \<Rightarrow> db_handler" where
  "GetBackendService_h project name s = (respond writeDomainError (GetBackendService s project name), s)"

definition UpdateBackendService_h :: "env \<Rightarrow> clock \<Rightarrow> string \<Rightarrow> string \<Rightarrow> request \<Rightarrow> db_handler" where
  "UpdateBackendService_h eo co project name r s =
     withBody r (\<lambda>body.
       let patch = bodyFields body in
       ifValid [validateListFK patch ''healthChecks'' project ''healthChecks'' (GetHealthCheck s)]
         (respondOperation writeDomainError
             (\<lambda>updated. newOperation co eo (host r) project [] [] (getString updated ''selfLink'') ''patch'')
             (UpdateBackendService project name patch s)) s) s"

definition DeleteBackendService_h :: "env \<Rightarrow> clock \<Rightarrow> string \<Rightarrow> string \<Rightarrow> request \<Rightarrow> db_handler" where
  "DeleteBackendService_h eo co project name r s =
     deleteFound (GetBackendService s project name) (DeleteBackendService project name)
       (\<lambda>item. newOperation co eo (host r) project [] [] (getString item ''selfLink'') ''delete'') s"

section \<open>SSL certificates\<close>

definition CreateSSLCertificate_h :: "env \<Rightarrow> clock \<Rightarrow> env \<Rightarrow> clock \<Rightarrow> string \<Rightarrow> request \<Rightarrow> db_handler" where
  "CreateSSLCertificate_h e c eo co project r s =
     withNamedBody r (\<lambda>name body.
       let body = jset ''kind'' (JStr ''compute#sslCertificate'') body;
           body = jset ''selfLink'' (JStr (globalResourceLink (host r) project ''sslCertificates'' name)) body;
           body = jset ''creationTimestamp'' (JStr (nowLocal c)) body
       in respondOperation writeCreateError
              (\<lambda>created. newOperation co eo (host r) project [] [] (getString created ''selfLink'') ''insert'')
              (CreateSSLCertificate e project body s)) s"

definition ListSSLCertificates_h :: "string \<Rightarrow> db_handler" where
  "ListSSLCertificates_h project s = (itemsList ''compute#sslCertificateList'' (ListSSLCertificates s project), s)"

definition GetSSLCertificate_h :: "string \<Rightarrow> string \<Rightarrow> db_handler" where
  "GetSSLCertificate_h project name s = (respond writeDomainError (GetSSLCertificate s project name), s)"

definition DeleteSSLCertificate_h :: "env \<Rightarrow> clock \<Rightarrow> string \<Rightarrow> string \<Rightarrow> request \<Rightarrow> db_handler" where
  "DeleteSSLCertificate_h eo co project name r s =
     deleteFound (GetSSLCertificate s project name) (DeleteSSLCertificate project name)
       (\<lambda>item. newOperation co eo (host r) project [] [] (getString item ''selfLink'') ''delete'') s"

section \<open>Target HTTPS proxies\<close>

definition CreateTargetHTTPSProxy_h :: "env \<Rightarrow> clock \<Rightarrow> env \<Rightarrow> clock \<Rightarrow> string \<Rightarrow> request \<Rightarrow> db_handler" where
  "CreateTargetHTTPSProxy_h e c eo co project r s =
     withNamedBody r (\<lambda>name body.
       let body = jset ''kind'' (JStr ''compute#targetHttpsProxy'') body;
           body = jset ''selfLink'' (JStr (globalResourceLink (host r) project ''targetHttpsProxies'' name)) body;
           body = jset ''creationTimestamp'' (JStr (nowLocal c)) body
       in ifValid [validateScalarFK body ''urlMap'' project ''urlMaps'' (GetURLMap s),
                     validateListFK body ''sslCertificates'' project ''sslCertificates'' (GetSSLCertificate s)]
            (respondOperation writeCreateError
              (\<lambda>created. newOperation co eo (host r) project [] [] (getString created ''selfLink'') ''insert'')
              (CreateTargetHTTPSProxy e project body s)) s) s"

definition ListTargetHTTPSProxies_h :: "string \<Rightarrow> db_handler" where
  "ListTargetHTTPSProxies_h project s = (itemsList ''compute#targetHttpsProxyList'' (ListTargetHTTPSProxies s project), s)"

definition GetTargetHTTPSProxy_h :: "string \<Rightarrow> string \<Rightarrow> db_handler" where
  "GetTargetHTTPSProxy_h project name s = (respond writeDomainError (GetTargetHTTPSProxy s project name), s)"

definition UpdateTargetHTTPSProxy_h :: "env \<Rightarrow> clock \<Rightarrow> string \<Rightarrow> string \<Rightarrow> request \<Rightarrow> db_handler" where
  "UpdateTargetHTTPSProxy_h eo co project name r s =
     withBody r (\<lambda>body.
       let patch = bodyFields body in
       ifValid [validateScalarFK patch ''urlMap'' project ''urlMaps'' (GetURLMap s),
                  validateListFK patch ''sslCertificates'' project ''sslCertificates'' (GetSSLCertificate s)]
         (respondOperation writeDomainError
             (\<lambda>updated. newOperation co eo (host r) project [] [] (getString updated ''selfLink'') ''patch'')
             (UpdateTargetHTTPSProxy project name patch s)) s) s"

definition DeleteTargetHTTPSProxy_h :: "env \<Rightarrow> clock \<Rightarrow> string \<Rightarrow> string \<Rightarrow> request \<Rightarrow> db_handler" where
  "DeleteTargetHTTPSProxy_h eo co project name r s =
     deleteFound (GetTargetHTTPSProxy s project name) (DeleteTargetHTTPSProxy project name)
       (\<lambda>item. newOperation co eo (host r) project [] [] (getString item ''selfLink'') ''delete'') s"

section \<open>URL maps\<close>

definition CreateURLMap_h :: "env \<Rightarrow> clock \<Rightarrow> env \<Rightarrow> clock \<Rightarrow> string \<Rightarrow> request \<Rightarrow> db_handler" where
  "CreateURLMap_h e c eo co project r s =
     withNamedBody r (\<lambda>name body.
       let body = jset ''kind'' (JStr ''compute#urlMap'') body;
           body = jset ''selfLink'' (JStr (globalResourceLink (host r) project ''urlMaps'' name)) body;
           body = jset ''creationTimestamp'' (JStr (nowLocal c)) body
       in ifValid [validateScalarFK body ''defaultService'' project ''backendServices'' (GetBackendService s)]
            (respondOperation writeCreateError
              (\<lambda>created. newOperation co eo (host r) project [] [] (getString created ''selfLink'') ''insert'')
              (CreateURLMap e project body s)) s) s"

definition ListURLMaps_h :: "string \<Rightarrow> db_handler" where
  "ListURLMaps_h project s = (itemsList ''compute#urlMapList'' (ListURLMaps s project), s)"

definition GetURLMap_h :: "string \<Rightarrow> string \<Rightarrow> db_handler" where
  "GetURLMap_h project name s = (respond writeDomainError (GetURLMap s project name), s)"

definition UpdateURLMap_h :: "env \<Rightarrow> clock \<Rightarrow> string \<Rightarrow> string \<Rightarrow> request \<Rightarrow> db_handler" where
  "UpdateURLMap_h eo co project name r s =
     withBody r (\<lambda>body.
       let patch = bodyFields body in
       ifValid [validateScalarFK patch ''defaultService'' project ''backendServices'' (GetBackendService s)]
         (respondOperation writeDomainError
             (\<lambda>updated. newOperation co eo (host r) project [] [] (getString updated ''selfLink'') ''patch'')
             (UpdateURLMap project name patch s)) s) s"

definition DeleteURLMap_h :: "env \<Rightarrow> clock \<Rightarrow> string \<Rightarrow> string \<Rightarrow> request \<Rightarrow> db_handler" where
  "DeleteURLMap_h eo co project name r s =
     deleteFound (GetURLMap s project name) (DeleteURLMap project name)
       (\<lambda>item. newOperation co eo (host r) project [] [] (getString item ''selfLink'') ''delete'') s"

section \<open>Global forwarding rules\<close>

definition CreateGlobalForwardingRule_h :: "env \<Rightarrow> clock \<Rightarrow> env \<Rightarrow> clock \<Rightarrow> string \<Rightarrow> request \<Rightarrow> db_handler" where
  "CreateGlobalForwardingRule_h e c eo co project r s =
     withNamedBody r (\<lambda>name body.
       let body = jset ''kind'' (JStr ''compute#forwardingRule'') body;
           body = jset ''selfLink'' (JStr (globalResourceLink (host r) project ''forwardingRules'' name)) body;
           body = jset ''creationTimestamp'' (JStr (nowLocal c)) body;
           body = setMissing ''IPProtocol'' (JStr ''TCP'') body;
           body = setMissing ''loadBalancingScheme'' (JStr ''EXTERNAL'') body
       in ifValid [validateForwardingRuleTarget body project s,
                     validateForwardingRuleIPAddress body project s]
            (respondOperation writeCreateError
              (\<lambda>created. newOperation co eo (host r) project [] [] (getString created ''selfLink'') ''insert'')
              (CreateGlobalForwardingRule e project body s)) s) s"

definition ListGlobalForwardingRules_h :: "string \<Rightarrow> db_handler" where
  "ListGlobalForwardingRules_h project s = (itemsList ''compute#forwardingRuleList'' (ListGlobalForwardingRules s project), s)"

definition GetGlobalForwardingRule_h :: "string \<Rightarrow> string \<Rightarrow> db_handler" where
  "GetGlobalForwardingRule_h project name s = (respond writeDomainError (GetGlobalForwardingRule s project name), s)"

definition DeleteGlobalForwardingRule_h :: "env \<Rightarrow> clock \<Rightarrow> string \<Rightarrow> string \<Rightarrow> request \<Rightarrow> db_handler" where
  "DeleteGlobalForwardingRule_h eo co project name r s =
     deleteFound (GetGlobalForwardingRule s project name) (DeleteGlobalForwardingRule project name)
       (\<lambda>item. newOperation co eo (host r) project [] [] (getString item ''selfLink'') ''delete'') s"

section \<open>Labels\<close>

definition assertGlobalResourceExists :: "string \<Rightarrow> string \<Rightarrow> string \<Rightarrow> db \<Rightarrow> go_error option" where
  "assertGlobalResourceExists project collection name s =
     (let found =
        (if collection = ''addresses'' then GetGlobalAddress s project name
         else if collection = ''healthChecks'' then GetHealthCheck s project name
         else if collection = ''backendServices'' then GetBackendService s project name
         else if collection = ''urlMaps'' then GetURLMap s project name
         else if collection = ''sslCertificates'' then GetSSLCertificate s project name
         else if collection = ''targetHttpsProxies'' then GetTargetHTTPSProxy s project name
         else if collection = ''forwardingRules'' then GetGlobalForwardingRule s project name
         else if collection = ''networks'' then GetNetwork s project name
         else if collection = ''firewalls'' then GetFirewall s project name
         else Inl ErrNotFound)
      in case found of Inl err \<Rightarrow> Some err | Inr _ \<Rightarrow> None)"

definition SetLabelsGlobal_h :: "env \<Rightarrow> clock \<Rightarrow> string \<Rightarrow> string \<Rightarrow> string \<Rightarrow> request \<Rightarrow> db_handler" where
  "SetLabelsGlobal_h eo co project collection name r s =
     withBody r (\<lambda>_.
       case assertGlobalResourceExists project collection name s of
         Some err \<Rightarrow> (writeDomainError err, s)
       | None \<Rightarrow>
           (case newOperation co eo (host r) project [] []
                   (globalResourceLink (host r) project collection name) ''setLabels'' s of
              (op, s') \<Rightarrow> (writeJSON 200 (JObj op), s'))) s"


section \<open>The handlers act by repository operations\<close>

lemma LoadBalancer_handlers_runs [keeps_runs]:
  assumes "runs s0 s"
  shows "runs s0 (snd (CreateGlobalAddress_h e c eo co project r s))"
    and "runs s0 (snd (DeleteGlobalAddress_h eo co project name r s))"
    and "runs s0 (snd (CreateHealthCheck_h e c eo co project r s))"
    and "runs s0 (snd (UpdateHealthCheck_h eo co project name r s))"
    and "runs s0 (snd (DeleteHealthCheck_h eo co project name r s))"
    and "runs s0 (snd (CreateBackendService_h e c eo co project r s))"
    and "runs s0 (snd (UpdateBackendService_h eo co project name r s))"
    and "runs s0 (snd (DeleteBackendService_h eo co project name r s))"
    and "runs s0 (snd (CreateSSLCertificate_h e c eo co project r s))"
    and "runs s0 (snd (DeleteSSLCertificate_h eo co project name r s))"
    and "runs s0 (snd (CreateTargetHTTPSProxy_h e c eo co project r s))"
    and "runs s0 (snd (UpdateTargetHTTPSProxy_h eo co project name r s))"
    and "runs s0 (snd (DeleteTargetHTTPSProxy_h eo co project name r s))"
    and "runs s0 (snd (CreateURLMap_h e c eo co project r s))"
    and "runs s0 (snd (UpdateURLMap_h eo co project name r s))"
    and "runs s0 (snd (DeleteURLMap_h eo co project name r s))"
    and "runs s0 (snd (CreateGlobalForwardingRule_h e c eo co project r s))"
    and "runs s0 (snd (DeleteGlobalForwardingRule_h eo co project name r s))"
  unfolding CreateGlobalAddress_h_def DeleteGlobalAddress_h_def CreateHealthCheck_h_def
    UpdateHealthCheck_h_def DeleteHealthCheck_h_def CreateBackendService_h_def
    UpdateBackendService_h_def DeleteBackendService_h_def CreateSSLCertificate_h_def
    DeleteSSLCertificate_h_def CreateTargetHTTPSProxy_h_def UpdateTargetHTTPSProxy_h_def
    DeleteTargetHTTPSProxy_h_def CreateURLMap_h_def UpdateURLMap_h_def DeleteURLMap_h_def
    CreateGlobalForwardingRule_h_def DeleteGlobalForwardingRule_h_def Let_def
  by (intro ifValid_runs shapes_runs keeps_runs assms; assumption)+

lemma SetLabelsGlobal_runs [keeps_runs]:
  "runs s0 s \<Longrightarrow> runs s0 (snd (SetLabelsGlobal_h eo co project collection name r s))"
  unfolding SetLabelsGlobal_h_def
  by (rule withBody_runs) (auto split: option.split prod.split dest!: arg_cong [where f = snd] intro: keeps_runs)

section \<open>What a passed check means\<close>

definition resolves :: "getter \<Rightarrow> string \<Rightarrow> string \<Rightarrow> string \<Rightarrow> bool" where
  "resolves get project collection ref \<longleftrightarrow>
     (case computeRefName ref project collection of
        None \<Rightarrow> False
      | Some target \<Rightarrow> (case get project target of Inl _ \<Rightarrow> False | Inr _ \<Rightarrow> True))"

lemma checkFound_None: "checkFound found = None \<longleftrightarrow> (case found of Inl _ \<Rightarrow> False | Inr _ \<Rightarrow> True)"
  by (simp add: checkFound_def split: sum.split)

lemma resolves_iff:
  "resolves get project collection ref \<longleftrightarrow>
     (\<exists>target. computeRefName ref project collection = Some target \<and> checkFound (get project target) = None)"
  by (simp add: resolves_def checkFound_None split: option.split)

lemma validateScalarFK_None:
  "validateScalarFK body field project collection get = None \<longleftrightarrow>
     getString body field = [] \<or> resolves get project collection (getString body field)"
  by (simp add: validateScalarFK_def resolves_def checkFound_None Let_def split: option.split)

lemma validateRefs_None:
  "validateRefs field project collection get refs = None \<longleftrightarrow>
     list_all (\<lambda>raw. refString raw = [] \<or> resolves get project collection (refString raw)) refs"
  by (induction refs) (auto simp: resolves_iff split: option.splits)

text \<open>A refusal is an error answer.\<close>

lemma checkFound_status: "checkFound found = Some resp \<Longrightarrow> status resp \<noteq> Some 200"
  by (auto simp: checkFound_def split: sum.splits)

lemma validateScalarFK_status:
  "validateScalarFK body field project collection get = Some resp \<Longrightarrow> status resp \<noteq> Some 200"
  by (auto simp: validateScalarFK_def invalidReference_def Let_def dest: checkFound_status
      split: if_splits option.splits)

lemma validateRefs_status:
  "validateRefs field project collection get refs = Some resp \<Longrightarrow> status resp \<noteq> Some 200"
  by (induction refs)
    (auto simp: invalidReference_def dest: checkFound_status split: if_splits option.splits)

lemma validateListFK_status:
  "validateListFK body field project collection get = Some resp \<Longrightarrow> status resp \<noteq> Some 200"
  by (auto simp: validateListFK_def dest: validateRefs_status split: option.splits)

end
