(* ===== verification/H_Container.thy ===== *)
theory H_Container
  imports App Repo_Container
begin

text \<open>
  The GKE handlers of \<^verbatim>\<open>src/handlers/container.go\<close>: clusters with the node pool that is
  created along with them, node pools, and the instance group managers that are made up from
  the stored pools.
\<close>

section \<open>Operations\<close>

definition gkeOperation ::
  "clock \<Rightarrow> string \<Rightarrow> string \<Rightarrow> string \<Rightarrow> string \<Rightarrow> string \<Rightarrow> string \<Rightarrow> obj" where
  "gkeOperation c h project location targetKind targetName opType =
     (let opName = ''operation-'' @ uuid c in
      [(''name'', JStr opName),
       (''status'', JStr ''DONE''),
       (''operationType'', JStr opType),
       (''selfLink'', JStr (selfLink h
          [''v1'', ''projects'', project, ''locations'', location, ''operations'', opName])),
       (''targetLink'', JStr (selfLink h
          [''v1'', ''projects'', project, ''locations'', location, targetKind, targetName]))])"

definition poolsOf :: "string \<Rightarrow> string" where
  "poolsOf cluster = ''clusters/'' @ cluster @ ''/nodePools''"

text \<open>The object that the body must hold in a field, with its name.\<close>

definition withNamedObject ::
  "string \<Rightarrow> request \<Rightarrow> (string \<Rightarrow> obj \<Rightarrow> response \<times> 's) \<Rightarrow> 's \<Rightarrow> response \<times> 's" where
  "withNamedObject field r k s =
     withBody r (\<lambda>body.
       case toMap (map_of (bodyFields body) field) of
         None \<Rightarrow> (missingField field, s)
       | Some data \<Rightarrow>
           let name = getString data ''name'' in
           if name = [] then (missingField ''name'', s) else k name data) s"

definition isZeroNumber :: "json \<Rightarrow> bool" where
  "isZeroNumber v = (case v of JNum n \<Rightarrow> n = 0 | JInt n \<Rightarrow> n = 0 | _ \<Rightarrow> False)"

section \<open>Clusters\<close>

definition clusterSubObjects :: "string list" where
  "clusterSubObjects =
     [''addonsConfig'', ''autopilot'', ''autoscaling'', ''binaryAuthorization'',
      ''controlPlaneEndpointsConfig'', ''databaseEncryption'', ''defaultSnatStatus'', ''loggingConfig'',
      ''maintenancePolicy'', ''masterAuth'', ''monitoringConfig'', ''networkPolicy'', ''notificationConfig'',
      ''privateClusterConfig'', ''releaseChannel'', ''resourceUsageExportConfig'', ''shieldedNodes'',
      ''verticalPodAutoscaling'', ''workloadIdentityConfig'']"

definition stripEmptyClusterSubObjects :: "obj \<Rightarrow> obj" where
  "stripEmptyClusterSubObjects body = stripShallowEmpty clusterSubObjects body"

definition clusterLink :: "string \<Rightarrow> string \<Rightarrow> string \<Rightarrow> string" where
  "clusterLink project location name =
     ''v1/projects/'' @ project @ ''/locations/'' @ location @ ''/clusters/'' @ name"

text \<open>The network and subnetwork are repeated in \<^verbatim>\<open>networkConfig\<close>.\<close>

definition copyString :: "string \<Rightarrow> obj \<Rightarrow> obj \<Rightarrow> obj" where
  "copyString k src dst = (if getString src k \<noteq> [] then jset k (JStr (getString src k)) dst else dst)"

definition clusterBody :: "string \<Rightarrow> string \<Rightarrow> string \<Rightarrow> obj \<Rightarrow> obj" where
  "clusterBody project location name clusterData =
     (let clusterData = jset ''status'' (JStr ''RUNNING'') clusterData;
          clusterData = jset ''endpoint'' (JStr ''10.0.0.1'') clusterData;
          clusterData = jset ''location'' (JStr location) clusterData;
          clusterData = jset ''selfLink'' (JStr (clusterLink project location name)) clusterData;
          netCfg = subObject ''networkConfig'' clusterData;
          netCfg = copyString ''network'' clusterData netCfg;
          netCfg = copyString ''subnetwork'' clusterData netCfg;
          clusterData = jset ''networkConfig'' (JObj netCfg) clusterData
      in stripEmptyClusterSubObjects clusterData)"

definition defaultPool :: "obj \<Rightarrow> obj" where
  "defaultPool clusterData =
     [(''name'', JStr ''default-pool''),
      (''initialNodeCount'', JInt 1),
      (''status'', JStr ''RUNNING''),
      (''selfLink'', JStr (getString clusterData ''selfLink'' @ ''/nodePools/default-pool''))]"

definition wantsDefaultPool :: "obj \<Rightarrow> bool" where
  "wantsDefaultPool clusterData \<longleftrightarrow>
     \<not> hasField clusterData ''nodePools'' \<and>
     (case map_of clusterData ''initialNodeCount'' of None \<Rightarrow> True | Some v \<Rightarrow> \<not> isZeroNumber v)"

text \<open>An error of the second creation is ignored. \<open>ep\<close> is the environment of that call.\<close>

definition CreateCluster_h :: "env \<Rightarrow> env \<Rightarrow> clock \<Rightarrow> string \<Rightarrow> string \<Rightarrow> request \<Rightarrow> db_handler" where
  "CreateCluster_h e ep c project location r s =
     withNamedObject ''cluster'' r (\<lambda>name clusterData.
       let clusterData = clusterBody project location name clusterData in
       case CreateCluster e project location clusterData s of
         (Inl err, s') \<Rightarrow> (writeCreateError err, s')
       | (Inr _, s') \<Rightarrow>
           let s'' = (if wantsDefaultPool clusterData
                      then snd (CreateNodePool ep project location name (defaultPool clusterData) s')
                      else s')
           in (writeJSON 200 (JObj
                 (gkeOperation c (host r) project location ''clusters'' name ''CREATE_CLUSTER'')), s'')) s"

definition GetCluster_h :: "string \<Rightarrow> string \<Rightarrow> string \<Rightarrow> db_handler" where
  "GetCluster_h project location name s = (respond writeDomainError (GetCluster s project location name), s)"

definition ListClusters_h :: "string \<Rightarrow> string \<Rightarrow> db_handler" where
  "ListClusters_h project location s =
     (writeJSON 200 (JObj [(''clusters'', JArr (map JObj (ListClusters s project location)))]), s)"

definition UpdateCluster_h :: "clock \<Rightarrow> string \<Rightarrow> string \<Rightarrow> string \<Rightarrow> request \<Rightarrow> db_handler" where
  "UpdateCluster_h c project location name r s =
     withBody r (\<lambda>patch.
       case UpdateCluster project location name (bodyFields patch) s of
         (Inl err, s') \<Rightarrow> (writeDomainError err, s')
       | (Inr _, s') \<Rightarrow>
           (writeJSON 200 (JObj
              (gkeOperation c (host r) project location ''clusters'' name ''UPDATE_CLUSTER'')), s')) s"

definition DeleteCluster_h :: "clock \<Rightarrow> string \<Rightarrow> string \<Rightarrow> string \<Rightarrow> request \<Rightarrow> db_handler" where
  "DeleteCluster_h c project location name r s =
     (case DeleteCluster project location name s of
        (Inl err, s') \<Rightarrow> (writeDomainError err, s')
      | (Inr _, s') \<Rightarrow>
          (writeJSON 200 (JObj
             (gkeOperation c (host r) project location ''clusters'' name ''DELETE_CLUSTER'')), s'))"

section \<open>Node pools\<close>

definition nodePoolDefaults :: "(string \<times> json) list" where
  "nodePoolDefaults =
     [(''management'', JObj [(''autoUpgrade'', JBool True), (''autoRepair'', JBool True)]),
      (''upgradeSettings'', JObj
         [(''maxSurge'', JNum 1), (''maxUnavailable'', JNum 0), (''strategy'', JStr ''SURGE'')]),
      (''maxPodsConstraint'', JObj [(''maxPodsPerNode'', JStr ''110'')]),
      (''podIpv4CidrSize'', JNum 24)]"

definition nodeConfigDefaults :: "(string \<times> json) list" where
  "nodeConfigDefaults =
     [(''metadata'', JObj []),
      (''labels'', JObj []),
      (''resourceLabels'', JObj []),
      (''tags'', JArr []),
      (''taints'', JArr []),
      (''oauthScopes'', JArr [JStr ''https://www.googleapis.com/auth/cloud-platform'']),
      (''diskSizeGb'', JNum 100),
      (''diskType'', JStr ''pd-standard''),
      (''imageType'', JStr ''COS_CONTAINERD''),
      (''serviceAccount'', JStr ''default''),
      (''shieldedInstanceConfig'', JObj
         [(''enableSecureBoot'', JBool False), (''enableIntegrityMonitoring'', JBool True)]),
      (''workloadMetadataConfig'', JObj [(''mode'', JStr ''GKE_METADATA'')])]"

definition populateNodePoolDefaults :: "obj \<Rightarrow> obj" where
  "populateNodePoolDefaults pool = defaultSub ''config'' nodeConfigDefaults (setAllMissing nodePoolDefaults pool)"

definition populateNodePoolNetworkConfig :: "obj \<Rightarrow> obj \<Rightarrow> obj" where
  "populateNodePoolNetworkConfig pool cluster =
     (let nc = subObject ''networkConfig'' pool;
          inherited = getString (subObject ''networkConfig'' cluster) ''clusterIpv4CidrBlock'';
          block = (if inherited \<noteq> [] then inherited else ''10.0.0.0/14'');
          nc = setMissing ''podIpv4CidrBlock'' (JStr block) nc;
          nc = setMissing ''enablePrivateNodes'' (JBool False) nc
      in jset ''networkConfig'' (JObj nc) pool)"

definition nodeCountFromInitial :: "obj \<Rightarrow> obj" where
  "nodeCountFromInitial pool =
     (case map_of pool ''initialNodeCount'' of
        None \<Rightarrow> pool
      | Some v \<Rightarrow>
          (case map_of pool ''nodeCount'' of
             None \<Rightarrow> jset ''nodeCount'' v pool
           | Some existing \<Rightarrow> if isZeroNumber existing then jset ''nodeCount'' v pool else pool))"

definition computeZoneURL :: "string \<Rightarrow> string \<Rightarrow> string" where
  "computeZoneURL project zone =
     ''https://www.googleapis.com/compute/v1/projects/'' @ project @ ''/zones/'' @ zone"

definition igmURL :: "string \<Rightarrow> string \<Rightarrow> string \<Rightarrow> string" where
  "igmURL project location name =
     computeZoneURL project (deriveZoneFromLocation location) @ ''/instanceGroupManagers/'' @ name @ ''-grp''"

definition nodePoolBody :: "string \<Rightarrow> string \<Rightarrow> string \<Rightarrow> db \<Rightarrow> string \<Rightarrow> obj \<Rightarrow> obj" where
  "nodePoolBody project location cluster s name pool =
     (let pool = jset ''status'' (JStr ''RUNNING'') pool;
          pool = nodeCountFromInitial pool;
          pool = jset ''instanceGroupUrls'' (JArr [JStr (igmURL project location name)]) pool;
          pool = populateNodePoolDefaults pool
      in case GetCluster s project location cluster of
           Inl _ \<Rightarrow> pool
         | Inr clusterData \<Rightarrow> populateNodePoolNetworkConfig pool clusterData)"

definition CreateNodePool_h ::
  "env \<Rightarrow> clock \<Rightarrow> string \<Rightarrow> string \<Rightarrow> string \<Rightarrow> request \<Rightarrow> db_handler" where
  "CreateNodePool_h e c project location cluster r s =
     withNamedObject ''nodePool'' r (\<lambda>name poolData.
       case CreateNodePool e project location cluster (nodePoolBody project location cluster s name poolData) s of
         (Inl err, s') \<Rightarrow> (writeCreateError err, s')
       | (Inr _, s') \<Rightarrow>
           (writeJSON 200 (JObj
              (gkeOperation c (host r) project location (poolsOf cluster) name ''CREATE_NODE_POOL'')), s')) s"

definition GetNodePool_h :: "string \<Rightarrow> string \<Rightarrow> string \<Rightarrow> string \<Rightarrow> db_handler" where
  "GetNodePool_h project location cluster name s =
     (respond writeDomainError (GetNodePool s project location cluster name), s)"

definition ListNodePools_h :: "string \<Rightarrow> string \<Rightarrow> string \<Rightarrow> db_handler" where
  "ListNodePools_h project location cluster s =
     (writeJSON 200 (JObj
        [(''nodePools'', JArr (map JObj (ListNodePools s project location cluster)))]), s)"

definition DeleteNodePool_h ::
  "clock \<Rightarrow> string \<Rightarrow> string \<Rightarrow> string \<Rightarrow> string \<Rightarrow> request \<Rightarrow> db_handler" where
  "DeleteNodePool_h c project location cluster name r s =
     (case DeleteNodePool project location cluster name s of
        (Inl err, s') \<Rightarrow> (writeDomainError err, s')
      | (Inr _, s') \<Rightarrow>
          (writeJSON 200 (JObj
             (gkeOperation c (host r) project location (poolsOf cluster) name ''DELETE_NODE_POOL'')), s'))"

section \<open>Instance group managers\<close>

text \<open>
  \<^verbatim>\<open>int(n)\<close> of a \<^verbatim>\<open>float64\<close> cuts off the fraction. Outside the range of \<^verbatim>\<open>int64\<close> the
  language leaves the value open; on amd64 it is the least \<^verbatim>\<open>int64\<close>.
\<close>

definition intOfFloat :: "rat \<Rightarrow> int" where
  "intOfFloat q =
     (let n = (if q \<ge> 0 then \<lfloor>q\<rfloor> else \<lceil>q\<rceil>) in if - (2 ^ 63) \<le> n \<and> n < 2 ^ 63 then n else - (2 ^ 63))"

definition extractTargetSize :: "obj \<Rightarrow> int" where
  "extractTargetSize pool =
     (case map_of pool ''nodeCount'' of
        Some (JNum n) \<Rightarrow> intOfFloat n
      | Some (JInt n) \<Rightarrow> n
      | _ \<Rightarrow> 1)"

definition igmObject :: "string \<Rightarrow> string \<Rightarrow> int \<Rightarrow> obj" where
  "igmObject zoneURL igmName targetSize =
     [(''kind'', JStr ''compute#instanceGroupManager''),
      (''name'', JStr igmName),
      (''zone'', JStr zoneURL),
      (''targetSize'', JInt targetSize),
      (''selfLink'', JStr (zoneURL @ ''/instanceGroupManagers/'' @ igmName)),
      (''instanceGroup'', JStr (zoneURL @ ''/instanceGroups/'' @ igmName))]"

definition ListInstanceGroupManagers_h :: "string \<Rightarrow> string \<Rightarrow> db_handler" where
  "ListInstanceGroupManagers_h project zone s =
     (let zoneURL = computeZoneURL project zone;
          pools = filter (\<lambda>p. getString p ''name'' \<noteq> []) (ListAllNodePools s project);
          items = map (\<lambda>p. igmObject zoneURL (getString p ''name'' @ ''-grp'') (extractTargetSize p)) pools
      in (writeJSON 200 (JObj
            [(''kind'', JStr ''compute#instanceGroupManagerList''),
             (''items'', JArr (map JObj items))]), s))"

text \<open>\<open>pick\<close> is the choice of the database among pools of one name.\<close>

definition GetInstanceGroupManager_h ::
  "(row list \<Rightarrow> row) \<Rightarrow> string \<Rightarrow> string \<Rightarrow> string \<Rightarrow> db_handler" where
  "GetInstanceGroupManager_h pick project zone name s =
     (let poolName = trimSuffix name ''-grp'';
          targetSize =
            (case FindNodePoolByName pick s project poolName of
               Inl _ \<Rightarrow> 1
             | Inr pool \<Rightarrow> extractTargetSize pool)
      in (writeJSON 200 (JObj (igmObject (computeZoneURL project zone) name targetSize)), s))"

section \<open>The handlers act by repository operations\<close>

lemma Container_handlers_runs [keeps_runs]:
  assumes "runs s0 s"
  shows "runs s0 (snd (CreateCluster_h e ep c project location r s))"
    and "runs s0 (snd (UpdateCluster_h c project location name r s))"
    and "runs s0 (snd (DeleteCluster_h c project location name r s))"
    and "runs s0 (snd (CreateNodePool_h e c project location cluster r s))"
    and "runs s0 (snd (DeleteNodePool_h c project location cluster name r s))"
  using assms
  by (auto simp: CreateCluster_h_def UpdateCluster_h_def DeleteCluster_h_def CreateNodePool_h_def
      DeleteNodePool_h_def withNamedObject_def withBody_def Let_def
      split: prod.split sum.split option.split
      dest!: arg_cong [where f = snd] intro!: keeps_runs)

end
