(* ===== verification/H_Sql.thy ===== *)
theory H_Sql
  imports H_Compute Repo_CloudSql
begin

text \<open>
  The Cloud SQL handlers of \<^verbatim>\<open>src/handlers/sql.go\<close>: instances, databases and users.
\<close>

section \<open>Defaults of an instance\<close>

definition settingsDefaults :: "(string \<times> json) list" where
  "settingsDefaults =
     [(''activationPolicy'', JStr ''ALWAYS''),
      (''availabilityType'', JStr ''ZONAL''),
      (''pricingPlan'', JStr ''PER_USE''),
      (''replicationType'', JStr ''SYNCHRONOUS''),
      (''storageAutoResize'', JBool True),
      (''storageAutoResizeLimit'', JStr ''0''),
      (''deletionProtectionEnabled'', JBool False),
      (''userLabels'', JObj []),
      (''databaseFlags'', JArr [])]"

definition defaultIpConfiguration :: "obj \<Rightarrow> obj" where
  "defaultIpConfiguration settings =
     (case toMap (map_of settings ''ipConfiguration'') of
        None \<Rightarrow>
          jset ''ipConfiguration''
            (JObj [(''ipv4Enabled'', JBool True), (''authorizedNetworks'', JArr [])]) settings
      | Some ipc \<Rightarrow> jset ''ipConfiguration'' (JObj (setMissing ''authorizedNetworks'' (JArr []) ipc)) settings)"

definition backupConfiguration :: obj where
  "backupConfiguration =
     [(''enabled'', JBool True), (''startTime'', JStr ''00:00''), (''binaryLogEnabled'', JBool False),
      (''pointInTimeRecoveryEnabled'', JBool False), (''transactionLogRetentionDays'', JNum 7)]"

definition maintenanceWindow :: obj where
  "maintenanceWindow = [(''day'', JNum 0), (''hour'', JNum 0), (''updateTrack'', JStr ''stable'')]"

definition diskDefaultsSql :: "(string \<times> json) list" where
  "diskDefaultsSql =
     [(''dataDiskType'', JStr ''PD_SSD''), (''dataDiskSizeGb'', JStr ''10''), (''settingsVersion'', JStr ''1'')]"

definition populateSQLInstanceDefaults :: "obj \<Rightarrow> obj" where
  "populateSQLInstanceDefaults body =
     (let settings = subObject ''settings'' body;
          settings = setAllMissing settingsDefaults settings;
          settings = defaultIpConfiguration settings;
          settings = setUnlessMap ''backupConfiguration'' backupConfiguration settings;
          settings = setUnlessMap ''maintenanceWindow'' maintenanceWindow settings;
          settings = setUnlessMap ''locationPreference'' [] settings;
          settings = setAllMissing diskDefaultsSql settings;
          body = jset ''settings'' (JObj settings) body;
          body = setUnlessMap ''serverCaCert'' [(''kind'', JStr ''sql#sslCert'')] body
      in setMissing ''serviceAccountEmailAddress'' (JStr ''p-cloud-sql@gserviceaccount.com'') body)"

section \<open>Operations\<close>

definition sqlOperation :: "clock \<Rightarrow> string \<Rightarrow> string \<Rightarrow> string \<Rightarrow> obj" where
  "sqlOperation c project targetLink opType =
     [(''kind'', JStr ''sql#operation''),
      (''status'', JStr ''DONE''),
      (''operationType'', JStr opType),
      (''targetProject'', JStr project),
      (''targetLink'', JStr targetLink),
      (''name'', JStr (uuid c))]"

definition respondSql ::
  "(go_error \<Rightarrow> response) \<Rightarrow> clock \<Rightarrow> string \<Rightarrow> ('a \<Rightarrow> string) \<Rightarrow> string \<Rightarrow> 'a result \<Rightarrow> response \<times> db" where
  "respondSql onError c project link opType res =
     (case res of
        (Inl err, s) \<Rightarrow> (onError err, s)
      | (Inr x, s) \<Rightarrow> (writeJSON 200 (JObj (sqlOperation c project (link x) opType)), s))"

definition selfLinkOf :: "obj \<Rightarrow> string" where
  "selfLinkOf item = getString item ''selfLink''"

definition sqlList :: "string \<Rightarrow> obj list \<Rightarrow> response" where
  "sqlList kind items = writeJSON 200 (JObj [(''kind'', JStr kind), (''items'', JArr (map JObj items))])"

definition sqlLink :: "string \<Rightarrow> string \<Rightarrow> string list \<Rightarrow> string" where
  "sqlLink h project parts = selfLink h ([''sql'', ''v1beta4'', ''projects'', project, ''instances''] @ parts)"

text \<open>A body with a name, as in \<^verbatim>\<open>compute.go\<close>; the item is read before it is deleted.\<close>

definition deleteSql ::
  "clock \<Rightarrow> string \<Rightarrow> string \<Rightarrow> (go_error + obj) \<Rightarrow> (db \<Rightarrow> unit result) \<Rightarrow> db_handler" where
  "deleteSql c project opType found del s =
     (case found of
        Inl err \<Rightarrow> (writeDomainError err, s)
      | Inr item \<Rightarrow> respondSql writeDomainError c project (\<lambda>_. selfLinkOf item) opType (del s))"

section \<open>Instances\<close>

definition sqlInstanceBody :: "clock \<Rightarrow> string \<Rightarrow> string \<Rightarrow> string \<Rightarrow> obj \<Rightarrow> obj" where
  "sqlInstanceBody c h project name body =
     (let region = getString body ''region'';
          region = (if region = [] then ''us-central1'' else region);
          body = jset ''kind'' (JStr ''sql#instance'') body;
          body = jset ''state'' (JStr ''RUNNABLE'') body;
          body = jset ''connectionName'' (JStr (project @ '':'' @ region @ '':'' @ name)) body;
          body = jset ''ipAddresses''
                   (JArr [JObj [(''type'', JStr ''PRIMARY''),
                                (''ipAddress'', JStr (randomAddress ''10'' c))]]) body;
          body = jset ''selfLink'' (JStr (sqlLink h project [name])) body
      in populateSQLInstanceDefaults body)"

definition CreateSQLInstance_h :: "env \<Rightarrow> clock \<Rightarrow> string \<Rightarrow> request \<Rightarrow> db_handler" where
  "CreateSQLInstance_h e c project r s =
     withNamedBody r (\<lambda>name body.
       respondSql writeCreateError c project selfLinkOf ''CREATE''
         (CreateSQLInstance e project (sqlInstanceBody c (host r) project name body) s)) s"

definition GetSQLInstance_h :: "string \<Rightarrow> string \<Rightarrow> db_handler" where
  "GetSQLInstance_h project name s = (respond writeDomainError (GetSQLInstance s project name), s)"

definition ListSQLInstances_h :: "string \<Rightarrow> db_handler" where
  "ListSQLInstances_h project s = (sqlList ''sql#instancesList'' (ListSQLInstances s project), s)"

definition UpdateSQLInstance_h :: "clock \<Rightarrow> string \<Rightarrow> string \<Rightarrow> request \<Rightarrow> db_handler" where
  "UpdateSQLInstance_h c project name r s =
     withBody r (\<lambda>patch.
       respondSql writeDomainError c project selfLinkOf ''UPDATE''
         (UpdateSQLInstance project name (bodyFields patch) s)) s"

definition DeleteSQLInstance_h :: "clock \<Rightarrow> string \<Rightarrow> string \<Rightarrow> db_handler" where
  "DeleteSQLInstance_h c project name s =
     deleteSql c project ''DELETE'' (GetSQLInstance s project name) (DeleteSQLInstance project name) s"

section \<open>Databases\<close>

definition CreateSQLDatabase_h :: "env \<Rightarrow> clock \<Rightarrow> string \<Rightarrow> string \<Rightarrow> request \<Rightarrow> db_handler" where
  "CreateSQLDatabase_h e c project inst r s =
     withNamedBody r (\<lambda>name body.
       let body = jset ''kind'' (JStr ''sql#database'') body;
           body = jset ''instance'' (JStr inst) body;
           body = jset ''selfLink'' (JStr (sqlLink (host r) project [inst, ''databases'', name])) body
       in respondSql writeCreateError c project selfLinkOf ''CREATE_DATABASE''
            (CreateSQLDatabase e project inst body s)) s"

definition GetSQLDatabase_h :: "string \<Rightarrow> string \<Rightarrow> string \<Rightarrow> db_handler" where
  "GetSQLDatabase_h project inst name s = (respond writeDomainError (GetSQLDatabase s project inst name), s)"

definition ListSQLDatabases_h :: "string \<Rightarrow> string \<Rightarrow> db_handler" where
  "ListSQLDatabases_h project inst s = (sqlList ''sql#databasesList'' (ListSQLDatabases s project inst), s)"

definition DeleteSQLDatabase_h :: "clock \<Rightarrow> string \<Rightarrow> string \<Rightarrow> string \<Rightarrow> db_handler" where
  "DeleteSQLDatabase_h c project inst name s =
     deleteSql c project ''DELETE_DATABASE'' (GetSQLDatabase s project inst name)
       (DeleteSQLDatabase project inst name) s"

section \<open>Users\<close>

definition sqlUserLink :: "string \<Rightarrow> string \<Rightarrow> string \<Rightarrow> string \<Rightarrow> string" where
  "sqlUserLink h project inst name = sqlLink h project [inst, ''users'', name]"

definition CreateSQLUser_h :: "env \<Rightarrow> clock \<Rightarrow> string \<Rightarrow> string \<Rightarrow> request \<Rightarrow> db_handler" where
  "CreateSQLUser_h e c project inst r s =
     withNamedBody r (\<lambda>name body.
       let body = jset ''kind'' (JStr ''sql#user'') body;
           body = jset ''instance'' (JStr inst) body
       in respondSql writeCreateError c project
            (\<lambda>created. sqlUserLink (host r) project inst (getString created ''name'')) ''CREATE_USER''
            (CreateSQLUser e project inst body s)) s"

definition ListSQLUsers_h :: "string \<Rightarrow> string \<Rightarrow> db_handler" where
  "ListSQLUsers_h project inst s =
     (case GetSQLInstance s project inst of
        Inl err \<Rightarrow> (writeDomainError err, s)
      | Inr _ \<Rightarrow> (sqlList ''sql#usersList'' (ListSQLUsers s project inst), s))"

definition UpdateSQLUser_h :: "clock \<Rightarrow> string \<Rightarrow> string \<Rightarrow> request \<Rightarrow> db_handler" where
  "UpdateSQLUser_h c project inst r s =
     withBody r (\<lambda>patch.
       let name = queryGet r ''name'';
           name = (if name = [] then getString (bodyFields patch) ''name'' else name)
       in if name = [] then (missingField ''name'', s)
          else
            respondSql writeDomainError c project
              (\<lambda>updated. sqlUserLink (host r) project inst (getString updated ''name'')) ''UPDATE_USER''
              (UpdateSQLUser project inst name (bodyFields patch) s)) s"

definition DeleteSQLUser_h :: "clock \<Rightarrow> string \<Rightarrow> string \<Rightarrow> request \<Rightarrow> db_handler" where
  "DeleteSQLUser_h c project inst r s =
     (let name = queryGet r ''name'' in
      if name = [] then (writeGCPError 400 ''Missing required query parameter: name'' ''required'', s)
      else
        respondSql writeDomainError c project (\<lambda>_. sqlUserLink (host r) project inst name) ''DELETE_USER''
          (DeleteSQLUser project inst name s))"

section \<open>The handlers act by repository operations\<close>

lemma respondSql_runs: "runs s0 (snd res) \<Longrightarrow> runs s0 (snd (respondSql onError c project link opType res))"
  by (auto simp: respondSql_def split: prod.split sum.split)

lemma deleteSql_runs:
  "runs s0 s \<Longrightarrow> runs s0 (snd (del s)) \<Longrightarrow> runs s0 (snd (deleteSql c project opType found del s))"
  by (auto simp: deleteSql_def respondSql_runs split: sum.split)

lemma Sql_handlers_runs [keeps_runs]:
  assumes "runs s0 s"
  shows "runs s0 (snd (CreateSQLInstance_h e c project r s))"
    and "runs s0 (snd (UpdateSQLInstance_h c project name r s))"
    and "runs s0 (snd (DeleteSQLInstance_h c project name s))"
    and "runs s0 (snd (CreateSQLDatabase_h e c project inst r s))"
    and "runs s0 (snd (DeleteSQLDatabase_h c project inst name s))"
    and "runs s0 (snd (CreateSQLUser_h e c project inst r s))"
    and "runs s0 (snd (UpdateSQLUser_h c project inst r s))"
    and "runs s0 (snd (DeleteSQLUser_h c project inst r s))"
  unfolding CreateSQLInstance_h_def UpdateSQLInstance_h_def DeleteSQLInstance_h_def
    CreateSQLDatabase_h_def DeleteSQLDatabase_h_def CreateSQLUser_h_def UpdateSQLUser_h_def
    DeleteSQLUser_h_def Let_def
  using assms by (auto intro!: withBody_runs withNamedBody_runs respondSql_runs deleteSql_runs keeps_runs)

end
