(* ===== verification/H_ServiceNetworking.thy ===== *)
theory H_ServiceNetworking
  imports App
begin

text \<open>
  The Service Networking handlers of \<^verbatim>\<open>src/handlers/servicenetworking.go\<close>. A connection is
  a map that the table \<^verbatim>\<open>snConnections\<close> shares with its snapshot, and a patch assigns to
  it in place; so a connection is an address, and its fields are in the heap of \<open>App\<close>.
\<close>

section \<open>Answers\<close>

definition sanitizeOpName :: "string \<Rightarrow> string" where
  "sanitizeOpName s =
     (let s = map (\<lambda>c. if c = CHR ''/'' then CHR ''-'' else c) s
      in if s = [] then ''anon'' else s)"

text \<open>Indexing a Go map gives \<^verbatim>\<open>nil\<close> for a missing field.\<close>

definition fieldOrNull :: "obj \<Rightarrow> string \<Rightarrow> json" where
  "fieldOrNull payload k = (case map_of payload k of None \<Rightarrow> JNull | Some v \<Rightarrow> v)"

definition doneOperation :: "string \<Rightarrow> obj option \<Rightarrow> obj" where
  "doneOperation ident payload =
     (let op = [(''name'', JStr (''operations/'' @ ident)), (''done'', JBool True)] in
      case payload of
        None \<Rightarrow> op
      | Some p \<Rightarrow> jset ''response'' (JObj
          [(''@type'', JStr ''type.googleapis.com/google.cloud.servicenetworking.v1.Connection''),
           (''network'', fieldOrNull p ''network''),
           (''peering'', fieldOrNull p ''peering''),
           (''reservedPeeringRanges'', fieldOrNull p ''reservedPeeringRanges'')]) op)"

definition defaultPeering :: "obj \<Rightarrow> obj" where
  "defaultPeering body = setMissing ''peering'' (JStr ''servicenetworking-googleapis-com'') body"

section \<open>The store\<close>

text \<open>Enter a freshly decoded map under a key: it gets an address of its own.\<close>

definition snStore :: "string \<Rightarrow> obj \<Rightarrow> application \<Rightarrow> application" where
  "snStore key body app =
     app\<lparr>snHeap := (snHeap app)(snFresh app := body),
         snFresh := Suc (snFresh app),
         snConnections := AList.update key (snFresh app) (snConnections app)\<rparr>"

text \<open>\<^verbatim>\<open>for k, v := range body { existing[k] = v }\<close>\<close>

definition assignAll :: "obj \<Rightarrow> obj \<Rightarrow> obj" where
  "assignAll existing body = foldl (\<lambda>m (k, v). jset k v m) existing body"

definition snAssign :: "nat \<Rightarrow> obj \<Rightarrow> application \<Rightarrow> application" where
  "snAssign a body app = app\<lparr>snHeap := (snHeap app)(a := assignAll (snHeap app a) body)\<rparr>"

definition CreateServiceNetworkingConnection_h ::
  "string \<Rightarrow> request \<Rightarrow> application \<Rightarrow> response \<times> application" where
  "CreateServiceNetworkingConnection_h service r app =
     withBody r (\<lambda>body.
       let network = getString (bodyFields body) ''network'' in
       if network = [] then (missingField ''network'', app)
       else
         let body = defaultPeering (bodyFields body)
         in (writeJSON 200 (JObj (doneOperation (''sn-create-'' @ sanitizeOpName network) (Some body))),
             snStore (snConnectionKey service network) body app)) app"

text \<open>The connections of a service, filtered by network when the query names one.\<close>

definition listedConnections :: "string \<Rightarrow> string \<Rightarrow> application \<Rightarrow> obj list" where
  "listedConnections service network app =
     map (\<lambda>(k, a). snHeap app a)
       (filter (\<lambda>(k, a). hasPrefix k (service @ ''/'') \<and>
                  (network = [] \<or> getString (snHeap app a) ''network'' = network))
          (snConnections app))"

definition ListServiceNetworkingConnections_h :: "string \<Rightarrow> request \<Rightarrow> application \<Rightarrow> response" where
  "ListServiceNetworkingConnections_h service r app =
     writeJSON 200 (JObj
       [(''connections'', JArr (map JObj (listedConnections service (queryGet r ''network'') app)))])"

definition PatchServiceNetworkingConnection_h ::
  "string \<Rightarrow> request \<Rightarrow> application \<Rightarrow> response \<times> application" where
  "PatchServiceNetworkingConnection_h service r app =
     withBody r (\<lambda>body.
       let network = getString (bodyFields body) ''network'';
           answer = (\<lambda>b. writeJSON 200 (JObj (doneOperation (''sn-patch-'' @ sanitizeOpName network) b)))
       in if network = [] then (answer body, app)
          else
            case map_of (snConnections app) (snConnectionKey service network) of
              Some a \<Rightarrow> (answer body, snAssign a (bodyFields body) app)
            | None \<Rightarrow>
                let body = defaultPeering (bodyFields body)
                in (answer (Some body), snStore (snConnectionKey service network) body app)) app"

definition DeleteServiceNetworkingConnection_h ::
  "string \<Rightarrow> request \<Rightarrow> application \<Rightarrow> response \<times> application" where
  "DeleteServiceNetworkingConnection_h service r app =
     (let body = (case decodeBody r of Inl _ \<Rightarrow> [] | Inr m \<Rightarrow> bodyFields m);
          network = getString body ''consumerNetwork'';
          app' = (if network \<noteq> []
                  then app\<lparr>snConnections := AList.delete (snConnectionKey service network) (snConnections app)\<rparr>
                  else app)
      in (writeJSON 200 (JObj (doneOperation (''sn-delete-'' @ sanitizeOpName network) None)), app'))"

section \<open>What a client reads\<close>

text \<open>The connection stored under a key, as a listing shows it.\<close>

definition snLookup :: "application \<Rightarrow> string \<Rightarrow> obj option" where
  "snLookup app key = map_option (snHeap app) (map_of (snConnections app) key)"

text \<open>
  Every address in use has been allocated, and a connection is at one key only; the keys
  of the table are distinct.
\<close>

definition sn_table_ok :: "(string \<times> nat) list \<Rightarrow> nat \<Rightarrow> bool" where
  "sn_table_ok table fresh \<longleftrightarrow>
     distinct (map fst table) \<and>
     (\<forall>(k, a)\<in>set table. a < fresh) \<and>
     (\<forall>(k, a)\<in>set table. \<forall>(k', a')\<in>set table. a = a' \<longrightarrow> k = k')"

definition sn_ok :: "application \<Rightarrow> bool" where
  "sn_ok app \<longleftrightarrow> sn_table_ok (snConnections app) (snFresh app)"

lemma sn_table_ok_mono: "sn_table_ok table n \<Longrightarrow> n \<le> n' \<Longrightarrow> sn_table_ok table n'"
  by (fastforce simp: sn_table_ok_def)

lemma sn_fresh: "sn_ok app \<Longrightarrow> map_of (snConnections app) k = Some a \<Longrightarrow> a < snFresh app"
  by (drule map_of_SomeD) (auto simp: sn_ok_def sn_table_ok_def)

lemma sn_unique:
  "sn_ok app \<Longrightarrow> map_of (snConnections app) k = Some a \<Longrightarrow> map_of (snConnections app) k' = Some a \<Longrightarrow>
   k' = k"
  by (drule map_of_SomeD, drule map_of_SomeD) (auto simp: sn_ok_def sn_table_ok_def)

lemma sn_okI:
  assumes "distinct (map fst (snConnections app))"
    and "\<And>k a. map_of (snConnections app) k = Some a \<Longrightarrow> a < snFresh app"
    and "\<And>k k' a. map_of (snConnections app) k = Some a \<Longrightarrow> map_of (snConnections app) k' = Some a \<Longrightarrow> k = k'"
  shows "sn_ok app"
proof -
  have m: "map_of (snConnections app) k = Some a" if "(k, a) \<in> set (snConnections app)" for k a
    using map_of_is_SomeI [OF assms(1) that] .
  then show ?thesis using assms unfolding sn_ok_def sn_table_ok_def by blast
qed

lemma snLookup_store:
  assumes "sn_ok app"
  shows "snLookup (snStore key body app) = (snLookup app)(key \<mapsto> body)"
proof
  fix k
  have "a \<noteq> snFresh app" if "map_of (snConnections app) k = Some a" for a
    using sn_fresh [OF assms that] by simp
  then show "snLookup (snStore key body app) k = ((snLookup app)(key \<mapsto> body)) k"
    by (cases "map_of (snConnections app) k") (auto simp: snLookup_def snStore_def)
qed

lemma sn_ok_store:
  assumes "sn_ok app"
  shows "sn_ok (snStore key body app)"
proof (rule sn_okI)
  show "distinct (map fst (snConnections (snStore key body app)))"
    using assms by (simp add: sn_ok_def sn_table_ok_def snStore_def distinct_update)
next
  fix k a
  assume "map_of (snConnections (snStore key body app)) k = Some a"
  then show "a < snFresh (snStore key body app)"
    using sn_fresh [OF assms, of k a] by (auto simp: snStore_def split: if_splits)
next
  fix k k' a
  assume "map_of (snConnections (snStore key body app)) k = Some a"
    and "map_of (snConnections (snStore key body app)) k' = Some a"
  then show "k = k'"
    using sn_fresh [OF assms, of k a] sn_fresh [OF assms, of k' a] sn_unique [OF assms, of k' a k]
    by (auto simp: snStore_def split: if_splits)
qed

lemma snLookup_assign:
  assumes "sn_ok app" "map_of (snConnections app) key = Some a"
  shows "snLookup (snAssign a body app) =
    (snLookup app)(key \<mapsto> assignAll (the (snLookup app key)) body)"
proof
  fix k
  show "snLookup (snAssign a body app) k = ((snLookup app)(key \<mapsto> assignAll (the (snLookup app key)) body)) k"
  proof (cases "k = key")
    case False
    with sn_unique [OF assms, of k] show ?thesis
      by (cases "map_of (snConnections app) k") (auto simp: snLookup_def snAssign_def)
  qed (use assms(2) in \<open>simp add: snLookup_def snAssign_def\<close>)
qed

lemma sn_ok_assign: "sn_ok app \<Longrightarrow> sn_ok (snAssign a body app)"
  by (simp add: sn_ok_def sn_table_ok_def snAssign_def)

lemma sn_ok_delete:
  assumes "sn_ok app"
  shows "sn_ok (app\<lparr>snConnections := AList.delete key (snConnections app)\<rparr>)"
proof (rule sn_okI)
  show "distinct (map fst (snConnections (app\<lparr>snConnections := AList.delete key (snConnections app)\<rparr>)))"
    using assms by (simp add: sn_ok_def sn_table_ok_def distinct_delete)
qed (use sn_fresh [OF assms] sn_unique [OF assms] in \<open>auto simp: delete_conv' split: if_splits\<close>)

lemma sn_ok_create: "sn_ok app \<Longrightarrow> sn_ok (snd (CreateServiceNetworkingConnection_h service r app))"
  by (simp add: CreateServiceNetworkingConnection_h_def withBody_def Let_def sn_ok_store split: sum.split)

lemma sn_ok_patch: "sn_ok app \<Longrightarrow> sn_ok (snd (PatchServiceNetworkingConnection_h service r app))"
  by (simp add: PatchServiceNetworkingConnection_h_def withBody_def Let_def sn_ok_store sn_ok_assign
      split: sum.split option.split)

lemma sn_ok_drop: "sn_ok app \<Longrightarrow> sn_ok (snd (DeleteServiceNetworkingConnection_h service r app))"
  by (simp add: DeleteServiceNetworkingConnection_h_def Let_def sn_ok_delete)

end
