(* ===== verification/H_Redis.thy ===== *)
theory H_Redis
  imports App Repo_Services
begin

text \<open>
  The Memorystore handlers of \<^verbatim>\<open>src/handlers/memorystore.go\<close>.
\<close>

definition memorystoreOperation :: "clock \<Rightarrow> string \<Rightarrow> string \<Rightarrow> obj \<Rightarrow> obj" where
  "memorystoreOperation c project location response =
     [(''name'', JStr (''projects/'' @ project @ ''/locations/'' @ location @ ''/operations/'' @ uuid c)),
      (''done'', JBool True),
      (''response'', JObj response)]"

text \<open>The request body with the fields that the handler assigns.\<close>

definition redisBody :: "clock \<Rightarrow> string \<Rightarrow> string \<Rightarrow> string \<Rightarrow> obj \<Rightarrow> obj" where
  "redisBody c project location name body =
     (let body = jset ''name'' (JStr (redisPath project location name)) body;
          body = jset ''createTime'' (JStr (nowLocal c)) body;
          body = jset ''state'' (JStr ''READY'') body;
          body = setMissing ''host'' (JStr ''10.0.0.1'') body;
          body = setMissing ''port'' (JInt 6379) body
      in setMissing ''currentLocationId'' (JStr location) body)"

definition redisCreateError :: "go_error \<Rightarrow> response" where
  "redisCreateError err =
     (if err = ErrConflict then writeGCPError 409 ''Instance already exists'' ''conflict''
      else writeGCPError 500 (errText err) ''internal'')"

definition redisError :: "go_error \<Rightarrow> response" where
  "redisError err =
     (if err = ErrNotFound then writeGCPError 404 ''Instance not found'' ''notFound''
      else writeGCPError 500 (errText err) ''internal'')"

definition CreateRedisInstance_h :: "env \<Rightarrow> clock \<Rightarrow> string \<Rightarrow> string \<Rightarrow> request \<Rightarrow> db_handler" where
  "CreateRedisInstance_h e c project location r s =
     withBody r (\<lambda>body.
       let name = queryGet r ''instanceId'';
           name = (if name = [] then getString (bodyFields body) ''name'' else name)
       in if name = [] then (missingField ''instanceId'', s)
          else
            let parts = splitOn (CHR ''/'') name;
                name = (if length parts > 1 then last parts else name)
            in assignable body (\<lambda>body.
                 case CreateRedisInstance e project location (redisBody c project location name body) s of
                   (Inl err, s') \<Rightarrow> (redisCreateError err, s')
                 | (Inr created, s') \<Rightarrow>
                     (writeJSON 200 (JObj (memorystoreOperation c project location created)), s')) s) s"

definition GetRedisInstance_h :: "string \<Rightarrow> string \<Rightarrow> string \<Rightarrow> db_handler" where
  "GetRedisInstance_h project location instance' s =
     (respond redisError (GetRedisInstance s project location instance'), s)"

definition ListRedisInstances_h :: "string \<Rightarrow> string \<Rightarrow> db_handler" where
  "ListRedisInstances_h project location s =
     (let items = ListRedisInstances s project location
      in (writeJSON 200 (JObj (if items \<noteq> [] then [(''instances'', JArr (map JObj items))] else [])), s))"

definition UpdateRedisInstance_h ::
  "clock \<Rightarrow> string \<Rightarrow> string \<Rightarrow> string \<Rightarrow> request \<Rightarrow> db_handler" where
  "UpdateRedisInstance_h c project location instance' r s =
     withBody r (\<lambda>body.
       case UpdateRedisInstance project location instance' (bodyFields body) s of
         (Inl err, s') \<Rightarrow> (redisError err, s')
       | (Inr updated, s') \<Rightarrow>
           (writeJSON 200 (JObj (memorystoreOperation c project location updated)), s')) s"

definition DeleteRedisInstance_h :: "clock \<Rightarrow> string \<Rightarrow> string \<Rightarrow> string \<Rightarrow> db_handler" where
  "DeleteRedisInstance_h c project location instance' s =
     (case DeleteRedisInstance project location instance' s of
        (Inl err, s') \<Rightarrow> (redisError err, s')
      | (Inr _, s') \<Rightarrow> (writeJSON 200 (JObj (memorystoreOperation c project location [])), s'))"

lemma Redis_handlers_runs [keeps_runs]:
  assumes "runs s0 s"
  shows "runs s0 (snd (CreateRedisInstance_h e c project location r s))"
    and "runs s0 (snd (UpdateRedisInstance_h c project location n r s))"
    and "runs s0 (snd (DeleteRedisInstance_h c project location n s))"
  using assms
  by (auto simp: CreateRedisInstance_h_def UpdateRedisInstance_h_def DeleteRedisInstance_h_def
      withBody_def assignable_def Let_def
      split: prod.split sum.split option.split
      dest!: arg_cong [where f = snd] intro: keeps_runs)

end
