(* ===== verification/H_Storage.thy ===== *)
theory H_Storage
  imports App Repo_Services
begin

text \<open>
  The Cloud Storage handlers of \<^verbatim>\<open>src/handlers/storage.go\<close> and the Cloud Run handlers of
  \<^verbatim>\<open>src/handlers/cloudrun.go\<close>.
\<close>

section \<open>Buckets\<close>

definition bucketSubObjects :: "string list" where
  "bucketSubObjects =
     [''hierarchicalNamespace'', ''versioning'', ''website'', ''cors'', ''lifecycle'', ''encryption'',
      ''logging'', ''retentionPolicy'', ''iamConfiguration'', ''customPlacementConfig'', ''autoclass'',
      ''objectRetention'', ''ipFilter'', ''defaultObjectAcl'', ''labels'']"

definition stripEmptyBucketSubObjects :: "obj \<Rightarrow> obj" where
  "stripEmptyBucketSubObjects body = stripShallowEmpty bucketSubObjects body"

text \<open>The body with the fields that the handler assigns; \<open>etag\<close> is the random hex string.\<close>

definition bucketBody :: "clock \<Rightarrow> string \<Rightarrow> request \<Rightarrow> obj \<Rightarrow> obj" where
  "bucketBody c etag r body =
     (let name = getString body ''name'';
          body = jset ''kind'' (JStr ''storage#bucket'') body;
          body = jset ''id'' (JStr name) body;
          body = jset ''selfLink'' (JStr (selfLink (host r) [''storage'', ''v1'', ''b'', name])) body;
          body = jset ''timeCreated'' (JStr (nowLocal c)) body;
          body = jset ''updated'' (JStr (nowLocal c)) body;
          body = jset ''etag'' (JStr etag) body;
          body = setMissing ''location'' (JStr ''US'') body;
          loc = getString body ''location'';
          body = (if loc \<noteq> [] then jset ''location'' (JStr (toUpper loc)) body else body);
          body = setMissing ''projectNumber'' (JStr ''100000000001'') body;
          body = setMissing ''locationType'' (JStr ''region'') body;
          body = setMissing ''publicAccessPrevention'' (JStr ''inherited'') body;
          body = setMissing ''rpo'' (JStr ''DEFAULT'') body;
          body = setMissing ''softDeletePolicy''
                   (JObj [(''retentionDurationSeconds'', JStr ''604800''),
                          (''effectiveTime'', JStr (nowLocal c))]) body
      in stripEmptyBucketSubObjects body)"

definition missingProjectQuery :: response where
  "missingProjectQuery = writeGCPError 400 ''Missing required query parameter: project'' ''required''"

definition CreateBucket_h :: "env \<Rightarrow> clock \<Rightarrow> string \<Rightarrow> request \<Rightarrow> db_handler" where
  "CreateBucket_h e c etag r s =
     (let project = queryGet r ''project'' in
      if project = [] then (missingProjectQuery, s)
      else
        withBody r (\<lambda>body.
          if getString (bodyFields body) ''name'' = [] then (missingField ''name'', s)
          else
            case CreateBucket e project (bucketBody c etag r (bodyFields body)) s of
              (res, s') \<Rightarrow> (respond writeCreateError res, s')) s)"

definition GetBucket_h :: "string \<Rightarrow> db_handler" where
  "GetBucket_h bucket s = (respond writeDomainError (GetBucket s bucket), s)"

definition ListBuckets_h :: "request \<Rightarrow> db_handler" where
  "ListBuckets_h r s =
     (let project = queryGet r ''project'' in
      if project = [] then (missingProjectQuery, s)
      else
        (writeJSON 200 (JObj
           [(''kind'', JStr ''storage#buckets''),
            (''items'', JArr (map JObj (ListBuckets s project)))]), s))"

definition UpdateBucket_h :: "string \<Rightarrow> request \<Rightarrow> db_handler" where
  "UpdateBucket_h bucket r s =
     withBody r (\<lambda>patch.
       case UpdateBucket bucket (bodyFields patch) s of
         (res, s') \<Rightarrow> (respond writeDomainError res, s')) s"

definition DeleteBucket_h :: "string \<Rightarrow> db_handler" where
  "DeleteBucket_h bucket s =
     (case DeleteBucket bucket s of
        (Inl err, s') \<Rightarrow> (writeDomainError err, s')
      | (Inr _, s') \<Rightarrow> (NoBody 204, s'))"

section \<open>Cloud Run services\<close>

definition cloudRunOperation :: "clock \<Rightarrow> string \<Rightarrow> string \<Rightarrow> obj \<Rightarrow> obj" where
  "cloudRunOperation c project location response =
     [(''name'', JStr (''projects/'' @ project @ ''/locations/'' @ location @ ''/operations/'' @ uuid c)),
      (''done'', JBool True),
      (''response'', JObj response)]"

definition readyConditions :: json where
  "readyConditions =
     JArr [JObj [(''type'', JStr ''Ready''), (''state'', JStr ''CONDITION_SUCCEEDED'')]]"

text \<open>The short name of a service that may be given with its full path.\<close>

definition shortName :: "string \<Rightarrow> string" where
  "shortName name =
     (let parts = splitOn (CHR ''/'') name in if length parts > 1 then last parts else name)"

definition serviceBody :: "clock \<Rightarrow> string \<Rightarrow> string \<Rightarrow> string \<Rightarrow> obj \<Rightarrow> obj" where
  "serviceBody c project location name body =
     (let body = jset ''name'' (JStr (servicePath project location name)) body;
          body = jset ''conditions'' readyConditions body;
          body = jset ''uri'' (JStr (''https://'' @ name @ ''-fakegcp.run.app'')) body;
          body = jset ''reconciling'' (JBool False) body;
          body = jset ''createTime'' (JStr (nowLocal c)) body
      in jset ''updateTime'' (JStr (nowLocal c)) body)"

definition CreateCloudRunService_h :: "env \<Rightarrow> clock \<Rightarrow> string \<Rightarrow> string \<Rightarrow> request \<Rightarrow> db_handler" where
  "CreateCloudRunService_h e c project location r s =
     withBody r (\<lambda>body.
       let name = queryGet r ''serviceId'';
           name = (if name = [] then getString (bodyFields body) ''name'' else name)
       in if name = [] then (missingField ''name'', s)
          else
            assignable body (\<lambda>body.
              case CreateCloudRunService e project location
                     (serviceBody c project location (shortName name) body) s of
                (Inl err, s') \<Rightarrow> (writeCreateError err, s')
              | (Inr created, s') \<Rightarrow>
                  (writeJSON 200 (JObj (cloudRunOperation c project location created)), s')) s) s"

definition ListCloudRunServices_h :: "string \<Rightarrow> string \<Rightarrow> db_handler" where
  "ListCloudRunServices_h project location s =
     (writeJSON 200 (JObj
        [(''services'', JArr (map JObj (ListCloudRunServices s project location)))]), s)"

definition GetCloudRunService_h :: "string \<Rightarrow> string \<Rightarrow> string \<Rightarrow> db_handler" where
  "GetCloudRunService_h project location service s =
     (respond writeDomainError (GetCloudRunService s project location service), s)"

definition UpdateCloudRunService_h ::
  "clock \<Rightarrow> string \<Rightarrow> string \<Rightarrow> string \<Rightarrow> request \<Rightarrow> db_handler" where
  "UpdateCloudRunService_h c project location service r s =
     withBody r (\<lambda>patch. assignable patch (\<lambda>patch.
       let patch = jset ''updateTime'' (JStr (nowLocal c)) patch;
           patch = jset ''reconciling'' (JBool False) patch;
           patch = jset ''conditions'' readyConditions patch
       in case UpdateCloudRunService project location service patch s of
            (Inl err, s') \<Rightarrow> (writeDomainError err, s')
          | (Inr updated, s') \<Rightarrow>
              (writeJSON 200 (JObj (cloudRunOperation c project location updated)), s')) s) s"

definition DeleteCloudRunService_h :: "clock \<Rightarrow> string \<Rightarrow> string \<Rightarrow> string \<Rightarrow> db_handler" where
  "DeleteCloudRunService_h c project location service s =
     (case GetCloudRunService s project location service of
        Inl err \<Rightarrow> (writeDomainError err, s)
      | Inr item \<Rightarrow>
          (case DeleteCloudRunService project location service s of
             (Inl err, s') \<Rightarrow> (writeDomainError err, s')
           | (Inr _, s') \<Rightarrow>
               (writeJSON 200 (JObj (cloudRunOperation c project location item)), s')))"

lemma Storage_handlers_runs [keeps_runs]:
  assumes "runs s0 s"
  shows "runs s0 (snd (CreateBucket_h e c etag r s))"
    and "runs s0 (snd (UpdateBucket_h bucket r s))"
    and "runs s0 (snd (DeleteBucket_h bucket s))"
    and "runs s0 (snd (CreateCloudRunService_h e c project location r s))"
    and "runs s0 (snd (UpdateCloudRunService_h c project location service r s))"
    and "runs s0 (snd (DeleteCloudRunService_h c project location service s))"
  using assms
  by (auto simp: CreateBucket_h_def UpdateBucket_h_def DeleteBucket_h_def CreateCloudRunService_h_def
      UpdateCloudRunService_h_def DeleteCloudRunService_h_def withBody_def assignable_def Let_def
      split: prod.split sum.split option.split
      dest!: arg_cong [where f = snd] intro: keeps_runs)

end
