(* ===== verification/H_Kms.thy ===== *)
theory H_Kms
  imports App
begin

text \<open>
  The stateless or nearly stateless services: Cloud KMS (\<^verbatim>\<open>src/handlers/kms.go\<close>), whose
  only state is the store of policies, Service Usage (\<^verbatim>\<open>serviceusage.go\<close>), whose only
  state is the set of enabled services per project, and Cloud Resource Manager
  (\<^verbatim>\<open>cloudresourcemanager.go\<close>). Times in UTC are the argument \<open>now\<close>.
\<close>

section \<open>Key rings and keys\<close>

definition kmsKeyRingName :: "string \<Rightarrow> string \<Rightarrow> string \<Rightarrow> string" where
  "kmsKeyRingName project location keyRing =
     ''projects/'' @ project @ ''/locations/'' @ location @ ''/keyRings/'' @ keyRing"

definition kmsCryptoKeyName :: "string \<Rightarrow> string \<Rightarrow> string \<Rightarrow> string \<Rightarrow> string" where
  "kmsCryptoKeyName project location keyRing cryptoKey =
     ''projects/'' @ project @ ''/locations/'' @ location @ ''/keyRings/'' @ keyRing @
     ''/cryptoKeys/'' @ cryptoKey"

definition kmsRequired :: "string \<Rightarrow> response" where
  "kmsRequired message =
     writeJSON 400 (JObj [(''error'', JObj [(''code'', JInt 400), (''message'', JStr message)])])"

definition keyRingObject :: "string \<Rightarrow> string \<Rightarrow> obj" where
  "keyRingObject name now = [(''name'', JStr name), (''createTime'', JStr now)]"

definition KMSCreateKeyRing_h :: "string \<Rightarrow> string \<Rightarrow> string \<Rightarrow> request \<Rightarrow> response" where
  "KMSCreateKeyRing_h now project location r =
     (let keyRingID = queryGet r ''keyRingId'' in
      if keyRingID = [] then kmsRequired ''keyRingId required''
      else writeJSON 200 (JObj (keyRingObject (kmsKeyRingName project location keyRingID) now)))"

definition KMSGetKeyRing_h :: "string \<Rightarrow> string \<Rightarrow> string \<Rightarrow> string \<Rightarrow> response" where
  "KMSGetKeyRing_h now project location keyRing =
     writeJSON 200 (JObj (keyRingObject (kmsKeyRingName project location keyRing) now))"

definition KMSListKeyRings_h :: response where
  "KMSListKeyRings_h = writeJSON 200 (JObj [(''keyRings'', JArr [])])"

definition cryptoKeyObject :: "string \<Rightarrow> string \<Rightarrow> string \<Rightarrow> obj" where
  "cryptoKeyObject name purpose now =
     [(''name'', JStr name),
      (''purpose'', JStr purpose),
      (''createTime'', JStr now),
      (''primary'', JObj
         [(''name'', JStr (name @ ''/cryptoKeyVersions/1'')),
          (''state'', JStr ''ENABLED''),
          (''protectionLevel'', JStr ''SOFTWARE''),
          (''algorithm'', JStr ''GOOGLE_SYMMETRIC_ENCRYPTION''),
          (''createTime'', JStr now)]),
      (''versionTemplate'', JObj
         [(''protectionLevel'', JStr ''SOFTWARE''),
          (''algorithm'', JStr ''GOOGLE_SYMMETRIC_ENCRYPTION'')])]"

definition KMSCreateCryptoKey_h ::
  "string \<Rightarrow> string \<Rightarrow> string \<Rightarrow> string \<Rightarrow> request \<Rightarrow> response" where
  "KMSCreateCryptoKey_h now project location keyRing r =
     (let cryptoKeyID = queryGet r ''cryptoKeyId'' in
      if cryptoKeyID = [] then kmsRequired ''cryptoKeyId required''
      else
        let body = (case decodeBody r of Inl _ \<Rightarrow> [] | Inr m \<Rightarrow> bodyFields m);
            p = getString body ''purpose'';
            purpose = (if p \<noteq> [] then p else ''ENCRYPT_DECRYPT'')
        in writeJSON 200 (JObj (cryptoKeyObject (kmsCryptoKeyName project location keyRing cryptoKeyID) purpose now)))"

definition KMSGetCryptoKey_h ::
  "string \<Rightarrow> string \<Rightarrow> string \<Rightarrow> string \<Rightarrow> string \<Rightarrow> response" where
  "KMSGetCryptoKey_h now project location keyRing cryptoKey =
     writeJSON 200 (JObj (cryptoKeyObject (kmsCryptoKeyName project location keyRing cryptoKey)
       ''ENCRYPT_DECRYPT'' now))"

definition KMSUpdateCryptoKey_h ::
  "string \<Rightarrow> string \<Rightarrow> string \<Rightarrow> string \<Rightarrow> string \<Rightarrow> response" where
  "KMSUpdateCryptoKey_h now project location keyRing cryptoKey =
     KMSGetCryptoKey_h now project location keyRing cryptoKey"

definition KMSListCryptoKeys_h :: response where
  "KMSListCryptoKeys_h = writeJSON 200 (JObj [(''cryptoKeys'', JArr [])])"

section \<open>Key versions\<close>

definition keyVersionObject :: "string \<Rightarrow> string \<Rightarrow> string \<Rightarrow> obj" where
  "keyVersionObject name state now =
     [(''name'', JStr name),
      (''state'', JStr state),
      (''protectionLevel'', JStr ''SOFTWARE''),
      (''algorithm'', JStr ''GOOGLE_SYMMETRIC_ENCRYPTION''),
      (''createTime'', JStr now),
      (''generateTime'', JStr now)]"

definition KMSListCryptoKeyVersions_h ::
  "string \<Rightarrow> string \<Rightarrow> string \<Rightarrow> string \<Rightarrow> string \<Rightarrow> response" where
  "KMSListCryptoKeyVersions_h now project location keyRing cryptoKey =
     writeJSON 200 (JObj [(''cryptoKeyVersions'', JArr
       [JObj (keyVersionObject (kmsCryptoKeyName project location keyRing cryptoKey @ ''/cryptoKeyVersions/1'')
          ''ENABLED'' now)])])"

definition KMSGetCryptoKeyVersion_h ::
  "string \<Rightarrow> string \<Rightarrow> string \<Rightarrow> string \<Rightarrow> string \<Rightarrow> string \<Rightarrow> response" where
  "KMSGetCryptoKeyVersion_h now project location keyRing cryptoKey version =
     writeJSON 200 (JObj (keyVersionObject
       (kmsCryptoKeyName project location keyRing cryptoKey @ ''/cryptoKeyVersions/'' @ version) ''ENABLED'' now))"

definition KMSDestroyCryptoKeyVersion_h ::
  "string \<Rightarrow> string \<Rightarrow> string \<Rightarrow> string \<Rightarrow> string \<Rightarrow> string \<Rightarrow> response" where
  "KMSDestroyCryptoKeyVersion_h now project location keyRing cryptoKey version =
     writeJSON 200 (JObj (keyVersionObject
       (kmsCryptoKeyName project location keyRing cryptoKey @ ''/cryptoKeyVersions/'' @ version)
       ''DESTROY_SCHEDULED'' now @ [(''destroyTime'', JStr now)]))"

section \<open>Policies of KMS resources\<close>

definition joinNonEmpty :: "string list \<Rightarrow> string \<Rightarrow> string" where
  "joinNonEmpty parts sep =
     foldl (\<lambda>out p.
        if p = [] then out else if out \<noteq> [] then out @ sep @ p else p) [] parts"

text \<open>An empty \<open>cryptoKey\<close> is the URL of a key ring.\<close>

definition kmsIamResourceKey :: "string \<Rightarrow> string \<Rightarrow> string \<Rightarrow> string \<Rightarrow> string" where
  "kmsIamResourceKey project location keyRing cryptoKey =
     (if cryptoKey \<noteq> []
      then joinNonEmpty [''projects'', project, ''locations'', location, ''keyRings'', keyRing,
                         ''cryptoKeys'', cryptoKey] ''/''
      else joinNonEmpty [''projects'', project, ''locations'', location, ''keyRings'', keyRing] ''/'')"

definition KMSGetIamPolicy_h ::
  "string \<Rightarrow> string \<Rightarrow> string \<Rightarrow> string \<Rightarrow> application \<Rightarrow> response" where
  "KMSGetIamPolicy_h project location keyRing cryptoKey app =
     (case kmsIamStor app (kmsIamResourceKey project location keyRing cryptoKey) of
        None \<Rightarrow> writeJSON 200 (JObj
          [(''version'', JInt 1), (''bindings'', JArr []), (''etag'', JStr ''BwInitial='')])
      | Some stored \<Rightarrow> writeJSON 200 (JObj stored))"

definition kmsPolicy :: "clock \<Rightarrow> obj \<Rightarrow> obj" where
  "kmsPolicy c policy =
     (let policy = setMissing ''bindings'' (JArr []) policy;
          policy = setMissing ''version'' (JNum 1) policy
      in jset ''etag'' (JStr (''BwEtag-'' @ natStr (unixNano c) @ ''='')) policy)"

definition KMSSetIamPolicy_h ::
  "clock \<Rightarrow> string \<Rightarrow> string \<Rightarrow> string \<Rightarrow> string \<Rightarrow> request \<Rightarrow> application \<Rightarrow> response \<times> application" where
  "KMSSetIamPolicy_h c project location keyRing cryptoKey r app =
     withBody r (\<lambda>body.
       let policy = kmsPolicy c (bodyFields (toMap (map_of (bodyFields body) ''policy'')))
       in (writeJSON 200 (JObj policy),
           app\<lparr>kmsIamStor :=
             (kmsIamStor app)(kmsIamResourceKey project location keyRing cryptoKey := Some policy)\<rparr>)) app"

section \<open>Service Usage\<close>

definition serviceUsageResponse :: "string \<Rightarrow> string \<Rightarrow> obj" where
  "serviceUsageResponse project service =
     (let service = (if service = [] then ''default'' else service)
      in [(''name'', JStr (''projects/'' @ project @ ''/services/'' @ service)),
          (''parent'', JStr (''projects/'' @ project)),
          (''config'', JObj [(''name'', JStr service), (''title'', JStr service)]),
          (''state'', JStr ''ENABLED'')])"

definition serviceUsageOperation :: "string \<Rightarrow> string \<Rightarrow> obj" where
  "serviceUsageOperation project service =
     [(''name'', JStr (''operations/sustub-'' @ project @ ''-'' @ service)),
      (''done'', JBool True),
      (''response'', JObj
         [(''@type'', JStr ''type.googleapis.com/google.api.serviceusage.v1.EnableServiceResponse''),
          (''service'', JObj (serviceUsageResponse project service))])]"

text \<open>The set of a project's services, as the list of its members.\<close>

definition markServiceEnabled :: "string \<Rightarrow> string \<Rightarrow> application \<Rightarrow> application" where
  "markServiceEnabled project service app =
     app\<lparr>enabledServices :=
       (enabledServices app)(project := List.insert service (enabledServices app project))\<rparr>"

definition GetProjectService_h :: "string \<Rightarrow> string \<Rightarrow> response" where
  "GetProjectService_h project service = writeJSON 200 (JObj (serviceUsageResponse project service))"

definition ListProjectServices_h :: "string \<Rightarrow> application \<Rightarrow> response" where
  "ListProjectServices_h project app =
     writeJSON 200 (JObj [(''services'',
       JArr (map (\<lambda>svc. JObj (serviceUsageResponse project svc)) (enabledServices app project)))])"

definition EnableProjectService_h :: "string \<Rightarrow> string \<Rightarrow> application \<Rightarrow> response \<times> application" where
  "EnableProjectService_h project service app =
     (writeJSON 200 (JObj (serviceUsageOperation project service)), markServiceEnabled project service app)"

definition DisableProjectService_h :: "string \<Rightarrow> string \<Rightarrow> application \<Rightarrow> response \<times> application" where
  "DisableProjectService_h project service app =
     (writeJSON 200 (JObj (serviceUsageOperation project service)),
      app\<lparr>enabledServices :=
        (enabledServices app)(project := remove1 service (enabledServices app project))\<rparr>)"

text \<open>\<open>serviceIds\<close> are the strings that decoding the body yields.\<close>

definition BatchEnableProjectServices_h ::
  "string \<Rightarrow> string list \<Rightarrow> application \<Rightarrow> response \<times> application" where
  "BatchEnableProjectServices_h project serviceIds app =
     (writeJSON 200 (JObj (serviceUsageOperation project ''batch'')),
      foldl (\<lambda>app svc. markServiceEnabled project (trimSpace svc) app) app serviceIds)"

definition GetServiceUsageOperation_h :: "string \<Rightarrow> response" where
  "GetServiceUsageOperation_h name =
     writeJSON 200 (JObj
       [(''name'', JStr (''operations/'' @ name)),
        (''done'', JBool True),
        (''response'', JObj
           [(''@type'', JStr ''type.googleapis.com/google.api.serviceusage.v1.EnableServiceResponse'')])])"

section \<open>Cloud Resource Manager\<close>

definition missingProjectPath :: response where
  "missingProjectPath = writeGCPError 400 ''Missing project path parameter'' ''required''"

definition GetProjectV3_h :: "string \<Rightarrow> response" where
  "GetProjectV3_h project =
     (if project = [] then missingProjectPath
      else writeJSON 200 (JObj
        [(''name'', JStr (''projects/'' @ project)),
         (''parent'', JStr ''organizations/000000000000''),
         (''projectId'', JStr project),
         (''state'', JStr ''ACTIVE''),
         (''displayName'', JStr project),
         (''createTime'', JStr ''2020-01-01T00:00:00Z''),
         (''updateTime'', JStr ''2020-01-01T00:00:00Z''),
         (''etag'', JStr ''fakegcp-static-etag''),
         (''labels'', JObj [])]))"

definition GetProject_h :: "string \<Rightarrow> response" where
  "GetProject_h project =
     (if project = [] then missingProjectPath
      else writeJSON 200 (JObj
        [(''projectNumber'', JStr ''000000000000''),
         (''projectId'', JStr project),
         (''lifecycleState'', JStr ''ACTIVE''),
         (''name'', JStr project),
         (''createTime'', JStr ''2020-01-01T00:00:00Z''),
         (''parent'', JObj [(''type'', JStr ''organization''), (''id'', JStr ''000000000000'')])]))"

section \<open>Facts\<close>

lemma services_distinct:
  assumes "\<forall>p. distinct (enabledServices app p)"
  shows "\<forall>p. distinct (enabledServices (snd (EnableProjectService_h project service app)) p)"
    and "\<forall>p. distinct (enabledServices (snd (DisableProjectService_h project service app)) p)"
  using assms
  by (auto simp: EnableProjectService_h_def DisableProjectService_h_def markServiceEnabled_def)

end
