(* ===== verification/Server.thy ===== *)
theory Server
  imports H_Network H_Router H_LoadBalancer H_Container H_Sql H_Dns H_Secret H_Pubsub H_Iam
    H_ServiceNetworking H_Redis H_Storage H_Kms
begin

text \<open>
  The server as a whole: the table of routes that \<^verbatim>\<open>RegisterRoutes\<close> of
  \<^verbatim>\<open>src/handlers/handlers.go\<close> registers, with the authentication of every route outside
  \<^verbatim>\<open>/mock\<close>, and the steps that requests make. How the router (\<^verbatim>\<open>chi\<close>, a third-party
  package) chooses among registered routes is the parameter \<open>route\<close> of \<open>serve\<close>.
\<close>

section \<open>Routes\<close>

text \<open>
  A pattern is the list of its segments: a literal, a parameter \<^verbatim>\<open>{k}\<close>, or a parameter with
  a verb, \<^verbatim>\<open>{k}:verb\<close>.
\<close>

datatype seg = Lit string | Par string | ParVerb string string

text \<open>
  What one request takes from the clock and the random sources, from the choice of the
  database among rows that \<^verbatim>\<open>LIMIT 1\<close> leaves open, and from the decoding of the body of
  \<^verbatim>\<open>services:batchEnable\<close> into a list of strings.
\<close>

record inputs =
  env1 :: env
  env2 :: env
  clock1 :: clock
  clock2 :: clock
  etagHex :: string
  pickRow :: "row list \<Rightarrow> row"
  serviceIds :: "string list"

type_synonym handler =
  "(string \<Rightarrow> string) \<Rightarrow> inputs \<Rightarrow> request \<Rightarrow> application \<Rightarrow> response \<times> application"

type_synonym route = "string \<times> seg list \<times> handler"

definition readOnly :: "(application \<Rightarrow> response) \<Rightarrow> application \<Rightarrow> response \<times> application" where
  "readOnly f app = (f app, app)"

definition answering :: "response \<Rightarrow> application \<Rightarrow> response \<times> application" where
  "answering resp app = (resp, app)"

text \<open>\<^verbatim>\<open>r.Route(prefix, ...)\<close> and \<^verbatim>\<open>r.Use(requireBearerToken)\<close>.\<close>

definition mount :: "seg list \<Rightarrow> route list \<Rightarrow> route list" where
  "mount prefix rs = map (\<lambda>(m, p, h). (m, prefix @ p, h)) rs"

definition secured :: "route \<Rightarrow> route" where
  "secured rt = (case rt of (m, p, h) \<Rightarrow> (m, p, \<lambda>u i. requireBearerToken (h u i)))"

definition adminRoutes :: "route list" where
  "adminRoutes =
     [(''POST'', [Lit ''mock'', Lit ''reset''], \<lambda>_ _ _. ResetState_h),
      (''POST'', [Lit ''mock'', Lit ''snapshot''], \<lambda>_ _ _. SnapshotState_h),
      (''POST'', [Lit ''mock'', Lit ''restore''], \<lambda>_ _ _. RestoreState_h),
      (''GET'', [Lit ''mock'', Lit ''state''], \<lambda>_ _ _. readOnly FullState_h),
      (''GET'', [Lit ''mock'', Lit ''state'', Par ''service''], \<lambda>u _ _. readOnly (ServiceState_h (u ''service'')))]"

definition globalRoutes :: "route list" where
  "globalRoutes =
     [(''GET'', [Lit ''networks''], \<lambda>u _ r. onDb (ListNetworks_h (u ''project'') r)),
      (''POST'', [Lit ''networks''], \<lambda>u i r. onDb (CreateNetwork_h (env1 i) (clock1 i) (env2 i) (clock2 i) (u ''project'') r)),
      (''GET'', [Lit ''networks'', Par ''name''], \<lambda>u _ _. onDb (GetNetwork_h (u ''project'') (u ''name''))),
      (''DELETE'', [Lit ''networks'', Par ''name''], \<lambda>u i r. onDb (DeleteNetwork_h (env2 i) (clock2 i) (u ''project'') (u ''name'') r)),
      (''PATCH'', [Lit ''networks'', Par ''name''], \<lambda>u i r. onDb (UpdateNetwork_h (env2 i) (clock2 i) (u ''project'') (u ''name'') r)),
      (''GET'', [Lit ''firewalls''], \<lambda>u _ r. onDb (ListFirewalls_h (u ''project'') r)),
      (''POST'', [Lit ''firewalls''], \<lambda>u i r. onDb (CreateFirewall_h (env1 i) (clock1 i) (env2 i) (clock2 i) (u ''project'') r)),
      (''GET'', [Lit ''firewalls'', Par ''name''], \<lambda>u _ _. onDb (GetFirewall_h (u ''project'') (u ''name''))),
      (''DELETE'', [Lit ''firewalls'', Par ''name''], \<lambda>u i r. onDb (DeleteFirewall_h (env2 i) (clock2 i) (u ''project'') (u ''name'') r)),
      (''PATCH'', [Lit ''firewalls'', Par ''name''], \<lambda>u i r. onDb (UpdateFirewall_h (env2 i) (clock2 i) (u ''project'') (u ''name'') r)),
      (''GET'', [Lit ''addresses''], \<lambda>u _ _. onDb (ListGlobalAddresses_h (u ''project''))),
      (''POST'', [Lit ''addresses''], \<lambda>u i r. onDb (CreateGlobalAddress_h (env1 i) (clock1 i) (env2 i) (clock2 i) (u ''project'') r)),
      (''GET'', [Lit ''addresses'', Par ''name''], \<lambda>u _ _. onDb (GetGlobalAddress_h (u ''project'') (u ''name''))),
      (''DELETE'', [Lit ''addresses'', Par ''name''], \<lambda>u i r. onDb (DeleteGlobalAddress_h (env2 i) (clock2 i) (u ''project'') (u ''name'') r)),
      (''GET'', [Lit ''images'', Par ''image''], \<lambda>u _ _. onDb (GetGlobalImage_h (u ''project'') (u ''image''))),
      (''GET'', [Lit ''images'', Lit ''family'', Par ''family''], \<lambda>u _ _. onDb (GetGlobalImageFromFamily_h (u ''project'') (u ''family''))),
      (''GET'', [Lit ''healthChecks''], \<lambda>u _ _. onDb (ListHealthChecks_h (u ''project''))),
      (''POST'', [Lit ''healthChecks''], \<lambda>u i r. onDb (CreateHealthCheck_h (env1 i) (clock1 i) (env2 i) (clock2 i) (u ''project'') r)),
      (''GET'', [Lit ''healthChecks'', Par ''name''], \<lambda>u _ _. onDb (GetHealthCheck_h (u ''project'') (u ''name''))),
      (''PATCH'', [Lit ''healthChecks'', Par ''name''], \<lambda>u i r. onDb (UpdateHealthCheck_h (env2 i) (clock2 i) (u ''project'') (u ''name'') r)),
      (''DELETE'', [Lit ''healthChecks'', Par ''name''], \<lambda>u i r. onDb (DeleteHealthCheck_h (env2 i) (clock2 i) (u ''project'') (u ''name'') r)),
      (''GET'', [Lit ''backendServices''], \<lambda>u _ _. onDb (ListBackendServices_h (u ''project''))),
      (''POST'', [Lit ''backendServices''], \<lambda>u i r. onDb (CreateBackendService_h (env1 i) (clock1 i) (env2 i) (clock2 i) (u ''project'') r)),
      (''GET'', [Lit ''backendServices'', Par ''name''], \<lambda>u _ _. onDb (GetBackendService_h (u ''project'') (u ''name''))),
      (''PATCH'', [Lit ''backendServices'', Par ''name''], \<lambda>u i r. onDb (UpdateBackendService_h (env2 i) (clock2 i) (u ''project'') (u ''name'') r)),
      (''PUT'', [Lit ''backendServices'', Par ''name''], \<lambda>u i r. onDb (UpdateBackendService_h (env2 i) (clock2 i) (u ''project'') (u ''name'') r)),
      (''DELETE'', [Lit ''backendServices'', Par ''name''], \<lambda>u i r. onDb (DeleteBackendService_h (env2 i) (clock2 i) (u ''project'') (u ''name'') r)),
      (''GET'', [Lit ''sslCertificates''], \<lambda>u _ _. onDb (ListSSLCertificates_h (u ''project''))),
      (''POST'', [Lit ''sslCertificates''], \<lambda>u i r. onDb (CreateSSLCertificate_h (env1 i) (clock1 i) (env2 i) (clock2 i) (u ''project'') r)),
      (''GET'', [Lit ''sslCertificates'', Par ''name''], \<lambda>u _ _. onDb (GetSSLCertificate_h (u ''project'') (u ''name''))),
      (''DELETE'', [Lit ''sslCertificates'', Par ''name''], \<lambda>u i r. onDb (DeleteSSLCertificate_h (env2 i) (clock2 i) (u ''project'') (u ''name'') r)),
      (''GET'', [Lit ''targetHttpsProxies''], \<lambda>u _ _. onDb (ListTargetHTTPSProxies_h (u ''project''))),
      (''POST'', [Lit ''targetHttpsProxies''], \<lambda>u i r. onDb (CreateTargetHTTPSProxy_h (env1 i) (clock1 i) (env2 i) (clock2 i) (u ''project'') r)),
      (''GET'', [Lit ''targetHttpsProxies'', Par ''name''], \<lambda>u _ _. onDb (GetTargetHTTPSProxy_h (u ''project'') (u ''name''))),
      (''PATCH'', [Lit ''targetHttpsProxies'', Par ''name''], \<lambda>u i r. onDb (UpdateTargetHTTPSProxy_h (env2 i) (clock2 i) (u ''project'') (u ''name'') r)),
      (''DELETE'', [Lit ''targetHttpsProxies'', Par ''name''], \<lambda>u i r. onDb (DeleteTargetHTTPSProxy_h (env2 i) (clock2 i) (u ''project'') (u ''name'') r)),
      (''GET'', [Lit ''urlMaps''], \<lambda>u _ _. onDb (ListURLMaps_h (u ''project''))),
      (''POST'', [Lit ''urlMaps''], \<lambda>u i r. onDb (CreateURLMap_h (env1 i) (clock1 i) (env2 i) (clock2 i) (u ''project'') r)),
      (''GET'', [Lit ''urlMaps'', Par ''name''], \<lambda>u _ _. onDb (GetURLMap_h (u ''project'') (u ''name''))),
      (''PATCH'', [Lit ''urlMaps'', Par ''name''], \<lambda>u i r. onDb (UpdateURLMap_h (env2 i) (clock2 i) (u ''project'') (u ''name'') r)),
      (''DELETE'', [Lit ''urlMaps'', Par ''name''], \<lambda>u i r. onDb (DeleteURLMap_h (env2 i) (clock2 i) (u ''project'') (u ''name'') r)),
      (''GET'', [Lit ''forwardingRules''], \<lambda>u _ _. onDb (ListGlobalForwardingRules_h (u ''project''))),
      (''POST'', [Lit ''forwardingRules''], \<lambda>u i r. onDb (CreateGlobalForwardingRule_h (env1 i) (clock1 i) (env2 i) (clock2 i) (u ''project'') r)),
      (''GET'', [Lit ''forwardingRules'', Par ''name''], \<lambda>u _ _. onDb (GetGlobalForwardingRule_h (u ''project'') (u ''name''))),
      (''DELETE'', [Lit ''forwardingRules'', Par ''name''], \<lambda>u i r. onDb (DeleteGlobalForwardingRule_h (env2 i) (clock2 i) (u ''project'') (u ''name'') r)),
      (''POST'', [Par ''collection'', Par ''name'', Lit ''setLabels''], \<lambda>u i r. onDb (SetLabelsGlobal_h (env2 i) (clock2 i) (u ''project'') (u ''collection'') (u ''name'') r)),
      (''GET'', [Lit ''operations'', Par ''name''], \<lambda>u _ _. onDb (GetGlobalOperation_h (u ''project'') (u ''name'')))]"

definition zonalRoutes :: "route list" where
  "zonalRoutes =
     [(''GET'', [], \<lambda>u _ _. onDb (GetZone_h (u ''project'') (u ''zone''))),
      (''GET'', [Lit ''instances''], \<lambda>u _ r. onDb (ListInstances_h (u ''project'') (u ''zone'') r)),
      (''POST'', [Lit ''instances''], \<lambda>u i r. onDb (CreateInstance_h (env1 i) (clock1 i) (env2 i) (clock2 i) (u ''project'') (u ''zone'') r)),
      (''GET'', [Lit ''instances'', Par ''name''], \<lambda>u _ _. onDb (GetInstance_h (u ''project'') (u ''zone'') (u ''name''))),
      (''DELETE'', [Lit ''instances'', Par ''name''], \<lambda>u i r. onDb (DeleteInstance_h (env2 i) (clock2 i) (u ''project'') (u ''zone'') (u ''name'') r)),
      (''GET'', [Lit ''disks''], \<lambda>u _ r. onDb (ListDisks_h (u ''project'') (u ''zone'') r)),
      (''POST'', [Lit ''disks''], \<lambda>u i r. onDb (CreateDisk_h (env1 i) (clock1 i) (env2 i) (clock2 i) (u ''project'') (u ''zone'') r)),
      (''GET'', [Lit ''disks'', Par ''name''], \<lambda>u _ _. onDb (GetDisk_h (u ''project'') (u ''zone'') (u ''name''))),
      (''DELETE'', [Lit ''disks'', Par ''name''], \<lambda>u i r. onDb (DeleteDisk_h (env2 i) (clock2 i) (u ''project'') (u ''zone'') (u ''name'') r)),
      (''GET'', [Lit ''operations'', Par ''name''], \<lambda>u _ r. onDb (GetZoneOperation_h (u ''project'') (u ''zone'') (u ''name'') r)),
      (''GET'', [Lit ''instanceGroupManagers''], \<lambda>u _ _. onDb (ListInstanceGroupManagers_h (u ''project'') (u ''zone''))),
      (''GET'', [Lit ''instanceGroupManagers'', Par ''name''], \<lambda>u i _. onDb (GetInstanceGroupManager_h (pickRow i) (u ''project'') (u ''zone'') (u ''name'')))]"

definition regionalRoutes :: "route list" where
  "regionalRoutes =
     [(''GET'', [Lit ''subnetworks''], \<lambda>u _ r. onDb (ListSubnetworks_h (u ''project'') (u ''region'') r)),
      (''POST'', [Lit ''subnetworks''], \<lambda>u i r. onDb (CreateSubnetwork_h (env1 i) (clock1 i) (env2 i) (clock2 i) (u ''project'') (u ''region'') r)),
      (''GET'', [Lit ''subnetworks'', Par ''name''], \<lambda>u _ _. onDb (GetSubnetwork_h (u ''project'') (u ''region'') (u ''name''))),
      (''DELETE'', [Lit ''subnetworks'', Par ''name''], \<lambda>u i r. onDb (DeleteSubnetwork_h (env2 i) (clock2 i) (u ''project'') (u ''region'') (u ''name'') r)),
      (''PATCH'', [Lit ''subnetworks'', Par ''name''], \<lambda>u i r. onDb (UpdateSubnetwork_h (env2 i) (clock2 i) (u ''project'') (u ''region'') (u ''name'') r)),
      (''GET'', [Lit ''addresses''], \<lambda>u _ r. onDb (ListAddresses_h (u ''project'') (u ''region'') r)),
      (''POST'', [Lit ''addresses''], \<lambda>u i r. onDb (CreateAddress_h (env1 i) (clock1 i) (env2 i) (clock2 i) (u ''project'') (u ''region'') r)),
      (''GET'', [Lit ''addresses'', Par ''name''], \<lambda>u _ _. onDb (GetAddress_h (u ''project'') (u ''region'') (u ''name''))),
      (''DELETE'', [Lit ''addresses'', Par ''name''], \<lambda>u i r. onDb (DeleteAddress_h (env2 i) (clock2 i) (u ''project'') (u ''region'') (u ''name'') r)),
      (''GET'', [Lit ''routers''], \<lambda>u _ r. onDb (ListRouters_h (u ''project'') (u ''region'') r)),
      (''POST'', [Lit ''routers''], \<lambda>u i r. onDb (CreateRouter_h (env1 i) (clock1 i) (env2 i) (clock2 i) (u ''project'') (u ''region'') r)),
      (''GET'', [Lit ''routers'', Par ''name''], \<lambda>u _ _. onDb (GetRouter_h (u ''project'') (u ''region'') (u ''name''))),
      (''PATCH'', [Lit ''routers'', Par ''name''], \<lambda>u i r. onDb (UpdateRouter_h (env2 i) (clock2 i) (u ''project'') (u ''region'') (u ''name'') r)),
      (''DELETE'', [Lit ''routers'', Par ''name''], \<lambda>u i r. onDb (DeleteRouter_h (env2 i) (clock2 i) (u ''project'') (u ''region'') (u ''name'') r)),
      (''GET'', [Lit ''routers'', Par ''router'', Lit ''nats''], \<lambda>u _ _. onDb (ListRouterNATs_h (u ''project'') (u ''region'') (u ''router''))),
      (''POST'', [Lit ''routers'', Par ''router'', Lit ''nats''], \<lambda>u i r. onDb (CreateRouterNAT_h (env1 i) (env2 i) (clock2 i) (u ''project'') (u ''region'') (u ''router'') r)),
      (''GET'', [Lit ''routers'', Par ''router'', Lit ''nats'', Par ''name''], \<lambda>u _ _. onDb (GetRouterNAT_h (u ''project'') (u ''region'') (u ''router'') (u ''name''))),
      (''PATCH'', [Lit ''routers'', Par ''router'', Lit ''nats'', Par ''name''], \<lambda>u i r. onDb (UpdateRouterNAT_h (env2 i) (clock2 i) (u ''project'') (u ''region'') (u ''router'') (u ''name'') r)),
      (''DELETE'', [Lit ''routers'', Par ''router'', Lit ''nats'', Par ''name''], \<lambda>u i r. onDb (DeleteRouterNAT_h (env2 i) (clock2 i) (u ''project'') (u ''region'') (u ''router'') (u ''name'') r)),
      (''GET'', [Lit ''operations'', Par ''name''], \<lambda>u _ r. onDb (GetRegionOperation_h (u ''project'') (u ''region'') (u ''name'') r))]"

definition kmsRoutes :: "route list" where
  "kmsRoutes =
     [(''POST'', [], \<lambda>u i r. answering (KMSCreateKeyRing_h (nowLocal (clock1 i)) (u ''project'') (u ''location'') r)),
      (''GET'', [], \<lambda>_ _ _. answering KMSListKeyRings_h),
      (''GET'', [Par ''keyRing''], \<lambda>u i _. answering (KMSGetKeyRing_h (nowLocal (clock1 i)) (u ''project'') (u ''location'') (u ''keyRing''))),
      (''POST'', [ParVerb ''keyRing'' ''getIamPolicy''], \<lambda>u _ _. readOnly (KMSGetIamPolicy_h (u ''project'') (u ''location'') (u ''keyRing'') (u ''cryptoKey''))),
      (''POST'', [ParVerb ''keyRing'' ''setIamPolicy''], \<lambda>u i r. KMSSetIamPolicy_h (clock1 i) (u ''project'') (u ''location'') (u ''keyRing'') (u ''cryptoKey'') r),
      (''POST'', [Par ''keyRing'', Lit ''cryptoKeys''], \<lambda>u i r. answering (KMSCreateCryptoKey_h (nowLocal (clock1 i)) (u ''project'') (u ''location'') (u ''keyRing'') r)),
      (''GET'', [Par ''keyRing'', Lit ''cryptoKeys''], \<lambda>_ _ _. answering KMSListCryptoKeys_h),
      (''GET'', [Par ''keyRing'', Lit ''cryptoKeys'', Par ''cryptoKey''], \<lambda>u i _. answering (KMSGetCryptoKey_h (nowLocal (clock1 i)) (u ''project'') (u ''location'') (u ''keyRing'') (u ''cryptoKey''))),
      (''PATCH'', [Par ''keyRing'', Lit ''cryptoKeys'', Par ''cryptoKey''], \<lambda>u i _. answering (KMSUpdateCryptoKey_h (nowLocal (clock1 i)) (u ''project'') (u ''location'') (u ''keyRing'') (u ''cryptoKey''))),
      (''POST'', [Par ''keyRing'', Lit ''cryptoKeys'', ParVerb ''cryptoKey'' ''getIamPolicy''], \<lambda>u _ _. readOnly (KMSGetIamPolicy_h (u ''project'') (u ''location'') (u ''keyRing'') (u ''cryptoKey''))),
      (''POST'', [Par ''keyRing'', Lit ''cryptoKeys'', ParVerb ''cryptoKey'' ''setIamPolicy''], \<lambda>u i r. KMSSetIamPolicy_h (clock1 i) (u ''project'') (u ''location'') (u ''keyRing'') (u ''cryptoKey'') r),
      (''GET'', [Par ''keyRing'', Lit ''cryptoKeys'', Par ''cryptoKey'', Lit ''cryptoKeyVersions''], \<lambda>u i _. answering (KMSListCryptoKeyVersions_h (nowLocal (clock1 i)) (u ''project'') (u ''location'') (u ''keyRing'') (u ''cryptoKey''))),
      (''GET'', [Par ''keyRing'', Lit ''cryptoKeys'', Par ''cryptoKey'', Lit ''cryptoKeyVersions'', Par ''version''], \<lambda>u i _. answering (KMSGetCryptoKeyVersion_h (nowLocal (clock1 i)) (u ''project'') (u ''location'') (u ''keyRing'') (u ''cryptoKey'') (u ''version''))),
      (''POST'', [Par ''keyRing'', Lit ''cryptoKeys'', Par ''cryptoKey'', Lit ''cryptoKeyVersions'', ParVerb ''version'' ''destroy''], \<lambda>u i _. answering (KMSDestroyCryptoKeyVersion_h (nowLocal (clock1 i)) (u ''project'') (u ''location'') (u ''keyRing'') (u ''cryptoKey'') (u ''version'')))]"

definition gkeRoutes :: "route list" where
  "gkeRoutes =
     [(''GET'', [Lit ''clusters''], \<lambda>u _ _. onDb (ListClusters_h (u ''project'') (u ''location''))),
      (''POST'', [Lit ''clusters''], \<lambda>u i r. onDb (CreateCluster_h (env1 i) (env2 i) (clock1 i) (u ''project'') (u ''location'') r)),
      (''GET'', [Lit ''clusters'', Par ''name''], \<lambda>u _ _. onDb (GetCluster_h (u ''project'') (u ''location'') (u ''name''))),
      (''DELETE'', [Lit ''clusters'', Par ''name''], \<lambda>u i r. onDb (DeleteCluster_h (clock1 i) (u ''project'') (u ''location'') (u ''name'') r)),
      (''PUT'', [Lit ''clusters'', Par ''name''], \<lambda>u i r. onDb (UpdateCluster_h (clock1 i) (u ''project'') (u ''location'') (u ''name'') r)),
      (''GET'', [Lit ''clusters'', Par ''cluster'', Lit ''nodePools''], \<lambda>u _ _. onDb (ListNodePools_h (u ''project'') (u ''location'') (u ''cluster''))),
      (''POST'', [Lit ''clusters'', Par ''cluster'', Lit ''nodePools''], \<lambda>u i r. onDb (CreateNodePool_h (env1 i) (clock1 i) (u ''project'') (u ''location'') (u ''cluster'') r)),
      (''GET'', [Lit ''clusters'', Par ''cluster'', Lit ''nodePools'', Par ''name''], \<lambda>u _ _. onDb (GetNodePool_h (u ''project'') (u ''location'') (u ''cluster'') (u ''name''))),
      (''DELETE'', [Lit ''clusters'', Par ''cluster'', Lit ''nodePools'', Par ''name''], \<lambda>u i r. onDb (DeleteNodePool_h (clock1 i) (u ''project'') (u ''location'') (u ''cluster'') (u ''name'') r))]"

definition sqlRoutes :: "route list" where
  "sqlRoutes =
     [(''GET'', [Lit ''instances''], \<lambda>u _ _. onDb (ListSQLInstances_h (u ''project''))),
      (''POST'', [Lit ''instances''], \<lambda>u i r. onDb (CreateSQLInstance_h (env1 i) (clock1 i) (u ''project'') r)),
      (''GET'', [Lit ''instances'', Par ''name''], \<lambda>u _ _. onDb (GetSQLInstance_h (u ''project'') (u ''name''))),
      (''DELETE'', [Lit ''instances'', Par ''name''], \<lambda>u i _. onDb (DeleteSQLInstance_h (clock1 i) (u ''project'') (u ''name''))),
      (''PATCH'', [Lit ''instances'', Par ''name''], \<lambda>u i r. onDb (UpdateSQLInstance_h (clock1 i) (u ''project'') (u ''name'') r)),
      (''GET'', [Lit ''instances'', Par ''instance'', Lit ''databases''], \<lambda>u _ _. onDb (ListSQLDatabases_h (u ''project'') (u ''instance''))),
      (''POST'', [Lit ''instances'', Par ''instance'', Lit ''databases''], \<lambda>u i r. onDb (CreateSQLDatabase_h (env1 i) (clock1 i) (u ''project'') (u ''instance'') r)),
      (''GET'', [Lit ''instances'', Par ''instance'', Lit ''databases'', Par ''name''], \<lambda>u _ _. onDb (GetSQLDatabase_h (u ''project'') (u ''instance'') (u ''name''))),
      (''DELETE'', [Lit ''instances'', Par ''instance'', Lit ''databases'', Par ''name''], \<lambda>u i _. onDb (DeleteSQLDatabase_h (clock1 i) (u ''project'') (u ''instance'') (u ''name''))),
      (''GET'', [Lit ''instances'', Par ''instance'', Lit ''users''], \<lambda>u _ _. onDb (ListSQLUsers_h (u ''project'') (u ''instance''))),
      (''POST'', [Lit ''instances'', Par ''instance'', Lit ''users''], \<lambda>u i r. onDb (CreateSQLUser_h (env1 i) (clock1 i) (u ''project'') (u ''instance'') r)),
      (''DELETE'', [Lit ''instances'', Par ''instance'', Lit ''users''], \<lambda>u i r. onDb (DeleteSQLUser_h (clock1 i) (u ''project'') (u ''instance'') r)),
      (''PUT'', [Lit ''instances'', Par ''instance'', Lit ''users''], \<lambda>u i r. onDb (UpdateSQLUser_h (clock1 i) (u ''project'') (u ''instance'') r))]"

definition projectRoutes :: "route list" where
  "projectRoutes =
     [(''GET'', [], \<lambda>u _ _. answering (GetProject_h (u ''project''))),
      (''GET'', [Lit ''serviceAccounts''], \<lambda>u _ _. onDb (ListServiceAccounts_h (u ''project''))),
      (''POST'', [Lit ''serviceAccounts''], \<lambda>u i r. onDb (CreateServiceAccount_h (env1 i) (clock1 i) (u ''project'') r)),
      (''GET'', [Lit ''serviceAccounts'', Par ''email''], \<lambda>u _ _. onDb (GetServiceAccount_h (u ''project'') (u ''email''))),
      (''DELETE'', [Lit ''serviceAccounts'', Par ''email''], \<lambda>u _ _. onDb (DeleteServiceAccount_h (u ''project'') (u ''email''))),
      (''PATCH'', [Lit ''serviceAccounts'', Par ''email''], \<lambda>u _ r. onDb (UpdateServiceAccount_h (u ''project'') (u ''email'') r)),
      (''POST'', [Lit ''serviceAccounts'', ParVerb ''email'' ''getIamPolicy''], \<lambda>u _ _. readOnly (GetServiceAccountIamPolicy_h (u ''project'') (u ''email''))),
      (''POST'', [Lit ''serviceAccounts'', ParVerb ''email'' ''setIamPolicy''], \<lambda>u i r. SetServiceAccountIamPolicy_h (clock1 i) (u ''project'') (u ''email'') r),
      (''POST'', [Lit ''serviceAccounts'', Par ''email'', Lit ''keys''], \<lambda>u i r. onDb (CreateSAKey_h (env1 i) (clock1 i) (u ''project'') (u ''email'') r)),
      (''GET'', [Lit ''serviceAccounts'', Par ''email'', Lit ''keys''], \<lambda>u _ _. onDb (ListSAKeys_h (u ''project'') (u ''email''))),
      (''GET'', [Lit ''serviceAccounts'', Par ''email'', Lit ''keys'', Par ''keyId''], \<lambda>u _ _. onDb (GetSAKey_h (u ''project'') (u ''email'') (u ''keyId''))),
      (''DELETE'', [Lit ''serviceAccounts'', Par ''email'', Lit ''keys'', Par ''keyId''], \<lambda>u _ _. onDb (DeleteSAKey_h (u ''project'') (u ''email'') (u ''keyId''))),
      (''POST'', [Lit ''secrets''], \<lambda>u i r. onDb (CreateSecret_h (env1 i) (clock1 i) (u ''project'') r)),
      (''GET'', [Lit ''secrets''], \<lambda>u _ _. onDb (ListSecrets_h (u ''project''))),
      (''GET'', [Lit ''secrets'', Par ''secret''], \<lambda>u _ _. onDb (GetSecret_h (u ''project'') (u ''secret''))),
      (''DELETE'', [Lit ''secrets'', Par ''secret''], \<lambda>u _ _. onDb (DeleteSecret_h (u ''project'') (u ''secret''))),
      (''PATCH'', [Lit ''secrets'', Par ''secret''], \<lambda>u _ r. onDb (UpdateSecret_h (u ''project'') (u ''secret'') r)),
      (''POST'', [Lit ''secrets'', ParVerb ''secret'' ''addVersion''], \<lambda>u i r. onDb (CreateSecretVersion_h (env1 i) (clock1 i) (u ''project'') (u ''secret'') r)),
      (''GET'', [Lit ''secrets'', Par ''secret'', Lit ''versions''], \<lambda>u _ _. onDb (ListSecretVersions_h (u ''project'') (u ''secret''))),
      (''GET'', [Lit ''secrets'', Par ''secret'', Lit ''versions'', Par ''version''], \<lambda>u _ _. onDb (GetSecretVersion_h (u ''project'') (u ''secret'') (u ''version''))),
      (''GET'', [Lit ''secrets'', Par ''secret'', Lit ''versions'', ParVerb ''version'' ''access''], \<lambda>u _ _. onDb (AccessSecretVersion_h (u ''project'') (u ''secret'') (u ''version''))),
      (''POST'', [Lit ''secrets'', Par ''secret'', Lit ''versions'', ParVerb ''version'' ''destroy''], \<lambda>u i _. onDb (DestroySecretVersion_h (env1 i) (u ''project'') (u ''secret'') (u ''version''))),
      (''POST'', [Lit ''secrets'', Par ''secret'', Lit ''versions'', ParVerb ''version'' ''enable''], \<lambda>u _ _. onDb (EnableSecretVersion_h (u ''project'') (u ''secret'') (u ''version''))),
      (''POST'', [Lit ''secrets'', Par ''secret'', Lit ''versions'', ParVerb ''version'' ''disable''], \<lambda>u _ _. onDb (DisableSecretVersion_h (u ''project'') (u ''secret'') (u ''version''))),
      (''PUT'', [Lit ''topics'', Par ''topic''], \<lambda>u _ r. onDb (CreateTopic_h (u ''project'') (u ''topic'') r)),
      (''GET'', [Lit ''topics''], \<lambda>u _ _. onDb (ListTopics_h (u ''project''))),
      (''GET'', [Lit ''topics'', Par ''topic''], \<lambda>u _ _. onDb (GetTopic_h (u ''project'') (u ''topic''))),
      (''DELETE'', [Lit ''topics'', Par ''topic''], \<lambda>u _ _. onDb (DeleteTopic_h (u ''project'') (u ''topic''))),
      (''PUT'', [Lit ''subscriptions'', Par ''subscription''], \<lambda>u _ r. onDb (CreateSubscription_h (u ''project'') (u ''subscription'') r)),
      (''GET'', [Lit ''subscriptions''], \<lambda>u _ _. onDb (ListSubscriptions_h (u ''project''))),
      (''GET'', [Lit ''subscriptions'', Par ''subscription''], \<lambda>u _ _. onDb (GetSubscription_h (u ''project'') (u ''subscription''))),
      (''PATCH'', [Lit ''subscriptions'', Par ''subscription''], \<lambda>u _ r. onDb (UpdateSubscription_h (u ''project'') (u ''subscription'') r)),
      (''DELETE'', [Lit ''subscriptions'', Par ''subscription''], \<lambda>u _ _. onDb (DeleteSubscription_h (u ''project'') (u ''subscription''))),
      (''GET'', [Lit ''services''], \<lambda>u _ _. readOnly (ListProjectServices_h (u ''project''))),
      (''GET'', [Lit ''services'', Par ''service''], \<lambda>u _ _. answering (GetProjectService_h (u ''project'') (u ''service''))),
      (''POST'', [Lit ''services'', ParVerb ''service'' ''enable''], \<lambda>u _ _. EnableProjectService_h (u ''project'') (u ''service'')),
      (''POST'', [Lit ''services'', ParVerb ''service'' ''disable''], \<lambda>u _ _. DisableProjectService_h (u ''project'') (u ''service'')),
      (''POST'', [Lit ''services:batchEnable''], \<lambda>u i _. BatchEnableProjectServices_h (u ''project'') (serviceIds i))]"

definition connectionRoutes :: "route list" where
  "connectionRoutes =
     [(''POST'', [], \<lambda>u _ r. CreateServiceNetworkingConnection_h (u ''service'') r),
      (''GET'', [], \<lambda>u _ r. readOnly (ListServiceNetworkingConnections_h (u ''service'') r)),
      (''PATCH'', [Par ''connection''], \<lambda>u _ r. PatchServiceNetworkingConnection_h (u ''service'') r),
      (''POST'', [Par ''connection''], \<lambda>u _ r. DeleteServiceNetworkingConnection_h (u ''service'') r)]"

definition dnsRoutes :: "route list" where
  "dnsRoutes =
     [(''POST'', [Lit ''managedZones''], \<lambda>u i r. onDb (CreateDNSZone_h (env1 i) (clock1 i) (u ''project'') r)),
      (''GET'', [Lit ''managedZones''], \<lambda>u _ _. onDb (ListDNSZones_h (u ''project''))),
      (''GET'', [Lit ''managedZones'', Par ''zone''], \<lambda>u _ _. onDb (GetDNSZone_h (u ''project'') (u ''zone''))),
      (''PATCH'', [Lit ''managedZones'', Par ''zone''], \<lambda>u _ r. onDb (UpdateDNSZone_h (u ''project'') (u ''zone'') r)),
      (''PUT'', [Lit ''managedZones'', Par ''zone''], \<lambda>u _ r. onDb (UpdateDNSZone_h (u ''project'') (u ''zone'') r)),
      (''DELETE'', [Lit ''managedZones'', Par ''zone''], \<lambda>u _ _. onDb (DeleteDNSZone_h (u ''project'') (u ''zone''))),
      (''POST'', [Lit ''managedZones'', Par ''zone'', Lit ''rrsets''], \<lambda>u i r. onDb (CreateDNSRecordSet_h (clock1 i) (u ''project'') (u ''zone'') r)),
      (''GET'', [Lit ''managedZones'', Par ''zone'', Lit ''rrsets''], \<lambda>u _ _. onDb (ListDNSRecordSets_h (u ''project'') (u ''zone''))),
      (''GET'', [Lit ''managedZones'', Par ''zone'', Lit ''rrsets'', Par ''name'', Par ''type''], \<lambda>u _ _. onDb (GetDNSRecordSet_h (u ''project'') (u ''zone'') (u ''name'') (u ''type''))),
      (''DELETE'', [Lit ''managedZones'', Par ''zone'', Lit ''rrsets'', Par ''name'', Par ''type''], \<lambda>u _ _. onDb (DeleteDNSRecordSet_h (u ''project'') (u ''zone'') (u ''name'') (u ''type''))),
      (''POST'', [Lit ''managedZones'', Par ''zone'', Lit ''changes''], \<lambda>u i r. CreateDNSChange_h (clock1 i) (u ''project'') (u ''zone'') r),
      (''GET'', [Lit ''managedZones'', Par ''zone'', Lit ''changes'', Par ''change''], \<lambda>u _ _. readOnly (GetDNSChange_h (u ''project'') (u ''zone'') (u ''change'')))]"

definition cloudRunRoutes :: "route list" where
  "cloudRunRoutes =
     [(''POST'', [Lit ''services''], \<lambda>u i r. onDb (CreateCloudRunService_h (env1 i) (clock1 i) (u ''project'') (u ''location'') r)),
      (''GET'', [Lit ''services''], \<lambda>u _ _. onDb (ListCloudRunServices_h (u ''project'') (u ''location''))),
      (''GET'', [Lit ''services'', Par ''service''], \<lambda>u _ _. onDb (GetCloudRunService_h (u ''project'') (u ''location'') (u ''service''))),
      (''PATCH'', [Lit ''services'', Par ''service''], \<lambda>u i r. onDb (UpdateCloudRunService_h (clock1 i) (u ''project'') (u ''location'') (u ''service'') r)),
      (''DELETE'', [Lit ''services'', Par ''service''], \<lambda>u i _. onDb (DeleteCloudRunService_h (clock1 i) (u ''project'') (u ''location'') (u ''service'')))]"

definition redisRoutes :: "route list" where
  "redisRoutes =
     [(''POST'', [], \<lambda>u i r. onDb (CreateRedisInstance_h (env1 i) (clock1 i) (u ''project'') (u ''location'') r)),
      (''GET'', [], \<lambda>u _ _. onDb (ListRedisInstances_h (u ''project'') (u ''location''))),
      (''GET'', [Par ''instance''], \<lambda>u _ _. onDb (GetRedisInstance_h (u ''project'') (u ''location'') (u ''instance''))),
      (''PATCH'', [Par ''instance''], \<lambda>u i r. onDb (UpdateRedisInstance_h (clock1 i) (u ''project'') (u ''location'') (u ''instance'') r)),
      (''DELETE'', [Par ''instance''], \<lambda>u i _. onDb (DeleteRedisInstance_h (clock1 i) (u ''project'') (u ''location'') (u ''instance'')))]"

definition storageRoutes :: "route list" where
  "storageRoutes =
     [(''GET'', [Lit ''b''], \<lambda>_ _ r. onDb (ListBuckets_h r)),
      (''POST'', [Lit ''b''], \<lambda>_ i r. onDb (CreateBucket_h (env1 i) (clock1 i) (etagHex i) r)),
      (''GET'', [Lit ''b'', Par ''bucket''], \<lambda>u _ _. onDb (GetBucket_h (u ''bucket''))),
      (''DELETE'', [Lit ''b'', Par ''bucket''], \<lambda>u _ _. onDb (DeleteBucket_h (u ''bucket''))),
      (''PATCH'', [Lit ''b'', Par ''bucket''], \<lambda>u _ r. onDb (UpdateBucket_h (u ''bucket'') r))]"

definition policyRoutes :: "route list" where
  "policyRoutes =
     [(''POST'', [Lit ''v1'', Lit ''projects'', ParVerb ''project'' ''setIamPolicy''], \<lambda>u _ r. onDb (SetIAMPolicy_h (u ''project'') r)),
      (''POST'', [Lit ''v1'', Lit ''projects'', ParVerb ''project'' ''getIamPolicy''], \<lambda>u _ _. onDb (GetIAMPolicy_h (u ''project'')))]"

definition resourceRoutes :: "route list" where
  "resourceRoutes =
     [(''GET'', [Lit ''v3'', Lit ''projects'', Par ''project''], \<lambda>u _ _. answering (GetProjectV3_h (u ''project'')))]"

definition operationRoutes :: "route list" where
  "operationRoutes =
     [(''GET'', [Lit ''v1'', Lit ''operations'', Par ''name''], \<lambda>u _ _. answering (GetServiceUsageOperation_h (u ''name'')))]"

definition gcpRoutes :: "route list" where
  "gcpRoutes =
     mount [Lit ''compute'', Lit ''v1'', Lit ''projects'', Par ''project'', Lit ''global''] globalRoutes @
     mount [Lit ''compute'', Lit ''v1'', Lit ''projects'', Par ''project'', Lit ''zones'', Par ''zone''] zonalRoutes @
     mount [Lit ''compute'', Lit ''v1'', Lit ''projects'', Par ''project'', Lit ''regions'', Par ''region''] regionalRoutes @
     mount [Lit ''v1'', Lit ''projects'', Par ''project'', Lit ''locations'', Par ''location'', Lit ''keyRings''] kmsRoutes @
     mount [Lit ''projects'', Par ''project'', Lit ''locations'', Par ''location'', Lit ''keyRings''] kmsRoutes @
     mount [Lit ''v1'', Lit ''projects'', Par ''project'', Lit ''locations'', Par ''location''] gkeRoutes @
     mount [Lit ''sql'', Lit ''v1beta4'', Lit ''projects'', Par ''project''] sqlRoutes @
     policyRoutes @
     resourceRoutes @
     mount [Lit ''v1'', Lit ''projects'', Par ''project''] projectRoutes @
     operationRoutes @
     mount [Lit ''v1'', Lit ''services'', Par ''service'', Lit ''connections''] connectionRoutes @
     mount [Lit ''dns'', Lit ''v1'', Lit ''projects'', Par ''project''] dnsRoutes @
     mount [Lit ''projects'', Par ''project''] (dnsRoutes @ sqlRoutes) @
     mount [Lit ''v2'', Lit ''projects'', Par ''project'', Lit ''locations'', Par ''location''] cloudRunRoutes @
     mount [Lit ''v1'', Lit ''projects'', Par ''project'', Lit ''locations'', Par ''location'', Lit ''instances''] redisRoutes @
     mount [Lit ''storage'', Lit ''v1''] storageRoutes"

definition RegisterRoutes :: "route list" where
  "RegisterRoutes = adminRoutes @ map secured gcpRoutes"

text \<open>
  The prefixes that the authenticated group mounts with \<^verbatim>\<open>r.Route\<close>. The middleware wraps a whole
  mount, so it also runs for the paths below a prefix for which there is no route.
\<close>

definition mounted :: "seg list list" where
  "mounted =
     [[Lit ''compute'', Lit ''v1'', Lit ''projects'', Par ''project''],
      [Lit ''v1'', Lit ''projects'', Par ''project'', Lit ''locations'', Par ''location'', Lit ''keyRings''],
      [Lit ''projects'', Par ''project'', Lit ''locations'', Par ''location'', Lit ''keyRings''],
      [Lit ''v1'', Lit ''projects'', Par ''project'', Lit ''locations'', Par ''location''],
      [Lit ''sql'', Lit ''v1beta4'', Lit ''projects'', Par ''project''],
      [Lit ''v1'', Lit ''projects'', Par ''project''],
      [Lit ''v1'', Lit ''services'', Par ''service'', Lit ''connections''],
      [Lit ''dns'', Lit ''v1'', Lit ''projects'', Par ''project''],
      [Lit ''projects'', Par ''project''],
      [Lit ''v2'', Lit ''projects'', Par ''project'', Lit ''locations'', Par ''location''],
      [Lit ''v1'', Lit ''projects'', Par ''project'', Lit ''locations'', Par ''location'', Lit ''instances''],
      [Lit ''storage'', Lit ''v1'']]"

section \<open>Serving a request\<close>

definition Unimplemented_h :: "string \<Rightarrow> string \<Rightarrow> response" where
  "Unimplemented_h meth path =
     writeGCPError 501 (''Not implemented: '' @ meth @ '' '' @ path) ''notImplemented''"

text \<open>
  \<open>route\<close> is the router: given the registered routes, the mounted prefixes, a method and a path,
  it finds the route to run and the values of its parameters, or a mount below which the path is
  without a route (no pattern, or not this method), or nothing. Every mount has the handler that
  \<^verbatim>\<open>r.NotFound\<close> and \<^verbatim>\<open>r.MethodNotAllowed\<close> set.
\<close>

datatype found = Endpoint route "string \<Rightarrow> string" | Mounted "seg list" | Nowhere

type_synonym router = "route list \<Rightarrow> seg list list \<Rightarrow> string \<Rightarrow> string \<Rightarrow> found"

definition serve ::
  "router \<Rightarrow> string \<Rightarrow> string \<Rightarrow> inputs \<Rightarrow> request \<Rightarrow> application \<Rightarrow> response \<times> application" where
  "serve route meth path i r app =
     (case route RegisterRoutes mounted meth path of
        Endpoint (_, _, h) u \<Rightarrow> h u i r app
      | Mounted _ \<Rightarrow> requireBearerToken (\<lambda>_. answering (Unimplemented_h meth path)) r app
      | Nowhere \<Rightarrow> (Unimplemented_h meth path, app))"

text \<open>
  What is relied on of the router: it runs one of the routes it was given, with parameters that
  are segments of the path.
\<close>

definition plainParams :: "(string \<Rightarrow> string) \<Rightarrow> bool" where
  "plainParams u \<longleftrightarrow> (\<forall>k. CHR ''/'' \<notin> set (u k))"

lemma plainParamsD [simp]: "plainParams u \<Longrightarrow> CHR ''/'' \<notin> set (u k)"
  by (simp add: plainParams_def)

definition routes_registered :: "router \<Rightarrow> bool" where
  "routes_registered route \<longleftrightarrow>
     (\<forall>rs ms meth path rt u. route rs ms meth path = Endpoint rt u \<longrightarrow> rt \<in> set rs \<and> plainParams u)"

text \<open>
  A router: the first registered route of the method whose pattern fits the segments of the
  path, else the first mount that the path is below. It serves to evaluate examples.
\<close>

fun fits :: "seg list \<Rightarrow> string list \<Rightarrow> (string \<times> string) list option" where
  "fits [] [] = Some []"
| "fits (Lit l # ps) (s # ss) = (if s = l then fits ps ss else None)"
| "fits (Par k # ps) (s # ss) = map_option (\<lambda>u. (k, s) # u) (fits ps ss)"
| "fits (ParVerb k v # ps) (s # ss) =
     (let suffix = CHR '':'' # v in
      if hasPrefix (rev s) (rev suffix)
      then map_option (\<lambda>u. (k, trimSuffix s suffix) # u) (fits ps ss) else None)"
| "fits _ _ = None"

definition paramOf :: "(string \<times> string) list \<Rightarrow> string \<Rightarrow> string" where
  "paramOf u k = (case map_of u k of None \<Rightarrow> [] | Some v \<Rightarrow> v)"

definition segmentsOf :: "string \<Rightarrow> string list" where
  "segmentsOf path = filter (\<lambda>s. s \<noteq> []) (splitOn (CHR ''/'') path)"

text \<open>A path without empty segments that begins with a prefix.\<close>

definition below :: "string \<Rightarrow> seg list \<Rightarrow> bool" where
  "below path p \<longleftrightarrow>
     (let segs = segmentsOf path in
      path = concat (map (\<lambda>s. CHR ''/'' # s) segs) \<and>
      length p \<le> length segs \<and> fits p (take (length p) segs) \<noteq> None)"

fun firstRoute :: "route list \<Rightarrow> string \<Rightarrow> string \<Rightarrow> (route \<times> (string \<Rightarrow> string)) option" where
  "firstRoute [] meth path = None"
| "firstRoute ((m, p, h) # rs) meth path =
     (if m = meth then
        (case fits p (segmentsOf path) of
           None \<Rightarrow> firstRoute rs meth path
         | Some u \<Rightarrow> Some ((m, p, h), paramOf u))
      else firstRoute rs meth path)"

definition firstFit :: "router" where
  "firstFit rs ms meth path =
     (case firstRoute rs meth path of
        Some (rt, u) \<Rightarrow> Endpoint rt u
      | None \<Rightarrow> (case find (below path) ms of Some p \<Rightarrow> Mounted p | None \<Rightarrow> Nowhere))"

text \<open>
  What is relied on of the router besides: a path below a mounted prefix is dispatched into some
  mount or route.
\<close>

definition mounts_answered :: "router \<Rightarrow> bool" where
  "mounts_answered route \<longleftrightarrow>
     (\<forall>rs ms meth path. list_ex (below path) ms \<longrightarrow> route rs ms meth path \<noteq> Nowhere)"

lemma firstFit_answers: "mounts_answered firstFit"
  by (auto simp: mounts_answered_def firstFit_def list_ex_iff find_None_iff split: option.split)

lemma fits_plain:
  "fits p ss = Some u \<Longrightarrow> \<forall>s\<in>set ss. c \<notin> set s \<Longrightarrow> (k, v) \<in> set u \<Longrightarrow> c \<notin> set v"
proof (induction p ss arbitrary: u rule: fits.induct)
  case (4 k' v' ps s ss)
  let ?suffix = "CHR '':'' # v'"
  from "4.prems"(1) obtain u' where fit: "hasPrefix (rev s) (rev ?suffix)" "fits ps ss = Some u'"
    and u: "u = (k', trimSuffix s ?suffix) # u'"
    by (auto simp: Let_def split: if_splits)
  have "c \<notin> set (trimSuffix s ?suffix)"
    using "4.prems"(2) by (auto simp: trimSuffix_def dest: in_set_takeD)
  with "4.IH" [OF refl fit] "4.prems"(2,3) show ?case by (auto simp: u)
qed (auto split: if_splits)

lemma firstFit_registered: "routes_registered firstFit"
proof -
  have "CHR ''/'' \<notin> set (paramOf u k)" if "fits p (segmentsOf path) = Some u" for p path u k
    using fits_plain [OF that, of "CHR ''/''"] splitOn_parts [of _ "CHR ''/''" path]
    by (cases "map_of u k") (auto simp: paramOf_def segmentsOf_def dest: map_of_SomeD)
  then have "firstRoute rs meth path = Some (rt, u) \<Longrightarrow> rt \<in> set rs \<and> plainParams u" for rs meth path rt u
    by (induction rs meth path rule: firstRoute.induct) (auto simp: plainParams_def split: if_splits option.splits)
  then show ?thesis unfolding routes_registered_def firstFit_def
    by (auto split: option.splits)
qed

lemma firstRoute_fits: "firstRoute rs meth path = Some ((m, p, h), u) \<Longrightarrow> fits p (segmentsOf path) \<noteq> None"
  by (induction rs meth path rule: firstRoute.induct) (auto split: if_splits option.splits)

lemma firstFit_fits: "firstFit rs ms meth path = Endpoint (m, p, h) u \<Longrightarrow> fits p (segmentsOf path) \<noteq> None"
  using firstRoute_fits by (auto simp: firstFit_def split: option.splits)

section \<open>The states of a server\<close>

text \<open>
  A server starts on a new repository; each step serves one request, from beginning to end.
  (The interleaving of the statements of two requests is not modelled.)
\<close>

inductive server_reachable :: "router \<Rightarrow> application \<Rightarrow> bool" for route where
  start: "server_reachable route (NewApplication (NewRepository dbPath))"
| request: "server_reachable route app \<Longrightarrow> server_reachable route (snd (serve route meth path i r app))"

inductive_simps server_reachable_simps: "server_reachable route app"

text \<open>
  The invariant of the server: the database satisfies that of the repository, in memory and in
  the snapshot file; every connection of Service Networking is at an allocated address of its
  own, in the table and in its snapshot; the services of a project are enabled once.
\<close>

definition memory_ok :: "application \<Rightarrow> bool" where
  "memory_ok app \<longleftrightarrow>
     sn_ok app \<and>
     (\<forall>snap. snConnectionsSnapshot app = Some snap \<longrightarrow> sn_table_ok snap (snFresh app)) \<and>
     (\<forall>p. distinct (enabledServices app p))"

definition server_ok :: "application \<Rightarrow> bool" where
  "server_ok app \<longleftrightarrow> app_ok app \<and> memory_ok app"

end
