(* ===== verification/Correct_Server.thy ===== *)
theory Correct_Server
  imports Server
begin

text \<open>
  The server as a refinement of the repository: whatever a request asks for, what it does to the
  database and to the snapshot is a sequence of operations of the repository, of \<^verbatim>\<open>Reset\<close>,
  \<^verbatim>\<open>Snapshot\<close> and \<^verbatim>\<open>Restore\<close>. The invariant of the database is then that of the repository;
  the invariant of the stores in memory is a second contract of the handlers. Both contracts
  are checked along the table of routes.
\<close>

section \<open>Contracts of handlers\<close>

definition all_routes :: "(handler \<Rightarrow> bool) \<Rightarrow> route list \<Rightarrow> bool" where
  "all_routes contract rs \<longleftrightarrow> (\<forall>(m, p, h)\<in>set rs. contract h)"

lemma all_routes_simps [simp]:
  "all_routes contract []"
  "all_routes contract ((m, p, h) # rs) \<longleftrightarrow> contract h \<and> all_routes contract rs"
  "all_routes contract (rs @ rs') \<longleftrightarrow> all_routes contract rs \<and> all_routes contract rs'"
  unfolding all_routes_def by (simp, simp, simp only: set_append ball_Un)

lemma all_routes_mount [simp]: "all_routes contract (mount prefix rs) \<longleftrightarrow> all_routes contract rs"
  by (fastforce simp: all_routes_def mount_def)

text \<open>
  A contract that the refusal of a request without a token satisfies: if every handler of
  the tables has it, so does the one that the router chooses.
\<close>

locale route_contract =
  fixes contract :: "handler \<Rightarrow> bool"
  assumes contract_secured: "contract h \<Longrightarrow> contract (\<lambda>u i. requireBearerToken (h u i))"
begin

lemma all_secured: "all_routes contract rs \<Longrightarrow> all_routes contract (map secured rs)"
  by (fastforce simp: all_routes_def secured_def contract_secured)

lemma chosen:
  assumes "routes_registered route" "all_routes contract rs" "route rs ms meth path = Endpoint (m, p, h) u"
  shows "contract h"
proof -
  have "(m, p, h) \<in> set rs" using assms(1,3) unfolding routes_registered_def by blast
  with assms(2) show ?thesis by (auto simp: all_routes_def)
qed

end

section \<open>The repository and its snapshot\<close>

inductive store_step :: "db \<times> db option \<Rightarrow> db \<times> db option \<Rightarrow> bool" where
  operation_step: "repo_step s s' \<Longrightarrow> store_step (s, snap) (s', snap)"
| reset_step: "store_step (s, snap) (emptyDb, None)"
| snapshot_step: "store_step (s, snap) (s, Some s)"
| restore_step: "store_step (s, Some snap) (snap, Some snap)"

text \<open>What holds of the empty database and is kept by every operation holds of both databases.\<close>

lemma store_steps_keep:
  assumes "store_step\<^sup>*\<^sup>* x y" "P (fst x)" "\<And>t. snd x = Some t \<Longrightarrow> P t"
    and "P emptyDb" "\<And>s s'. repo_step s s' \<Longrightarrow> P s \<Longrightarrow> P s'"
  shows "P (fst y) \<and> (\<forall>t. snd y = Some t \<longrightarrow> P t)"
  using assms(1)
proof (induction rule: rtranclp_induct)
  case base
  with assms(2,3) show ?case by blast
next
  case (step y z)
  from step(2,3) show ?case using assms(4,5) by cases auto
qed

lemma runs_store: "runs s s' \<Longrightarrow> store_step\<^sup>*\<^sup>* (s, snap) (s', snap)"
  unfolding runs_def
  by (induction rule: rtranclp_induct) (auto intro: rtranclp.rtrancl_into_rtrancl operation_step)

definition stored :: "application \<Rightarrow> db \<times> db option" where
  "stored app = (rdb (repo app), snapshotFile (repo app))"

lemma stored_onDb: "stored (snd (onDb h app)) = (snd (h (rdb (repo app))), snapshotFile (repo app))"
  by (cases "h (rdb (repo app))") (simp add: stored_def onDb_def)

section \<open>Every handler refines the repository\<close>

definition refines :: "handler \<Rightarrow> bool" where
  "refines h \<longleftrightarrow> (\<forall>u i r app. plainParams u \<longrightarrow> store_step\<^sup>*\<^sup>* (stored app) (stored (snd (h u i r app))))"

interpretation refines_contract: route_contract refines
  by unfold_locales (simp add: refines_def requireBearerToken_def)

lemma refines_onDb [intro!]:
  assumes "\<And>u i r s0 s. plainParams u \<Longrightarrow> runs s0 s \<Longrightarrow> runs s0 (snd (h u i r s))"
  shows "refines (\<lambda>u i r. onDb (h u i r))"
  unfolding refines_def stored_onDb
  by (intro allI impI, unfold stored_def, rule runs_store, rule assms, assumption, rule runs_refl)

lemma refines_untouched:
  "(\<And>u i r app. repo (snd (h u i r app)) = repo app) \<Longrightarrow> refines h"
  by (simp add: refines_def stored_def)

lemma refines_readOnly [intro!]: "refines (\<lambda>u i r. readOnly (f u i r))"
  by (simp add: refines_def readOnly_def)

lemma refines_answering [intro!]: "refines (\<lambda>u i r. answering (f u i r))"
  by (simp add: refines_def answering_def)

lemmas reader_defs = AccessSecretVersion_h_def EnableSecretVersion_h_def DisableSecretVersion_h_def
  GetAddress_h_def GetBackendService_h_def GetBucket_h_def
   GetCloudRunService_h_def GetCluster_h_def GetDNSRecordSet_h_def GetDNSZone_h_def
   GetDisk_h_def GetFirewall_h_def GetGlobalAddress_h_def GetGlobalForwardingRule_h_def
   GetGlobalImage_h_def GetGlobalImageFromFamily_h_def GetGlobalOperation_h_def
   GetHealthCheck_h_def GetIAMPolicy_h_def GetInstance_h_def GetInstanceGroupManager_h_def
   GetNetwork_h_def GetNodePool_h_def GetRedisInstance_h_def GetRegionOperation_h_def
   GetRouter_h_def GetRouterNAT_h_def GetSAKey_h_def GetSQLDatabase_h_def GetSQLInstance_h_def
   GetSSLCertificate_h_def GetSecret_h_def GetSecretVersion_h_def GetServiceAccount_h_def
   GetSubnetwork_h_def GetSubscription_h_def GetTargetHTTPSProxy_h_def GetTopic_h_def
   GetURLMap_h_def GetZone_h_def GetZoneOperation_h_def ListAddresses_h_def
   ListBackendServices_h_def ListBuckets_h_def ListCloudRunServices_h_def ListClusters_h_def
   ListDNSRecordSets_h_def ListDNSZones_h_def ListDisks_h_def ListFirewalls_h_def
   ListGlobalAddresses_h_def ListGlobalForwardingRules_h_def ListHealthChecks_h_def
   ListInstanceGroupManagers_h_def ListInstances_h_def ListNetworks_h_def ListNodePools_h_def
   ListRedisInstances_h_def ListRouterNATs_h_def ListRouters_h_def ListSAKeys_h_def
   ListSQLDatabases_h_def ListSQLInstances_h_def ListSQLUsers_h_def ListSSLCertificates_h_def
   ListSecretVersions_h_def ListSecrets_h_def ListServiceAccounts_h_def ListSubnetworks_h_def
   ListSubscriptions_h_def ListTargetHTTPSProxies_h_def ListTopics_h_def ListURLMaps_h_def

text \<open>A handler of Service Networking allocates addresses and leaves the rest alone.\<close>

definition sn_only :: "application \<Rightarrow> application \<Rightarrow> bool" where
  "sn_only app app' \<longleftrightarrow>
     repo app' = repo app \<and> snConnectionsSnapshot app' = snConnectionsSnapshot app \<and>
     enabledServices app' = enabledServices app \<and> snFresh app \<le> snFresh app'"

lemma sn_only_handlers:
  "sn_only app (snd (CreateServiceNetworkingConnection_h service r app))"
  "sn_only app (snd (PatchServiceNetworkingConnection_h service r app))"
  "sn_only app (snd (DeleteServiceNetworkingConnection_h service r app))"
  by (auto simp: sn_only_def CreateServiceNetworkingConnection_h_def PatchServiceNetworkingConnection_h_def
      DeleteServiceNetworkingConnection_h_def withBody_def snStore_def snAssign_def Let_def
      split: sum.split option.split)

lemma repo_marks:
  "repo (markServiceEnabled project service app) = repo app"
  "repo (foldl (\<lambda>app svc. markServiceEnabled project (g svc) app) app svcs) = repo app"
proof -
  show one: "repo (markServiceEnabled project service app) = repo app" for service app
    by (simp add: markServiceEnabled_def)
  show "repo (foldl (\<lambda>app svc. markServiceEnabled project (g svc) app) app svcs) = repo app"
    by (induction svcs arbitrary: app) (simp_all add: one)
qed

lemma refines_memory [intro!]:
  "refines (\<lambda>u i r. CreateServiceNetworkingConnection_h (u k) r)"
  "refines (\<lambda>u i r. PatchServiceNetworkingConnection_h (u k) r)"
  "refines (\<lambda>u i r. DeleteServiceNetworkingConnection_h (u k) r)"
  "refines (\<lambda>u i r. EnableProjectService_h (u k) (u k'))"
  "refines (\<lambda>u i r. DisableProjectService_h (u k) (u k'))"
  "refines (\<lambda>u i r. BatchEnableProjectServices_h (u k) (serviceIds i))"
  "refines (\<lambda>u i r. KMSSetIamPolicy_h (clock1 i) (u k1) (u k2) (u k3) (u k4) r)"
  "refines (\<lambda>u i r. SetServiceAccountIamPolicy_h (clock1 i) (u k1) (u k2) r)"
  using sn_only_handlers
  by (intro refines_untouched; auto simp: sn_only_def EnableProjectService_h_def DisableProjectService_h_def
      BatchEnableProjectServices_h_def repo_marks KMSSetIamPolicy_h_def SetServiceAccountIamPolicy_h_def
      withBody_def Let_def split: sum.split option.split)+

lemma refines_change [intro!]: "refines (\<lambda>u i r. CreateDNSChange_h (clock1 i) (u k) (u k') r)"
proof -
  have "stored (snd (CreateDNSChange_h c project zone r app)) =
      (snd (dnsChangeOnDb c project zone r (rdb (repo app))), snapshotFile (repo app))" for c project zone r app
    by (auto simp: CreateDNSChange_h_def Let_def recordDNSChange_def stored_def
        split: prod.split option.split dest!: arg_cong [where f = snd])
  then show ?thesis
    unfolding refines_def by (simp add: stored_def runs_store dnsChangeOnDb_runs)
qed

lemma refines_admin [intro!]:
  "refines (\<lambda>u i r. ResetState_h)" "refines (\<lambda>u i r. SnapshotState_h)" "refines (\<lambda>u i r. RestoreState_h)"
  by (auto simp: refines_def stored_def ResetState_h_def Reset_def foldl_truncate_reset SnapshotState_h_def
      Snapshot_def RestoreState_h_def Restore_def Let_def resetDNSChanges_def
      resetServiceNetworkingConnections_def resetKMSIamStore_def resetSAIamStore_def snapshotDNSChanges_def
      snapshotServiceNetworkingConnections_def restoreDNSChanges_def restoreServiceNetworkingConnections_def
      split: sum.split option.split intro!: r_into_rtranclp intro: store_step.intros)

lemma refines_globalRoutes: "all_routes refines globalRoutes"
  unfolding globalRoutes_def by (auto simp: reader_defs Let_def intro: keeps_runs split: sum.split option.split)

lemma refines_zonalRoutes: "all_routes refines zonalRoutes"
  unfolding zonalRoutes_def by (auto simp: reader_defs Let_def intro: keeps_runs split: sum.split option.split)

lemma refines_regionalRoutes: "all_routes refines regionalRoutes"
  unfolding regionalRoutes_def by (auto simp: reader_defs Let_def intro: keeps_runs split: sum.split option.split)

lemma refines_kmsRoutes: "all_routes refines kmsRoutes"
  unfolding kmsRoutes_def by (auto simp: reader_defs Let_def intro: keeps_runs split: sum.split option.split)

lemma refines_gkeRoutes: "all_routes refines gkeRoutes"
  unfolding gkeRoutes_def by (auto simp: reader_defs Let_def intro: keeps_runs split: sum.split option.split)

lemma refines_sqlRoutes: "all_routes refines sqlRoutes"
  unfolding sqlRoutes_def by (auto simp: reader_defs Let_def intro: keeps_runs split: sum.split option.split)

lemma refines_policyRoutes: "all_routes refines policyRoutes"
  unfolding policyRoutes_def by (auto simp: reader_defs Let_def intro: keeps_runs split: sum.split option.split)

lemma refines_resourceRoutes: "all_routes refines resourceRoutes"
  unfolding resourceRoutes_def by (auto simp: reader_defs Let_def intro: keeps_runs split: sum.split option.split)

lemma refines_projectRoutes: "all_routes refines projectRoutes"
  unfolding projectRoutes_def by (auto simp: reader_defs Let_def intro: keeps_runs split: sum.split option.split)

lemma refines_operationRoutes: "all_routes refines operationRoutes"
  unfolding operationRoutes_def by (auto simp: reader_defs Let_def intro: keeps_runs split: sum.split option.split)

lemma refines_connectionRoutes: "all_routes refines connectionRoutes"
  unfolding connectionRoutes_def by (auto simp: reader_defs Let_def intro: keeps_runs split: sum.split option.split)

lemma refines_dnsRoutes: "all_routes refines dnsRoutes"
  unfolding dnsRoutes_def by (auto simp: reader_defs Let_def intro: keeps_runs split: sum.split option.split)

lemma refines_cloudRunRoutes: "all_routes refines cloudRunRoutes"
  unfolding cloudRunRoutes_def by (auto simp: reader_defs Let_def intro: keeps_runs split: sum.split option.split)

lemma refines_redisRoutes: "all_routes refines redisRoutes"
  unfolding redisRoutes_def by (auto simp: reader_defs Let_def intro: keeps_runs split: sum.split option.split)

lemma refines_storageRoutes: "all_routes refines storageRoutes"
  unfolding storageRoutes_def by (auto simp: reader_defs Let_def intro: keeps_runs split: sum.split option.split)

lemma refines_adminRoutes: "all_routes refines adminRoutes"
  unfolding adminRoutes_def by (auto simp: reader_defs Let_def intro: keeps_runs split: sum.split option.split)

lemma refines_RegisterRoutes: "all_routes refines RegisterRoutes"
  unfolding RegisterRoutes_def gcpRoutes_def
  by (simp add: refines_contract.all_secured refines_globalRoutes refines_zonalRoutes refines_regionalRoutes refines_kmsRoutes refines_gkeRoutes refines_sqlRoutes refines_policyRoutes refines_resourceRoutes refines_projectRoutes refines_operationRoutes refines_connectionRoutes refines_dnsRoutes refines_cloudRunRoutes refines_redisRoutes refines_storageRoutes refines_adminRoutes)

section \<open>Every handler keeps the stores in memory\<close>

definition remembers :: "handler \<Rightarrow> bool" where
  "remembers h \<longleftrightarrow> (\<forall>u i r app. memory_ok app \<longrightarrow> memory_ok (snd (h u i r app)))"

interpretation remembers_contract: route_contract remembers
  by unfold_locales (simp add: remembers_def requireBearerToken_def)

lemma memory_ok_onDb [simp]: "memory_ok (snd (onDb h app)) \<longleftrightarrow> memory_ok app"
  by (cases "h (rdb (repo app))") (simp add: onDb_def memory_ok_def sn_ok_def)

text \<open>The invariant does not mention the fields that some handlers change.\<close>

lemma memory_ok_stores [simp]:
  "memory_ok (app\<lparr>repo := d\<rparr>) \<longleftrightarrow> memory_ok app"
  "memory_ok (app\<lparr>saIamStor := f\<rparr>) \<longleftrightarrow> memory_ok app"
  "memory_ok (app\<lparr>kmsIamStor := f\<rparr>) \<longleftrightarrow> memory_ok app"
  "memory_ok (app\<lparr>dnsChanges := g\<rparr>) \<longleftrightarrow> memory_ok app"
  "memory_ok (app\<lparr>dnsChangesSnapshot := g'\<rparr>) \<longleftrightarrow> memory_ok app"
  by (simp_all add: memory_ok_def sn_ok_def)

lemma remembers_shapes [simp]:
  "remembers (\<lambda>u i r. onDb (h1 u i r))"
  "remembers (\<lambda>u i r. readOnly (h2 u i r))"
  "remembers (\<lambda>u i r. answering (h3 u i r))"
  by (simp_all add: remembers_def readOnly_def answering_def)

lemma memory_ok_sn:
  assumes "sn_only app app'" "sn_ok app \<Longrightarrow> sn_ok app'"
  shows "memory_ok app \<Longrightarrow> memory_ok app'"
  using assms by (auto simp: memory_ok_def sn_only_def intro: sn_table_ok_mono split: option.splits)

lemma remembers_sn [simp]:
  "remembers (\<lambda>u i r. CreateServiceNetworkingConnection_h (u k) r)"
  "remembers (\<lambda>u i r. PatchServiceNetworkingConnection_h (u k) r)"
  "remembers (\<lambda>u i r. DeleteServiceNetworkingConnection_h (u k) r)"
  by (simp_all add: remembers_def memory_ok_sn [OF sn_only_handlers(1) sn_ok_create]
      memory_ok_sn [OF sn_only_handlers(2) sn_ok_patch] memory_ok_sn [OF sn_only_handlers(3) sn_ok_drop])

lemma memory_ok_services:
  "memory_ok app \<Longrightarrow> \<forall>p. distinct (f p) \<Longrightarrow> memory_ok (app\<lparr>enabledServices := f\<rparr>)"
  by (simp add: memory_ok_def sn_ok_def)

lemma memory_ok_enabled: "memory_ok app \<Longrightarrow> distinct (enabledServices app p)"
  by (simp add: memory_ok_def)

lemma memory_ok_mark: "memory_ok app \<Longrightarrow> memory_ok (markServiceEnabled project service app)"
  by (auto simp: markServiceEnabled_def memory_ok_enabled intro!: memory_ok_services)

lemma memory_ok_marks:
  "memory_ok app \<Longrightarrow> memory_ok (foldl (\<lambda>app svc. markServiceEnabled project (g svc) app) app svcs)"
  by (induction svcs arbitrary: app) (simp_all add: memory_ok_mark)

lemma remembers_services [simp]:
  "remembers (\<lambda>u i r. EnableProjectService_h (u k) (u k'))"
  "remembers (\<lambda>u i r. DisableProjectService_h (u k) (u k'))"
  "remembers (\<lambda>u i r. BatchEnableProjectServices_h (u k) (serviceIds i))"
  by (auto simp: remembers_def EnableProjectService_h_def DisableProjectService_h_def
      BatchEnableProjectServices_h_def memory_ok_mark memory_ok_marks
      memory_ok_enabled intro!: memory_ok_services)

lemma remembers_policies [simp]:
  "remembers (\<lambda>u i r. KMSSetIamPolicy_h (clock1 i) (u k1) (u k2) (u k3) (u k4) r)"
  "remembers (\<lambda>u i r. SetServiceAccountIamPolicy_h (clock1 i) (u k1) (u k2) r)"
  by (auto simp: remembers_def KMSSetIamPolicy_h_def SetServiceAccountIamPolicy_h_def withBody_def Let_def
      split: sum.split option.split)

lemma remembers_change [simp]: "remembers (\<lambda>u i r. CreateDNSChange_h (clock1 i) (u k) (u k') r)"
  by (auto simp: remembers_def CreateDNSChange_h_def Let_def recordDNSChange_def split: prod.split option.split)

lemma remembers_admin [simp]:
  "remembers (\<lambda>u i r. ResetState_h)" "remembers (\<lambda>u i r. SnapshotState_h)" "remembers (\<lambda>u i r. RestoreState_h)"
  by (auto simp: remembers_def ResetState_h_def SnapshotState_h_def RestoreState_h_def Let_def
      resetDNSChanges_def resetServiceNetworkingConnections_def resetKMSIamStore_def resetSAIamStore_def
      snapshotDNSChanges_def snapshotServiceNetworkingConnections_def restoreDNSChanges_def
      restoreServiceNetworkingConnections_def memory_ok_def sn_ok_def sn_table_ok_def
      split: prod.splits sum.splits option.splits)

lemma remembers_gcpRoutes: "all_routes remembers gcpRoutes"
  unfolding gcpRoutes_def globalRoutes_def zonalRoutes_def regionalRoutes_def kmsRoutes_def gkeRoutes_def
    sqlRoutes_def policyRoutes_def resourceRoutes_def projectRoutes_def operationRoutes_def
    connectionRoutes_def dnsRoutes_def cloudRunRoutes_def redisRoutes_def storageRoutes_def
  by (simp only: all_routes_simps all_routes_mount remembers_shapes remembers_sn remembers_services
      remembers_policies remembers_change simp_thms)

lemma remembers_RegisterRoutes: "all_routes remembers RegisterRoutes"
  unfolding RegisterRoutes_def adminRoutes_def
  by (simp add: remembers_contract.all_secured remembers_gcpRoutes)

section \<open>Every reachable state\<close>

lemma serve_remembers:
  assumes "routes_registered route" "memory_ok app"
  shows "memory_ok (snd (serve route meth path i r app))"
  using assms(2) remembers_contract.chosen [OF assms(1) remembers_RegisterRoutes]
  by (fastforce simp: serve_def remembers_def requireBearerToken_def answering_def split: found.split)

lemma serve_refines:
  assumes "routes_registered route"
  shows "store_step\<^sup>*\<^sup>* (stored app) (stored (snd (serve route meth path i r app)))"
proof (cases "route RegisterRoutes mounted meth path")
  case (Endpoint rt u)
  then obtain m p h where hit: "route RegisterRoutes mounted meth path = Endpoint (m, p, h) u"
    by (cases rt) auto
  have "refines h" by (rule refines_contract.chosen [OF assms refines_RegisterRoutes hit])
  moreover have "plainParams u" using assms hit unfolding routes_registered_def by blast
  ultimately show ?thesis using hit by (simp add: serve_def refines_def)
qed (simp_all add: serve_def requireBearerToken_def answering_def)

lemma reachable_stored:
  assumes "routes_registered route" "server_reachable route app"
  shows "reachable (fst (stored app)) \<and> (\<forall>snap. snd (stored app) = Some snap \<longrightarrow> reachable snap)"
  using assms(2)
proof induction
  case (start dbPath)
  show ?case by (simp add: stored_def NewApplication_def NewRepository_def reachable_def)
next
  case (request app meth path i r)
  show ?case
    by (rule store_steps_keep [OF serve_refines [OF assms(1)]])
      (use request.IH in \<open>auto simp: reachable_def intro: rtranclp.rtrancl_into_rtrancl\<close>)
qed

text \<open>C2 The server refines the repository: in every state, what a request does to the database and
to its snapshot is a sequence of operations of the repository and of reset, snapshot and restore;
so in every reachable state the database, and the snapshot when there is one, are databases that
the repository's operations produce from the empty one.\<close>

theorem server_refines_repository:
  assumes "routes_registered route"
  shows "store_step\<^sup>*\<^sup>* (stored app) (stored (snd (serve route meth path i r app))) \<and>
    (server_reachable route app' \<longrightarrow>
       reachable (rdb (repo app')) \<and> (\<forall>snap. snapshotFile (repo app') = Some snap \<longrightarrow> reachable snap))"
  using serve_refines [OF assms] reachable_stored [OF assms, of app'] by (simp_all add: stored_def)

definition inputs0 :: inputs where
  "inputs0 = \<lparr>env1 = env0, env2 = env0, clock1 = clock0, clock2 = clock0, etagHex = ''00'',
     pickRow = hd, serviceIds = []\<rparr>"

definition enabledOnce :: application where
  "enabledOnce = snd (serve firstFit ''POST'' ''/v1/projects/p/services/run:enable'' inputs0
     (requestWith EmptyBody) (NewApplication (NewRepository ''f'')))"

lemma enabledOnce_reachable: "server_reachable firstFit enabledOnce"
  unfolding enabledOnce_def by (rule request) (rule start)

theorem server_refines_repository_witness:
  "store_step\<^sup>*\<^sup>* (stored enabledOnce) (stored (snd (serve firstFit ''POST'' ''/mock/reset'' inputs0
     (requestWith EmptyBody) enabledOnce))) \<and> reachable (rdb (repo enabledOnce))"
  using server_refines_repository [OF firstFit_registered] enabledOnce_reachable by blast

text \<open>So the invariant of the repository holds of both databases.\<close>

lemma reachable_server_ok:
  assumes "routes_registered route" "server_reachable route app"
  shows "server_ok app"
proof -
  have "app_ok app"
    using reachable_stored [OF assms] reachable_inv by (auto simp: app_ok_def repository_ok_def stored_def)
  moreover have "memory_ok app"
    using assms(2)
  proof induction
    case start
    show ?case by (simp add: NewApplication_def memory_ok_def sn_ok_def sn_table_ok_def)
  qed (rule serve_remembers [OF assms(1)])
  ultimately show ?thesis by (simp add: server_ok_def)
qed

lemma server_ok_memory: "server_ok app \<Longrightarrow> memory_ok app"
  by (simp add: server_ok_def)

lemma reachable_repo_inv:
  "routes_registered route \<Longrightarrow> server_reachable route app \<Longrightarrow> repo_inv (rdb (repo app))"
  using reachable_server_ok [of route app] by (simp add: server_ok_def app_ok_def repository_ok_def)

text \<open>C1 The invariant of the server: whatever requests are served, by whatever choice of the
router among the registered routes and whatever the clock and the random sources yield, the
database satisfies its keys, its foreign keys and its NOT NULL columns; its bodies are as JSON stores
them, and their fields that \<open>mirrors\<close> lists agree with the columns of the row (the names, too, except
where the body has a path in the place of the name: secrets, topics, subscriptions, Cloud Run and
Memorystore); the number in the name of a secret version is at most its row's; a subscription is
filed under the short name it reports and, unless detached, bound to the topic it names; no binding
has an empty role or member. All this holds of the snapshot too. No two connections of Service
Networking share a map, and no service is enabled twice.\<close>

theorem server_invariant:
  assumes "routes_registered route" "server_reachable route app"
  shows "server_ok app"
  by (rule reachable_server_ok [OF assms])

theorem server_invariant_witness: "server_ok enabledOnce"
  by (rule server_invariant [OF firstFit_registered enabledOnce_reachable])

definition no_orphan :: "db \<Rightarrow> bool" where
  "no_orphan s \<longleftrightarrow>
     (\<forall>p region n d. GetSubnetwork s p region n = Inr d \<longrightarrow>
        (\<exists>net. GetNetwork s p (getString d ''network_name'') = Inr net)) \<and>
     (\<forall>p n d. GetFirewall s p n = Inr d \<longrightarrow>
        (\<exists>net. GetNetwork s p (getString d ''network_name'') = Inr net)) \<and>
     (\<forall>p region n d. GetRouter s p region n = Inr d \<longrightarrow>
        (\<exists>net. GetNetwork s p (getString d ''network_name'') = Inr net)) \<and>
     (\<forall>p region rtr n d. GetRouterNAT s p region rtr n = Inr d \<longrightarrow>
        (\<exists>rd. GetRouter s p region rtr = Inr rd)) \<and>
     (\<forall>p loc cl n d. GetNodePool s p loc cl n = Inr d \<longrightarrow> (\<exists>cd. GetCluster s p loc cl = Inr cd)) \<and>
     (\<forall>p inst n d. GetSQLDatabase s p inst n = Inr d \<longrightarrow> (\<exists>sd. GetSQLInstance s p inst = Inr sd)) \<and>
     (\<forall>p zone n ty d. GetDNSRecordSet s p zone n ty = Inr d \<longrightarrow> (\<exists>zd. GetDNSZone s p zone = Inr zd))"

lemma repo_inv_no_orphan:
  assumes inv: "repo_inv s"
  shows "no_orphan s"
proof -
  note parent = child_parent [OF inv]
  have "\<exists>net. GetNetwork s p (getString d ''network_name'') = Inr net"
    if "GetSubnetwork s p region n = Inr d" for p region n d
    using parent [OF that [unfolded GetSubnetwork_def], where vs = "[p, getString d ''network_name'']"]
    by (simp add: GetNetwork_def)
  moreover have "\<exists>net. GetNetwork s p (getString d ''network_name'') = Inr net"
    if "GetFirewall s p n = Inr d" for p n d
    using parent [OF that [unfolded GetFirewall_def], where vs = "[p, getString d ''network_name'']"]
    by (simp add: GetNetwork_def)
  moreover have "\<exists>net. GetNetwork s p (getString d ''network_name'') = Inr net"
    if "GetRouter s p region n = Inr d" for p region n d
    using parent [OF that [unfolded GetRouter_def], where vs = "[p, getString d ''network_name'']"]
    by (simp add: GetNetwork_def)
  moreover have "\<exists>rd. GetRouter s p region rtr = Inr rd"
    if "GetRouterNAT s p region rtr n = Inr d" for p region rtr n d
    using parent [OF that [unfolded GetRouterNAT_def], where vs = "[p, region, rtr]"]
    by (simp add: GetRouter_def)
  moreover have "\<exists>cd. GetCluster s p loc cl = Inr cd"
    if "GetNodePool s p loc cl n = Inr d" for p loc cl n d
    using parent [OF that [unfolded GetNodePool_def], where vs = "[p, loc, cl]"]
    by (simp add: GetCluster_def)
  moreover have "\<exists>sd. GetSQLInstance s p inst = Inr sd"
    if "GetSQLDatabase s p inst n = Inr d" for p inst n d
    using parent [OF that [unfolded GetSQLDatabase_def], where vs = "[p, inst]"]
    by (simp add: GetSQLInstance_def)
  moreover have "\<exists>zd. GetDNSZone s p zone = Inr zd"
    if "GetDNSRecordSet s p zone n ty = Inr d" for p zone n ty d
    using parent [OF that [unfolded GetDNSRecordSet_def], where vs = "[p, zone]"]
    by (simp add: GetDNSZone_def)
  ultimately show ?thesis unfolding no_orphan_def by blast
qed

text \<open>C8 In every reachable state no child is without its parent: the network of a stored
subnetwork, firewall or router exists, and so do the router of a NAT, the cluster of a node pool,
the instance of an SQL database and the zone of a record set.\<close>

theorem no_orphans:
  assumes "routes_registered route" "server_reachable route app"
  shows "no_orphan (rdb (repo app))"
  by (rule repo_inv_no_orphan) (rule reachable_repo_inv [OF assms])

theorem no_orphans_witness: "no_orphan (rdb (repo enabledOnce))"
  by (rule no_orphans [OF firstFit_registered enabledOnce_reachable])

section \<open>Authentication\<close>

lemma adminRoutes_mock: "(m, p, h) \<in> set adminRoutes \<Longrightarrow> hd p = Lit ''mock''"
  by (auto simp: adminRoutes_def)




end
