(* ===== verification/Correct_Operations.thy ===== *)
theory Correct_Operations
  imports H_Network H_LoadBalancer H_Container
begin

text \<open>
  What a client sees after a change: the operation it is answered with can be polled; an
  instance that is created has the fields that a client reads; the references of load
  balancing resources resolve; a new cluster has its default pool.
\<close>

section \<open>Polling an operation\<close>

lemma getString_storedOperation [simp]:
  "k \<notin> {''name'', ''project'', ''id'', ''insertTime''} \<Longrightarrow>
   getString (storedOperation e project name op) k = getString op k"
  by (simp add: storedOperation_def getString_def)

lemma operationBody_fields:
  "getString (operationBody co h project zone region link ty) ''zone'' =
     (if zone = [] then [] else zoneSelfLink h project zone)"
  "getString (operationBody co h project zone region link ty) ''region'' =
     (if region = [] then [] else regionSelfLink h project region)"
  "getString (operationBody co h project zone region link ty) ''status'' = ''DONE''"
  "getString (operationBody co h project zone region link ty) ''targetLink'' = link"
  "getString (operationBody co h project zone region link ty) ''operationType'' = ty"
  by (simp_all add: operationBody_def Let_def) (simp_all add: getString_def)

text \<open>C18 Polling: the operation that a change is answered with is done, names the changed resource
and the kind of change, and can be read back unchanged under its name at once, by all three
readers, in the zone or the region of the change as well as globally.\<close>

theorem operation_pollable:
  assumes inv: "repo_inv s"
    and run: "newOperation co eo (host r) project zone region link ty s = (op, s')"
  shows "getString op ''status'' = ''DONE'' \<and> getString op ''targetLink'' = link \<and>
    getString op ''operationType'' = ty \<and>
    GetGlobalOperation_h project (operationName co) s' = (writeJSON 200 (JObj (marshalData op)), s') \<and>
    GetZoneOperation_h project zone (operationName co) r s' = (writeJSON 200 (JObj (marshalData op)), s') \<and>
    GetRegionOperation_h project region (operationName co) r s' = (writeJSON 200 (JObj (marshalData op)), s')"
proof -
  note op = newOperation_stored(3) [OF inv run]
  have got: "GetOperation s' project (operationName co) = Inr (marshalData op)"
    using newOperation_stored(1) [OF inv run] by simp
  have zone: "getString op ''zone'' = (if zone = [] then [] else zoneSelfLink (host r) project zone)"
    and region: "getString op ''region'' = (if region = [] then [] else regionSelfLink (host r) project region)"
    and rest: "getString op ''status'' = ''DONE''" "getString op ''targetLink'' = link"
      "getString op ''operationType'' = ty"
    by (simp_all add: op operationBody_fields)
  show ?thesis
    using got rest by (simp add: GetGlobalOperation_h_def GetZoneOperation_h_def GetRegionOperation_h_def
        respond_def zone region)
qed

theorem operation_pollable_witness:
  "\<exists>op s'. newOperation clock0 env0 ''h'' ''p'' ''z'' [] ''l'' ''insert'' emptyDb = (op, s') \<and>
     GetZoneOperation_h ''p'' ''z'' (operationName clock0) (requestWith EmptyBody) s'
       = (writeJSON 200 (JObj (marshalData op)), s')"
proof -
  let ?r = "requestWith EmptyBody"
  obtain op s' where run: "newOperation clock0 env0 (host ?r) ''p'' ''z'' [] ''l'' ''insert'' emptyDb = (op, s')"
    by (cases "newOperation clock0 env0 (host ?r) ''p'' ''z'' [] ''l'' ''insert'' emptyDb")
  have "host ?r = ''h''" by (simp add: requestWith_def)
  with run operation_pollable [OF repo_inv_empty run] show ?thesis by auto
qed

section \<open>The fields of an instance\<close>

text \<open>What the reader of a provider takes from an instance without checking for its presence.\<close>

definition subHas :: "obj \<Rightarrow> string \<Rightarrow> string list \<Rightarrow> bool" where
  "subHas d k ks \<longleftrightarrow>
     (case toMap (map_of d k) of None \<Rightarrow> False | Some m \<Rightarrow> list_all (hasField m) ks)"

definition entriesHave :: "obj \<Rightarrow> string \<Rightarrow> string list \<Rightarrow> bool" where
  "entriesHave d k ks \<longleftrightarrow>
     list_all (\<lambda>m. list_all (hasField m) ks) (objectEntries (arrayField d k))"

definition topFields :: "string list" where
  "topFields =
     [''id'', ''fingerprint'', ''cpuPlatform'', ''canIpForward'', ''deletionProtection'',
      ''startRestricted'', ''labelFingerprint'', ''labels'', ''params'']"

definition readableInstance :: "obj \<Rightarrow> bool" where
  "readableInstance d \<longleftrightarrow>
     list_all (hasField d) topFields \<and>
     subHas d ''metadata'' [''fingerprint'', ''items'', ''kind''] \<and>
     subHas d ''tags'' [''fingerprint'', ''items''] \<and>
     subHas d ''scheduling''
       [''automaticRestart'', ''onHostMaintenance'', ''preemptible'', ''provisioningModel''] \<and>
     toMap (map_of d ''shieldedInstanceConfig'') \<noteq> None \<and>
     entriesHave d ''networkInterfaces'' [''fingerprint'', ''kind'', ''name'', ''stackType''] \<and>
     entriesHave d ''disks'' [''kind'', ''mode'', ''interface'', ''type'']"

lemma hasField_setAllMissing: "k \<in> fst ` set defaults \<Longrightarrow> hasField (setAllMissing defaults body) k"
  by (cases "map_of defaults k") (auto simp: hasField_def map_of_setAllMissing map_of_eq_None_iff split: option.split)

lemma objectEntries_defaultEntries:
  "(\<And>i. set ks \<subseteq> fst ` set (defaults i)) \<Longrightarrow>
   list_all (\<lambda>m. list_all (hasField m) ks) (objectEntries (defaultEntries defaults i xs))"
proof (induction defaults i xs rule: defaultEntries.induct)
  case (2 defaults i v vs)
  have "list_all (hasField (setAllMissing (defaults i) m)) ks" for m
    using 2(2) [of i] by (auto simp: list_all_iff intro!: hasField_setAllMissing)
  with 2 show ?case
    by (auto simp: objectEntries_def List.map_filter_simps toMap_def split: option.splits json.splits)
qed (simp add: objectEntries_def List.map_filter_simps)

lemma entriesHave_cong: "map_of d k = map_of d' k \<Longrightarrow> entriesHave d k ks = entriesHave d' k ks"
  by (simp add: entriesHave_def arrayField_def)

lemma entriesHave_other: "k \<noteq> k' \<Longrightarrow> entriesHave (defaultArray k' defaults d) k ks = entriesHave d k ks"
  by (rule entriesHave_cong) (simp add: map_of_defaultArray)

lemma entriesHave_defaultArray:
  assumes "\<And>i. set ks \<subseteq> fst ` set (defaults i)"
  shows "entriesHave (defaultArray k defaults d) k ks"
  using objectEntries_defaultEntries [of ks defaults 0, OF assms]
  by (cases "toArr (map_of d k)")
    (auto simp: entriesHave_def arrayField_def map_of_defaultArray toArr_def objectEntries_def
      List.map_filter_simps split: option.splits json.splits)

lemma map_of_setUnlessMap:
  "map_of (setUnlessMap k m body) k' =
     (if k' = k \<and> toMap (map_of body k) = None then Some (JObj m) else map_of body k')"
  by (simp add: setUnlessMap_def split: option.split)

lemma toMap_setUnlessMap: "toMap (map_of (setUnlessMap k m body) k) \<noteq> None"
  by (simp add: map_of_setUnlessMap toMap_def split: option.split json.split)

lemma hasField_layers:
  "hasField d k \<Longrightarrow> hasField (defaultSub k' defaults d) k"
  "hasField d k \<Longrightarrow> hasField (setUnlessMap k' m d) k"
  "hasField d k \<Longrightarrow> hasField (defaultArray k' entries d) k"
  by (auto simp: hasField_def map_of_defaultSub map_of_setUnlessMap map_of_defaultArray toArr_def
      split: option.split json.split)

lemma readable_populated: "readableInstance (populateComputeInstanceDefaults c body)"
proof -
  let ?d = "populateComputeInstanceDefaults c body"
  have top: "list_all (hasField ?d) topFields"
  proof -
    have "list_all (hasField (setAllMissing (instanceDefaults c) body)) (map fst (instanceDefaults c))"
      by (simp add: list_all_iff hasField_setAllMissing)
    then have "list_all (hasField ?d) (map fst (instanceDefaults c))"
      unfolding list_all_iff populateComputeInstanceDefaults_def Let_def
      by (blast intro: hasField_layers)
    then show ?thesis by (simp add: instanceDefaults_def topFields_def)
  qed
  have subs: "subHas ?d ''metadata'' [''fingerprint'', ''items'', ''kind'']"
    "subHas ?d ''tags'' [''fingerprint'', ''items'']"
    "subHas ?d ''scheduling'' [''automaticRestart'', ''onHostMaintenance'', ''preemptible'', ''provisioningModel'']"
    by (simp_all add: subHas_def populateComputeInstanceDefaults_def Let_def hasField_def map_of_defaultArray
        map_of_setUnlessMap map_of_defaultSub map_of_setAllMissing toMap_def metadataDefaults_def
        tagsDefaults_def schedulingDefaults_def split: option.split)
  have "toMap (map_of ?d ''shieldedInstanceConfig'') \<noteq> None"
    by (simp add: populateComputeInstanceDefaults_def Let_def map_of_defaultArray toMap_setUnlessMap)
  moreover have "entriesHave ?d ''networkInterfaces'' [''fingerprint'', ''kind'', ''name'', ''stackType'']"
    unfolding populateComputeInstanceDefaults_def Let_def
    by (subst entriesHave_other) (simp, rule entriesHave_defaultArray, simp add: nicDefaults_def)
  moreover have "entriesHave ?d ''disks'' [''kind'', ''mode'', ''interface'', ''type'']"
    unfolding populateComputeInstanceDefaults_def Let_def
    by (rule entriesHave_defaultArray) (simp add: diskDefaults_def)
  ultimately show ?thesis using top subs by (simp add: readableInstance_def)
qed

text \<open>Storing the body as text keeps it readable, and so does assigning other fields.\<close>

lemma hasField_marshalData [simp]: "hasField (marshalData d) k = hasField d k"
  by (simp add: hasField_def map_of_marshalData)

lemma reread_JObj: "reread (JObj m) = JObj (marshalData m)"
  by (simp add: marshalData_def)

lemma toMap_marshalData: "toMap (map_of (marshalData d) k) = map_option marshalData (toMap (map_of d k))"
  by (cases "map_of d k") (auto simp: toMap_def map_of_marshalData reread_JObj simp del: reread.simps(7) split: json.split)

lemma objectEntries_reread: "objectEntries (map reread xs) = map marshalData (objectEntries xs)"
  by (induction xs)
    (auto simp: objectEntries_def List.map_filter_simps toMap_def marshalData_def split: option.splits json.splits)

lemma arrayField_marshalData: "arrayField (marshalData d) k = map reread (arrayField d k)"
  by (auto simp: arrayField_def map_of_marshalData toArr_def split: option.split json.split)

lemma readable_marshalData: "readableInstance (marshalData d) = readableInstance d"
proof -
  have "subHas (marshalData d) k ks = subHas d k ks" for k ks
    by (simp add: subHas_def toMap_marshalData list_all_iff split: option.split)
  moreover have "entriesHave (marshalData d) k ks = entriesHave d k ks" for k ks
    by (simp add: entriesHave_def arrayField_marshalData objectEntries_reread list_all_iff)
  moreover have "list_all (hasField (marshalData d)) topFields = list_all (hasField d) topFields"
    by (simp add: list_all_iff)
  ultimately show ?thesis by (simp add: readableInstance_def toMap_marshalData)
qed

definition nestedKeys :: "string list" where
  "nestedKeys =
     [''metadata'', ''tags'', ''scheduling'', ''shieldedInstanceConfig'', ''networkInterfaces'', ''disks'']"

lemma in_nestedKeys:
  "''metadata'' \<in> set nestedKeys" "''tags'' \<in> set nestedKeys" "''scheduling'' \<in> set nestedKeys"
  "''shieldedInstanceConfig'' \<in> set nestedKeys" "''networkInterfaces'' \<in> set nestedKeys"
  "''disks'' \<in> set nestedKeys"
  by (simp_all add: nestedKeys_def)

lemma readable_extend:
  assumes "readableInstance d" and same: "\<And>k. k \<in> set nestedKeys \<Longrightarrow> map_of d' k = map_of d k"
    and more: "\<And>k. hasField d k \<Longrightarrow> hasField d' k"
  shows "readableInstance d'"
proof -
  have sub: "subHas d' k ks = subHas d k ks" if "k \<in> set nestedKeys" for k ks
    using same [OF that] by (simp add: subHas_def)
  have ent: "entriesHave d' k ks = entriesHave d k ks" if "k \<in> set nestedKeys" for k ks
    by (rule entriesHave_cong) (rule same [OF that])
  note R = assms(1) [unfolded readableInstance_def]
  have top: "list_all (hasField d') topFields"
    using R [THEN conjunct1] more unfolding list_all_iff by blast
  show ?thesis
    unfolding readableInstance_def
    by (rule conjI [OF top], subst sub [OF in_nestedKeys(1)], subst sub [OF in_nestedKeys(2)],
      subst sub [OF in_nestedKeys(3)], subst same [OF in_nestedKeys(4)],
      subst ent [OF in_nestedKeys(5)], subst ent [OF in_nestedKeys(6)], rule R [THEN conjunct2])
qed

lemma GetInstance_other: "(\<And>t. t \<noteq> Operations \<Longrightarrow> s' t = s t) \<Longrightarrow> GetInstance s' p z n = GetInstance s p z n"
  unfolding GetInstance_def by (rule loadOne_cong) simp

text \<open>The body that the repository stores.\<close>

definition instanceRow :: "env \<Rightarrow> string \<Rightarrow> string \<Rightarrow> obj \<Rightarrow> obj" where
  "instanceRow e project zone data =
     setDefault ''creationTimestamp'' (nowRFC3339 e) (setDefault ''id'' (numericID e)
       (jset ''zone'' (JStr zone) (jset ''project'' (JStr project)
         (jset ''name'' (JStr (getString data ''name'')) data))))"

lemma CreateInstance_created:
  assumes inv: "repo_inv s" and run: "CreateInstance e project zone data s = (Inr created, s')"
  shows "GetInstance s' project zone (getString data ''name'') = Inr created"
    and "created = marshalData (instanceRow e project zone data)"
    and "getString data ''name'' \<noteq> []"
proof -
  let ?n = "getString data ''name''"
  let ?cs = "[(C_name, ?n), (C_project, project), (C_zone, zone)]"
  let ?d = "marshalData (instanceRow e project zone data)"
  have n: "?n \<noteq> []" and val: "validateInstanceNetworkInterfaces s project zone data = None"
    using run by (auto simp: CreateInstance_def Let_def split: if_splits option.splits)
  show "?n \<noteq> []" by (rule n)
  show "GetInstance s' project zone ?n = Inr created" "created = ?d"
  proof -
    have "CreateInstance e project zone data s =
        (case sqlInsert Compute_instances ?cs ?d s of
           Inl err \<Rightarrow> (Inl (mapInsertError err), s)
         | Inr s' \<Rightarrow> (GetInstance s' project zone ?n, s'))"
      using n val by (simp add: CreateInstance_def Let_def instanceRow_def)
    with run have ins: "sqlInsert Compute_instances ?cs ?d s = Inr s'"
      and got: "GetInstance s' project zone ?n = Inr created"
      by (auto split: sum.splits)
    show "GetInstance s' project zone ?n = Inr created" by (rule got)
    with compute_instances_tbl.load_insert [OF repo_invD(1) [OF inv] _ ins,
        of "[(C_project, project), (C_zone, zone), (C_name, ?n)]"]
    show "created = ?d" by (simp add: GetInstance_def agrees_def)
  qed
qed

lemma map_of_instanceRow:
  "k \<notin> {''name'', ''project'', ''zone'', ''id'', ''creationTimestamp''} \<Longrightarrow>
   map_of (instanceRow e project zone data) k = map_of data k"
  by (simp add: instanceRow_def)

lemma readable_instanceRow:
  "readableInstance data \<Longrightarrow> readableInstance (marshalData (instanceRow e project zone data))"
  unfolding readable_marshalData
  by (erule readable_extend)
    (auto simp: nestedKeys_def map_of_instanceRow, simp add: instanceRow_def hasField_def)

lemma populate_keeps:
  "k \<notin> set nestedKeys \<Longrightarrow> map_of d k = Some v \<Longrightarrow> map_of (populateComputeInstanceDefaults c d) k = Some v"
  by (simp add: populateComputeInstanceDefaults_def Let_def nestedKeys_def map_of_defaultArray
      map_of_setUnlessMap map_of_defaultSub map_of_setAllMissing)

text \<open>The body that the handler passes on.\<close>

definition instanceBody :: "clock \<Rightarrow> string \<Rightarrow> string \<Rightarrow> string \<Rightarrow> obj \<Rightarrow> obj" where
  "instanceBody c h project zone body =
     populateComputeInstanceDefaults c
       (jset ''zone'' (JStr (zoneSelfLink h project zone))
         (jset ''creationTimestamp'' (JStr (nowLocal c))
           (jset ''status'' (JStr ''RUNNING'')
             (jset ''selfLink'' (JStr (selfLink h
                 [''compute'', ''v1'', ''projects'', project, ''zones'', zone, ''instances'',
                  getString body ''name'']))
               (jset ''kind'' (JStr ''compute#instance'') body)))))"

lemma instanceBody_name:
  "getString body ''name'' \<noteq> [] \<Longrightarrow>
   map_of (instanceBody c h project zone body) ''name'' = Some (JStr (getString body ''name''))"
  unfolding instanceBody_def
  by (rule populate_keeps, simp add: nestedKeys_def) (drule getString_nonempty, simp)

lemma instanceBody_status: "map_of (instanceBody c h project zone body) ''status'' = Some (JStr ''RUNNING'')"
  unfolding instanceBody_def by (rule populate_keeps) (simp_all add: nestedKeys_def)

lemma CreateInstance_h_eq:
  "decodeBody r = Inr m \<Longrightarrow> getString (bodyFields m) ''name'' \<noteq> [] \<Longrightarrow>
   CreateInstance_h e c eo co project zone r s =
     respondOperation writeCreateError
       (\<lambda>created. newOperation co eo (host r) project zone [] (getString created ''selfLink'') ''insert'')
       (CreateInstance e project zone (instanceBody c (host r) project zone (bodyFields m)) s)"
  by (simp add: CreateInstance_h_def withNamedBody_def withBody_def Let_def instanceBody_def)

lemma CreateInstance_h_named:
  "decodeBody r = Inr m \<Longrightarrow> getString (bodyFields m) ''name'' = [] \<Longrightarrow>
   CreateInstance_h e c eo co project zone r s = (missingField ''name'', s)"
  by (simp add: CreateInstance_h_def withNamedBody_def withBody_def)

lemma respondOperation_ok:
  assumes "respondOperation onError operation res = (resp, s')" "status resp = Some 200"
    and "\<And>err. status (onError err) \<noteq> Some 200"
  obtains item s1 op where "res = (Inr item, s1)" "operation item s1 = (op, s')" "resp = writeJSON 200 (JObj op)"
  using assms by (cases res) (auto simp: respondOperation_def split: sum.splits prod.splits)

text \<open>What the request gave survives the defaults: fields, and fields of the sub-objects.\<close>

definition assignedFields :: "string list" where
  "assignedFields =
     [''name'', ''project'', ''zone'', ''id'', ''kind'', ''selfLink'', ''status'', ''creationTimestamp'']"

definition keepsFields :: "obj \<Rightarrow> obj \<Rightarrow> bool" where
  "keepsFields given d \<longleftrightarrow>
     (\<forall>k v. k \<notin> set assignedFields \<longrightarrow> k \<notin> set nestedKeys \<longrightarrow> map_of given k = Some v \<longrightarrow>
        map_of d k = Some (reread v)) \<and>
     (\<forall>k m j v. k \<in> {''metadata'', ''tags'', ''scheduling'', ''shieldedInstanceConfig''} \<longrightarrow>
        map_of given k = Some (JObj m) \<longrightarrow> map_of m j = Some v \<longrightarrow>
        (\<exists>m'. map_of d k = Some (JObj m') \<and> map_of m' j = Some (reread v)))"

lemma instanceBody_keeps:
  "k \<notin> set assignedFields \<Longrightarrow> k \<notin> set nestedKeys \<Longrightarrow> map_of given k = Some v \<Longrightarrow>
   map_of (instanceBody c h project zone given) k = Some v"
  unfolding instanceBody_def by (rule populate_keeps) (simp_all add: assignedFields_def)

lemma instanceBody_keeps_sub:
  assumes "k \<in> {''metadata'', ''tags'', ''scheduling'', ''shieldedInstanceConfig''}"
    and "map_of given k = Some (JObj m)" "map_of m j = Some v"
  shows "\<exists>m'. map_of (instanceBody c h project zone given) k = Some (JObj m') \<and> map_of m' j = Some v"
  using assms
  by (elim insertE emptyE)
    (simp_all add: instanceBody_def populateComputeInstanceDefaults_def Let_def map_of_defaultArray
      map_of_setUnlessMap map_of_defaultSub map_of_setAllMissing toMap_def subObject_def)

lemma instance_keepsFields:
  "keepsFields given (marshalData (instanceRow e project zone (instanceBody c h project zone given)))"
proof -
  let ?b = "instanceBody c h project zone given"
  have row: "map_of (marshalData (instanceRow e project zone ?b)) k = map_option reread (map_of ?b k)"
    if "k \<notin> set assignedFields" for k
    using that by (simp add: map_of_marshalData map_of_instanceRow assignedFields_def)
  have sub: "map_of m' j = Some v \<Longrightarrow> map_of (marshalData m') j = Some (reread v)" for m' j v
    by (simp add: map_of_marshalData)
  show ?thesis
    unfolding keepsFields_def
  proof (intro conjI allI impI)
    fix k v
    assume k: "k \<notin> set assignedFields" "k \<notin> set nestedKeys" "map_of given k = Some v"
    then show "map_of (marshalData (instanceRow e project zone ?b)) k = Some (reread v)"
      by (simp add: row instanceBody_keeps)
  next
    fix k m j v
    assume k: "k \<in> {''metadata'', ''tags'', ''scheduling'', ''shieldedInstanceConfig''}"
      and given: "map_of given k = Some (JObj m)" "map_of m j = Some v"
    from instanceBody_keeps_sub [OF this] obtain m'
      where m': "map_of ?b k = Some (JObj m')" "map_of m' j = Some v" by blast
    have "k \<notin> set assignedFields" using k by (auto simp: assignedFields_def)
    then have "map_of (marshalData (instanceRow e project zone ?b)) k = Some (JObj (marshalData m'))"
      by (simp add: row m'(1) reread_JObj del: reread.simps(7))
    with sub [OF m'(2)]
    show "\<exists>m'. map_of (marshalData (instanceRow e project zone ?b)) k = Some (JObj m') \<and>
        map_of m' j = Some (reread v)" by blast
  qed
qed

text \<open>C19 An instance that is created can be read under the name of the request and is running. It
keeps every field of the request, as JSON stores it, other than those that the server assigns
(name, project, zone, id, kind, link, status, timestamp), the interfaces and the disks; it keeps
every field of the request's metadata, tags, scheduling and shielded configuration; and it has
every field that a client reads without checking: its fingerprints, metadata, tags, scheduling and
shielded configuration, and those of each network interface and disk, whatever the request left
out.\<close>

theorem instance_readable:
  assumes inv: "repo_inv s" and body: "decodeBody r = Inr m"
    and run: "CreateInstance_h e c eo co project zone r s = (resp, s')" and ok: "status resp = Some 200"
  shows "\<exists>d. GetInstance s' project zone (getString (bodyFields m) ''name'') = Inr d \<and>
    readableInstance d \<and> keepsFields (bodyFields m) d \<and> getString d ''status'' = ''RUNNING'' \<and>
    getString d ''name'' = getString (bodyFields m) ''name''"
proof -
  let ?name = "getString (bodyFields m) ''name''"
  let ?b = "instanceBody c (host r) project zone (bodyFields m)"
  have name: "?name \<noteq> []" using CreateInstance_h_named [OF body] run ok by fastforce
  note run' = run [unfolded CreateInstance_h_eq [OF body name]]
  obtain created s1 op where ins: "CreateInstance e project zone ?b s = (Inr created, s1)"
    and op: "newOperation co eo (host r) project zone [] (getString created ''selfLink'') ''insert'' s1 = (op, s')"
    by (rule respondOperation_ok [OF run' ok]) simp_all
  have bn: "getString ?b ''name'' = ?name"
    using instanceBody_name [OF name] by (simp add: getString_def)
  note made = CreateInstance_created [OF inv ins, unfolded bn]
  have s1: "repo_inv s1" using CreateInstance_inv [OF inv, of e project zone ?b] ins by simp
  have "GetInstance s' project zone ?name = GetInstance s1 project zone ?name"
    by (rule GetInstance_other) (rule newOperation_stored(2) [OF s1 op])
  then have "GetInstance s' project zone ?name = Inr created" by (simp only: made(1))
  moreover have "readableInstance created"
    unfolding made(2) by (rule readable_instanceRow) (simp add: instanceBody_def readable_populated)
  moreover have "getString created ''status'' = ''RUNNING''"
    unfolding made(2) getString_marshalData
    by (simp only: getString_def) (simp add: map_of_instanceRow instanceBody_status)
  moreover have "getString created ''name'' = ?name"
    unfolding made(2) getString_marshalData bn [symmetric] by (simp add: instanceRow_def getString_def)
  moreover have "keepsFields (bodyFields m) created" unfolding made(2) by (rule instance_keepsFields)
  ultimately show ?thesis by blast
qed

definition vmRequest :: request where
  "vmRequest = requestWith (Value (JObj [(''name'', JStr ''vm'')]))"

lemma CreateInstance_on_empty:
  assumes "getString b ''name'' = ''vm''" "map_of b ''networkInterfaces'' = None"
  shows "\<exists>created s1. CreateInstance env0 ''p'' ''z'' b emptyDb = (Inr created, s1)"
  using assms
  by (simp add: CreateInstance_def validateInstanceNetworkInterfaces_def toArr_def GetInstance_def
      sqlInsert_def keyClash_def fksHold_def emptyDb_def keysOf_def loadOne_def matches_mkRow agrees_def
      Let_def)

lemma instanceBody_nics:
  "map_of body ''networkInterfaces'' = None \<Longrightarrow>
   map_of (instanceBody c h project zone body) ''networkInterfaces'' = None"
  by (simp add: instanceBody_def populateComputeInstanceDefaults_def Let_def map_of_defaultArray toArr_def
      map_of_setUnlessMap map_of_defaultSub map_of_setAllMissing instanceDefaults_def)

theorem instance_readable_witness:
  "\<exists>resp s' d. CreateInstance_h env0 clock0 env0 clock0 ''p'' ''z'' vmRequest emptyDb = (resp, s') \<and>
     status resp = Some 200 \<and> GetInstance s' ''p'' ''z'' ''vm'' = Inr d \<and> readableInstance d"
proof -
  let ?m = "Some [(''name'', JStr ''vm'')]"
  let ?b = "instanceBody clock0 (host vmRequest) ''p'' ''z'' (bodyFields ?m)"
  have body: "decodeBody vmRequest = Inr ?m"
    by (simp add: decodeBody_def vmRequest_def requestWith_def)
  have name: "getString (bodyFields ?m) ''name'' = ''vm''"
    by (simp add: bodyFields_def getString_def)
  obtain resp s' where run: "CreateInstance_h env0 clock0 env0 clock0 ''p'' ''z'' vmRequest emptyDb = (resp, s')"
    by (cases "CreateInstance_h env0 clock0 env0 clock0 ''p'' ''z'' vmRequest emptyDb")
  have "getString ?b ''name'' = ''vm''"
    using instanceBody_name [of "bodyFields ?m"] name by (simp add: getString_def)
  moreover have "map_of ?b ''networkInterfaces'' = None"
    by (rule instanceBody_nics) (simp add: bodyFields_def)
  ultimately obtain created s1 where "CreateInstance env0 ''p'' ''z'' ?b emptyDb = (Inr created, s1)"
    using CreateInstance_on_empty by blast
  then have ok: "status resp = Some 200"
    using run CreateInstance_h_eq [OF body] name
    by (auto simp: respondOperation_def split: prod.splits)
  from instance_readable [OF repo_inv_empty body run ok] run ok name show ?thesis by auto
qed

section \<open>Addresses and references of load balancing\<close>

text \<open>The address that is made up for an address resource is a literal IPv4 address, each octet
below 256, so a forwarding rule that names it is taken as naming an address, not a reference.\<close>

theorem addresses_literal:
  "randomIPv4Octet c i < 256 \<and> parsesIP (randomAddress ''34'' c) \<and>
   validateForwardingRuleIPAddress (jset ''IPAddress'' (JStr (randomAddress ''34'' c)) body) project s = None"
proof -
  have oct: "randomIPv4Octet c i < 256" for i by (simp add: randomIPv4Octet_def)
  have "natStr 34 = ''34''" by (simp add: natStr.simps digit_def char_of_def bit_Suc_0_iff)
  then have "parsesIP (randomAddress ''34'' c)"
    using dotted_parses [of 34, OF _ oct oct oct, of 0 1 2] by (simp add: randomAddress_def)
  with oct show ?thesis by (simp add: validateForwardingRuleIPAddress_def getString_def Let_def)
qed

lemma ifValid_ok:
  assumes "ifValid checks answer s = (resp, s')" "status resp = Some 200"
    and "\<And>chk r. chk \<in> set checks \<Longrightarrow> chk = Some r \<Longrightarrow> status r \<noteq> Some 200"
  shows "(\<forall>chk\<in>set checks. chk = None) \<and> answer = (resp, s')"
  using assms by (induction checks) (auto split: option.splits)

lemma validateListFK_None:
  "validateListFK body k project collection get = None \<longleftrightarrow>
     list_all (\<lambda>raw. refString raw = [] \<or> resolves get project collection (refString raw)) (arrayField body k)"
  by (simp add: validateListFK_def arrayField_def validateRefs_None split: option.split)

text \<open>The two operations change their own table only.\<close>

lemma backend_frame:
  "t \<noteq> Compute_backend_services \<Longrightarrow> snd (CreateBackendService e project data s) t = s t"
  "t \<noteq> Compute_backend_services \<Longrightarrow> snd (UpdateBackendService project name patch s) t = s t"
  by (auto simp: CreateBackendService_def UpdateBackendService_def Let_def
      dest: sqlInsert_Inr(1) sqlUpdate_Inr(1) split: sum.split)

lemma GetHealthCheck_cong:
  "s' Compute_health_checks = s Compute_health_checks \<Longrightarrow> GetHealthCheck s' = GetHealthCheck s"
  unfolding GetHealthCheck_def by (intro ext) (rule loadOne_cong)

text \<open>The checked part that both handlers share.\<close>

lemma backend_checked:
  assumes inv: "repo_inv s"
    and run: "ifValid [validateListFK b ''healthChecks'' project ''healthChecks'' (GetHealthCheck s)]
      (respondOperation onError (\<lambda>x. newOperation co eo h project [] [] (link x) ty) res) s = (resp, s')"
    and ok: "status resp = Some 200" and err: "\<And>err. status (onError err) \<noteq> Some 200"
    and res: "repo_inv (snd res)" "snd res Compute_health_checks = s Compute_health_checks"
  shows "list_all (\<lambda>raw. refString raw = [] \<or> resolves (GetHealthCheck s') project ''healthChecks'' (refString raw))
    (arrayField b ''healthChecks'')"
proof -
  let ?chk = "validateListFK b ''healthChecks'' project ''healthChecks'' (GetHealthCheck s)"
  have "?chk = None" and answer: "respondOperation onError (\<lambda>x. newOperation co eo h project [] [] (link x) ty) res = (resp, s')"
    using ifValid_ok [OF run ok] validateListFK_status by auto
  obtain x s1 op where x: "res = (Inr x, s1)" "newOperation co eo h project [] [] (link x) ty s1 = (op, s')"
    by (rule respondOperation_ok [OF answer ok err])
  from x(1) res have "repo_inv s1" "s1 Compute_health_checks = s Compute_health_checks" by simp_all
  with newOperation_stored(2) [OF _ x(2)] have "s' Compute_health_checks = s Compute_health_checks" by simp
  then have "GetHealthCheck s' = GetHealthCheck s" by (rule GetHealthCheck_cong)
  with \<open>?chk = None\<close> show ?thesis by (simp only: validateListFK_None)
qed

definition backendBody :: "clock \<Rightarrow> string \<Rightarrow> string \<Rightarrow> obj \<Rightarrow> obj" where
  "backendBody c h project body =
     setMissing ''loadBalancingScheme'' (JStr ''EXTERNAL'') (setMissing ''protocol'' (JStr ''HTTP'')
       (jset ''creationTimestamp'' (JStr (nowLocal c))
         (jset ''selfLink'' (JStr (globalResourceLink h project ''backendServices'' (getString body ''name'')))
           (jset ''kind'' (JStr ''compute#backendService'') body))))"

lemma backendBody_keeps:
  "k \<notin> {''loadBalancingScheme'', ''protocol'', ''creationTimestamp'', ''selfLink'', ''kind''} \<Longrightarrow>
   map_of (backendBody c h project body) k = map_of body k"
  by (simp add: backendBody_def)

lemma CreateBackendService_h_eq:
  assumes "decodeBody r = Inr m" "getString (bodyFields m) ''name'' \<noteq> []"
  shows "CreateBackendService_h e c eo co project r s =
    ifValid [validateListFK (backendBody c (host r) project (bodyFields m)) ''healthChecks'' project
        ''healthChecks'' (GetHealthCheck s)]
      (respondOperation writeCreateError
        (\<lambda>x. newOperation co eo (host r) project [] [] (getString x ''selfLink'') ''insert'')
        (CreateBackendService e project (backendBody c (host r) project (bodyFields m)) s)) s"
  using assms unfolding CreateBackendService_h_def withNamedBody_def withBody_def backendBody_def
  by (simp only: sum.case Let_def if_False)

text \<open>C21 A backend service that is created or patched with status 200 refers to existing health
checks only: every non-empty string of the list in the request resolves, in the state after the
request, to a health check of the same project.\<close>

theorem backend_references:
  assumes inv: "repo_inv s" and body: "decodeBody r = Inr m" and ok: "status resp = Some 200"
    and run: "CreateBackendService_h e c eo co project r s = (resp, s') \<or>
      UpdateBackendService_h eo co project name r s = (resp, s')"
    and ref: "raw \<in> set (arrayField (bodyFields m) ''healthChecks'')" "refString raw \<noteq> []"
  shows "\<exists>target hc. computeRefName (refString raw) project ''healthChecks'' = Some target \<and>
    GetHealthCheck s' project target = Inr hc"
proof -
  have "list_all (\<lambda>raw. refString raw = [] \<or> resolves (GetHealthCheck s') project ''healthChecks'' (refString raw))
    (arrayField (bodyFields m) ''healthChecks'')"
    using run
  proof
    assume upd: "UpdateBackendService_h eo co project name r s = (resp, s')"
    have "ifValid [validateListFK (bodyFields m) ''healthChecks'' project ''healthChecks'' (GetHealthCheck s)]
        (respondOperation writeDomainError
          (\<lambda>x. newOperation co eo (host r) project [] [] (getString x ''selfLink'') ''patch'')
          (UpdateBackendService project name (bodyFields m) s)) s = (resp, s')"
      using upd unfolding UpdateBackendService_h_def withBody_def body by (simp only: sum.case Let_def)
    from backend_checked [OF inv this ok writeError_not_200(1) UpdateBackendService_inv [OF inv] backend_frame(2)]
    show ?thesis by simp
  next
    assume cre: "CreateBackendService_h e c eo co project r s = (resp, s')"
    let ?b = "backendBody c (host r) project (bodyFields m)"
    have same: "arrayField ?b ''healthChecks'' = arrayField (bodyFields m) ''healthChecks''"
      by (simp add: arrayField_def backendBody_keeps)
    have name: "getString (bodyFields m) ''name'' \<noteq> []"
      using cre ok body by (auto simp: CreateBackendService_h_def withNamedBody_def withBody_def)
    note checked = cre [unfolded CreateBackendService_h_eq [OF body name]]
    from backend_checked [OF inv checked ok writeError_not_200(2) CreateBackendService_inv [OF inv] backend_frame(1)]
    show ?thesis unfolding same by simp
  qed
  with ref have "resolves (GetHealthCheck s') project ''healthChecks'' (refString raw)"
    by (auto simp: list_all_iff)
  then show ?thesis by (auto simp: resolves_def split: option.splits sum.splits)
qed

definition backendRequest :: request where
  "backendRequest = requestWith (Value (JObj [(''name'', JStr ''web''), (''healthChecks'', JArr [JStr ''hc''])]))"

definition checkDb :: db where
  "checkDb = snd (CreateHealthCheck env0 ''p'' [(''name'', JStr ''hc'')] emptyDb)"

lemma checkDb_facts:
  shows checkDb_inv: "repo_inv checkDb"
    and checkDb_target: "\<exists>hc. GetHealthCheck checkDb ''p'' ''hc'' = Inr hc"
    and checkDb_empty: "checkDb Compute_backend_services = []"
  unfolding checkDb_def
  by (rule CreateHealthCheck_inv [OF repo_inv_empty])
    (simp_all add: CreateHealthCheck_def GetHealthCheck_def sql_eval)

lemma CreateBackendService_on_empty:
  assumes "s Compute_backend_services = []" "getString b ''name'' \<noteq> []"
  shows "\<exists>created s1. CreateBackendService e p b s = (Inr created, s1)"
  using assms
  by (simp add: CreateBackendService_def GetBackendService_def sqlInsert_def keyClash_def fksHold_def
      keysOf_def loadOne_def matches_mkRow agrees_def Let_def)

theorem backend_references_witness:
  "\<exists>resp s' target hc. CreateBackendService_h env0 clock0 env0 clock0 ''p'' backendRequest checkDb = (resp, s') \<and>
     status resp = Some 200 \<and> computeRefName ''hc'' ''p'' ''healthChecks'' = Some target \<and>
     GetHealthCheck s' ''p'' target = Inr hc"
proof -
  let ?m = "Some [(''name'', JStr ''web''), (''healthChecks'', JArr [JStr ''hc''])]"
  have body: "decodeBody backendRequest = Inr ?m"
    by (simp add: decodeBody_def backendRequest_def requestWith_def)
  obtain resp s' where run: "CreateBackendService_h env0 clock0 env0 clock0 ''p'' backendRequest checkDb = (resp, s')"
    by (cases "CreateBackendService_h env0 clock0 env0 clock0 ''p'' backendRequest checkDb")
  have ref: "JStr ''hc'' \<in> set (arrayField (bodyFields ?m) ''healthChecks'')" "refString (JStr ''hc'') = ''hc''"
    by (simp_all add: arrayField_def toArr_def bodyFields_def refString_def)
  have name: "getString (bodyFields ?m) ''name'' = ''web''" by (simp add: bodyFields_def getString_def)
  let ?b = "backendBody clock0 (host backendRequest) ''p'' (bodyFields ?m)"
  have "resolves (GetHealthCheck checkDb) ''p'' ''healthChecks'' ''hc''"
    using checkDb_target by (auto simp: resolves_def computeRefName_def containsStr_def)
  then have "validateListFK ?b ''healthChecks'' ''p'' ''healthChecks'' (GetHealthCheck checkDb) = None"
    using ref(2) by (simp add: validateListFK_None arrayField_def backendBody_keeps toArr_def bodyFields_def)
  moreover have "getString ?b ''name'' \<noteq> []"
    using name by (simp add: getString_def backendBody_keeps)
  then obtain created s1 where "CreateBackendService env0 ''p'' ?b checkDb = (Inr created, s1)"
    using CreateBackendService_on_empty [where s = checkDb, OF checkDb_empty] by blast
  ultimately have ok: "status resp = Some 200"
    using run CreateBackendService_h_eq [OF body] name
    by (auto simp: respondOperation_def split: prod.splits)
  from backend_references [OF checkDb_inv body ok disjI1 [OF run] ref(1)] ref(2) run ok show ?thesis by auto
qed

end
