(* ===== verification/Correct_Admin.thy ===== *)
theory Correct_Admin
  imports Correct_Server
begin

text \<open>
  Reset, snapshot and restore of the whole server. No route outside \<^verbatim>\<open>/mock\<close> touches a
  snapshot (a second contract of the routes), so restoring brings back the database, the DNS
  changes and the table of connections as they were, whatever was requested in between; what
  is not brought back is stated too. The in-memory store of Service Networking refines a map
  from keys to connections.
\<close>

section \<open>Routes leave the snapshots alone\<close>

definition same_snapshots :: "application \<Rightarrow> application \<Rightarrow> bool" where
  "same_snapshots app app' \<longleftrightarrow>
     dbFile (repo app') = dbFile (repo app) \<and> snapshotFile (repo app') = snapshotFile (repo app) \<and>
     dnsChangesSnapshot app' = dnsChangesSnapshot app \<and>
     snConnectionsSnapshot app' = snConnectionsSnapshot app"

lemma same_snapshots_refl [simp, intro!]: "same_snapshots app app"
  by (simp add: same_snapshots_def)

lemma same_snapshots_trans: "same_snapshots a b \<Longrightarrow> same_snapshots b c \<Longrightarrow> same_snapshots a c"
  by (simp add: same_snapshots_def)

lemma same_snapshots_onDb [simp]: "same_snapshots app (snd (onDb h app))"
  by (cases "h (rdb (repo app))") (simp add: onDb_def same_snapshots_def)

definition framed :: "handler \<Rightarrow> bool" where
  "framed h \<longleftrightarrow> (\<forall>u i r app. same_snapshots app (snd (h u i r app)))"

interpretation framed_contract: route_contract framed
  by unfold_locales (simp add: framed_def requireBearerToken_def)

lemma framed_shapes [simp]:
  "framed (\<lambda>u i r. onDb (h1 u i r))"
  "framed (\<lambda>u i r. readOnly (h2 u i r))"
  "framed (\<lambda>u i r. answering (h3 u i r))"
  by (simp_all add: framed_def readOnly_def answering_def)

lemma framed_sn [simp]:
  "framed (\<lambda>u i r. CreateServiceNetworkingConnection_h (u k) r)"
  "framed (\<lambda>u i r. PatchServiceNetworkingConnection_h (u k) r)"
  "framed (\<lambda>u i r. DeleteServiceNetworkingConnection_h (u k) r)"
  using sn_only_handlers
  by (auto simp: framed_def same_snapshots_def CreateServiceNetworkingConnection_h_def
      PatchServiceNetworkingConnection_h_def DeleteServiceNetworkingConnection_h_def withBody_def
      snStore_def snAssign_def Let_def split: sum.split option.split)

lemma same_snapshots_mark: "same_snapshots app (markServiceEnabled project service app)"
  by (simp add: same_snapshots_def markServiceEnabled_def)

lemma same_snapshots_marks:
  "same_snapshots app (foldl (\<lambda>app svc. markServiceEnabled project (g svc) app) app svcs)"
  by (induction svcs arbitrary: app) (auto intro: same_snapshots_trans same_snapshots_mark)

lemma framed_services [simp]:
  "framed (\<lambda>u i r. EnableProjectService_h (u k) (u k'))"
  "framed (\<lambda>u i r. DisableProjectService_h (u k) (u k'))"
  "framed (\<lambda>u i r. BatchEnableProjectServices_h (u k) (serviceIds i))"
  by (auto simp: framed_def EnableProjectService_h_def DisableProjectService_h_def
      BatchEnableProjectServices_h_def same_snapshots_mark same_snapshots_marks)
    (simp add: same_snapshots_def)

lemma framed_policies [simp]:
  "framed (\<lambda>u i r. KMSSetIamPolicy_h (clock1 i) (u k1) (u k2) (u k3) (u k4) r)"
  "framed (\<lambda>u i r. SetServiceAccountIamPolicy_h (clock1 i) (u k1) (u k2) r)"
  by (auto simp: framed_def same_snapshots_def KMSSetIamPolicy_h_def SetServiceAccountIamPolicy_h_def
      withBody_def Let_def split: sum.split option.split)

lemma framed_change [simp]: "framed (\<lambda>u i r. CreateDNSChange_h (clock1 i) (u k) (u k') r)"
  by (auto simp: framed_def same_snapshots_def CreateDNSChange_h_def Let_def recordDNSChange_def
      split: prod.split option.split)

lemma framed_gcpRoutes: "all_routes framed gcpRoutes"
  unfolding gcpRoutes_def globalRoutes_def zonalRoutes_def regionalRoutes_def kmsRoutes_def gkeRoutes_def
    sqlRoutes_def policyRoutes_def resourceRoutes_def projectRoutes_def operationRoutes_def
    connectionRoutes_def dnsRoutes_def cloudRunRoutes_def redisRoutes_def storageRoutes_def
  by (simp only: all_routes_simps all_routes_mount framed_shapes framed_sn framed_services
      framed_policies framed_change simp_thms)


definition administrative :: "router \<Rightarrow> string \<Rightarrow> string \<Rightarrow> bool" where
  "administrative route meth path \<longleftrightarrow>
     (case route RegisterRoutes mounted meth path of
        Endpoint (m, Lit l # p, h) u \<Rightarrow> l = ''mock''
      | _ \<Rightarrow> False)"

lemma framed_serve:
  assumes "routes_registered route" "\<not> administrative route meth path"
  shows "same_snapshots app (snd (serve route meth path i r app))"
proof (cases "route RegisterRoutes mounted meth path")
  case (Endpoint rt u)
  then obtain m p h where hit: "route RegisterRoutes mounted meth path = Endpoint (m, p, h) u"
    by (cases rt) auto
  with assms(1) have "(m, p, h) \<in> set RegisterRoutes" unfolding routes_registered_def by blast
  moreover have "(m, p, h) \<notin> set adminRoutes"
    using assms(2) hit by (auto simp: adminRoutes_def administrative_def)
  ultimately have "(m, p, h) \<in> set (map secured gcpRoutes)" by (auto simp: RegisterRoutes_def)
  with framed_contract.all_secured [OF framed_gcpRoutes] have "framed h"
    by (auto simp: all_routes_def)
  with hit show ?thesis by (simp add: serve_def framed_def)
qed (simp_all add: serve_def requireBearerToken_def answering_def same_snapshots_def)

text \<open>Any number of requests to the imitated services.\<close>

inductive gcp_requests :: "router \<Rightarrow> application \<Rightarrow> application \<Rightarrow> bool" for route where
  none: "gcp_requests route app app"
| another: "gcp_requests route app app' \<Longrightarrow> \<not> administrative route meth path \<Longrightarrow>
    gcp_requests route app (snd (serve route meth path i r app'))"

lemma gcp_requests_frame:
  assumes "routes_registered route" "gcp_requests route app app'"
  shows "same_snapshots app app'"
  using assms(2) by induction (auto intro: same_snapshots_trans framed_serve [OF assms(1)])

section \<open>Snapshot, requests, restore\<close>

lemma SnapshotState_h_ok:
  assumes "SnapshotState_h app = (adminOk, app1)"
  shows "snapshotFile (repo app1) = Some (rdb (repo app))" "dbFile (repo app1) \<noteq> None"
    and "dnsChangesSnapshot app1 = Some (dnsChanges app)"
    and "snConnectionsSnapshot app1 = Some (snConnections app)"
  using assms
  by (auto simp: SnapshotState_h_def Snapshot_def dbFilePath_def snapshotDNSChanges_def adminOk_def
      adminError_def writeJSON_def snapshotServiceNetworkingConnections_def Let_def split: option.splits)

lemma RestoreState_h_eq:
  assumes "snapshotFile (repo app) = Some snap" "dbFile (repo app) \<noteq> None"
    and "dnsChangesSnapshot app = Some changes" "snConnectionsSnapshot app = Some table"
  shows "RestoreState_h app =
    (adminOk, app\<lparr>repo := (repo app)\<lparr>rdb := snap\<rparr>, dnsChanges := changes, snConnections := table\<rparr>)"
  using assms
  by (auto simp: RestoreState_h_def Restore_def dbFilePath_def restoreDNSChanges_def
      restoreServiceNetworkingConnections_def Let_def split: option.split)

text \<open>C11 A snapshot, any sequence of requests to the imitated services, and a restore bring the
database, the DNS changes and the table of connections back to what they were at the snapshot; the
policies of service accounts and KMS resources and the enabled services stay as the requests left
them.\<close>

theorem snapshot_restore:
  assumes "routes_registered route" "SnapshotState_h app = (adminOk, app1)"
    and "gcp_requests route app1 app2" "RestoreState_h app2 = (resp, app3)"
  shows "resp = adminOk \<and> rdb (repo app3) = rdb (repo app) \<and> dnsChanges app3 = dnsChanges app \<and>
    snConnections app3 = snConnections app \<and> saIamStor app3 = saIamStor app2 \<and>
    kmsIamStor app3 = kmsIamStor app2 \<and> enabledServices app3 = enabledServices app2"
proof -
  note taken = SnapshotState_h_ok [OF assms(2)]
  have "same_snapshots app1 app2" by (rule gcp_requests_frame [OF assms(1,3)])
  with taken have "RestoreState_h app2 = (adminOk, app2\<lparr>repo := (repo app2)\<lparr>rdb := rdb (repo app)\<rparr>,
      dnsChanges := dnsChanges app, snConnections := snConnections app\<rparr>)"
    by (intro RestoreState_h_eq) (simp_all add: same_snapshots_def)
  with assms(4) show ?thesis by auto
qed

definition snapped :: application where
  "snapped = snd (SnapshotState_h (appWith emptyDb))"

definition networkPosted :: application where
  "networkPosted = snd (serve firstFit ''POST'' ''/compute/v1/projects/p/global/networks'' inputs0
     (requestWith (Value (JObj [(''name'', JStr ''n'')]))) snapped)"

lemma SnapshotState_appWith: "SnapshotState_h (appWith s) = (adminOk, snd (SnapshotState_h (appWith s)))"
  by (simp add: SnapshotState_h_def Snapshot_def appWith_def NewApplication_def dbFilePath_def Let_def)

lemma not_administrative:
  assumes "hd (segmentsOf path) \<noteq> ''mock''"
  shows "\<not> administrative firstFit meth path"
proof
  assume "administrative firstFit meth path"
  then obtain m p h u where "firstFit RegisterRoutes mounted meth path = Endpoint (m, Lit ''mock'' # p, h) u"
    by (auto simp: administrative_def split: found.splits list.splits seg.splits prod.splits)
  from firstFit_fits [OF this] assms show False
    by (cases "segmentsOf path") (auto split: if_splits)
qed

theorem snapshot_restore_witness:
  "rdb (repo (snd (RestoreState_h networkPosted))) = emptyDb \<and> fst (RestoreState_h networkPosted) = adminOk"
proof -
  have "\<not> administrative firstFit ''POST'' ''/compute/v1/projects/p/global/networks''"
    by (rule not_administrative) (simp add: segmentsOf_def)
  from another [OF none this] have "gcp_requests firstFit snapped networkPosted"
    unfolding networkPosted_def .
  from snapshot_restore [OF firstFit_registered SnapshotState_appWith [of emptyDb, folded snapped_def] this
      surjective_pairing]
  show ?thesis by (simp add: appWith_def NewApplication_def)
qed

section \<open>Reset\<close>

text \<open>C33 A reset leaves no resource, DNS change, connection or policy, and no snapshot: a restore
that follows is answered 500 and changes nothing. The services that were enabled stay enabled.\<close>

theorem reset_clears:
  assumes "ResetState_h app = (resp, app')" "status resp = Some 200"
  shows "rdb (repo app') = emptyDb \<and> dnsChanges app' = (\<lambda>_. None) \<and> snLookup app' = (\<lambda>_. None) \<and>
    saIamStor app' = (\<lambda>_. None) \<and> kmsIamStor app' = (\<lambda>_. None) \<and>
    RestoreState_h app' = (adminError ErrNotFound, app') \<and> enabledServices app' = enabledServices app"
proof -
  obtain path where path: "dbFile (repo app) = Some path"
    using assms by (auto simp: ResetState_h_def Reset_def dbFilePath_def adminError_def split: option.splits)
  have app': "app' = app\<lparr>repo := (repo app)\<lparr>rdb := emptyDb, snapshotFile := None\<rparr>,
      dnsChanges := (\<lambda>_. None), dnsChangesSnapshot := None, snConnections := [],
      snConnectionsSnapshot := None, kmsIamStor := (\<lambda>_. None), saIamStor := (\<lambda>_. None)\<rparr>"
    using assms(1) path
    by (simp add: ResetState_h_def Reset_def dbFilePath_def foldl_truncate_reset resetDNSChanges_def
        resetServiceNetworkingConnections_def resetKMSIamStore_def resetSAIamStore_def Let_def)
  have "RestoreState_h app' = (adminError ErrNotFound, app')"
    unfolding app' using path by (simp add: RestoreState_h_def Restore_def dbFilePath_def)
  then show ?thesis unfolding app' by (simp add: snLookup_def fun_eq_iff)
qed

theorem reset_clears_witness:
  "status (fst (ResetState_h networkPosted)) = Some 200 \<and> rdb (repo (snd (ResetState_h networkPosted))) = emptyDb"
proof -
  have "same_snapshots snapped networkPosted"
    unfolding networkPosted_def
    by (rule framed_serve [OF firstFit_registered]) (rule not_administrative, simp add: segmentsOf_def)
  then have "dbFile (repo networkPosted) \<noteq> None"
    using SnapshotState_h_ok(2) [OF SnapshotState_appWith [of emptyDb, folded snapped_def]]
    by (simp add: same_snapshots_def)
  then have "fst (ResetState_h networkPosted) = adminOk"
    by (auto simp: ResetState_h_def Reset_def dbFilePath_def Let_def)
  then have ok: "status (fst (ResetState_h networkPosted)) = Some 200" by (simp add: adminOk_def)
  from reset_clears [OF surjective_pairing ok] ok show ?thesis by simp
qed

end
