(* ===== verification/Correct_Connections.thy ===== *)
theory Correct_Connections
  imports Correct_Admin
begin

text \<open>
  The store of Service Networking connections refines a map from keys to connections: what a
  client can look up after a request is what the request does to the map before it. The
  addresses of \<open>App\<close> are invisible, but for one thing: a snapshot shares the
  connections with the live table, so a patch made after it survives a restore.
\<close>

section \<open>The abstract store\<close>

type_synonym connections = "string \<Rightarrow> obj option"

datatype sn_request = Create string request | Patch string request | Drop string request

definition snCreated :: "string \<Rightarrow> obj \<Rightarrow> connections \<Rightarrow> connections" where
  "snCreated service body m =
     (let network = getString body ''network'' in
      if network = [] then m else m(snConnectionKey service network \<mapsto> defaultPeering body))"

definition snPatched :: "string \<Rightarrow> obj \<Rightarrow> connections \<Rightarrow> connections" where
  "snPatched service body m =
     (let network = getString body ''network'' in
      if network = [] then m
      else case m (snConnectionKey service network) of
             None \<Rightarrow> m(snConnectionKey service network \<mapsto> defaultPeering body)
           | Some old \<Rightarrow> m(snConnectionKey service network \<mapsto> assignAll old body))"

definition snDropped :: "string \<Rightarrow> obj \<Rightarrow> connections \<Rightarrow> connections" where
  "snDropped service body m =
     (let network = getString body ''consumerNetwork'' in
      if network = [] then m else m(snConnectionKey service network := None))"

fun snSpec :: "sn_request \<Rightarrow> connections \<Rightarrow> connections" where
  "snSpec (Create service r) m = (case decodeBody r of Inl _ \<Rightarrow> m | Inr b \<Rightarrow> snCreated service (bodyFields b) m)"
| "snSpec (Patch service r) m = (case decodeBody r of Inl _ \<Rightarrow> m | Inr b \<Rightarrow> snPatched service (bodyFields b) m)"
| "snSpec (Drop service r) m = (case decodeBody r of Inl _ \<Rightarrow> m | Inr b \<Rightarrow> snDropped service (bodyFields b) m)"

fun snRun :: "sn_request \<Rightarrow> application \<Rightarrow> application" where
  "snRun (Create service r) app = snd (CreateServiceNetworkingConnection_h service r app)"
| "snRun (Patch service r) app = snd (PatchServiceNetworkingConnection_h service r app)"
| "snRun (Drop service r) app = snd (DeleteServiceNetworkingConnection_h service r app)"

section \<open>Each request refines its specification\<close>

lemma refines_create: "sn_ok app \<Longrightarrow> snLookup (snRun (Create service r) app) = snSpec (Create service r) (snLookup app)"
  by (simp add: CreateServiceNetworkingConnection_h_def withBody_def snCreated_def Let_def snLookup_store
      split: sum.split)

lemma refines_patch:
  assumes "sn_ok app"
  shows "snLookup (snRun (Patch service r) app) = snSpec (Patch service r) (snLookup app)"
proof (cases "decodeBody r")
  case (Inr b)
  let ?n = "getString (bodyFields b) ''network''"
  show ?thesis
  proof (cases "map_of (snConnections app) (snConnectionKey service ?n)")
    case None
    then have "snLookup app (snConnectionKey service ?n) = None" by (simp add: snLookup_def)
    with Inr None show ?thesis
      by (simp add: PatchServiceNetworkingConnection_h_def withBody_def snPatched_def Let_def
          snLookup_store [OF assms])
  next
    case (Some a)
    then have "snLookup app (snConnectionKey service ?n) = Some (snHeap app a)" by (simp add: snLookup_def)
    with Inr Some show ?thesis
      by (simp add: PatchServiceNetworkingConnection_h_def withBody_def snPatched_def Let_def
          snLookup_assign [OF assms Some])
  qed
qed (simp add: PatchServiceNetworkingConnection_h_def withBody_def)

lemma refines_drop: "snLookup (snRun (Drop service r) app) = snSpec (Drop service r) (snLookup app)"
proof -
  have gone: "snLookup (app\<lparr>snConnections := AList.delete key (snConnections app)\<rparr>) = (snLookup app)(key := None)"
    for key
    by (rule ext) (simp add: snLookup_def delete_conv')
  have "getString [] ''consumerNetwork'' = []" by (simp add: getString_def)
  with gone show ?thesis
    by (simp add: DeleteServiceNetworkingConnection_h_def snDropped_def Let_def split: sum.split)
qed

lemma snRun_refines: "sn_ok app \<Longrightarrow> snLookup (snRun q app) = snSpec q (snLookup app)"
  by (cases q) (simp_all only: refines_create refines_patch refines_drop)

lemma snRun_ok: "sn_ok app \<Longrightarrow> sn_ok (snRun q app)"
  by (cases q) (simp_all add: sn_ok_create sn_ok_patch sn_ok_drop)

lemma listed_lookup:
  assumes "sn_ok app"
  shows "set (listedConnections service [] app) =
    {c. \<exists>k. hasPrefix k (service @ ''/'') \<and> snLookup app k = Some c}"
proof -
  have "map_of (snConnections app) k = Some a \<longleftrightarrow> (k, a) \<in> set (snConnections app)" for k a
    using assms map_of_eq_Some_iff by (simp add: sn_ok_def sn_table_ok_def)
  then show ?thesis
    by (force simp: listedConnections_def snLookup_def)
qed

text \<open>C12 The store of Service Networking connections implements a map from service and network to
connection: after any sequence of requests to create, patch and delete connections, the connection
at each key is that of the map, and a listing of a service shows exactly those of the map.\<close>

theorem connections_refine_map:
  assumes "sn_ok app"
  shows "snLookup (fold snRun qs app) = fold snSpec qs (snLookup app) \<and>
    set (listedConnections service [] (fold snRun qs app)) =
      {c. \<exists>k. hasPrefix k (service @ ''/'') \<and> fold snSpec qs (snLookup app) k = Some c}"
proof -
  have "sn_ok (fold snRun qs app) \<and> snLookup (fold snRun qs app) = fold snSpec qs (snLookup app)"
    using assms by (induction qs arbitrary: app) (simp_all add: snRun_ok snRun_refines)
  then show ?thesis by (simp add: listed_lookup)
qed

definition peered :: "sn_request list" where
  "peered = [Create ''sn'' (requestWith (Value (JObj [(''network'', JStr ''n'')]))),
     Patch ''sn'' (requestWith (Value (JObj [(''network'', JStr ''n''), (''peering'', JStr ''q'')])))]"

lemma fresh_sn_ok: "sn_ok (appWith s)"
  by (simp add: appWith_def NewApplication_def sn_ok_def sn_table_ok_def)

theorem connections_refine_map_witness:
  "snLookup (fold snRun peered (appWith emptyDb)) ''sn/n'' =
     Some [(''network'', JStr ''n''), (''peering'', JStr ''q'')]"
proof -
  have none: "snLookup (appWith emptyDb) k = None" for k
    by (simp add: snLookup_def appWith_def NewApplication_def)
  have "snLookup (fold snRun peered (appWith emptyDb)) = fold snSpec peered (snLookup (appWith emptyDb))"
    by (rule conjunct1 [OF connections_refine_map [OF fresh_sn_ok]])
  then show ?thesis
    by (simp only:) (simp add: none peered_def requestWith_def decodeBody_def bodyFields_def snCreated_def
        snPatched_def snConnectionKey_def getString_def assignAll_def defaultPeering_def setMissing_def
        hasField_def jset_def Let_def)
qed

section \<open>The snapshot shares the connections\<close>

text \<open>C39 A patch made after a snapshot survives the restore: the snapshot copies the table of
connections but not the connections, and the patch assigns to the connection in place.\<close>

theorem patch_survives_restore:
  assumes "sn_ok app" "SnapshotState_h app = (adminOk, app1)"
    and "decodeBody r = Inr b" "getString (bodyFields b) ''network'' = network" "network \<noteq> []"
    and "snLookup app (snConnectionKey service network) = Some old"
    and "RestoreState_h (snRun (Patch service r) app1) = (resp, app2)"
  shows "resp = adminOk \<and>
    snLookup app2 (snConnectionKey service network) = Some (assignAll old (bodyFields b))"
proof -
  note taken = SnapshotState_h_ok [OF assms(2)]
  obtain a where a: "map_of (snConnections app) (snConnectionKey service network) = Some a"
    and old: "snHeap app a = old"
    using assms(6) by (auto simp: snLookup_def)
  have "snConnections app1 = snConnections app" "snHeap app1 = snHeap app"
    using assms(2)
    by (auto simp: SnapshotState_h_def snapshotDNSChanges_def snapshotServiceNetworkingConnections_def Let_def
        split: prod.splits sum.splits)
  then have run: "snRun (Patch service r) app1 = snAssign a (bodyFields b) app1"
    using a assms(3-5) by (simp add: PatchServiceNetworkingConnection_h_def withBody_def Let_def)
  have "RestoreState_h (snAssign a (bodyFields b) app1) =
      (adminOk, (snAssign a (bodyFields b) app1)\<lparr>repo := (repo app1)\<lparr>rdb := rdb (repo app)\<rparr>,
        dnsChanges := dnsChanges app, snConnections := snConnections app\<rparr>)"
    using taken RestoreState_h_eq [of "snAssign a (bodyFields b) app1"] by (simp add: snAssign_def)
  with assms(7) run a old \<open>snHeap app1 = snHeap app\<close> show ?thesis by (auto simp: snLookup_def snAssign_def)
qed


definition connected :: application where
  "connected = snRun (hd peered) (appWith emptyDb)"

lemma connected_lookup:
  "snLookup connected ''sn/n'' =
     Some [(''network'', JStr ''n''), (''peering'', JStr ''servicenetworking-googleapis-com'')]"
proof -
  have none: "snLookup (appWith emptyDb) k = None" for k
    by (simp add: snLookup_def appWith_def NewApplication_def)
  have "snLookup connected = snSpec (hd peered) (snLookup (appWith emptyDb))"
    unfolding connected_def by (rule snRun_refines [OF fresh_sn_ok])
  then show ?thesis
    by (simp only:) (simp add: none peered_def requestWith_def decodeBody_def bodyFields_def snCreated_def
        snConnectionKey_def getString_def defaultPeering_def setMissing_def hasField_def jset_def Let_def)
qed

lemma connected_snapshot: "SnapshotState_h connected = (adminOk, snd (SnapshotState_h connected))"
  by (simp add: SnapshotState_h_def Snapshot_def connected_def peered_def appWith_def NewApplication_def
      dbFilePath_def CreateServiceNetworkingConnection_h_def withBody_def snStore_def Let_def split: sum.split)

theorem patch_survives_restore_witness:
  "snLookup connected ''sn/n'' = Some [(''network'', JStr ''n''), (''peering'', JStr ''servicenetworking-googleapis-com'')] \<and>
   snLookup (snd (RestoreState_h (snRun (peered ! 1) (snd (SnapshotState_h connected))))) ''sn/n'' =
     Some [(''network'', JStr ''n''), (''peering'', JStr ''q'')]"
proof -
  let ?r = "requestWith (Value (JObj [(''network'', JStr ''n''), (''peering'', JStr ''q'')]))"
  let ?b = "[(''network'', JStr ''n''), (''peering'', JStr ''q'')]"
  have patch: "peered ! 1 = Patch ''sn'' ?r" by (simp add: peered_def)
  have ok: "sn_ok connected" unfolding connected_def by (rule snRun_ok [OF fresh_sn_ok])
  have body: "decodeBody ?r = Inr (Some ?b)" by (simp add: decodeBody_def requestWith_def)
  have name: "getString (bodyFields (Some ?b)) ''network'' = ''n''" "''n'' \<noteq> ([] :: string)"
    by (simp_all add: bodyFields_def getString_def)
  have key: "snConnectionKey ''sn'' ''n'' = ''sn/n''" by (simp add: snConnectionKey_def)
  from patch_survives_restore [OF ok connected_snapshot body name connected_lookup [folded key] surjective_pairing]
  show ?thesis unfolding patch key
    by (simp add: connected_lookup bodyFields_def assignAll_def jset_def)
qed

end
