(* ===== verification/Correct_Container.thy ===== *)
theory Correct_Container
  imports H_Container H_Redis Correct_Pubsub
begin

text \<open>
  What the GKE endpoints promise about node pools: a cluster starts with the default pool, or
  with none. And how Memorystore answers a name that is taken.
\<close>

section \<open>The pools of a new cluster\<close>

definition poolConds :: "string \<Rightarrow> string \<Rightarrow> string \<Rightarrow> (col \<times> string) list" where
  "poolConds project location cluster =
     [(C_project, project), (C_location, location), (C_cluster_name, cluster)]"

lemma ListNodePools_eq:
  "ListNodePools s project location cluster =
     loadMany Container_node_pools (poolConds project location cluster) [C_name] s"
  by (simp add: ListNodePools_def poolConds_def)

text \<open>A pool has a cluster, so a cluster that does not exist yet has no pool.\<close>

lemma no_pools:
  assumes inv: "repo_inv s" and absent: "GetCluster s project location name = Inl err"
  shows "filter (matches (poolConds project location name)) (s Container_node_pools) = []"
proof -
  have "\<not> matches (poolConds project location name) r" if r: "r \<in> set (s Container_node_pools)" for r
  proof
    assume "matches (poolConds project location name) r"
    then have "keyVals [C_project, C_location, C_cluster_name] r = Some [project, location, name]"
      by (intro keyVals_zip) (auto dest: matchesD simp: poolConds_def)
    then have "\<exists>d. GetCluster s project location name = Inr d"
      using parent_found [OF inv r, where vs = "[project, location, name]"] by (simp add: GetCluster_def)
    with absent show False by simp
  qed
  then show ?thesis by (simp add: filter_empty_conv)
qed

lemma CreateCluster_created:
  assumes run: "CreateCluster e project location data s = (Inr created, s')"
  shows "GetCluster s project location (getString data ''name'') = Inl ErrNotFound"
    and "GetCluster s' project location (getString data ''name'') = Inr created"
    and "s' Container_node_pools = s Container_node_pools"
proof -
  let ?n = "getString data ''name''"
  have n: "?n \<noteq> []" "validateClusterNetwork s project location data = None"
    using run by (auto simp: CreateCluster_def Let_def split: if_splits option.splits)
  obtain d where ins: "sqlInsert Container_clusters [(C_name, ?n), (C_project, project), (C_location, location)] d s = Inr s'"
    and got: "GetCluster s' project location ?n = Inr created"
    using run n by (auto simp: CreateCluster_def Let_def split: sum.splits)
  show "GetCluster s' project location ?n = Inr created" by (rule got)
  show "GetCluster s project location ?n = Inl ErrNotFound"
    unfolding GetCluster_def
    by (rule container_clusters_tbl.insert_absent [OF _ ins]) (simp_all add: agrees_def)
  show "s' Container_node_pools = s Container_node_pools" using sqlInsert_Inr(1) [OF ins] by simp
qed

text \<open>In a cluster without pools the insertion of a pool succeeds.\<close>

lemma CreateNodePool_first:
  assumes inv: "repo_inv s" and cluster: "GetCluster s project location cluster = Inr cd"
    and none: "filter (matches (poolConds project location cluster)) (s Container_node_pools) = []"
    and name: "getString data ''name'' \<noteq> []"
  obtains d s' where "CreateNodePool e project location cluster data s = (Inr d, s')"
    and "ListNodePools s' project location cluster = [d]"
    and "GetNodePool s' project location cluster (getString data ''name'') = Inr d"
    and "\<And>k. k \<notin> {''project'', ''location'', ''cluster_name'', ''id'', ''createTime''} \<Longrightarrow>
      getString d k = getString data k"
    and "GetCluster s' project location cluster = Inr cd"
proof -
  let ?n = "getString data ''name''"
  let ?cs = "[(C_name, ?n), (C_project, project), (C_location, location), (C_cluster_name, cluster)]"
  define b where "b = setDefault ''createTime'' (nowRFC3339 e) (setDefault ''id'' (numericID e)
    (jset ''cluster_name'' (JStr cluster) (jset ''location'' (JStr location)
      (jset ''project'' (JStr project) (jset ''name'' (JStr ?n) data)))))"
  let ?r = "mkRow ?cs (marshalData b) (s Container_node_pools)"
  have "\<not> keyClash Container_node_pools ?r (s Container_node_pools)"
  proof
    assume "keyClash Container_node_pools ?r (s Container_node_pools)"
    then obtain q where q: "q \<in> set (s Container_node_pools)"
      and same: "sameKey [C_project, C_location, C_cluster_name, C_name] ?r q"
      by (auto simp: keyClash_def list_ex_iff keysOf_def)
    then have "matches (poolConds project location cluster) q"
      by (auto simp: sameKey_def keyVals_def mkRow_def colOf_def matches_def poolConds_def split: option.splits)
    with none q show False by (auto simp: filter_empty_conv)
  qed
  moreover have "fksHold s Container_node_pools ?r"
  proof -
    obtain q where "q \<in> set (s Container_clusters)"
      "matches [(C_project, project), (C_location, location), (C_name, cluster)] q"
      by (rule loadOne_Inr_row [OF cluster [unfolded GetCluster_def]])
    then have "keyVals [C_project, C_location, C_name] q = Some [project, location, cluster]"
      "q \<in> set (s Container_clusters)"
      by (auto intro!: keyVals_zip dest: matchesD)
    moreover have "keyVals [C_project, C_location, C_cluster_name] ?r = Some [project, location, cluster]"
      by (simp add: keyVals_def mkRow_def colOf_def)
    ultimately show ?thesis
      by (simp add: fksHold_def fkHolds_def refersTo_def list_ex_iff) (intro bexI [of _ q], simp_all)
  qed
  ultimately have ins: "sqlInsert Container_node_pools ?cs (marshalData b) s =
      Inr (s(Container_node_pools := s Container_node_pools @ [?r]))"
    by (simp add: sqlInsert_def Let_def mkRow_def colOf_def)
  let ?s = "s(Container_node_pools := s Container_node_pools @ [?r])"
  have got: "GetNodePool ?s project location cluster ?n = Inr (marshalData b)"
    unfolding GetNodePool_def
    by (rule container_node_pools_tbl.load_insert [OF repo_invD(1) [OF inv] _ ins]) (simp_all add: agrees_def)
  show thesis
  proof (rule that)
    show "CreateNodePool e project location cluster data s = (Inr (marshalData b), ?s)"
      using name ins got by (simp add: CreateNodePool_def Let_def b_def)
    show "GetNodePool ?s project location cluster ?n = Inr (marshalData b)" by (rule got)
    show "ListNodePools ?s project location cluster = [marshalData b]"
      using none by (simp add: ListNodePools_eq loadMany_def sqlSelect_def agrees_def poolConds_def)
    show "getString (marshalData b) k = getString data k"
      if "k \<notin> {''project'', ''location'', ''cluster_name'', ''id'', ''createTime''}" for k
    proof (cases "k = ''name''")
      case True
      then show ?thesis unfolding getString_marshalData b_def by (simp add: getString_def)
    next
      case False
      with that show ?thesis unfolding getString_marshalData b_def by (simp add: getString_def)
    qed
    show "GetCluster ?s project location cluster = Inr cd"
      using cluster by (simp add: GetCluster_def loadOne_def)
  qed
qed

text \<open>The fields that the handler passes on as the request has them.\<close>

lemma map_of_clusterBody:
  "k \<notin> set clusterSubObjects \<Longrightarrow> k \<notin> {''status'', ''endpoint'', ''location'', ''selfLink'', ''networkConfig''} \<Longrightarrow>
   map_of (clusterBody project location name data) k = map_of data k"
  by (simp add: clusterBody_def Let_def stripEmptyClusterSubObjects_def map_of_stripShallowEmpty split: option.split)

lemma wants_clusterBody: "wantsDefaultPool (clusterBody project location name data) = wantsDefaultPool data"
  by (simp add: wantsDefaultPool_def hasField_def map_of_clusterBody clusterSubObjects_def)

lemma name_clusterBody: "getString (clusterBody project location name data) ''name'' = getString data ''name''"
  by (simp add: getString_def map_of_clusterBody clusterSubObjects_def)

text \<open>C28 A cluster that is created has exactly one node pool, the running default pool, when the
request has no field nodePools and does not ask for an initial count of zero; otherwise it has none. The
creation of the default pool, whose errors the handler ignores, cannot fail: a name that was free
for a cluster has no pools left from an earlier one.\<close>

theorem cluster_default_pool:
  assumes inv: "repo_inv s" and body: "decodeBody r = Inr m"
    and data: "toMap (map_of (bodyFields m) ''cluster'') = Some data"
    and run: "CreateCluster_h e ep c project location r s = (resp, s')" and ok: "status resp = Some 200"
  shows "(\<exists>cd. GetCluster s' project location (getString data ''name'') = Inr cd) \<and>
    (if wantsDefaultPool data
     then \<exists>d. ListNodePools s' project location (getString data ''name'') = [d] \<and>
       GetNodePool s' project location (getString data ''name'') ''default-pool'' = Inr d \<and>
       getString d ''status'' = ''RUNNING''
     else ListNodePools s' project location (getString data ''name'') = [])"
proof -
  let ?n = "getString data ''name''" and ?b = "clusterBody project location (getString data ''name'') data"
  have name: "?n \<noteq> []"
    using run ok body data by (auto simp: CreateCluster_h_def withNamedObject_def withBody_def)
  obtain res s1 where cre: "CreateCluster e project location ?b s = (res, s1)"
    by (cases "CreateCluster e project location ?b s")
  with run ok body data name obtain created where res: "res = Inr created"
    and s': "s' = (if wantsDefaultPool data then snd (CreateNodePool ep project location ?n (defaultPool ?b) s1) else s1)"
    by (auto simp: CreateCluster_h_def withNamedObject_def withBody_def Let_def wants_clusterBody split: sum.splits)
  note made = CreateCluster_created [OF cre [unfolded res], unfolded name_clusterBody]
  have s1: "repo_inv s1" using CreateCluster_inv [OF inv, of e project location ?b] cre by simp
  have none: "filter (matches (poolConds project location ?n)) (s1 Container_node_pools) = []"
    unfolding made(3) by (rule no_pools [OF inv made(1)])
  show ?thesis
  proof (cases "wantsDefaultPool data")
    case False
    with none made(2) s' show ?thesis by (simp add: ListNodePools_eq loadMany_def sqlSelect_def)
  next
    case True
    have pool: "getString (defaultPool ?b) ''name'' = ''default-pool''"
      "getString (defaultPool ?b) ''status'' = ''RUNNING''"
      by (simp_all add: defaultPool_def getString_def)
    from pool(1) have "getString (defaultPool ?b) ''name'' \<noteq> []" by simp
    from CreateNodePool_first [OF s1 made(2) none this, of ep]
    obtain d s2 where "CreateNodePool ep project location ?n (defaultPool ?b) s1 = (Inr d, s2)"
      and "ListNodePools s2 project location ?n = [d]"
      and "GetNodePool s2 project location ?n ''default-pool'' = Inr d"
      and st: "\<And>k. k \<notin> {''project'', ''location'', ''cluster_name'', ''id'', ''createTime''} \<Longrightarrow>
        getString d k = getString (defaultPool ?b) k"
      and "GetCluster s2 project location ?n = Inr created"
      unfolding pool by blast
    moreover have "getString d ''status'' = ''RUNNING''" using st [of "''status''"] pool(2) by simp
    ultimately show ?thesis using True s' by auto
  qed
qed

definition clusterRequest :: request where
  "clusterRequest = requestWith (Value (JObj [(''cluster'', JObj [(''name'', JStr ''c'')])]))"

lemma CreateCluster_on_empty:
  assumes "getString b ''name'' = ''c''" "getString b ''network'' = []" "getString b ''subnetwork'' = []"
  shows "\<exists>created s1. CreateCluster env0 ''p'' ''z'' b emptyDb = (Inr created, s1)"
  using assms
  by (simp add: CreateCluster_def validateClusterNetwork_def resolveSameProjectName_def GetCluster_def
      sqlInsert_def keyClash_def fksHold_def emptyDb_def keysOf_def loadOne_def matches_mkRow agrees_def
      Let_def)

theorem cluster_default_pool_witness:
  "\<exists>resp s' d. CreateCluster_h env0 env0 clock0 ''p'' ''z'' clusterRequest emptyDb = (resp, s') \<and>
     status resp = Some 200 \<and> ListNodePools s' ''p'' ''z'' ''c'' = [d]"
proof -
  let ?data = "[(''name'', JStr ''c'')]" and ?m = "Some [(''cluster'', JObj [(''name'', JStr ''c'')])]"
  let ?b = "clusterBody ''p'' ''z'' ''c'' ?data"
  have body: "decodeBody clusterRequest = Inr ?m"
    by (simp add: decodeBody_def clusterRequest_def requestWith_def)
  have data: "toMap (map_of (bodyFields ?m) ''cluster'') = Some ?data" by (simp add: bodyFields_def toMap_def)
  have name: "getString ?data ''name'' = ''c''" by (simp add: getString_def)
  obtain resp s' where run: "CreateCluster_h env0 env0 clock0 ''p'' ''z'' clusterRequest emptyDb = (resp, s')"
    by (cases "CreateCluster_h env0 env0 clock0 ''p'' ''z'' clusterRequest emptyDb")
  have b: "getString ?b ''name'' = ''c''" "getString ?b ''network'' = []" "getString ?b ''subnetwork'' = []"
    using name by (simp_all add: getString_def map_of_clusterBody clusterSubObjects_def)
  then obtain created s1 where "CreateCluster env0 ''p'' ''z'' ?b emptyDb = (Inr created, s1)"
    using CreateCluster_on_empty by blast
  then have ok: "status resp = Some 200"
    using run body data name by (auto simp: CreateCluster_h_def withNamedObject_def withBody_def Let_def)
  have "wantsDefaultPool ?data" by (simp add: wantsDefaultPool_def hasField_def)
  with cluster_default_pool [OF repo_inv_empty body data run ok] run ok show ?thesis unfolding name by auto
qed

section \<open>A Memorystore instance that exists\<close>

lemma redisPath_name: "shortName_ok n \<Longrightarrow> extractNameFromSelfLink (redisPath project location n) = n"
proof -
  assume n: "shortName_ok n"
  have "redisPath project location n =
      (''projects/'' @ project @ ''/locations/'' @ location @ ''/instances'') @ CHR ''/'' # n"
    by (simp add: redisPath_def)
  with extract_path [OF n, of "''projects/'' @ project @ ''/locations/'' @ location @ ''/instances''"]
  show ?thesis by (simp add: isSpace_def)
qed

text \<open>C40 Creating a Memorystore instance under a name that is taken is answered 500 with the text
of the internal error, and changes nothing: the handler looks for a conflict, the repository
reports that the row already exists.\<close>

theorem redis_duplicate:
  assumes "decodeBody r = Inr (Some body)" "queryGet r ''instanceId'' = n" "shortName_ok n"
    and taken: "GetRedisInstance s project location n = Inr d"
  shows "CreateRedisInstance_h e c project location r s =
    (writeGCPError 500 ''already exists'' ''internal'', s)"
proof -
  have n: "n \<noteq> []" "CHR ''/'' \<notin> set n" using assms(3) by (auto simp: shortName_ok_def)
  let ?b = "redisBody c project location n body"
  let ?cs = "[(C_name, n), (C_project, project), (C_location, location)]"
  have name: "extractNameFromSelfLink (getString ?b ''name'') = n"
    using redisPath_name [OF assms(3)] by (simp add: redisBody_def getString_def)
  have clash: "sqlInsert Redis_instances ?cs d' s = Inl (uniqueError Redis_instances)" for d'
    by (rule redis_instances_tbl.insert_present [OF _ _ taken [unfolded GetRedisInstance_def]])
      (simp_all add: agrees_def)
  have "CreateRedisInstance e project location ?b s = (Inl ErrAlreadyExists, s)"
    using n(1) by (simp add: CreateRedisInstance_def Let_def name clash)
  then show ?thesis
    using assms(1,2) n by (simp add: CreateRedisInstance_h_def withBody_def assignable_def splitOn_none
        redisCreateError_def)
qed

definition redisRequest :: request where
  "redisRequest = \<lparr>authorization = ''Bearer t'', host = ''h'', query = [(''instanceId'', ''m'')], rbody = EmptyBody\<rparr>"

definition redisDb :: db where
  "redisDb = snd (CreateRedisInstance env0 ''p'' ''z'' [(''name'', JStr (redisPath ''p'' ''z'' ''m''))] emptyDb)"

theorem redis_duplicate_witness:
  "CreateRedisInstance_h env0 clock0 ''p'' ''z'' redisRequest redisDb =
     (writeGCPError 500 ''already exists'' ''internal'', redisDb)"
proof -
  have body: "decodeBody redisRequest = Inr (Some [])" by (simp add: decodeBody_def redisRequest_def)
  have q: "queryGet redisRequest ''instanceId'' = ''m''" by (simp add: queryGet_def redisRequest_def)
  have m: "shortName_ok ''m''" by (simp add: shortName_ok_def isSpace_def)
  have "\<exists>d. GetRedisInstance redisDb ''p'' ''z'' ''m'' = Inr d"
    using redisPath_name [OF m, of "''p''" "''z''"]
    by (simp add: redisDb_def CreateRedisInstance_def GetRedisInstance_def sql_eval)
  then obtain d where "GetRedisInstance redisDb ''p'' ''z'' ''m'' = Inr d" ..
  from redis_duplicate [OF body q m this] show ?thesis .
qed

end
