(* ===== verification/Correct_Patch.thy ===== *)
theory Correct_Patch
  imports Correct_Network
begin

text \<open>
  What a patch does to a stored resource: \<^verbatim>\<open>patchMerge\<close> as the repository uses it, stated field
  by field for the update of a network.
\<close>

section \<open>The fields of a patched body\<close>

text \<open>A field of the patch counts when it is present and not null.\<close>

definition patched :: "obj \<Rightarrow> string \<Rightarrow> json option" where
  "patched patch k = (case map_of patch k of Some v \<Rightarrow> if v = JNull then None else Some v | None \<Rightarrow> None)"

lemma merge_unpatched:
  assumes "distinct (map fst patch)" "patched patch k = None"
  shows "map_of (patchMerge current patch skip) k = map_of current k"
  using assms(2) map_of_patchMerge [OF assms(1), of current skip k]
  by (cases "map_of patch k") (simp_all add: patched_def split: if_splits)

lemma merge_patched:
  assumes "distinct (map fst patch)" "patched patch k = Some v" "k \<notin> set skip"
  shows "map_of (patchMerge current patch skip) k = Some (mergedValue (map_of current k) v)"
  using assms(2,3) map_of_patchMerge [OF assms(1), of current skip k]
  by (cases "map_of patch k") (simp_all add: patched_def split: if_splits)

lemma mergedValue_replaces:
  "toMap (Some v) = None \<or> toMap cur = None \<Longrightarrow> mergedValue cur v = v"
  by (auto simp: mergedValue_def split: option.split)

lemma mergedValue_nests: "mergedValue (Some (JObj cv)) (JObj pv) = JObj (mergeNested cv pv)"
  by (simp add: mergedValue_def toMap_def)

lemma map_of_nested:
  "distinct (map fst pv) \<Longrightarrow>
   map_of (mergeNested cv pv) j = (case patched pv j of None \<Rightarrow> map_of cv j | Some v \<Rightarrow> Some v)"
  by (simp add: map_of_mergeNested patched_def split: option.split)

text \<open>The fields of a patched body, other than those that the path fixes.\<close>

definition patchesFields :: "string set \<Rightarrow> obj \<Rightarrow> obj \<Rightarrow> obj \<Rightarrow> bool" where
  "patchesFields fixed patch current d \<longleftrightarrow>
     (\<forall>k. k \<notin> fixed \<longrightarrow>
        (patched patch k = None \<longrightarrow> map_of d k = map_of current k) \<and>
        (\<forall>pv cv. patched patch k = Some (JObj pv) \<longrightarrow> map_of current k = Some (JObj cv) \<longrightarrow>
           (\<exists>m. map_of d k = Some (JObj m) \<and>
              (\<forall>j. map_of m j = (case patched pv j of None \<Rightarrow> map_of cv j | Some v \<Rightarrow> Some v)))) \<and>
        (\<forall>v. patched patch k = Some v \<longrightarrow> toMap (Some v) = None \<or> toMap (map_of current k) = None \<longrightarrow>
           map_of d k = Some v))"

lemma patchMerge_fields:
  assumes fields: "distinct (map fst patch)"
    and nested: "\<forall>k pv. map_of patch k = Some (JObj pv) \<longrightarrow> distinct (map fst pv)"
  shows "patchesFields (set skip) patch current (patchMerge current patch skip)"
  unfolding patchesFields_def
proof (intro allI impI conjI)
  let ?d = "patchMerge current patch skip"
  fix k assume k: "k \<notin> set skip"
  show "map_of ?d k = map_of current k" if "patched patch k = None"
    using merge_unpatched [OF fields that] by simp
  show "\<exists>m. map_of ?d k = Some (JObj m) \<and>
      (\<forall>j. map_of m j = (case patched pv j of None \<Rightarrow> map_of cv j | Some v \<Rightarrow> Some v))"
    if "patched patch k = Some (JObj pv)" "map_of current k = Some (JObj cv)" for pv cv
  proof -
    have "map_of patch k = Some (JObj pv)"
      using that(1) by (cases "map_of patch k") (simp_all add: patched_def split: if_splits)
    from map_of_nested [OF nested [rule_format, OF this], of cv] merge_patched [OF fields that(1) k] that(2)
    show ?thesis by (simp add: mergedValue_nests)
  qed
  show "map_of ?d k = Some v"
    if "patched patch k = Some v" "toMap (Some v) = None \<or> toMap (map_of current k) = None" for v
    using merge_patched [OF fields that(1) k] mergedValue_replaces [OF that(2)] by simp
qed

lemma patchesFields_cong:
  "(\<And>k. k \<notin> fixed \<Longrightarrow> map_of d k = map_of d' k) \<Longrightarrow>
   patchesFields fixed patch current d \<longleftrightarrow> patchesFields fixed patch current d'"
  by (simp add: patchesFields_def)

section \<open>Patching a network\<close>

text \<open>C16 Patching a network, field by field. A network that does not exist: ErrNotFound, no change.
Otherwise the patch succeeds and the network reads back as returned: its name and project are those
of the path whatever the patch says; a field that the patch does not have, or has as null, is
untouched; an object of the patch is merged into an object of the network, one level deep and by
the same rule; any other field of the patch replaces the network's. Every other network and every
other table is as before. (The objects of the patch have each field once, as decoded JSON has.)\<close>

theorem network_patch:
  assumes inv: "repo_inv s" and fields: "distinct (map fst patch)"
    and nested: "\<forall>k pv. map_of patch k = Some (JObj pv) \<longrightarrow> distinct (map fst pv)"
  shows "case GetNetwork s project name of
      Inl err \<Rightarrow> err = ErrNotFound \<and> UpdateNetwork project name patch s = (Inl ErrNotFound, s)
    | Inr current \<Rightarrow> \<exists>d s'. UpdateNetwork project name patch s = (Inr d, s') \<and>
        (\<forall>p n. GetNetwork s' p n = (if p = project \<and> n = name then Inr (marshalData d) else GetNetwork s p n)) \<and>
        (\<forall>t. t \<noteq> Compute_networks \<longrightarrow> s' t = s t) \<and>
        getString d ''name'' = name \<and> getString d ''project'' = project \<and>
        patchesFields {''name'', ''project''} patch current d"
proof (cases "GetNetwork s project name")
  case (Inl err)
  then have "err = ErrNotFound" by (simp add: GetNetwork_def loadOne_NotFound)
  with Inl show ?thesis by (simp add: UpdateNetwork_def)
next
  case (Inr current)
  let ?conds = "[(C_project, project), (C_name, name)]"
  let ?m = "patchMerge current patch [''name'', ''project'']"
  let ?d = "jset ''project'' (JStr project) (jset ''name'' (JStr name) ?m)"
  obtain s' where upd: "sqlUpdate Compute_networks ?conds [] (marshalData ?d) s = Inr s'"
    by (auto simp: sqlUpdate_def list_ex_iff fksHold_def)
  have run: "UpdateNetwork project name patch s = (Inr ?d, s')"
    using Inr upd by (simp add: UpdateNetwork_def)
  have get: "GetNetwork s' project name = Inr (marshalData ?d)"
    unfolding GetNetwork_def
    by (rule compute_networks_tbl.load_update [OF repo_invD(1) [OF inv] _ upd _ _ Inr [unfolded GetNetwork_def]])
      simp_all
  have other: "GetNetwork s' p n = GetNetwork s p n" if "\<not> (p = project \<and> n = name)" for p n
    unfolding GetNetwork_def
    by (rule load_update_other [OF upd]) (use that in \<open>auto simp: matches_def colOf_setRow\<close>)
  have reads: "GetNetwork s' p n = (if p = project \<and> n = name then Inr (marshalData ?d) else GetNetwork s p n)" for p n
    using get other [of p n] by auto
  have frame: "t \<noteq> Compute_networks \<Longrightarrow> s' t = s t" for t by (simp add: sqlUpdate_Inr(1) [OF upd])
  have "getString ?d ''name'' = name" "getString ?d ''project'' = project" by simp_all
  moreover have "patchesFields {''name'', ''project''} patch current ?d"
    using patchMerge_fields [OF fields nested, of "[''name'', ''project'']" current]
    by (subst patchesFields_cong [of _ _ ?m]) simp_all
  ultimately show ?thesis
    unfolding Inr sum.case using run reads frame by (intro exI [of _ ?d] exI [of _ s'] conjI allI impI) simp_all
qed

text \<open>A patch that merges an object, adds a field and cannot rename.\<close>

definition labelPatch :: obj where
  "labelPatch = [(''labels'', JObj [(''b'', JStr ''y'')]), (''name'', JStr ''other''), (''mtu'', JNum 9)]"

theorem network_patch_witness:
  "\<exists>d s'. UpdateNetwork ''p'' ''net'' labelPatch netDb = (Inr d, s') \<and>
     getString d ''name'' = ''net'' \<and> map_of d ''mtu'' = Some (JNum 9) \<and>
     map_of d ''creationTimestamp'' = Some (JStr ''2024'') \<and> GetNetwork s' ''p'' ''net'' = Inr (marshalData d)"
proof -
  have fields: "distinct (map fst labelPatch)" by (simp add: labelPatch_def)
  have nested: "\<forall>k pv. map_of labelPatch k = Some (JObj pv) \<longrightarrow> distinct (map fst pv)"
    by (auto simp: labelPatch_def split: if_splits)
  obtain cur where cur: "GetNetwork netDb ''p'' ''net'' = Inr cur" "map_of cur ''mtu'' = None"
    "map_of cur ''creationTimestamp'' = Some (JStr ''2024'')"
    by (simp add: netDb_eval GetNetwork_def sql_eval)
  from network_patch [OF netDb_inv fields nested, where project = "''p''" and name = "''net''"] cur(1)
  obtain d s' where run: "UpdateNetwork ''p'' ''net'' labelPatch netDb = (Inr d, s')"
      "GetNetwork s' ''p'' ''net'' = Inr (marshalData d)" "getString d ''name'' = ''net''"
    and f: "patchesFields {''name'', ''project''} labelPatch cur d" by auto
  have "patched labelPatch ''mtu'' = Some (JNum 9)" "patched labelPatch ''creationTimestamp'' = None"
    by (simp_all add: patched_def labelPatch_def)
  with f cur(2,3) have "map_of d ''mtu'' = Some (JNum 9)" "map_of d ''creationTimestamp'' = Some (JStr ''2024'')"
    unfolding patchesFields_def by (simp_all add: toMap_def)
  with run show ?thesis by blast
qed

end
