(* ===== verification/Correct_Usage.thy ===== *)
theory Correct_Usage
  imports Correct_Server
begin






end
