(* ===== verification/Correct_Undo.thy ===== *)
theory Correct_Undo
  imports Repo_Network Repo_Compute Repo_Container Repo_CloudSql Repo_LoadBalancer Repo_Dns Repo_Services
    Repo_Secret Repo_Iam
begin

text \<open>
  Creation and deletion, apply and destroy: a creation that fails changes nothing, and one that
  succeeds is undone exactly by the deletion of what it created. This holds of every table, by
  its keys and foreign keys: nothing can refer to a row that is new.
\<close>

section \<open>One insertion, one deletion\<close>

definition undone :: "'a result \<Rightarrow> (db \<Rightarrow> unit result) \<Rightarrow> db \<Rightarrow> bool" where
  "undone created del s \<longleftrightarrow>
     (case created of
        (Inl _, s') \<Rightarrow> s' = s
      | (Inr _, s') \<Rightarrow> del s' = (Inr (), s))"

lemma undone_refused [simp]: "undone (Inl err, s) del s"
  by (simp add: undone_def)

lemma not_referred:
  assumes ok: "db_ok s" and ins: "sqlInsert t cs d s = Inr s'"
    and f: "f \<in> set (foreignKeys (migrate c))" "fkParent f = t"
    and q: "q \<in> set (s' c)"
  shows "\<not> refersTo f q (mkRow cs d (s t))"
proof
  let ?r = "mkRow cs d (s t)"
  assume ref: "refersTo f q ?r"
  have "c \<noteq> t" using no_self_reference [OF f(1)] f(2) by blast
  with q have "q \<in> set (s c)" by (simp add: sqlInsert_Inr(1) [OF ins])
  then have "fkHolds s f q"
    using db_okD(4) [OF ok] f(1) by (auto simp: fks_ok_def fksHold_def list_all_iff)
  with ref f(2) obtain p where p: "p \<in> set (s t)" "refersTo f q p"
    by (auto simp: fkHolds_def refersTo_def list_ex_iff)
  then have "sameKey (fkParentCols f) ?r p" using ref unfolding refersTo_def sameKey_def by metis
  with p(1) fk_target_is_key [OF f(1)] f(2) have "keyClash t ?r (s t)"
    by (auto simp: keyClash_def list_ex_iff)
  with sqlInsert_Inr(3) [OF ins] show False by simp
qed

context keyed_table
begin

lemma insert_delete:
  assumes ok: "db_ok s" and cols: "map fst conds = ks" and ins: "sqlInsert t cs d s = Inr s'"
    and conds: "agrees conds cs"
  shows "sqlDelete t conds s' = Inr (s, 1)"
proof -
  let ?r = "mkRow cs d (s t)"
  have none: "filter (matches conds) (s t) = []"
    using insert_absent [OF cols ins conds] by (simp add: loadOne_NotFound filter_empty_conv)
  have s': "s' = s(t := s t @ [?r])" by (rule sqlInsert_Inr(1) [OF ins])
  have gone: "filter (matches conds) (s' t) = [?r]" using none conds by (simp add: s')
  have free: "\<not> restrictsFrom t [?r] c q \<and> \<not> cascadesFrom t [?r] c q" if "q \<in> set (s' c)" for c q
    using not_referred [OF ok ins _ _ that] by (auto simp: restrictsFrom_def cascadesFrom_def list_ex_iff)
  have "filter (\<lambda>q. \<not> (c = t \<and> matches conds q) \<and> \<not> cascadesFrom t [?r] c q) (s' c) = s c" for c
  proof (cases "c = t")
    case True
    have "filter (\<lambda>q. \<not> matches conds q \<and> \<not> cascadesFrom t [?r] t q) (s' t) =
        filter (\<lambda>q. \<not> matches conds q) (s' t)"
      by (rule filter_cong) (simp_all add: cascades_same)
    also have "\<dots> = s t" using none conds by (simp add: s' filter_empty_conv filter_id_conv)
    finally show ?thesis using True by simp
  next
    case False
    have "filter (\<lambda>q. \<not> (c = t \<and> matches conds q) \<and> \<not> cascadesFrom t [?r] c q) (s' c) = s' c"
      using False free by (auto simp: filter_id_conv)
    with False show ?thesis by (simp add: s')
  qed
  with free show ?thesis
    unfolding sqlDelete_def Let_def gone by (auto simp: list_ex_iff)
qed

lemma undone_insert:
  assumes get: "\<And>s'. get s' = loadOne t conds s'" and del: "\<And>s'. del s' = deleteWithResult t conds s'"
    and ok: "repo_inv s" and cols: "map fst conds = ks" and conds: "agrees conds cs"
  shows "undone (case sqlInsert t cs d s of Inl err \<Rightarrow> (Inl (g err), s) | Inr s' \<Rightarrow> (get s', s')) del s"
proof (cases "sqlInsert t cs d s")
  case (Inr s')
  note i = repo_invD(1) [OF ok] cols Inr conds
  from load_insert [OF i(1-4)] insert_delete [OF i] Inr show ?thesis
    by (simp add: undone_def get del deleteWithResult_def)
qed simp

end

lemma undone_case: "(\<And>x. res = Inr x \<Longrightarrow> undone (f x) del s) \<Longrightarrow> undone (case res of Inl err \<Rightarrow> (Inl err, s) | Inr x \<Rightarrow> f x) del s"
  by (cases res) simp_all

section \<open>The resources\<close>

lemma undo_Network: "repo_inv s \<Longrightarrow> undone (CreateNetwork e p d s) (DeleteNetwork p (getString d ''name'')) s"
  by (auto simp: CreateNetwork_def Let_def agrees_def split: option.split
      intro!: undone_case compute_networks_tbl.undone_insert [OF GetNetwork_def DeleteNetwork_def])

lemma undo_Subnetwork: "repo_inv s \<Longrightarrow> undone (CreateSubnetwork e p rg d s) (DeleteSubnetwork p rg (getString d ''name'')) s"
  by (auto simp: CreateSubnetwork_def Let_def agrees_def split: option.split
      intro!: undone_case compute_subnetworks_tbl.undone_insert [OF GetSubnetwork_def DeleteSubnetwork_def])

lemma undo_Firewall: "repo_inv s \<Longrightarrow> undone (CreateFirewall e p d s) (DeleteFirewall p (getString d ''name'')) s"
  by (auto simp: CreateFirewall_def Let_def agrees_def split: option.split
      intro!: undone_case compute_firewalls_tbl.undone_insert [OF GetFirewall_def DeleteFirewall_def])

lemma undo_Router: "repo_inv s \<Longrightarrow> undone (CreateRouter e p rg d s) (DeleteRouter p rg (getString d ''name'')) s"
  by (auto simp: CreateRouter_def Let_def agrees_def split: option.split
      intro!: undone_case compute_routers_tbl.undone_insert [OF GetRouter_def DeleteRouter_def])

lemma undo_RouterNAT: "repo_inv s \<Longrightarrow> undone (CreateRouterNAT e p rg rt d s) (DeleteRouterNAT p rg rt (getString d ''name'')) s"
  by (auto simp: CreateRouterNAT_def Let_def agrees_def split: option.split
      intro!: undone_case compute_router_nats_tbl.undone_insert [OF GetRouterNAT_def DeleteRouterNAT_def])

lemma undo_Disk: "repo_inv s \<Longrightarrow> undone (CreateDisk e p z d s) (DeleteDisk p z (getString d ''name'')) s"
  by (auto simp: CreateDisk_def Let_def agrees_def split: option.split
      intro!: undone_case compute_disks_tbl.undone_insert [OF GetDisk_def DeleteDisk_def])

lemma undo_Instance: "repo_inv s \<Longrightarrow> undone (CreateInstance e p z d s) (DeleteInstance p z (getString d ''name'')) s"
  by (auto simp: CreateInstance_def Let_def agrees_def split: option.split
      intro!: undone_case compute_instances_tbl.undone_insert [OF GetInstance_def DeleteInstance_def])

lemma undo_Address: "repo_inv s \<Longrightarrow> undone (CreateAddress e p rg d s) (DeleteAddress p rg (getString d ''name'')) s"
  by (auto simp: CreateAddress_def Let_def agrees_def split: option.split
      intro!: undone_case compute_addresses_tbl.undone_insert [OF GetAddress_def DeleteAddress_def])

lemma undo_Cluster: "repo_inv s \<Longrightarrow> undone (CreateCluster e p l d s) (DeleteCluster p l (getString d ''name'')) s"
  by (auto simp: CreateCluster_def Let_def agrees_def split: option.split
      intro!: undone_case container_clusters_tbl.undone_insert [OF GetCluster_def DeleteCluster_def])

lemma undo_NodePool: "repo_inv s \<Longrightarrow> undone (CreateNodePool e p l c d s) (DeleteNodePool p l c (getString d ''name'')) s"
  by (auto simp: CreateNodePool_def Let_def agrees_def split: option.split
      intro!: undone_case container_node_pools_tbl.undone_insert [OF GetNodePool_def DeleteNodePool_def])

lemma undo_SQLInstance: "repo_inv s \<Longrightarrow> undone (CreateSQLInstance e p d s) (DeleteSQLInstance p (getString d ''name'')) s"
  by (auto simp: CreateSQLInstance_def Let_def agrees_def split: option.split
      intro!: undone_case sql_instances_tbl.undone_insert [OF GetSQLInstance_def DeleteSQLInstance_def])

lemma undo_SQLDatabase: "repo_inv s \<Longrightarrow> undone (CreateSQLDatabase e p i d s) (DeleteSQLDatabase p i (getString d ''name'')) s"
  by (auto simp: CreateSQLDatabase_def Let_def agrees_def split: option.split
      intro!: undone_case sql_databases_tbl.undone_insert [OF GetSQLDatabase_def DeleteSQLDatabase_def])

lemma undo_GlobalAddress: "repo_inv s \<Longrightarrow> undone (CreateGlobalAddress e p d s) (DeleteGlobalAddress p (getString d ''name'')) s"
  by (auto simp: CreateGlobalAddress_def Let_def agrees_def split: option.split
      intro!: undone_case compute_global_addresses_tbl.undone_insert [OF GetGlobalAddress_def DeleteGlobalAddress_def])

lemma undo_HealthCheck: "repo_inv s \<Longrightarrow> undone (CreateHealthCheck e p d s) (DeleteHealthCheck p (getString d ''name'')) s"
  by (auto simp: CreateHealthCheck_def Let_def agrees_def split: option.split
      intro!: undone_case compute_health_checks_tbl.undone_insert [OF GetHealthCheck_def DeleteHealthCheck_def])

lemma undo_BackendService: "repo_inv s \<Longrightarrow> undone (CreateBackendService e p d s) (DeleteBackendService p (getString d ''name'')) s"
  by (auto simp: CreateBackendService_def Let_def agrees_def split: option.split
      intro!: undone_case compute_backend_services_tbl.undone_insert [OF GetBackendService_def DeleteBackendService_def])

lemma undo_SSLCertificate: "repo_inv s \<Longrightarrow> undone (CreateSSLCertificate e p d s) (DeleteSSLCertificate p (getString d ''name'')) s"
  by (auto simp: CreateSSLCertificate_def Let_def agrees_def split: option.split
      intro!: undone_case compute_ssl_certificates_tbl.undone_insert [OF GetSSLCertificate_def DeleteSSLCertificate_def])

lemma undo_TargetHTTPSProxy: "repo_inv s \<Longrightarrow> undone (CreateTargetHTTPSProxy e p d s) (DeleteTargetHTTPSProxy p (getString d ''name'')) s"
  by (auto simp: CreateTargetHTTPSProxy_def Let_def agrees_def split: option.split
      intro!: undone_case compute_target_https_proxies_tbl.undone_insert [OF GetTargetHTTPSProxy_def DeleteTargetHTTPSProxy_def])

lemma undo_URLMap: "repo_inv s \<Longrightarrow> undone (CreateURLMap e p d s) (DeleteURLMap p (getString d ''name'')) s"
  by (auto simp: CreateURLMap_def Let_def agrees_def split: option.split
      intro!: undone_case compute_url_maps_tbl.undone_insert [OF GetURLMap_def DeleteURLMap_def])

lemma undo_GlobalForwardingRule: "repo_inv s \<Longrightarrow> undone (CreateGlobalForwardingRule e p d s) (DeleteGlobalForwardingRule p (getString d ''name'')) s"
  by (auto simp: CreateGlobalForwardingRule_def Let_def agrees_def split: option.split
      intro!: undone_case compute_global_forwarding_rules_tbl.undone_insert [OF GetGlobalForwardingRule_def DeleteGlobalForwardingRule_def])

lemma undo_Bucket: "repo_inv s \<Longrightarrow> undone (CreateBucket e p d s) (DeleteBucket (getString d ''name'')) s"
  by (auto simp: CreateBucket_def Let_def agrees_def split: option.split
      intro!: undone_case storage_buckets_tbl.undone_insert [OF GetBucket_def DeleteBucket_def])

text \<open>The resources whose name is not simply the field \<^verbatim>\<open>name\<close>.\<close>

definition accountMail :: "env \<Rightarrow> string \<Rightarrow> obj \<Rightarrow> string" where
  "accountMail e project data =
     (let accountID = getString data ''accountId'';
          accountID = (if accountID = [] then getString data ''name'' else accountID)
      in saEmail (if accountID = [] then generatedAccountId e else accountID) project)"

definition keyName :: "env \<Rightarrow> string \<Rightarrow> string \<Rightarrow> obj \<Rightarrow> string" where
  "keyName e project email data =
     (let name = getString data ''name'' in
      if name = [] then ''projects/'' @ project @ ''/serviceAccounts/'' @ email @ ''/keys/'' @ newID e else name)"

definition secretIdOf :: "obj \<Rightarrow> string" where
  "secretIdOf data =
     (let name = getString data ''secretId''
      in if name = [] then extractNameFromSelfLink (getString data ''name'') else name)"

definition userName :: "obj \<Rightarrow> string" where
  "userName data = (if getString data ''name'' = [] then getString data ''user'' else getString data ''name'')"

lemma undo_SQLUser: "repo_inv s \<Longrightarrow> undone (CreateSQLUser e p i d s) (DeleteSQLUser p i (userName d)) s"
  unfolding CreateSQLUser_def Let_def userName_def [symmetric]
  by (auto simp: agrees_def
      intro!: sql_users_tbl.undone_insert [OF loadSQLUser_def DeleteSQLUser_def])

lemma undo_ServiceAccount:
  "repo_inv s \<Longrightarrow> undone (CreateServiceAccount e p d s) (DeleteServiceAccount p (accountMail e p d)) s"
  unfolding CreateServiceAccount_def Let_def accountMail_def
  by (rule iam_service_accounts_tbl.undone_insert [OF GetServiceAccount_def DeleteServiceAccount_def])
    (simp_all add: agrees_def)

lemma undo_SAKey: "repo_inv s \<Longrightarrow> undone (CreateSAKey e p m d s) (DeleteSAKey (keyName e p m d)) s"
  unfolding CreateSAKey_def Let_def keyName_def
  by (rule iam_sa_keys_tbl.undone_insert [OF GetSAKey_def DeleteSAKey_def]) (simp_all add: agrees_def)

lemma undo_Secret: "repo_inv s \<Longrightarrow> undone (CreateSecret e p d s) (DeleteSecret p (secretIdOf d)) s"
  unfolding CreateSecret_def Let_def secretIdOf_def [unfolded Let_def, symmetric]
  by (auto simp: agrees_def
      intro!: secretmanager_secrets_tbl.undone_insert [OF GetSecret_def DeleteSecret_def])

lemma undo_CloudRunService:
  "repo_inv s \<Longrightarrow> undone (CreateCloudRunService e p l d s)
     (DeleteCloudRunService p l (extractNameFromSelfLink (getString d ''name''))) s"
  unfolding CreateCloudRunService_def Let_def
  by (auto simp: agrees_def simp del: getString_jset
      intro!: cloudrun_services_tbl.undone_insert [OF GetCloudRunService_def DeleteCloudRunService_def])

lemma undo_RedisInstance:
  "repo_inv s \<Longrightarrow> undone (CreateRedisInstance e p l d s)
     (DeleteRedisInstance p l (extractNameFromSelfLink (getString d ''name''))) s"
  unfolding CreateRedisInstance_def Let_def
  by (auto simp: agrees_def simp del: getString_jset
      intro!: redis_instances_tbl.undone_insert [OF GetRedisInstance_def DeleteRedisInstance_def])

lemma undo_DNSRecordSet:
  "repo_inv s \<Longrightarrow> undone (CreateDNSRecordSet p z d s)
     (DeleteDNSRecordSet p z (getString d ''name'') (getString d ''type'')) s"
  unfolding CreateDNSRecordSet_def Let_def
  by (auto simp: agrees_def
      intro!: dns_record_sets_tbl.undone_insert [OF GetDNSRecordSet_def DeleteDNSRecordSet_def])

text \<open>A zone is deleted only when it has no record sets; a new zone has none.\<close>

lemma undo_DNSZone: "repo_inv s \<Longrightarrow> undone (CreateDNSZone e p d s) (DeleteDNSZone p (getString d ''name'')) s"
proof -
  assume inv: "repo_inv s"
  let ?n = "getString d ''name''"
  let ?conds = "[(C_project, p), (C_name, ?n)]"
  have "undone (CreateDNSZone e p d s) (deleteWithResult Dns_managed_zones ?conds) s"
    using inv unfolding CreateDNSZone_def Let_def
    by (auto simp: agrees_def intro!: dns_managed_zones_tbl.undone_insert [OF GetDNSZone_def refl])
  moreover have "DeleteDNSZone p ?n s' = deleteWithResult Dns_managed_zones ?conds s'"
    if run: "CreateDNSZone e p d s = (Inr item, s')" for item s'
  proof -
    obtain cs body where ins: "sqlInsert Dns_managed_zones cs body s = Inr s'" "agrees ?conds cs"
      using run by (auto simp: CreateDNSZone_def Let_def agrees_def split: if_splits sum.splits)
    have "\<not> matches [(C_project, p), (C_managed_zone, ?n)] q" if q: "q \<in> set (s' Dns_record_sets)" for q
    proof
      assume "matches [(C_project, p), (C_managed_zone, ?n)] q"
      moreover obtain f where f: "f \<in> set (foreignKeys (migrate Dns_record_sets))" "fkParent f = Dns_managed_zones"
        "fkCols f = [C_project, C_managed_zone]" "fkParentCols f = [C_project, C_name]" by simp
      ultimately show False
        using not_referred [OF repo_invD(1) [OF inv] ins(1) f(1,2) q] ins(2)
        by (auto simp: refersTo_def keyVals_def matches_def agrees_def colOf_def mkRow_def split: option.splits)
    qed
    then show ?thesis by (simp add: DeleteDNSZone_def Let_def filter_empty_conv)
  qed
  ultimately show ?thesis by (auto simp: undone_def split: prod.splits sum.splits)
qed

section \<open>Apply and destroy\<close>

text \<open>A resource of a configuration: where it is, and its body.\<close>

datatype resource =
    ANetwork string obj
  | ASubnetwork string string obj
  | AFirewall string obj
  | ARouter string string obj
  | ARouterNAT string string string obj
  | ADisk string string obj
  | AInstance string string obj
  | AAddress string string obj
  | ACluster string string obj
  | ANodePool string string string obj
  | ASQLInstance string obj
  | ASQLDatabase string string obj
  | AGlobalAddress string obj
  | AHealthCheck string obj
  | ABackendService string obj
  | ASSLCertificate string obj
  | ATargetHTTPSProxy string obj
  | AURLMap string obj
  | AGlobalForwardingRule string obj
  | ABucket string obj
  | ASQLUser string string obj
  | AServiceAccount string obj
  | ASAKey string string obj
  | ASecret string obj
  | ACloudRunService string string obj
  | ARedisInstance string string obj
  | ADNSZone string obj
  | ADNSRecordSet string string obj

fun create :: "env \<Rightarrow> resource \<Rightarrow> db \<Rightarrow> obj result" where
  "create e (ANetwork p d) = CreateNetwork e p d"
| "create e (ASubnetwork p rg d) = CreateSubnetwork e p rg d"
| "create e (AFirewall p d) = CreateFirewall e p d"
| "create e (ARouter p rg d) = CreateRouter e p rg d"
| "create e (ARouterNAT p rg rt d) = CreateRouterNAT e p rg rt d"
| "create e (ADisk p z d) = CreateDisk e p z d"
| "create e (AInstance p z d) = CreateInstance e p z d"
| "create e (AAddress p rg d) = CreateAddress e p rg d"
| "create e (ACluster p l d) = CreateCluster e p l d"
| "create e (ANodePool p l c d) = CreateNodePool e p l c d"
| "create e (ASQLInstance p d) = CreateSQLInstance e p d"
| "create e (ASQLDatabase p i d) = CreateSQLDatabase e p i d"
| "create e (AGlobalAddress p d) = CreateGlobalAddress e p d"
| "create e (AHealthCheck p d) = CreateHealthCheck e p d"
| "create e (ABackendService p d) = CreateBackendService e p d"
| "create e (ASSLCertificate p d) = CreateSSLCertificate e p d"
| "create e (ATargetHTTPSProxy p d) = CreateTargetHTTPSProxy e p d"
| "create e (AURLMap p d) = CreateURLMap e p d"
| "create e (AGlobalForwardingRule p d) = CreateGlobalForwardingRule e p d"
| "create e (ABucket p d) = CreateBucket e p d"
| "create e (ASQLUser p i d) = CreateSQLUser e p i d"
| "create e (AServiceAccount p d) = CreateServiceAccount e p d"
| "create e (ASAKey p m d) = CreateSAKey e p m d"
| "create e (ASecret p d) = CreateSecret e p d"
| "create e (ACloudRunService p l d) = CreateCloudRunService e p l d"
| "create e (ARedisInstance p l d) = CreateRedisInstance e p l d"
| "create e (ADNSZone p d) = CreateDNSZone e p d"
| "create e (ADNSRecordSet p z d) = CreateDNSRecordSet p z d"

fun destroy :: "env \<Rightarrow> resource \<Rightarrow> db \<Rightarrow> unit result" where
  "destroy e (ANetwork p d) = DeleteNetwork p (getString d ''name'')"
| "destroy e (ASubnetwork p rg d) = DeleteSubnetwork p rg (getString d ''name'')"
| "destroy e (AFirewall p d) = DeleteFirewall p (getString d ''name'')"
| "destroy e (ARouter p rg d) = DeleteRouter p rg (getString d ''name'')"
| "destroy e (ARouterNAT p rg rt d) = DeleteRouterNAT p rg rt (getString d ''name'')"
| "destroy e (ADisk p z d) = DeleteDisk p z (getString d ''name'')"
| "destroy e (AInstance p z d) = DeleteInstance p z (getString d ''name'')"
| "destroy e (AAddress p rg d) = DeleteAddress p rg (getString d ''name'')"
| "destroy e (ACluster p l d) = DeleteCluster p l (getString d ''name'')"
| "destroy e (ANodePool p l c d) = DeleteNodePool p l c (getString d ''name'')"
| "destroy e (ASQLInstance p d) = DeleteSQLInstance p (getString d ''name'')"
| "destroy e (ASQLDatabase p i d) = DeleteSQLDatabase p i (getString d ''name'')"
| "destroy e (AGlobalAddress p d) = DeleteGlobalAddress p (getString d ''name'')"
| "destroy e (AHealthCheck p d) = DeleteHealthCheck p (getString d ''name'')"
| "destroy e (ABackendService p d) = DeleteBackendService p (getString d ''name'')"
| "destroy e (ASSLCertificate p d) = DeleteSSLCertificate p (getString d ''name'')"
| "destroy e (ATargetHTTPSProxy p d) = DeleteTargetHTTPSProxy p (getString d ''name'')"
| "destroy e (AURLMap p d) = DeleteURLMap p (getString d ''name'')"
| "destroy e (AGlobalForwardingRule p d) = DeleteGlobalForwardingRule p (getString d ''name'')"
| "destroy e (ABucket p d) = DeleteBucket (getString d ''name'')"
| "destroy e (ASQLUser p i d) = DeleteSQLUser p i (userName d)"
| "destroy e (AServiceAccount p d) = DeleteServiceAccount p (accountMail e p d)"
| "destroy e (ASAKey p m d) = DeleteSAKey (keyName e p m d)"
| "destroy e (ASecret p d) = DeleteSecret p (secretIdOf d)"
| "destroy e (ACloudRunService p l d) = DeleteCloudRunService p l (extractNameFromSelfLink (getString d ''name''))"
| "destroy e (ARedisInstance p l d) = DeleteRedisInstance p l (extractNameFromSelfLink (getString d ''name''))"
| "destroy e (ADNSZone p d) = DeleteDNSZone p (getString d ''name'')"
| "destroy e (ADNSRecordSet p z d) = DeleteDNSRecordSet p z (getString d ''name'') (getString d ''type'')"

lemma undone_create: "repo_inv s \<Longrightarrow> undone (create e r s) (destroy e r) s"
  by (cases r) (simp_all add: undo_Network undo_Subnetwork undo_Firewall undo_Router undo_RouterNAT undo_Disk undo_Instance undo_Address undo_Cluster undo_NodePool undo_SQLInstance undo_SQLDatabase undo_GlobalAddress undo_HealthCheck undo_BackendService undo_SSLCertificate undo_TargetHTTPSProxy undo_URLMap undo_GlobalForwardingRule undo_Bucket undo_SQLUser undo_ServiceAccount undo_SAKey undo_Secret undo_CloudRunService undo_RedisInstance undo_DNSZone undo_DNSRecordSet)

lemma create_inv: "repo_inv s \<Longrightarrow> repo_inv (snd (create e r s))"
  by (cases r) (simp_all add: keeps_inv)

text \<open>
  Applying a configuration creates its resources in order and stops at an error; destroying it
  deletes them in the opposite order.
\<close>

fun applyAll :: "(env \<times> resource) list \<Rightarrow> db \<Rightarrow> go_error + db" where
  "applyAll [] s = Inr s"
| "applyAll ((e, r) # rs) s = (case create e r s of (Inl err, _) \<Rightarrow> Inl err | (Inr _, s') \<Rightarrow> applyAll rs s')"

fun destroyAll :: "(env \<times> resource) list \<Rightarrow> db \<Rightarrow> go_error + db" where
  "destroyAll [] s = Inr s"
| "destroyAll ((e, r) # rs) s =
     (case destroyAll rs s of
        Inl err \<Rightarrow> Inl err
      | Inr s' \<Rightarrow> (case destroy e r s' of (Inl err, _) \<Rightarrow> Inl err | (Inr _, s'') \<Rightarrow> Inr s''))"

text \<open>C3 Apply and destroy, for the resources of Compute Engine, load balancing, GKE, Cloud SQL, IAM
(accounts and keys), storage, Cloud DNS, Secret Manager (secrets), Cloud Run and Memorystore: when a
list of them has been created in order, deleting them in the opposite order succeeds at every step
and leaves the database exactly as it was before the first creation, whatever was there; and a
creation that fails changes nothing. (Topics and subscriptions are not among them: deleting a topic
detaches subscriptions that name it.)\<close>

theorem apply_destroy:
  assumes "repo_inv s"
  shows "(\<forall>s'. applyAll rs s = Inr s' \<longrightarrow> destroyAll rs s' = Inr s) \<and>
    (\<forall>e r err s'. create e r s = (Inl err, s') \<longrightarrow> s' = s)"
proof
  show "\<forall>s'. applyAll rs s = Inr s' \<longrightarrow> destroyAll rs s' = Inr s"
    using assms
  proof (induction rs arbitrary: s)
    case (Cons er rs)
    obtain e r where er: "er = (e, r)" by (cases er)
    obtain res s1 where cre: "create e r s = (res, s1)" by (cases "create e r s")
    have s1: "repo_inv s1" using create_inv [OF Cons.prems, of e r] cre by simp
    have "undone (create e r s) (destroy e r) s" by (rule undone_create [OF Cons.prems])
    with Cons.IH [OF s1] cre er show ?case by (auto simp: undone_def split: sum.splits)
  qed simp
  show "\<forall>e r err s'. create e r s = (Inl err, s') \<longrightarrow> s' = s"
  proof (intro allI impI)
    fix e r err s'
    assume "create e r s = (Inl err, s')"
    with undone_create [OF assms, of e r] show "s' = s" by (simp add: undone_def)
  qed
qed

definition stack :: "(env \<times> resource) list" where
  "stack = [(env0, ANetwork ''p'' [(''name'', JStr ''n'')]),
     (env0, ASubnetwork ''p'' ''r'' [(''name'', JStr ''sub''), (''network'', JStr ''n'')])]"

theorem apply_destroy_witness:
  "\<exists>s'. applyAll stack emptyDb = Inr s' \<and> destroyAll stack s' = Inr emptyDb"
proof -
  have "\<exists>s'. applyAll stack emptyDb = Inr s'"
    by (simp add: stack_def CreateNetwork_def GetNetwork_def CreateSubnetwork_def GetSubnetwork_def
        networkNameOf_def resolveExistingNetwork_def resolveSameProjectName_def containsStr_def sql_eval)
  then obtain s' where "applyAll stack emptyDb = Inr s'" ..
  with apply_destroy [OF repo_inv_empty, of stack] show ?thesis by auto
qed

end
