(* ===== verification/Spec2Isabelle.thy ===== *)
theory Spec2Isabelle
  imports Repo_Steps Repo_LoadBalancer Correct_Network Correct_Compute Correct_Cascade Correct_Dns
    Correct_Secret Correct_Pubsub Correct_Iam Correct_Server Correct_Operations
    Correct_Admin Correct_Connections Correct_Container Correct_Patch Correct_Usage
    Correct_Undo
begin

text \<open>
  \<^bold>\<open>fakegcp\<close> is an HTTP server that imitates the Google Cloud APIs for Terraform: one process,
  one port, the resources of all services as JSON bodies in one SQLite database. A client
  creates, reads, patches and deletes resources; an operator resets, snapshots and restores the
  whole state. What such a server owes its clients is that a reading agrees with what was
  written, that references between resources are real, that dependents keep what they depend on
  from being deleted, that destroying undoes applying, and that restoring a snapshot gives the
  state back. This development models the program and proves these things of the model.

  \<^bold>\<open>Parts and theories.\<close> The program has two layers, and so has the model.

  \<^item> \<^bold>\<open>Basis.\<close> \<open>Prelude\<close> holds the collection \<open>keeps_inv\<close> and generic facts. \<open>Go_Strings\<close> is what
    the sources use of package \<^verbatim>\<open>strings\<close>; \<open>Json\<close> the values of type \<^verbatim>\<open>any\<close> and
    \<^verbatim>\<open>map[string]any\<close> (association lists), the field helpers, \<^verbatim>\<open>patchMerge\<close>, and the effect of
    storing a body as text and reading it back (\<open>marshalData\<close>: every number becomes a
    \<^verbatim>\<open>float64\<close>, here its exact rational value); \<open>Refs\<close> names, self-links and the resolvers of
    references; \<open>Net_Ip\<close> what \<^verbatim>\<open>net.ParseIP\<close> accepts.
  \<^item> \<^bold>\<open>Database.\<close> \<open>Sql\<close>: a database is a function from the 33 tables to their rows. \<open>migrate\<close> is
    the schema of \<^verbatim>\<open>Repository.migrate\<close>, table by table: NOT NULL columns, primary and
    unique keys, foreign keys with or without cascade. \<open>sqlInsert\<close>, \<open>sqlUpdate\<close>, \<open>sqlDelete\<close> and
    \<open>sqlSelect\<close> are the statements that the sources execute, with the errors of SQLite for each
    kind of constraint. The locale \<open>keyed_table\<close> states once what a key gives (one row per key,
    a row inserted is the row read, a second insertion fails, an insertion is undone by the
    deletion); it is interpreted for every table in \<open>Repo_Base\<close>.
  \<^item> \<^bold>\<open>Repository\<close> (\<^verbatim>\<open>src/repository/repository.go\<close>). \<open>Repo_Network\<close>, \<open>Repo_Compute\<close>,
    \<open>Repo_Container\<close>, \<open>Repo_CloudSql\<close>, \<open>Repo_LoadBalancer\<close>, \<open>Repo_Iam\<close>, \<open>Repo_Dns\<close>,
    \<open>Repo_Secret\<close>, \<open>Repo_Pubsub\<close>, \<open>Repo_Services\<close> have one definition for each method of
    \<^verbatim>\<open>Repository\<close>, under its name; a method that changes the database has type
    \<open>db \<Rightarrow> (go_error + 'a) \<times> db\<close>. \<open>Repo_Admin\<close> adds the file and the snapshot file of the
    database: \<^verbatim>\<open>Reset\<close>, \<^verbatim>\<open>Snapshot\<close>, \<^verbatim>\<open>Restore\<close> and the dumps. \<open>Repo_Steps\<close> collects the
    operations as the steps of a state machine. \<open>Change_Loop\<close> is the contract of the loops that
    stop at the first error and roll back.
  \<^item> \<^bold>\<open>Handlers\<close> (\<^verbatim>\<open>src/handlers\<close>). \<open>Http\<close>: requests, responses, \<^verbatim>\<open>decodeBody\<close>,
    \<^verbatim>\<open>writeJSON\<close>, the mappings of errors to statuses, \<^verbatim>\<open>requireBearerToken\<close>. \<open>App\<close>: the record
    \<open>application\<close> is \<^verbatim>\<open>Application\<close> with its in-memory caches and the package-level stores of
    \<^verbatim>\<open>iam.go\<close>, \<^verbatim>\<open>kms.go\<close> and \<^verbatim>\<open>serviceusage.go\<close>, with the endpoints of \<^verbatim>\<open>admin.go\<close>. Then one
    theory for each file of handlers: \<open>H_Operations\<close> (what the Compute handlers share, with
    \<^verbatim>\<open>newOperation\<close>), \<open>H_Network\<close>, \<open>H_Compute\<close>, \<open>H_Router\<close>, \<open>H_LoadBalancer\<close>, \<open>H_Container\<close>,
    \<open>H_Sql\<close>, \<open>H_Dns\<close>, \<open>H_Secret\<close>, \<open>H_Pubsub\<close>, \<open>H_Iam\<close>, \<open>H_ServiceNetworking\<close>, \<open>H_Redis\<close>,
    \<open>H_Storage\<close> (with Cloud Run) and \<open>H_Kms\<close> (with Service Usage and Resource Manager). The
    handler \<^verbatim>\<open>X\<close> is \<open>X_h\<close>; its path parameters are arguments, and it takes a request and a
    state to a response and a state.
  \<^item> \<^bold>\<open>Server.\<close> \<open>Server\<close> has the table that \<^verbatim>\<open>RegisterRoutes\<close> registers, prefix by prefix,
    with the authentication around every route outside \<^verbatim>\<open>/mock\<close>, the function \<open>serve\<close> of one
    request, and the states that a server can reach (\<open>server_reachable\<close>).

  \<^bold>\<open>What is shown.\<close>

  \<^item> \<^bold>\<open>Invariants\<close> (\<open>Repo_Base\<close>, \<open>Repo_Steps\<close>). \<open>repo_inv\<close>: keys are unique, foreign keys
    hold, NOT NULL columns are set, row numbers grow, the fields of a stored body that copy a
    column (\<open>mirrors\<close> lists them) agree with it, the number of a secret version is at most that of
    its row, a subscription is filed under the short name its body reports and, unless it is
    detached, bound to the topic its body names, and no binding has an empty role or member. Each operation of the repository keeps it (collection
    \<open>keeps_inv\<close>).
  \<^item> \<^bold>\<open>Refinement\<close> (\<open>Correct_Server\<close>). Each handler acts on the database by operations of the
    repository only (collection \<open>keeps_runs\<close>), so the server refines the state machine of the
    repository with its snapshot (\<open>server_refines_repository\<close>), and what holds of every run of
    the repository holds of the server: \<open>server_invariant\<close>, \<open>no_orphans\<close>. A contract of handlers
    is checked along the table of routes by the locale \<open>route_contract\<close>, which is interpreted
    three times: the repository is refined; the stores in memory keep their invariant; no route
    outside \<^verbatim>\<open>/mock\<close> touches a snapshot (\<open>Correct_Admin\<close>).
  \<^item> \<^bold>\<open>Apply and destroy\<close> (\<open>Correct_Undo\<close>): resources created in order and deleted in the
    opposite order leave the database as it was; a failed creation changes nothing. (Pub/Sub is
    left out: deleting a topic also detaches subscriptions.)
  \<^item> \<^bold>\<open>Networks and references\<close> (\<open>Correct_Network\<close>, \<open>Correct_Compute\<close>, \<open>Correct_Operations\<close>):
    creation, patch and deletion of networks and subnetworks on every branch; what an instance's
    interfaces refer to; the two resolvers of references agree; operations can be polled; an
    instance has the fields that clients read unchecked; a backend service refers to health
    checks that exist; a generated address is a literal address.
  \<^item> \<^bold>\<open>Cascades\<close> (\<open>Correct_Cascade\<close>, \<open>Correct_Container\<close>): what deleting a cluster, an account or
    a secret removes and what it leaves; a new cluster has exactly its default pool.
  \<^item> \<^bold>\<open>DNS changes\<close> (\<open>Correct_Dns\<close>): a change that is refused leaves the records as they were, by
    the rollback; one that succeeds has exactly its effect and touches nothing else.
  \<^item> \<^bold>\<open>Secrets, topics, policies\<close> (\<open>Correct_Secret\<close>, \<open>Correct_Pubsub\<close>, \<open>Correct_Iam\<close>): the payload
    accessed is the payload added; version names are not reused; a destroyed version has no
    payload; deleting a topic detaches its subscriptions; a policy set is the policy read.
  \<^item> \<^bold>\<open>Memory\<close> (\<open>Correct_Admin\<close>, \<open>Correct_Connections\<close>, \<open>Correct_Usage\<close>): snapshot and restore as a
    round trip over any requests in between; reset; the store of connections refines a map; a
    service that is enabled is listed.
  \<^item> \<^bold>\<open>Patches\<close> (\<open>Correct_Patch\<close>): what a patch does to each field of a stored network.
  \<^item> Some theorems show, for every database, what the code does against its intention: \<open>deleted_topic_rebound\<close>,
    \<open>iam_policy_wiped\<close>, \<open>sa_key_foreign_project\<close>, \<open>patch_survives_restore\<close>, \<open>redis_duplicate\<close>.

  \<^bold>\<open>Parameters.\<close> No recursion needs fuel: the loops of the sources run over lists. What a request
  takes from outside is an argument: \<open>env\<close> and \<open>clock\<close> for identifiers, times and random numbers,
  \<open>pickRow\<close> for the row that \<^verbatim>\<open>LIMIT 1\<close> without an order picks, \<open>serviceIds\<close> for the list of
  strings that the body of \<^verbatim>\<open>services:batchEnable\<close> decodes to, and the router (\<^verbatim>\<open>chi\<close>), of
  which \<open>routes_registered\<close> states that it runs one of the routes it was given, with
  parameters that are path segments, hence without a slash, and \<open>mounts_answered\<close> that a path
  below a mounted prefix is dispatched into a route or a mount; \<open>firstFit\<close> is such a router. The iteration order of a Go map is the order of the association list; the theorems
  that depend on the order of a listing speak of sets or of sorted selections.

  \<^bold>\<open>Not modelled.\<close> The command line (\<^verbatim>\<open>cmd/fakegcp\<close>: flags and listening), the test support
  (\<^verbatim>\<open>testutil\<close>, \<^verbatim>\<open>internal/audit\<close>, the manifest of regression tests) and the tests; failures of the
  operating system and of SQLite other than violated constraints; the rebuilding of two tables of a
  database file that a version before the first migration wrote; the interleaving of the
  statements of two concurrent requests (a step serves a request from beginning to end), hence the
  mutexes; strings that are not valid UTF-8, which JSON text replaces; \<^verbatim>\<open>%q\<close> of characters
  beyond ASCII; the conversion to \<^verbatim>\<open>int\<close> of a float out of its range, which Go leaves to the
  platform. \<^verbatim>\<open>VACUUM INTO\<close> is taken to keep the numbers of rows, as SQLite does, although its
  documentation promises this only for tables with an integer primary key. A panic is modelled where
  a handler assigns to the nil map of a body that is the JSON value null (\<open>Aborted\<close>); the other type
  assertions and assignments of the handlers are guarded in the code, and their models are total.
\<close>

end
